(* ===== verification/Prelude.thy ===== *)
theory Prelude
  imports Main "HOL-Library.AList" "HOL-Library.Char_ord" "HOL-Library.List_Lexorder"
begin

text \<open>
  Shared vocabulary of the development: Python exceptions as values of a sum type, sequencing of
  computations that may raise (\<open>bindR\<close>) and of computations that also change a state
  (\<open>bindS\<close>), the \<open>str\<close> methods the sources use, dictionaries as association lists in
  insertion order, and the interface of a string-valued \<open>Enum\<close> class (locale \<open>str_enum\<close>).

  A Python \<open>str\<close> is modelled by its UTF-8 encoding, a list of \<open>char\<close> (bytes). Equality,
  concatenation, ordering, \<open>in\<close>, \<open>startswith\<close>, \<open>replace\<close> and \<open>split\<close> at ASCII separators
  agree with the operations on code points; lengths and slices count code points
  (\<open>cp_length\<close>, \<open>cp_take\<close>). \<open>strip\<close>, \<open>split()\<close>, \<open>lower\<close> and \<open>upper\<close> know the
  white space and the letters of ASCII only.
\<close>

section \<open>Exceptions as values\<close>

datatype exn_class =
    ValueError | JSONDecodeError | UnicodeDecodeError | TypeError | KeyError | AttributeError
  | IndexError | OverflowError | RuntimeError | TimeoutError | OSError
  | UnsupportedEventError | ToolNotFoundError | ToolPolicyError
  | AgentSessionNotFoundError | AgentRuntimeUnavailableError | PromptCatalogError
  | UnsupportedAgentRuntimeProviderError
  | GitHubError | AuthError | RateLimitError | NotFoundError
  | OtherError string

fun class_name :: "exn_class \<Rightarrow> string" where
  "class_name ValueError = ''ValueError''"
| "class_name JSONDecodeError = ''JSONDecodeError''"
| "class_name UnicodeDecodeError = ''UnicodeDecodeError''"
| "class_name TypeError = ''TypeError''"
| "class_name KeyError = ''KeyError''"
| "class_name AttributeError = ''AttributeError''"
| "class_name IndexError = ''IndexError''"
| "class_name OverflowError = ''OverflowError''"
| "class_name RuntimeError = ''RuntimeError''"
| "class_name TimeoutError = ''TimeoutError''"
| "class_name OSError = ''OSError''"
| "class_name UnsupportedEventError = ''UnsupportedEventError''"
| "class_name ToolNotFoundError = ''ToolNotFoundError''"
| "class_name ToolPolicyError = ''ToolPolicyError''"
| "class_name AgentSessionNotFoundError = ''AgentSessionNotFoundError''"
| "class_name AgentRuntimeUnavailableError = ''AgentRuntimeUnavailableError''"
| "class_name PromptCatalogError = ''PromptCatalogError''"
| "class_name UnsupportedAgentRuntimeProviderError = ''UnsupportedAgentRuntimeProviderError''"
| "class_name GitHubError = ''GitHubError''"
| "class_name AuthError = ''AuthError''"
| "class_name RateLimitError = ''RateLimitError''"
| "class_name NotFoundError = ''NotFoundError''"
| "class_name (OtherError n) = n"

text \<open>\<open>Exn c m\<close> is an instance of class \<open>c\<close> whose \<open>str(exc)\<close> is \<open>m\<close>.\<close>

datatype exn = Exn (exn_class: exn_class) (exn_msg: string)

text \<open>\<open>json.JSONDecodeError\<close> and \<open>UnicodeDecodeError\<close> are subclasses of \<open>ValueError\<close>.\<close>

fun is_value_error :: "exn \<Rightarrow> bool" where
  "is_value_error (Exn c _) =
     (c = ValueError \<or> c = JSONDecodeError \<or> c = UnicodeDecodeError)"

type_synonym 'a res = "exn + 'a"

fun bindR :: "'a res \<Rightarrow> ('a \<Rightarrow> 'b res) \<Rightarrow> 'b res" where
  "bindR (Inl e) f = Inl e"
| "bindR (Inr x) f = f x"

lemma bindR_eq_Inr [simp]: "bindR m f = Inr y \<longleftrightarrow> (\<exists>x. m = Inr x \<and> f x = Inr y)"
  by (cases m) auto

lemma bindR_eq_Inl: "bindR m f = Inl e \<longleftrightarrow> m = Inl e \<or> (\<exists>x. m = Inr x \<and> f x = Inl e)"
  by (cases m) auto

fun mapR :: "('a \<Rightarrow> 'b res) \<Rightarrow> 'a list \<Rightarrow> 'b list res" where
  "mapR f [] = Inr []"
| "mapR f (x # xs) = bindR (f x) (\<lambda>y. bindR (mapR f xs) (\<lambda>ys. Inr (y # ys)))"

lemma mapR_all_ok:
  "(\<And>x. x \<in> set xs \<Longrightarrow> f x = Inr (g x)) \<Longrightarrow> mapR f xs = Inr (map g xs)"
  by (induction xs) auto

lemma mapR_Inr_length: "mapR f xs = Inr ys \<Longrightarrow> length ys = length xs"
  by (induction xs arbitrary: ys) auto

lemma mapR_Inr_in:
  "mapR f xs = Inr ys \<Longrightarrow> y \<in> set ys \<Longrightarrow> \<exists>x \<in> set xs. f x = Inr y"
  by (induction xs arbitrary: ys) auto

text \<open>
  A computation over a state \<open>'s\<close> returns its outcome and the new state: what it changed
  before it raised stays changed, as in Python.
\<close>

type_synonym ('s, 'a) act = "'s \<Rightarrow> 'a res \<times> 's"

definition retS :: "'a \<Rightarrow> ('s, 'a) act" where
  "retS x s = (Inr x, s)"

definition raiseS :: "exn \<Rightarrow> ('s, 'a) act" where
  "raiseS e s = (Inl e, s)"

definition liftS :: "'a res \<Rightarrow> ('s, 'a) act" where
  "liftS r s = (r, s)"

definition bindS :: "('s, 'a) act \<Rightarrow> ('a \<Rightarrow> ('s, 'b) act) \<Rightarrow> ('s, 'b) act" where
  "bindS m f s = (case m s of (Inl e, s') \<Rightarrow> (Inl e, s') | (Inr x, s') \<Rightarrow> f x s')"

text \<open>\<open>try: m  except Exception as exc: h exc\<close>\<close>

definition tryS :: "('s, 'a) act \<Rightarrow> (exn \<Rightarrow> ('s, 'a) act) \<Rightarrow> ('s, 'a) act" where
  "tryS m h s = (case m s of (Inl e, s') \<Rightarrow> h e s' | (Inr x, s') \<Rightarrow> (Inr x, s'))"

fun mapS :: "('a \<Rightarrow> ('s, 'b) act) \<Rightarrow> 'a list \<Rightarrow> ('s, 'b list) act" where
  "mapS f [] = retS []"
| "mapS f (x # xs) = bindS (f x) (\<lambda>y. bindS (mapS f xs) (\<lambda>ys. retS (y # ys)))"

named_theorems act_simps \<open>unfolding of the state-and-exception sequencing\<close>

lemmas [act_simps] = retS_def raiseS_def liftS_def bindS_def tryS_def

lemma bindS_Inr:
  "bindS m f s = (Inr y, t) \<longleftrightarrow> (\<exists>x u. m s = (Inr x, u) \<and> f x u = (Inr y, t))"
  by (auto simp: bindS_def split: prod.splits sum.splits)

lemma bindS_Inl:
  "bindS m f s = (Inl e, t) \<longleftrightarrow>
     m s = (Inl e, t) \<or> (\<exists>x u. m s = (Inr x, u) \<and> f x u = (Inl e, t))"
  by (auto simp: bindS_def split: prod.splits sum.splits)

section \<open>Strings\<close>

definition is_space :: "char \<Rightarrow> bool" where
  "is_space c \<longleftrightarrow> (let n = (of_char c :: nat) in (9 \<le> n \<and> n \<le> 13) \<or> (28 \<le> n \<and> n \<le> 32))"

definition lstrip :: "string \<Rightarrow> string" where
  "lstrip s = dropWhile is_space s"

definition rstrip_by :: "(char \<Rightarrow> bool) \<Rightarrow> string \<Rightarrow> string" where
  "rstrip_by p s = rev (dropWhile p (rev s))"

definition strip_by :: "(char \<Rightarrow> bool) \<Rightarrow> string \<Rightarrow> string" where
  "strip_by p s = rstrip_by p (dropWhile p s)"

text \<open>\<open>s.strip()\<close> and \<open>s.strip(cs)\<close>\<close>

definition strip :: "string \<Rightarrow> string" where
  "strip s = strip_by is_space s"

definition strip_chars :: "string \<Rightarrow> string \<Rightarrow> string" where
  "strip_chars cs s = strip_by (\<lambda>c. c \<in> set cs) s"

definition lower_char :: "char \<Rightarrow> char" where
  "lower_char c = (let n = (of_char c :: nat) in if 65 \<le> n \<and> n \<le> 90 then char_of (n + 32) else c)"

definition upper_char :: "char \<Rightarrow> char" where
  "upper_char c = (let n = (of_char c :: nat) in if 97 \<le> n \<and> n \<le> 122 then char_of (n - 32) else c)"

definition lower :: "string \<Rightarrow> string" where
  "lower s = map lower_char s"

definition upper :: "string \<Rightarrow> string" where
  "upper s = map upper_char s"

definition starts_with :: "string \<Rightarrow> string \<Rightarrow> bool" where
  "starts_with p s \<longleftrightarrow> take (length p) s = p"

definition ends_with :: "string \<Rightarrow> string \<Rightarrow> bool" where
  "ends_with p s \<longleftrightarrow> starts_with (rev p) (rev s)"

text \<open>\<open>p in s\<close>\<close>

fun contains :: "string \<Rightarrow> string \<Rightarrow> bool" where
  "contains p [] = (p = [])"
| "contains p (c # s) = (starts_with p (c # s) \<or> contains p s)"

text \<open>\<open>sep.join(xs)\<close>\<close>

fun join :: "string \<Rightarrow> string list \<Rightarrow> string" where
  "join sep [] = []"
| "join sep [x] = x"
| "join sep (x # y # ys) = x @ sep @ join sep (y # ys)"

text \<open>\<open>s.split(c)\<close> for a separator of one character\<close>

fun split_char :: "char \<Rightarrow> string \<Rightarrow> string list" where
  "split_char c [] = [[]]"
| "split_char c (x # xs) =
     (if x = c then [] # split_char c xs
      else (case split_char c xs of [] \<Rightarrow> [[x]] | w # ws \<Rightarrow> (x # w) # ws))"

text \<open>\<open>s.split()\<close>: maximal runs of non-space characters\<close>

function split_ws :: "string \<Rightarrow> string list" where
  "split_ws s =
     (let t = dropWhile is_space s
      in if t = [] then []
         else takeWhile (\<lambda>c. \<not> is_space c) t # split_ws (dropWhile (\<lambda>c. \<not> is_space c) t))"
  by pat_completeness auto
termination
proof (relation "measure length", goal_cases)
  case (2 s t)
  then obtain a u where t: "t = a # u" by (metis list.exhaust)
  have "\<not> is_space (hd t)" using 2 hd_dropWhile [of is_space s] by simp
  with t have "length (dropWhile (\<lambda>c. \<not> is_space c) t) < length t"
    by (simp add: le_imp_less_Suc length_dropWhile_le)
  also have "\<dots> \<le> length s" using 2 by (simp add: length_dropWhile_le)
  finally show ?case by simp
qed simp

declare split_ws.simps [simp del]

text \<open>\<open>s.replace(old, new)\<close> for a non-empty \<open>old\<close>, left to right and without overlaps\<close>

function replace :: "string \<Rightarrow> string \<Rightarrow> string \<Rightarrow> string" where
  "replace old new [] = []"
| "replace old new (c # s) =
     (if old \<noteq> [] \<and> starts_with old (c # s)
      then new @ replace old new (drop (length old) (c # s))
      else c # replace old new s)"
  by pat_completeness auto
termination
proof (relation "measure (\<lambda>(old, new, s). length s)", goal_cases)
  case (2 old new c s)
  then show ?case by (cases old) auto
qed auto

definition remove_prefix :: "string \<Rightarrow> string \<Rightarrow> string" where
  "remove_prefix p s = (if starts_with p s then drop (length p) s else s)"

text \<open>Decimal notation: \<open>str(n)\<close>\<close>

definition digit_char :: "nat \<Rightarrow> char" where
  "digit_char d = char_of (48 + d)"

fun show_nat :: "nat \<Rightarrow> string" where
  "show_nat n = (if n < 10 then [digit_char n] else show_nat (n div 10) @ [digit_char (n mod 10)])"

declare show_nat.simps [simp del]

definition show_int :: "int \<Rightarrow> string" where
  "show_int i = (if i < 0 then CHR ''-'' # show_nat (nat (- i)) else show_nat (nat i))"

text \<open>Code points of a UTF-8 string: its bytes other than continuation bytes.\<close>

definition is_cont :: "char \<Rightarrow> bool" where
  "is_cont c \<longleftrightarrow> (let n = (of_char c :: nat) in 128 \<le> n \<and> n < 192)"

definition cp_length :: "string \<Rightarrow> nat" where
  "cp_length s = length (filter (\<lambda>c. \<not> is_cont c) s)"

text \<open>\<open>s[:n]\<close>\<close>

fun cp_take :: "nat \<Rightarrow> string \<Rightarrow> string" where
  "cp_take n [] = []"
| "cp_take n (c # s) =
     (if is_cont c then c # cp_take n s
      else (case n of 0 \<Rightarrow> [] | Suc m \<Rightarrow> c # cp_take m s))"

text \<open>\<open>repr(s)\<close> of a string: quoted, with backslash escapes for the quote, the backslash and control characters\<close>

definition hex_digit :: "nat \<Rightarrow> char" where
  "hex_digit d = (if d < 10 then char_of (48 + d) else char_of (87 + d))"

definition repr_char :: "char \<Rightarrow> char \<Rightarrow> string" where
  "repr_char q c =
     (let n = (of_char c :: nat) in
      if c = q \<or> n = 92 then [CHR 0x5C, c]
      else if n = 10 then [CHR 0x5C, CHR ''n'']
      else if n = 13 then [CHR 0x5C, CHR ''r'']
      else if n = 9 then [CHR 0x5C, CHR ''t'']
      else if n < 32 \<or> n = 127 then [CHR 0x5C, CHR ''x'', hex_digit (n div 16), hex_digit (n mod 16)]
      else [c])"

definition repr_str :: "string \<Rightarrow> string" where
  "repr_str s =
     (let q = (if CHR 0x27 \<in> set s \<and> CHR 0x22 \<notin> set s then CHR 0x22 else CHR 0x27)
      in q # concat (map (repr_char q) s) @ [q])"

subsection \<open>Facts about the string operations\<close>

lemma starts_with_append [simp]: "starts_with p (p @ s)"
  by (simp add: starts_with_def)

lemma starts_withD: "starts_with p s \<Longrightarrow> \<exists>r. s = p @ r"
  by (metis append_take_drop_id starts_with_def)

lemma starts_with_iff: "starts_with p s \<longleftrightarrow> (\<exists>r. s = p @ r)"
  by (metis starts_withD starts_with_append)

lemma contains_iff: "contains p s \<longleftrightarrow> (\<exists>a b. s = a @ p @ b)"
proof (induction s)
  case Nil
  then show ?case by auto
next
  case (Cons c s)
  have "(\<exists>a b. c # s = a @ p @ b) \<longleftrightarrow> starts_with p (c # s) \<or> (\<exists>a b. s = a @ p @ b)" (is "?l \<longleftrightarrow> ?r")
  proof
    assume ?l
    then obtain a b where "c # s = a @ p @ b" by blast
    then show ?r by (cases a) (auto simp: starts_with_iff)
  next
    assume ?r
    then show ?l
      by (metis append.left_neutral append_Cons starts_with_iff)
  qed
  with Cons.IH show ?case by simp
qed

lemma contains_middle [simp]: "contains p (a @ p @ b)"
  by (auto simp: contains_iff)

lemma contains_self [simp]: "contains p p"
  using contains_middle [of p "[]" "[]"] by simp

lemma contains_appendI1: "contains p a \<Longrightarrow> contains p (a @ b)"
  by (metis append.assoc contains_iff)

lemma contains_appendI2: "contains p b \<Longrightarrow> contains p (a @ b)"
  by (metis append.assoc contains_iff)

lemma contains_trans: "contains p q \<Longrightarrow> contains q s \<Longrightarrow> contains p s"
  by (metis append.assoc contains_iff)

lemma rstrip_by_Nil [simp]: "rstrip_by p [] = []"
  by (simp add: rstrip_by_def)

lemma rstrip_by_keep: "s \<noteq> [] \<Longrightarrow> \<not> p (last s) \<Longrightarrow> rstrip_by p s = s"
  by (cases s rule: rev_cases) (auto simp: rstrip_by_def)

lemma last_rstrip_by: "rstrip_by p s \<noteq> [] \<Longrightarrow> \<not> p (last (rstrip_by p s))"
  unfolding rstrip_by_def by (metis hd_dropWhile last_rev rev_is_Nil_conv)

lemma hd_rstrip_by: "rstrip_by p s \<noteq> [] \<Longrightarrow> hd (rstrip_by p s) = hd s"
proof -
  have "s = rstrip_by p s @ rev (takeWhile p (rev s))"
    unfolding rstrip_by_def by (metis rev_append rev_rev_ident takeWhile_dropWhile_id)
  then show "rstrip_by p s \<noteq> [] \<Longrightarrow> hd (rstrip_by p s) = hd s" by (metis hd_append2)
qed

lemma strip_by_ends:
  assumes "strip_by p s \<noteq> []"
  shows "\<not> p (hd (strip_by p s))" and "\<not> p (last (strip_by p s))"
proof -
  from assms have ne: "rstrip_by p (dropWhile p s) \<noteq> []" by (simp add: strip_by_def)
  then have "dropWhile p s \<noteq> []" by (metis rstrip_by_Nil)
  then show "\<not> p (hd (strip_by p s))"
    using ne by (simp add: strip_by_def hd_rstrip_by hd_dropWhile)
  show "\<not> p (last (strip_by p s))"
    using ne by (simp add: strip_by_def last_rstrip_by)
qed

lemma strip_by_keep:
  "s \<noteq> [] \<Longrightarrow> \<not> p (hd s) \<Longrightarrow> \<not> p (last s) \<Longrightarrow> strip_by p s = s"
  by (cases s) (simp_all add: strip_by_def rstrip_by_keep)

lemma strip_by_idem [simp]: "strip_by p (strip_by p s) = strip_by p s"
proof (cases "strip_by p s = []")
  case True
  then show ?thesis by (simp add: strip_by_def)
next
  case False
  then show ?thesis using strip_by_ends [OF False] by (simp add: strip_by_keep)
qed

lemma strip_idem [simp]: "strip (strip s) = strip s"
  by (simp add: strip_def)

lemma strip_Nil [simp]: "strip [] = []"
  by (simp add: strip_def strip_by_def)

lemma strip_keep: "s \<noteq> [] \<Longrightarrow> \<not> is_space (hd s) \<Longrightarrow> \<not> is_space (last s) \<Longrightarrow> strip s = s"
  by (simp add: strip_def strip_by_keep)

lemma strip_hd_last:
  "strip s \<noteq> [] \<Longrightarrow> \<not> is_space (hd (strip s)) \<and> \<not> is_space (last (strip s))"
  using strip_by_ends [of is_space s] by (auto simp: strip_def)

lemma strip_by_subset: "set (strip_by p s) \<subseteq> set s"
  unfolding strip_by_def rstrip_by_def
  by (metis set_dropWhileD set_rev subsetI)

lemma set_strip: "set (strip s) \<subseteq> set s"
  by (simp add: strip_def strip_by_subset)

lemma contains_strip_by: "contains (strip_by p s) s"
proof -
  have "s = takeWhile p s @ rstrip_by p (dropWhile p s) @ rev (takeWhile p (rev (dropWhile p s)))"
    unfolding rstrip_by_def by (metis rev_append rev_rev_ident takeWhile_dropWhile_id)
  then show ?thesis unfolding contains_iff strip_by_def by blast
qed

section \<open>String-valued enumerations\<close>

text \<open>
  \<open>Cls(value)\<close> for an \<open>Enum\<close> class whose members, in declaration order, are \<open>ms\<close> and whose
  values are \<open>val\<close>: the member with that value, or \<open>ValueError\<close>.
\<close>

definition enum_of_value :: "string \<Rightarrow> 'a list \<Rightarrow> ('a \<Rightarrow> string) \<Rightarrow> string \<Rightarrow> 'a res" where
  "enum_of_value cls ms val s =
     (case find (\<lambda>m. val m = s) ms of
        Some m \<Rightarrow> Inr m
      | None \<Rightarrow> Inl (Exn ValueError (repr_str s @ '' is not a valid '' @ cls)))"

text \<open>
  The contract of a \<open>@unique\<close> enumeration: every member is listed and no two members share a
  value. Lookup by value then inverts \<open>.value\<close>.
\<close>

locale str_enum =
  fixes cls :: string
    and ms :: "'a list"
    and val :: "'a \<Rightarrow> string"
  assumes all_members: "m \<in> set ms"
    and unique_values: "val m = val m' \<Longrightarrow> m = m'"
begin

lemma of_value_value [simp]: "enum_of_value cls ms val (val m) = Inr m"
proof -
  have "find (\<lambda>x. val x = val m) ms \<noteq> None"
    using all_members by (auto simp: find_None_iff)
  then obtain x where x: "find (\<lambda>x. val x = val m) ms = Some x" by blast
  then have "val x = val m" by (auto simp: find_Some_iff)
  then have "x = m" by (rule unique_values)
  with x show ?thesis by (simp add: enum_of_value_def)
qed

lemma of_value_Inr: "enum_of_value cls ms val s = Inr m \<longleftrightarrow> s = val m"
proof
  assume "enum_of_value cls ms val s = Inr m"
  then show "s = val m"
    by (auto simp: enum_of_value_def find_Some_iff split: option.splits)
qed simp

lemma of_value_Inl:
  "enum_of_value cls ms val s = Inl e \<Longrightarrow> exn_class e = ValueError \<and> (\<forall>m. s \<noteq> val m)"
  by (cases e) (auto simp: enum_of_value_def find_None_iff all_members split: option.splits)

end

section \<open>Dictionaries\<close>

text \<open>
  A \<open>dict\<close> is an association list in insertion order with distinct keys: \<open>map_of d k\<close> reads
  \<open>d.get(k)\<close>, \<open>AList.update k v d\<close> is \<open>d[k] = v\<close> (in place when \<open>k\<close> is present, appended
  otherwise).
\<close>

type_synonym 'v dict = "(string \<times> 'v) list"

definition wf_dict :: "('k \<times> 'v) list \<Rightarrow> bool" where
  "wf_dict d \<longleftrightarrow> distinct (map fst d)"

lemma wf_dict_Nil [simp]: "wf_dict []"
  by (simp add: wf_dict_def)

lemma wf_dict_update [simp]: "wf_dict d \<Longrightarrow> wf_dict (AList.update k v d)"
  by (simp add: wf_dict_def distinct_update)

lemma find_SomeD: "find p xs = Some x \<Longrightarrow> x \<in> set xs \<and> p x"
  by (induction xs) (auto split: if_splits)

lemma update_same: "map_of d k = Some v \<Longrightarrow> AList.update k v d = d"
  by (induction d) (auto split: if_splits)

lemma update_fresh: "map_of d k = None \<Longrightarrow> AList.update k v d = d @ [(k, v)]"
  by (induction d) (auto split: if_splits)

lemma wf_dict_in: "wf_dict d \<Longrightarrow> (k, v) \<in> set d \<longleftrightarrow> map_of d k = Some v"
  by (simp add: wf_dict_def)

lemma set_update_wf:
  "wf_dict d \<Longrightarrow> (k', v') \<in> set (AList.update k v d) \<longleftrightarrow>
     (if k' = k then v' = v else (k', v') \<in> set d)"
  by (auto simp: wf_dict_in update_conv)

end
