(* ===== verification/Pyvalues.thy ===== *)
theory Pyvalues
  imports Prelude
begin

text \<open>
  The values \<open>json.loads\<close> produces (type \<open>json\<close>), with the Python operations the sources apply to
  them while their type is still unknown: truth value, \<open>int(v)\<close>, \<open>str(v)\<close>, \<open>v.get(k, d)\<close>.
  Objects are dictionaries in insertion order; a tuple that is about to be written as JSON is a
  \<open>JList\<close>. A float is represented by its literal, which is its \<open>repr\<close> for the floats
  Python itself has printed. Also decimal parsing, and the
  \<open>datetime\<close> values of event metadata with \<open>isoformat\<close> and \<open>fromisoformat\<close> (the extended
  calendar form; ISO week dates and the basic form without separators are rejected by the model,
  and every rejection carries the same message).
\<close>

section \<open>Decimal digits\<close>

definition is_digit :: "char \<Rightarrow> bool" where
  "is_digit c \<longleftrightarrow> (let n = (of_char c :: nat) in 48 \<le> n \<and> n \<le> 57)"

definition digit_val :: "char \<Rightarrow> nat" where
  "digit_val c = of_char c - 48"

definition digits_val :: "string \<Rightarrow> nat" where
  "digits_val s = foldl (\<lambda>a c. 10 * a + digit_val c) 0 s"

lemma of_char_digit [simp]: "d < 10 \<Longrightarrow> (of_char (digit_char d) :: nat) = 48 + d"
  by (simp add: digit_char_def)

lemma is_digit_digit_char [simp]: "d < 10 \<Longrightarrow> is_digit (digit_char d)"
  by (simp add: is_digit_def)

lemma digit_val_digit_char [simp]: "d < 10 \<Longrightarrow> digit_val (digit_char d) = d"
  by (simp add: digit_val_def)

lemma digits_val_Nil [simp]: "digits_val [] = 0"
  by (simp add: digits_val_def)

lemma digits_val_snoc [simp]: "digits_val (s @ [c]) = 10 * digits_val s + digit_val c"
  by (simp add: digits_val_def)

lemma show_nat_digits: "\<forall>c \<in> set (show_nat n). is_digit c"
proof (induction n rule: show_nat.induct)
  case (1 n)
  then show ?case by (cases "n < 10") (auto simp: show_nat.simps [of n])
qed

lemma show_nat_val [simp]: "digits_val (show_nat n) = n"
proof (induction n rule: show_nat.induct)
  case (1 n)
  show ?case
  proof (cases "n < 10")
    case True
    then show ?thesis using digits_val_snoc [of "[]" "digit_char n"] by (simp add: show_nat.simps [of n])
  next
    case False
    with 1 show ?thesis by (simp add: show_nat.simps [of n])
  qed
qed

lemma show_nat_ne [simp]: "show_nat n \<noteq> []"
  by (simp add: show_nat.simps [of n])

lemma show_nat_inj: "show_nat m = show_nat n \<Longrightarrow> m = n"
  by (metis show_nat_val)

text \<open>\<open>%0kd\<close>: the last \<open>k\<close> decimal digits, padded with zeros\<close>

fun pad :: "nat \<Rightarrow> nat \<Rightarrow> string" where
  "pad 0 n = []"
| "pad (Suc k) n = pad k (n div 10) @ [digit_char (n mod 10)]"

lemma length_pad [simp]: "length (pad k n) = k"
  by (induction k arbitrary: n) auto

lemma pad_digits: "\<forall>c \<in> set (pad k n). is_digit c"
  by (induction k arbitrary: n) auto

lemma pad_val: "n < 10 ^ k \<Longrightarrow> digits_val (pad k n) = n"
proof (induction k arbitrary: n)
  case (Suc k)
  then have "n div 10 < 10 ^ k" by (simp add: less_mult_imp_div_less mult.commute)
  with Suc.IH [of "n div 10"] show ?case by simp
qed simp

text \<open>Read exactly \<open>k\<close> digits from the front.\<close>

definition take_digits :: "nat \<Rightarrow> string \<Rightarrow> (nat \<times> string) option" where
  "take_digits k s =
     (if k \<le> length s \<and> list_all is_digit (take k s)
      then Some (digits_val (take k s), drop k s) else None)"

lemma take_digits_pad [simp]: "n < 10 ^ k \<Longrightarrow> take_digits k (pad k n @ r) = Some (n, r)"
  using pad_digits [of k n] by (simp add: take_digits_def pad_val list_all_iff)

section \<open>JSON values\<close>

datatype json =
    JNull
  | JBool bool
  | JInt int
  | JFloat string
  | JStr string
  | JList "json list"
  | JObj "(string \<times> json) list"

fun type_name :: "json \<Rightarrow> string" where
  "type_name JNull = ''NoneType''"
| "type_name (JBool _) = ''bool''"
| "type_name (JInt _) = ''int''"
| "type_name (JFloat _) = ''float''"
| "type_name (JStr _) = ''str''"
| "type_name (JList _) = ''list''"
| "type_name (JObj _) = ''dict''"

text \<open>\<open>bool(v)\<close>\<close>

fun truthy :: "json \<Rightarrow> bool" where
  "truthy JNull = False"
| "truthy (JBool b) = b"
| "truthy (JInt i) = (i \<noteq> 0)"
| "truthy (JFloat f) =
     (f \<in> {''nan'', ''inf'', ''-inf''} \<or>
      (\<exists>c \<in> set (takeWhile (\<lambda>c. c \<noteq> CHR ''e'' \<and> c \<noteq> CHR ''E'') f). is_digit c \<and> c \<noteq> CHR ''0''))"
| "truthy (JStr s) = (s \<noteq> [])"
| "truthy (JList l) = (l \<noteq> [])"
| "truthy (JObj d) = (d \<noteq> [])"

text \<open>\<open>a or b\<close>\<close>

definition por :: "json \<Rightarrow> json \<Rightarrow> json" where
  "por a b = (if truthy a then a else b)"

text \<open>\<open>d.get(k, default)\<close> on a dictionary, and on a value that may be none\<close>

definition dget :: "json dict \<Rightarrow> string \<Rightarrow> json \<Rightarrow> json" where
  "dget d k dflt = (case map_of d k of Some v \<Rightarrow> v | None \<Rightarrow> dflt)"

fun vget :: "json \<Rightarrow> string \<Rightarrow> json \<Rightarrow> json res" where
  "vget (JObj d) k dflt = Inr (dget d k dflt)"
| "vget v k dflt =
     Inl (Exn AttributeError (repr_str (type_name v) @ '' object has no attribute '' @ repr_str ''get''))"

text \<open>Iterating over a value: a list gives its elements, a dictionary its keys, a string its characters.\<close>

fun py_iter :: "json \<Rightarrow> json list res" where
  "py_iter (JList l) = Inr l"
| "py_iter (JObj d) = Inr (map (\<lambda>(k, v). JStr k) d)"
| "py_iter (JStr s) = Inr (map (\<lambda>c. JStr [c]) (filter (\<lambda>c. \<not> is_cont c) s))"
| "py_iter v = Inl (Exn TypeError (repr_str (type_name v) @ '' object is not iterable''))"

subsection \<open>Conversion to \<open>int\<close>\<close>

text \<open>Digits that may be separated by single underscores: the literals \<open>int(s)\<close> accepts.\<close>

fun int_digits :: "bool \<Rightarrow> string \<Rightarrow> bool" where
  "int_digits prev [] = prev"
| "int_digits prev (c # s) =
     (if is_digit c then int_digits True s
      else if c = CHR ''_'' \<and> prev \<and> s \<noteq> [] \<and> is_digit (hd s) then int_digits False s
      else False)"

definition parse_int :: "string \<Rightarrow> int option" where
  "parse_int s =
     (let t = strip s;
          neg = (t \<noteq> [] \<and> hd t = CHR ''-'');
          u = (if t \<noteq> [] \<and> (hd t = CHR ''-'' \<or> hd t = CHR ''+'') then tl t else t)
      in if int_digits False u
         then Some ((if neg then - 1 else 1) * int (digits_val (filter is_digit u)))
         else None)"

text \<open>The integer part of a float given by its \<open>repr\<close>.\<close>

definition float_trunc :: "string \<Rightarrow> int res" where
  "float_trunc f =
     (let neg = (f \<noteq> [] \<and> hd f = CHR ''-'');
          u = (if neg then tl f else f);
          ip = takeWhile is_digit u;
          r = dropWhile is_digit u;
          fp = (if r \<noteq> [] \<and> hd r = CHR ''.'' then takeWhile is_digit (tl r) else []);
          r2 = (if r \<noteq> [] \<and> hd r = CHR ''.'' then dropWhile is_digit (tl r) else r);
          e = (if r2 \<noteq> [] \<and> (hd r2 = CHR ''e'' \<or> hd r2 = CHR ''E'') then (case parse_int (tl r2) of Some i \<Rightarrow> i | None \<Rightarrow> 0) else 0);
          m = int (digits_val (ip @ fp));
          k = e - int (length fp);
          v = (if 0 \<le> k then m * 10 ^ nat k else m div 10 ^ nat (- k))
      in if u = ''nan'' then Inl (Exn ValueError ''cannot convert float NaN to integer'')
         else if u = ''inf'' then Inl (Exn OverflowError ''cannot convert float infinity to integer'')
         else Inr (if neg then - v else v))"

fun py_int :: "json \<Rightarrow> int res" where
  "py_int (JBool b) = Inr (if b then 1 else 0)"
| "py_int (JInt i) = Inr i"
| "py_int (JFloat f) = float_trunc f"
| "py_int (JStr s) =
     (case parse_int s of
        Some i \<Rightarrow> Inr i
      | None \<Rightarrow> Inl (Exn ValueError (''invalid literal for int() with base 10: '' @ repr_str s)))"
| "py_int v =
     Inl (Exn TypeError
       (''int() argument must be a string, a bytes-like object or a real number, not '' @ repr_str (type_name v)))"

lemma int_digits_digits: "list_all is_digit s \<Longrightarrow> int_digits b s = (b \<or> s \<noteq> [])"
  by (induction s arbitrary: b) auto

lemma not_space_digit: "is_digit c \<Longrightarrow> \<not> is_space c"
  by (auto simp: is_digit_def is_space_def Let_def)

lemma parse_show_nat: "parse_int (show_nat n) = Some (int n)"
proof -
  have d: "\<forall>c \<in> set (show_nat n). is_digit c" by (rule show_nat_digits)
  then have h: "is_digit (hd (show_nat n))" and l: "is_digit (last (show_nat n))"
    by (auto intro: hd_in_set last_in_set)
  have s: "strip (show_nat n) = show_nat n"
    using not_space_digit [OF h] not_space_digit [OF l] by (simp add: strip_keep)
  have "hd (show_nat n) \<noteq> CHR ''-''" and "hd (show_nat n) \<noteq> CHR ''+''"
    using h by (auto simp: is_digit_def Let_def)
  then show ?thesis
    using d by (simp add: parse_int_def s Let_def int_digits_digits list_all_iff filter_True)
qed

lemma parse_show_int [simp]: "parse_int (show_int i) = Some i"
proof (cases "i < 0")
  case True
  let ?n = "show_nat (nat (- i))"
  have d: "\<forall>c \<in> set ?n. is_digit c" by (rule show_nat_digits)
  then have "\<not> is_space (last ?n)" by (simp add: not_space_digit)
  then have "strip (CHR ''-'' # ?n) = CHR ''-'' # ?n"
    by (intro strip_keep) (auto simp: is_space_def)
  with True d show ?thesis
    by (simp add: show_int_def parse_int_def Let_def int_digits_digits list_all_iff filter_True)
qed (simp add: show_int_def parse_show_nat)

subsection \<open>Conversion to \<open>str\<close>\<close>

text \<open>\<open>repr(v)\<close> and \<open>str(v)\<close>: they differ on strings only.\<close>

fun py_repr :: "json \<Rightarrow> string" where
  "py_repr JNull = ''None''"
| "py_repr (JBool b) = (if b then ''True'' else ''False'')"
| "py_repr (JInt i) = show_int i"
| "py_repr (JFloat f) = f"
| "py_repr (JStr s) = repr_str s"
| "py_repr (JList l) = ''['' @ join '', '' (map py_repr l) @ '']''"
| "py_repr (JObj d) =
     CHR 0x7B # join '', '' (map (\<lambda>(k, v). repr_str k @ '': '' @ py_repr v) d) @ [CHR 0x7D]"

definition py_str :: "json \<Rightarrow> string" where
  "py_str v = (case v of JStr s \<Rightarrow> s | _ \<Rightarrow> py_repr v)"

lemma py_str_JStr [simp]: "py_str (JStr s) = s"
  by (simp add: py_str_def)

section \<open>Dates\<close>

text \<open>A \<open>datetime\<close>; the offset from UTC, of an aware one, is in seconds.\<close>

record datetime =
  dt_year :: nat
  dt_month :: nat
  dt_day :: nat
  dt_hour :: nat
  dt_minute :: nat
  dt_second :: nat
  dt_micro :: nat
  dt_offset :: "int option"

definition leap_year :: "nat \<Rightarrow> bool" where
  "leap_year y \<longleftrightarrow> y mod 4 = 0 \<and> (y mod 100 \<noteq> 0 \<or> y mod 400 = 0)"

definition days_in_month :: "nat \<Rightarrow> nat \<Rightarrow> nat" where
  "days_in_month y m =
     (if m = 2 then (if leap_year y then 29 else 28)
      else if m \<in> {4, 6, 9, 11} then 30 else 31)"

definition valid_datetime :: "datetime \<Rightarrow> bool" where
  "valid_datetime d \<longleftrightarrow>
     1 \<le> dt_year d \<and> dt_year d \<le> 9999 \<and> 1 \<le> dt_month d \<and> dt_month d \<le> 12 \<and>
     1 \<le> dt_day d \<and> dt_day d \<le> days_in_month (dt_year d) (dt_month d) \<and>
     dt_hour d < 24 \<and> dt_minute d < 60 \<and> dt_second d < 60 \<and> dt_micro d < 1000000 \<and>
     (case dt_offset d of None \<Rightarrow> True | Some z \<Rightarrow> - 86400 < z \<and> z < 86400)"

definition offset_str :: "int \<Rightarrow> string" where
  "offset_str z =
     (let a = nat (abs z)
      in (if z < 0 then CHR ''-'' else CHR ''+'') # pad 2 (a div 3600) @ '':'' @ pad 2 (a div 60 mod 60) @
         (if a mod 60 = 0 then [] else '':'' @ pad 2 (a mod 60)))"

definition isoformat :: "datetime \<Rightarrow> string" where
  "isoformat d =
     pad 4 (dt_year d) @ ''-'' @ pad 2 (dt_month d) @ ''-'' @ pad 2 (dt_day d) @ ''T'' @
     pad 2 (dt_hour d) @ '':'' @ pad 2 (dt_minute d) @ '':'' @ pad 2 (dt_second d) @
     (if dt_micro d = 0 then [] else ''.'' @ pad 6 (dt_micro d)) @
     (case dt_offset d of None \<Rightarrow> [] | Some z \<Rightarrow> offset_str z)"

text \<open>An optional \<open>:NN\<close> field (its value and the rest), 0 when it is absent.\<close>

definition opt_field :: "string \<Rightarrow> (nat \<times> string) option" where
  "opt_field s = (if s \<noteq> [] \<and> hd s = CHR '':'' then take_digits 2 (tl s) else Some (0, s))"

text \<open>The fraction of a second: digits after a dot or comma, to six places.\<close>

definition opt_fraction :: "string \<Rightarrow> (nat \<times> string) option" where
  "opt_fraction s =
     (if s \<noteq> [] \<and> (hd s = CHR ''.'' \<or> hd s = CHR '','') then
        (let ds = takeWhile is_digit (tl s); six = take 6 (ds @ replicate 6 (CHR ''0''))
         in if ds = [] then None else Some (digits_val six, dropWhile is_digit (tl s)))
      else Some (0, s))"

definition parse_offset :: "string \<Rightarrow> int option option" where
  "parse_offset s =
     (if s = [] then Some None
      else if s = ''Z'' then Some (Some 0)
      else if hd s = CHR ''+'' \<or> hd s = CHR ''-'' then
        Option.bind (take_digits 2 (tl s)) (\<lambda>(h, s1).
        Option.bind (opt_field s1) (\<lambda>(m, s2).
        Option.bind (opt_field s2) (\<lambda>(sec, s3).
          if s3 = [] \<and> h < 24 \<and> m < 60 \<and> sec < 60
          then (let z = int (h * 3600 + m * 60 + sec) in Some (Some (if hd s = CHR ''-'' then - z else z)))
          else None)))
      else None)"

definition parse_iso :: "string \<Rightarrow> datetime option" where
  "parse_iso s =
     Option.bind (take_digits 4 s) (\<lambda>(y, s1). if s1 = [] \<or> hd s1 \<noteq> CHR ''-'' then None else
     Option.bind (take_digits 2 (tl s1)) (\<lambda>(mo, s2). if s2 = [] \<or> hd s2 \<noteq> CHR ''-'' then None else
     Option.bind (take_digits 2 (tl s2)) (\<lambda>(dy, s3).
       if s3 = [] then
         Some \<lparr>dt_year = y, dt_month = mo, dt_day = dy, dt_hour = 0, dt_minute = 0, dt_second = 0,
               dt_micro = 0, dt_offset = None\<rparr>
       else
         Option.bind (take_digits 2 (tl s3)) (\<lambda>(h, s4).
         Option.bind (opt_field s4) (\<lambda>(mi, s5).
         Option.bind (opt_field s5) (\<lambda>(sec, s6).
         Option.bind (opt_fraction s6) (\<lambda>(us, s7).
         Option.bind (parse_offset s7) (\<lambda>z.
           Some \<lparr>dt_year = y, dt_month = mo, dt_day = dy, dt_hour = h, dt_minute = mi,
                 dt_second = sec, dt_micro = us, dt_offset = z\<rparr>))))))))"

text \<open>\<open>datetime.fromisoformat(s)\<close>\<close>

definition fromisoformat :: "string \<Rightarrow> datetime res" where
  "fromisoformat s =
     (case parse_iso s of
        Some d \<Rightarrow> if valid_datetime d then Inr d
                  else Inl (Exn ValueError (''Invalid isoformat string: '' @ repr_str s))
      | None \<Rightarrow> Inl (Exn ValueError (''Invalid isoformat string: '' @ repr_str s)))"

lemma takeWhile_pad: "\<not> is_digit c \<Longrightarrow> takeWhile is_digit (pad k n @ c # r) = pad k n"
  using pad_digits [of k n] by (simp add: takeWhile_append)

lemma dropWhile_pad: "\<not> is_digit c \<Longrightarrow> dropWhile is_digit (pad k n @ c # r) = c # r"
  using pad_digits [of k n] by (simp add: dropWhile_append)

lemma takeWhile_pad_end: "takeWhile is_digit (pad k n) = pad k n"
  using pad_digits [of k n] by (simp add: takeWhile_eq_all_conv)

lemma dropWhile_pad_end: "dropWhile is_digit (pad k n) = []"
  using pad_digits [of k n] by (simp add: dropWhile_eq_Nil_conv)

definition no_digit_head :: "string \<Rightarrow> bool" where
  "no_digit_head r \<longleftrightarrow> r = [] \<or> \<not> is_digit (hd r)"

lemma opt_fraction_pad:
  assumes "no_digit_head r" and "us < 1000000"
  shows "opt_fraction (CHR ''.'' # pad 6 us @ r) = Some (us, r)"
proof -
  have tw: "takeWhile is_digit (pad 6 us @ r) = pad 6 us"
    and dw: "dropWhile is_digit (pad 6 us @ r) = r"
    using assms(1) pad_digits [of 6 us]
    by (cases r; simp add: no_digit_head_def takeWhile_append dropWhile_append takeWhile_eq_all_conv)+
  have "digits_val (pad 6 us) = us" using assms(2) by (intro pad_val) simp
  moreover have "pad 6 us \<noteq> []" by (metis length_pad list.size(3) zero_neq_numeral)
  ultimately show ?thesis by (simp add: opt_fraction_def tw dw Let_def)
qed

lemma hms_sum: "a div 3600 * 3600 + a div 60 mod 60 * 60 + a mod 60 = (a::nat)"
proof -
  have "a div 3600 = a div 60 div 60" using div_mult2_eq [of a 60 60] by simp
  moreover have "a div 60 div 60 * 60 + a div 60 mod 60 = a div 60" by simp
  moreover have "a div 60 * 60 + a mod 60 = a" by simp
  ultimately show ?thesis by linarith
qed

lemma take_digits_end: "n < 10 ^ k \<Longrightarrow> take_digits k (pad k n) = Some (n, [])"
  using take_digits_pad [of n k "[]"] by simp

lemma parse_offset_fields:
  assumes "h < 24" and "m < 60" and "sec < 60"
    and s: "s = g # pad 2 h @ '':'' @ pad 2 m @ (if sec = 0 then [] else '':'' @ pad 2 sec)"
    and g: "g = CHR ''+'' \<or> g = CHR ''-''"
  shows "parse_offset s = Some (Some (if g = CHR ''-'' then - int (h * 3600 + m * 60 + sec)
                                      else int (h * 3600 + m * 60 + sec)))"
proof -
  from assms(1-3) have "h < 10 ^ 2" "m < 10 ^ 2" "sec < 10 ^ 2" by auto
  note t = take_digits_pad [OF this(1)] take_digits_pad [OF this(2)]
    take_digits_end [OF this(2)] take_digits_end [OF this(3)]
  from assms(1-3) g show ?thesis
    by (cases "sec = 0") (simp_all add: s parse_offset_def opt_field_def Let_def t)
qed

lemma parse_offset_str:
  assumes "- 86400 < z" and "z < 86400"
  shows "parse_offset (offset_str z) = Some (Some z)"
proof -
  define a where "a = nat (abs z)"
  have a: "int a = abs z" and lt: "a < 86400" using assms by (auto simp: a_def)
  have "parse_offset (offset_str z) = Some (Some (if (if z < 0 then CHR ''-'' else CHR ''+'') = CHR ''-''
      then - int (a div 3600 * 3600 + a div 60 mod 60 * 60 + a mod 60)
      else int (a div 3600 * 3600 + a div 60 mod 60 * 60 + a mod 60)))"
    using lt by (intro parse_offset_fields) (auto simp: offset_str_def a_def Let_def)
  with a show ?thesis by (simp only: hms_sum) (cases "z < 0"; simp)
qed

lemma no_digit_offset: "no_digit_head (offset_str z)"
  by (simp add: offset_str_def no_digit_head_def Let_def is_digit_def)

lemma fromisoformat_isoformat:
  assumes "valid_datetime d"
  shows "fromisoformat (isoformat d) = Inr d"
proof -
  let ?z = "case dt_offset d of None \<Rightarrow> [] | Some z \<Rightarrow> offset_str z"
  have nz: "no_digit_head ?z"
    by (cases "dt_offset d") (simp_all add: no_digit_offset no_digit_head_def [of "[]"])
  have nf: "opt_fraction ?z = Some (0, ?z)"
    by (cases "dt_offset d") (auto simp: opt_fraction_def offset_str_def Let_def)
  have pz: "parse_offset ?z = Some (dt_offset d)"
    using assms parse_offset_def [of "[]"] parse_offset_str
    by (cases "dt_offset d") (auto simp: valid_datetime_def)
  have y: "dt_year d < 10 ^ 4" and mo: "dt_month d < 10 ^ 2" and h: "dt_hour d < 10 ^ 2"
    and mi: "dt_minute d < 10 ^ 2" and se: "dt_second d < 10 ^ 2" and us: "dt_micro d < 1000000"
    using assms by (auto simp: valid_datetime_def)
  have "days_in_month (dt_year d) (dt_month d) \<le> 31" by (simp add: days_in_month_def)
  with assms have dy: "dt_day d < 10 ^ 2" by (simp add: valid_datetime_def)
  have fr: "opt_fraction ((if dt_micro d = 0 then [] else ''.'' @ pad 6 (dt_micro d)) @ ?z)
      = Some (dt_micro d, ?z)"
    using opt_fraction_pad [OF nz us] nf by simp
  have "parse_iso (isoformat d) = Some d"
    by (simp add: parse_iso_def isoformat_def opt_field_def pz fr
        take_digits_pad [OF y] take_digits_pad [OF mo] take_digits_pad [OF dy] take_digits_pad [OF h]
        take_digits_pad [OF mi] take_digits_pad [OF se])
  with assms show ?thesis by (simp add: fromisoformat_def)
qed

end
