(* ===== verification/Contracts.thy ===== *)
theory Contracts
  imports Complex_Main Pyvalues
begin

text \<open>
  The shared value types of \<open>src/core/contracts\<close> (\<open>events.py\<close>, \<open>domain.py\<close>), of
  \<open>src/runtime/stages.py\<close> and of the analyzer's and the GitHub connector's \<open>types.py\<close>. An
  enumeration is a datatype with the list of its members and their values, and an interpretation
  of the locale \<open>str_enum\<close>.

  The text fields of an event have the type parameter \<open>'s\<close>. Parsers copy JSON values into them
  unchecked, so a parsed event is a \<open>json event\<close>; an event whose fields all hold strings, as the
  annotations say, is a \<open>string event\<close>.
\<close>

section \<open>Enumerations\<close>

datatype event_type =
  PR_OPENED | PR_UPDATED | PR_COMMENTED | PR_REVIEWED | CI_COMPLETED | CHAT_MENTION

fun event_type_value :: "event_type \<Rightarrow> string" where
  "event_type_value PR_OPENED = ''pr_opened''"
| "event_type_value PR_UPDATED = ''pr_updated''"
| "event_type_value PR_COMMENTED = ''pr_commented''"
| "event_type_value PR_REVIEWED = ''pr_reviewed''"
| "event_type_value CI_COMPLETED = ''ci_completed''"
| "event_type_value CHAT_MENTION = ''chat_mention''"

abbreviation event_types :: "event_type list" where
  "event_types \<equiv> [PR_OPENED, PR_UPDATED, PR_COMMENTED, PR_REVIEWED, CI_COMPLETED, CHAT_MENTION]"

interpretation event_type: str_enum "''EventType''" event_types event_type_value
proof unfold_locales
  fix m m' :: event_type
  show "m \<in> set event_types" by (cases m) auto
  show "event_type_value m = event_type_value m' \<Longrightarrow> m = m'" by (cases m; cases m'; simp)
qed

datatype event_source = GITHUB | SLACK | TEAMS | REPLAY

fun event_source_value :: "event_source \<Rightarrow> string" where
  "event_source_value GITHUB = ''github''"
| "event_source_value SLACK = ''slack''"
| "event_source_value TEAMS = ''teams''"
| "event_source_value REPLAY = ''replay''"

abbreviation event_sources :: "event_source list" where
  "event_sources \<equiv> [GITHUB, SLACK, TEAMS, REPLAY]"

interpretation event_source: str_enum "''EventSource''" event_sources event_source_value
proof unfold_locales
  fix m m' :: event_source
  show "m \<in> set event_sources" by (cases m) auto
  show "event_source_value m = event_source_value m' \<Longrightarrow> m = m'" by (cases m; cases m'; simp)
qed

datatype ci_readiness_state = CI_READY | CI_WAITING_FOR_CHECKS | CI_CHECKS_FAILED

fun ci_readiness_value :: "ci_readiness_state \<Rightarrow> string" where
  "ci_readiness_value CI_READY = ''ready''"
| "ci_readiness_value CI_WAITING_FOR_CHECKS = ''waiting_for_checks''"
| "ci_readiness_value CI_CHECKS_FAILED = ''checks_failed''"

datatype risk_level = NOT_ASSESSED | LOW | MEDIUM | HIGH | CRITICAL

fun risk_level_value :: "risk_level \<Rightarrow> string" where
  "risk_level_value NOT_ASSESSED = ''not_assessed''"
| "risk_level_value LOW = ''low''"
| "risk_level_value MEDIUM = ''medium''"
| "risk_level_value HIGH = ''high''"
| "risk_level_value CRITICAL = ''critical''"

datatype action_type =
  RUN_TESTS | RUN_LINTER | TYPE_CHECK | CHECK_SECURITY | VERIFY_API_CONTRACT | SMOKE_TEST | CUSTOM

fun action_type_value :: "action_type \<Rightarrow> string" where
  "action_type_value RUN_TESTS = ''run_tests''"
| "action_type_value RUN_LINTER = ''run_linter''"
| "action_type_value TYPE_CHECK = ''type_check''"
| "action_type_value CHECK_SECURITY = ''check_security''"
| "action_type_value VERIFY_API_CONTRACT = ''verify_api_contract''"
| "action_type_value SMOKE_TEST = ''smoke_test''"
| "action_type_value CUSTOM = ''custom''"

datatype validation_outcome = PASS | FAIL | ERROR | SKIPPED

fun validation_outcome_value :: "validation_outcome \<Rightarrow> string" where
  "validation_outcome_value PASS = ''pass''"
| "validation_outcome_value FAIL = ''fail''"
| "validation_outcome_value ERROR = ''error''"
| "validation_outcome_value SKIPPED = ''skipped''"

datatype workflow_stage =
  CONTEXT | TRIAGE | ANALYZER | STRATEGY | VALIDATOR | RENDERER | OUTPUT

fun stage_value :: "workflow_stage \<Rightarrow> string" where
  "stage_value CONTEXT = ''context''"
| "stage_value TRIAGE = ''triage''"
| "stage_value ANALYZER = ''analyzer''"
| "stage_value STRATEGY = ''strategy''"
| "stage_value VALIDATOR = ''validator''"
| "stage_value RENDERER = ''renderer''"
| "stage_value OUTPUT = ''output''"

abbreviation stages :: "workflow_stage list" where
  "stages \<equiv> [CONTEXT, TRIAGE, ANALYZER, STRATEGY, VALIDATOR, RENDERER, OUTPUT]"

interpretation stage: str_enum "''WorkflowStage''" stages stage_value
proof unfold_locales
  fix m m' :: workflow_stage
  show "m \<in> set stages" by (cases m) auto
  show "stage_value m = stage_value m' \<Longrightarrow> m = m'" by (cases m; cases m'; simp)
qed

datatype pr_file_status =
  ADDED | MODIFIED | REMOVED | RENAMED | COPIED | CHANGED | UNCHANGED | UNKNOWN

fun file_status_value :: "pr_file_status \<Rightarrow> string" where
  "file_status_value ADDED = ''added''"
| "file_status_value MODIFIED = ''modified''"
| "file_status_value REMOVED = ''removed''"
| "file_status_value RENAMED = ''renamed''"
| "file_status_value COPIED = ''copied''"
| "file_status_value CHANGED = ''changed''"
| "file_status_value UNCHANGED = ''unchanged''"
| "file_status_value UNKNOWN = ''unknown''"

text \<open>\<open>PRFileStatus.normalize\<close> on a provider string\<close>

definition file_status_aliases :: "(string \<times> pr_file_status) list" where
  "file_status_aliases =
     [(''added'', ADDED), (''created'', ADDED), (''modified'', MODIFIED), (''changed'', CHANGED),
      (''removed'', REMOVED), (''deleted'', REMOVED), (''renamed'', RENAMED), (''copied'', COPIED),
      (''unchanged'', UNCHANGED)]"

definition normalize_file_status :: "string \<Rightarrow> pr_file_status" where
  "normalize_file_status value =
     (case map_of file_status_aliases (lower (strip value)) of Some s \<Rightarrow> s | None \<Rightarrow> UNKNOWN)"

section \<open>Events\<close>

record event_meta =
  em_event_id :: string
  em_event_type :: event_type
  em_correlation_id :: string
  em_timestamp :: datetime
  em_source :: event_source

record 's file_change =
  fc_path :: 's
  fc_status :: 's
  fc_additions :: int
  fc_deletions :: int
  fc_previous_filename :: 's

record 's pr_event =
  pe_meta :: event_meta
  pe_repo_full_name :: 's
  pe_pr_number :: int
  pe_title :: 's
  pe_body :: 's
  pe_author :: 's
  pe_base_branch :: 's
  pe_head_branch :: 's
  pe_diff_url :: 's
  pe_files_changed :: "'s file_change list"
  pe_head_sha :: 's

record 's pr_commented =
  pc_meta :: event_meta
  pc_repo_full_name :: 's
  pc_pr_number :: int
  pc_comment_id :: int
  pc_author :: 's
  pc_body :: 's
  pc_is_review_comment :: bool
  pc_path :: 's
  pc_line :: "int option"

record 's pr_reviewed =
  pv_meta :: event_meta
  pv_repo_full_name :: 's
  pv_pr_number :: int
  pv_reviewer :: 's
  pv_state :: 's
  pv_body :: 's

record 's ci_completed =
  ci_meta :: event_meta
  ci_repo_full_name :: 's
  ci_pr_number :: "int option"
  ci_commit_sha :: 's
  ci_workflow_name :: 's
  ci_conclusion :: 's
  ci_run_url :: 's
  ci_failed_jobs :: "'s list"
  ci_logs_url :: 's
  ci_run_id :: "int option"

record 's chat_mention =
  cm_meta :: event_meta
  cm_platform :: 's
  cm_channel_id :: 's
  cm_channel_name :: 's
  cm_author :: 's
  cm_message :: 's
  cm_thread_id :: 's
  cm_referenced_pr :: "int option"

text \<open>The union \<open>Event\<close>; \<open>PROpened\<close> and \<open>PRUpdated\<close> are the subclasses of \<open>PREvent\<close>.\<close>

datatype 's event =
    PROpened "'s pr_event"
  | PRUpdated "'s pr_event"
  | PRCommented "'s pr_commented"
  | PRReviewed "'s pr_reviewed"
  | CICompleted "'s ci_completed"
  | ChatMention "'s chat_mention"

fun event_meta_of :: "'s event \<Rightarrow> event_meta" where
  "event_meta_of (PROpened e) = pe_meta e"
| "event_meta_of (PRUpdated e) = pe_meta e"
| "event_meta_of (PRCommented e) = pc_meta e"
| "event_meta_of (PRReviewed e) = pv_meta e"
| "event_meta_of (CICompleted e) = ci_meta e"
| "event_meta_of (ChatMention e) = cm_meta e"

text \<open>The event type the class of an event stands for.\<close>

fun event_kind :: "'s event \<Rightarrow> event_type" where
  "event_kind (PROpened _) = PR_OPENED"
| "event_kind (PRUpdated _) = PR_UPDATED"
| "event_kind (PRCommented _) = PR_COMMENTED"
| "event_kind (PRReviewed _) = PR_REVIEWED"
| "event_kind (CICompleted _) = CI_COMPLETED"
| "event_kind (ChatMention _) = CHAT_MENTION"

section \<open>Domain types\<close>

record ci_observation =
  ob_workflow_name :: string
  ob_conclusion :: string
  ob_run_url :: string
  ob_failed_jobs :: "string list"
  ob_commit_sha :: string
  ob_logs_url :: string

record ci_historical_evidence =
  he_head_sha :: string
  he_observations :: "ci_observation list"

record ci_feedback_context =
  fb_current_head_sha :: string
  fb_readiness :: ci_readiness_state
  fb_current_observations :: "ci_observation list"
  fb_historical_evidence :: "ci_historical_evidence list"
  fb_pending_checks :: "string list"

record impact_area =
  ia_module :: string
  ia_description :: string
  ia_risk_level :: risk_level
  ia_affected_files :: "string list"

text \<open>A value of \<open>raw_diff_stats : dict[str, int | str]\<close>\<close>

datatype stat = StatInt int | StatStr string

record behaviour_impact =
  bi_summary :: string
  bi_areas :: "impact_area list"
  bi_overall_risk :: risk_level
  bi_raw_diff_stats :: "stat dict"

record strategy_action =
  sa_action_type :: action_type
  sa_description :: string
  sa_target :: string
  sa_priority :: int
  sa_rationale :: string

record strategy_result =
  sr_actions :: "strategy_action list"
  sr_reasoning :: string
  sr_confidence :: rat
  sr_knowledge_refs :: "string list"

record validation_location =
  vl_path :: string
  vl_line :: int
  vl_start_line :: "int option"

record validation_result =
  vr_action :: strategy_action
  vr_outcome :: validation_outcome
  vr_details :: string
  vr_duration_seconds :: rat
  vr_artifacts :: "string list"
  vr_locations :: "validation_location list"

record qa_report =
  qr_event_id :: string
  qr_repo_full_name :: string
  qr_pr_number :: "int option"
  qr_impact :: behaviour_impact
  qr_strategy :: strategy_result
  qr_validations :: "validation_result list"
  qr_summary_markdown :: string
  qr_ci_feedback :: "ci_feedback_context option"

section \<open>Analyzer input and GitHub connector results\<close>

record pr_file_diff =
  fd_path :: string
  fd_status :: pr_file_status
  fd_additions :: int
  fd_deletions :: int
  fd_patch :: "string option"
  fd_previous_filename :: string
  fd_first_added_line :: "int option"

record pr_analysis_context =
  ax_repo_full_name :: string
  ax_pr_number :: int
  ax_title :: string
  ax_body :: string
  ax_base_branch :: string
  ax_head_branch :: string
  ax_files :: "pr_file_diff list"
  ax_unified_diff :: string

record pr_meta =
  pm_number :: int
  pm_title :: string
  pm_state :: string
  pm_head_sha :: string
  pm_base_ref :: string
  pm_head_ref :: string
  pm_author :: string
  pm_draft :: bool
  pm_html_url :: string
  pm_body :: string

record file_diff =
  gf_filename :: string
  gf_status :: string
  gf_additions :: int
  gf_deletions :: int
  gf_changes :: int
  gf_patch :: "string option"
  gf_previous_filename :: string

record comment_result =
  cr_id :: int
  cr_html_url :: string
  cr_body :: string

record review_comment_input =
  rc_path :: string
  rc_body :: string
  rc_line :: "int option"
  rc_side :: string
  rc_start_line :: "int option"
  rc_start_side :: string

record review_result =
  rr_id :: int
  rr_html_url :: string
  rr_state :: string
  rr_body :: string
  rr_commit_id :: string

record actions_job_result =
  aj_name :: string
  aj_conclusion :: string
  aj_html_url :: string

record check_run_result =
  ck_name :: string
  ck_status :: string
  ck_conclusion :: string
  ck_html_url :: string
  ck_head_sha :: string

lemma normalize_canonical [simp]:
  "normalize_file_status (file_status_value s) = s"
  by (cases s) (simp_all add: normalize_file_status_def file_status_aliases_def lower_def lower_char_def
      strip_def strip_by_def rstrip_by_def is_space_def)

end
