(* ===== verification/Parsers.thy ===== *)
theory Parsers
  imports Contracts
begin

text \<open>
  The webhook parsers of \<open>src/core/contracts/parsers.py\<close>. They copy text fields from the payload
  unchecked, so that they build a \<open>json event\<close>; \<open>get\<close> on a value that is not a dictionary, a
  conversion to \<open>int\<close> and iteration over something that is not iterable raise, in the order the code
  evaluates them. The new event id (\<open>uuid.uuid4()\<close>) and the time (\<open>_now()\<close>) are arguments.
\<close>

text \<open>\<open>_get\<close>: the value at a path of keys, the default when a step is missing or not a dictionary.\<close>

fun get_path :: "json \<Rightarrow> string list \<Rightarrow> json \<Rightarrow> json" where
  "get_path v [] dflt = v"
| "get_path (JObj d) (k # ks) dflt = get_path (dget d k dflt) ks dflt"
| "get_path v (k # ks) dflt = dflt"

definition text_at :: "json \<Rightarrow> string list \<Rightarrow> json" where
  "text_at v ks = get_path v ks (JStr [])"

text \<open>\<open>v.get(k, "")\<close> and \<open>int(v.get(k, 0))\<close>\<close>

definition get_text :: "json \<Rightarrow> string \<Rightarrow> json res" where
  "get_text v k = vget v k (JStr [])"

definition get_int :: "json \<Rightarrow> string \<Rightarrow> int res" where
  "get_int v k = bindR (vget v k (JInt 0)) py_int"

definition parse_file :: "json \<Rightarrow> json file_change res" where
  "parse_file f =
     bindR (get_text f ''filename'') (\<lambda>path.
     bindR (vget f ''status'' (JStr ''modified'')) (\<lambda>status.
     bindR (get_int f ''additions'') (\<lambda>additions.
     bindR (get_int f ''deletions'') (\<lambda>deletions.
     bindR (get_text f ''previous_filename'') (\<lambda>previous.
     Inr \<lparr>fc_path = path, fc_status = status, fc_additions = additions, fc_deletions = deletions,
          fc_previous_filename = por previous (JStr [])\<rparr>)))))"

definition parse_files :: "json \<Rightarrow> json file_change list res" where
  "parse_files files = bindR (py_iter files) (mapR parse_file)"

definition github_meta :: "event_type \<Rightarrow> string \<Rightarrow> string \<Rightarrow> datetime \<Rightarrow> event_meta" where
  "github_meta t correlation_id event_id now =
     \<lparr>em_event_id = event_id, em_event_type = t, em_correlation_id = correlation_id, em_timestamp = now,
      em_source = GITHUB\<rparr>"

section \<open>Pull requests\<close>

definition pr_common :: "event_meta \<Rightarrow> json dict \<Rightarrow> json \<Rightarrow> json \<Rightarrow> json pr_event res" where
  "pr_common m payload pr repo =
     bindR (parse_files (dget payload ''files'' (JList []))) (\<lambda>files.
     bindR (get_text repo ''full_name'') (\<lambda>full_name.
     bindR (get_int pr ''number'') (\<lambda>number.
     bindR (get_text pr ''title'') (\<lambda>title.
     bindR (get_text pr ''body'') (\<lambda>body.
     bindR (get_text pr ''diff_url'') (\<lambda>diff_url.
     Inr \<lparr>pe_meta = m, pe_repo_full_name = full_name, pe_pr_number = number, pe_title = title,
          pe_body = por body (JStr []), pe_author = text_at pr [''user'', ''login''],
          pe_base_branch = text_at pr [''base'', ''ref''], pe_head_branch = text_at pr [''head'', ''ref''],
          pe_diff_url = diff_url, pe_files_changed = files, pe_head_sha = text_at pr [''head'', ''sha'']\<rparr>))))))"

definition parse_github_pr_event ::
  "json dict \<Rightarrow> string \<Rightarrow> string \<Rightarrow> string \<Rightarrow> datetime \<Rightarrow> json event option res" where
  "parse_github_pr_event payload action correlation_id event_id now =
     (let pr = dget payload ''pull_request'' (JObj []); repo = dget payload ''repository'' (JObj []) in
      if action = ''opened'' then
        bindR (pr_common (github_meta PR_OPENED correlation_id event_id now) payload pr repo) (\<lambda>e.
          Inr (Some (PROpened e)))
      else if action \<in> {''synchronize'', ''edited'', ''reopened''} then
        bindR (pr_common (github_meta PR_UPDATED correlation_id event_id now) payload pr repo) (\<lambda>e.
          Inr (Some (PRUpdated e)))
      else Inr None)"

section \<open>Workflow runs\<close>

text \<open>\<open>v[0]\<close> on a value that is true\<close>

fun first_item :: "json \<Rightarrow> json res" where
  "first_item (JList (x # _)) = Inr x"
| "first_item (JList []) = Inl (Exn IndexError ''list index out of range'')"
| "first_item (JStr s) = (if s = [] then Inl (Exn IndexError ''string index out of range'') else Inr (JStr (cp_take 1 s)))"
| "first_item (JObj d) = Inl (Exn KeyError ''0'')"
| "first_item v = Inl (Exn TypeError (repr_str (type_name v) @ '' object is not subscriptable''))"

definition linked_pr_number :: "json \<Rightarrow> int option res" where
  "linked_pr_number prs =
     (if truthy prs then bindR (bindR (first_item prs) (\<lambda>pr. get_int pr ''number'')) (\<lambda>n. Inr (Some n)) else Inr None)"

definition named_jobs :: "json \<Rightarrow> json list res" where
  "named_jobs jobs =
     bindR (bindR (py_iter jobs) (mapR (\<lambda>j. vget j ''name'' JNull))) (\<lambda>names. Inr (filter truthy names))"

definition optional_id :: "json \<Rightarrow> int option res" where
  "optional_id v = (if v = JNull then Inr None else bindR (py_int v) (\<lambda>i. Inr (Some i)))"

definition parse_github_ci_event :: "json dict \<Rightarrow> string \<Rightarrow> string \<Rightarrow> datetime \<Rightarrow> json event option res" where
  "parse_github_ci_event payload correlation_id event_id now =
     (let wf = dget payload ''workflow_run'' (JObj []); repo = dget payload ''repository'' (JObj []) in
      bindR (get_text wf ''conclusion'') (\<lambda>conclusion.
      if \<not> truthy conclusion then Inr None
      else
        bindR (bindR (vget wf ''pull_requests'' (JList [])) linked_pr_number) (\<lambda>pr_number.
        bindR (named_jobs (dget payload ''failed_jobs'' (JList []))) (\<lambda>failed_jobs.
        bindR (get_text repo ''full_name'') (\<lambda>full_name.
        bindR (get_text wf ''name'') (\<lambda>name.
        bindR (get_text wf ''html_url'') (\<lambda>run_url.
        bindR (get_text wf ''logs_url'') (\<lambda>logs_url.
        bindR (bindR (vget wf ''id'' JNull) optional_id) (\<lambda>run_id.
        Inr (Some (CICompleted
          \<lparr>ci_meta = github_meta CI_COMPLETED correlation_id event_id now, ci_repo_full_name = full_name,
           ci_pr_number = pr_number, ci_commit_sha = text_at wf [''head_sha''], ci_workflow_name = name,
           ci_conclusion = conclusion, ci_run_url = run_url, ci_failed_jobs = failed_jobs,
           ci_logs_url = logs_url, ci_run_id = run_id\<rparr>)))))))))))"

section \<open>Reviews\<close>

text \<open>\<open>v.lower()\<close>\<close>

fun lower_value :: "json \<Rightarrow> json res" where
  "lower_value (JStr s) = Inr (JStr (lower s))"
| "lower_value v =
     Inl (Exn AttributeError (repr_str (type_name v) @ '' object has no attribute '' @ repr_str ''lower''))"

definition parse_github_pr_review_event ::
  "json dict \<Rightarrow> string \<Rightarrow> string \<Rightarrow> datetime \<Rightarrow> json event option res" where
  "parse_github_pr_review_event payload correlation_id event_id now =
     (let review = dget payload ''review'' (JObj []); pr = dget payload ''pull_request'' (JObj []);
          repo = dget payload ''repository'' (JObj []) in
      bindR (get_text review ''state'') (\<lambda>state_raw.
      if \<not> truthy state_raw then Inr None
      else
        bindR (get_text repo ''full_name'') (\<lambda>full_name.
        bindR (get_int pr ''number'') (\<lambda>number.
        bindR (lower_value state_raw) (\<lambda>state.
        bindR (get_text review ''body'') (\<lambda>body.
        Inr (Some (PRReviewed
          \<lparr>pv_meta = github_meta PR_REVIEWED correlation_id event_id now, pv_repo_full_name = full_name,
           pv_pr_number = number, pv_reviewer = text_at review [''user'', ''login''], pv_state = state,
           pv_body = por body (JStr [])\<rparr>))))))))"

section \<open>Comments\<close>

text \<open>The pull request a comment belongs to: none for a comment on a plain issue.\<close>

definition comment_pr_number :: "json dict \<Rightarrow> int option res" where
  "comment_pr_number payload =
     (case map_of payload ''pull_request'' of
        Some pr \<Rightarrow> bindR (get_int pr ''number'') (\<lambda>n. Inr (Some n))
      | None \<Rightarrow>
          (case map_of payload ''issue'' of
             Some issue \<Rightarrow>
               bindR (vget issue ''pull_request'' JNull) (\<lambda>pr.
                 if \<not> truthy pr then Inr None
                 else bindR (get_int issue ''number'') (\<lambda>n. Inr (Some n)))
           | None \<Rightarrow> Inr None))"

text \<open>\<open>k in v\<close>\<close>

fun in_value :: "string \<Rightarrow> json \<Rightarrow> bool res" where
  "in_value k (JObj d) = Inr (map_of d k \<noteq> None)"
| "in_value k (JList l) = Inr (JStr k \<in> set l)"
| "in_value k (JStr s) = Inr (contains k s)"
| "in_value k v = Inl (Exn TypeError (''argument of type '' @ repr_str (type_name v) @ '' is not iterable''))"

definition parse_github_comment_event ::
  "json dict \<Rightarrow> string \<Rightarrow> string \<Rightarrow> datetime \<Rightarrow> json event option res" where
  "parse_github_comment_event payload correlation_id event_id now =
     (let comment = dget payload ''comment'' (JObj []); repo = dget payload ''repository'' (JObj []) in
      bindR (comment_pr_number payload) (\<lambda>found.
      case found of
        None \<Rightarrow> Inr None
      | Some pr_number \<Rightarrow>
          if \<not> truthy comment then Inr None
          else
            bindR (in_value ''pull_request_review_id'' comment) (\<lambda>is_review_comment.
            bindR (bindR (vget comment ''line'' JNull) optional_id) (\<lambda>line.
            bindR (get_text repo ''full_name'') (\<lambda>full_name.
            bindR (get_int comment ''id'') (\<lambda>comment_id.
            bindR (get_text comment ''body'') (\<lambda>body.
            bindR (get_text comment ''path'') (\<lambda>path.
            Inr (Some (PRCommented
              \<lparr>pc_meta = github_meta PR_COMMENTED correlation_id event_id now, pc_repo_full_name = full_name,
               pc_pr_number = pr_number, pc_comment_id = comment_id,
               pc_author = text_at comment [''user'', ''login''], pc_body = por body (JStr []),
               pc_is_review_comment = is_review_comment, pc_path = por path (JStr []), pc_line = line\<rparr>))))))))))"

end
