(* ===== verification/Hmac.thy ===== *)
theory Hmac
  imports Prelude "HOL-Library.Word"
begin

text \<open>
  What the webhook check uses of the standard library: \<open>hmac.new(key, message, hashlib.sha256).hexdigest()\<close>
  on byte strings, that is SHA-256 (FIPS 180-4) on 32-bit words and HMAC (RFC 2104) over it, with the
  digest in lower-case hexadecimal digits.
\<close>

unbundle bit_operations_syntax

type_synonym u32 = "32 word"

section \<open>SHA-256\<close>

text \<open>
  The constants are the first 32 bits of the fractional parts of roots of primes: cube roots for the
  rounds, square roots for the start. \<open>int_root k b n r\<close> finds the integer \<open>k\<close>-th root of \<open>n\<close> bit by
  bit, from bit \<open>b - 1\<close> down, above \<open>r\<close>.
\<close>

fun int_root :: "nat \<Rightarrow> nat \<Rightarrow> nat \<Rightarrow> nat \<Rightarrow> nat" where
  "int_root k 0 n r = r"
| "int_root k (Suc b) n r = int_root k b n (if (r + 2 ^ b) ^ k \<le> n then r + 2 ^ b else r)"

definition root_fraction :: "nat \<Rightarrow> nat \<Rightarrow> u32" where
  "root_fraction k p = word_of_nat (int_root k 37 (p * 2 ^ (32 * k)) 0)"

fun primes_from :: "nat \<Rightarrow> nat list \<Rightarrow> nat \<Rightarrow> nat list" where
  "primes_from 0 found n = found"
| "primes_from (Suc fuel) found n =
     primes_from fuel (if list_all (\<lambda>p. n mod p \<noteq> 0) found then found @ [n] else found) (n + 1)"

text \<open>The primes below 312: there are 64 of them.\<close>

definition sha_primes :: "nat list" where
  "sha_primes = primes_from 310 [] 2"

definition sha_constants :: "u32 list" where
  "sha_constants = map (root_fraction 3) sha_primes"

datatype sha_state = Sha u32 u32 u32 u32 u32 u32 u32 u32

definition sha_state_of :: "u32 list \<Rightarrow> sha_state" where
  "sha_state_of ws = Sha (ws ! 0) (ws ! 1) (ws ! 2) (ws ! 3) (ws ! 4) (ws ! 5) (ws ! 6) (ws ! 7)"

definition sha_start :: sha_state where
  "sha_start = sha_state_of (map (root_fraction 2) sha_primes)"

definition rotr :: "nat \<Rightarrow> u32 \<Rightarrow> u32" where
  "rotr n x = drop_bit n x OR push_bit (32 - n) x"

definition small_sigma0 :: "u32 \<Rightarrow> u32" where
  "small_sigma0 x = rotr 7 x XOR rotr 18 x XOR drop_bit 3 x"

definition small_sigma1 :: "u32 \<Rightarrow> u32" where
  "small_sigma1 x = rotr 17 x XOR rotr 19 x XOR drop_bit 10 x"

definition big_sigma0 :: "u32 \<Rightarrow> u32" where
  "big_sigma0 x = rotr 2 x XOR rotr 13 x XOR rotr 22 x"

definition big_sigma1 :: "u32 \<Rightarrow> u32" where
  "big_sigma1 x = rotr 6 x XOR rotr 11 x XOR rotr 25 x"

text \<open>The message schedule, the latest word first.\<close>

fun extend_schedule :: "nat \<Rightarrow> u32 list \<Rightarrow> u32 list" where
  "extend_schedule 0 ws = ws"
| "extend_schedule (Suc n) ws =
     extend_schedule n ((small_sigma1 (ws ! 1) + ws ! 6 + small_sigma0 (ws ! 14) + ws ! 15) # ws)"

definition schedule :: "u32 list \<Rightarrow> u32 list" where
  "schedule block = rev (extend_schedule 48 (rev block))"

fun sha_round :: "sha_state \<Rightarrow> u32 \<times> u32 \<Rightarrow> sha_state" where
  "sha_round (Sha a b c d e f g h) (k, w) =
     (let t1 = h + big_sigma1 e + ((e AND f) XOR (NOT e AND g)) + k + w;
          t2 = big_sigma0 a + ((a AND b) XOR (a AND c) XOR (b AND c))
      in Sha (t1 + t2) a b c (d + t1) e f g)"

fun sha_add :: "sha_state \<Rightarrow> sha_state \<Rightarrow> sha_state" where
  "sha_add (Sha a b c d e f g h) (Sha a' b' c' d' e' f' g' h') =
     Sha (a + a') (b + b') (c + c') (d + d') (e + e') (f + f') (g + g') (h + h')"

definition sha_compress :: "sha_state \<Rightarrow> u32 list \<Rightarrow> sha_state" where
  "sha_compress st block = sha_add st (foldl sha_round st (zip sha_constants (schedule block)))"

fun sha_words :: "sha_state \<Rightarrow> u32 list" where
  "sha_words (Sha a b c d e f g h) = [a, b, c, d, e, f, g, h]"

text \<open>Bytes: the \<open>k\<close> bytes of a number, the most significant first, and the words of a text.\<close>

fun be_bytes :: "nat \<Rightarrow> nat \<Rightarrow> string" where
  "be_bytes 0 n = []"
| "be_bytes (Suc k) n = be_bytes k (n div 256) @ [char_of (n mod 256)]"

fun words_of_bytes :: "string \<Rightarrow> u32 list" where
  "words_of_bytes (a # b # c # d # s) =
     word_of_nat (((of_char a * 256 + of_char b) * 256 + of_char c) * 256 + of_char d) # words_of_bytes s"
| "words_of_bytes _ = []"

text \<open>One bit, zeros to 56 modulo 64 bytes, the length in bits.\<close>

definition sha_pad :: "string \<Rightarrow> string" where
  "sha_pad m =
     m @ [char_of (128 :: nat)] @ replicate ((119 - length m mod 64) mod 64) (char_of (0 :: nat)) @
     be_bytes 8 (8 * length m)"

fun sha_blocks :: "nat \<Rightarrow> sha_state \<Rightarrow> u32 list \<Rightarrow> sha_state" where
  "sha_blocks 0 st ws = st"
| "sha_blocks (Suc n) st ws = sha_blocks n (sha_compress st (take 16 ws)) (drop 16 ws)"

definition sha256 :: "string \<Rightarrow> string" where
  "sha256 m =
     (let p = sha_pad m
      in concat (map (\<lambda>w. be_bytes 4 (unat w))
           (sha_words (sha_blocks (length p div 64) sha_start (words_of_bytes p)))))"

section \<open>HMAC\<close>

definition xor_byte :: "nat \<Rightarrow> char \<Rightarrow> char" where
  "xor_byte n c = char_of (n XOR of_char c)"

definition hmac_sha256 :: "string \<Rightarrow> string \<Rightarrow> string" where
  "hmac_sha256 key m =
     (let k0 = (if length key > 64 then sha256 key else key);
          k = k0 @ replicate (64 - length k0) (char_of (0 :: nat))
      in sha256 (map (xor_byte 92) k @ sha256 (map (xor_byte 54) k @ m)))"

definition hexlify :: "string \<Rightarrow> string" where
  "hexlify s = concat (map (\<lambda>c. [hex_digit (of_char c div 16), hex_digit (of_char c mod 16)]) s)"

definition hmac_hexdigest :: "string \<Rightarrow> string \<Rightarrow> string" where
  "hmac_hexdigest key m = hexlify (hmac_sha256 key m)"

text \<open>A digest is 32 bytes, so that its text has 64 hexadecimal digits.\<close>

lemma length_be_bytes [simp]: "length (be_bytes k n) = k"
  by (induction k arbitrary: n) auto

lemma length_sha256 [simp]: "length (sha256 m) = 32"
proof -
  have "length (concat (map (\<lambda>w. be_bytes 4 (unat w)) (sha_words st))) = 32" for st
    by (cases st) simp
  then show ?thesis unfolding sha256_def Let_def .
qed

lemma length_hexlify [simp]: "length (hexlify s) = 2 * length s"
  by (induction s) (simp_all add: hexlify_def)

lemma length_hmac_hexdigest [simp]: "length (hmac_hexdigest key m) = 64"
  by (simp add: hmac_hexdigest_def hmac_sha256_def Let_def)

end
