(* ===== verification/Json.thy ===== *)
theory Json
  imports Pyvalues
begin

text \<open>
  \<open>json.dumps(v, ensure_ascii=False, separators=(",", ":"))\<close> and \<open>json.loads(s)\<close> of the
  standard library, over UTF-8 bytes. Every rejected text raises a \<open>JSONDecodeError\<close> with one and
  the same message. The parser takes fuel: one unit per value, array element or object member, at
  most two for each character, so \<open>loads\<close> gives it twice the length of the text plus one, and
  more fuel changes nothing (\<open>parse_fuel\<close>). The limits of the interpreter (recursion depth, digits of
  an integer) are not modelled.
\<close>

section \<open>Printing\<close>

definition escape_char :: "char \<Rightarrow> string" where
  "escape_char c =
     (let n = (of_char c :: nat) in
      if n = 34 \<or> n = 92 then [CHR 0x5C, c]
      else if n = 8 then [CHR 0x5C, CHR ''b'']
      else if n = 12 then [CHR 0x5C, CHR ''f'']
      else if n = 10 then [CHR 0x5C, CHR ''n'']
      else if n = 13 then [CHR 0x5C, CHR ''r'']
      else if n = 9 then [CHR 0x5C, CHR ''t'']
      else if n < 32 then CHR 0x5C # ''u00'' @ [hex_digit (n div 16), hex_digit (n mod 16)]
      else [c])"

definition escape :: "string \<Rightarrow> string" where
  "escape s = concat (map escape_char s)"

definition dumps_str :: "string \<Rightarrow> string" where
  "dumps_str s = CHR 0x22 # escape s @ [CHR 0x22]"

fun dumps :: "json \<Rightarrow> string" where
  "dumps JNull = ''null''"
| "dumps (JBool b) = (if b then ''true'' else ''false'')"
| "dumps (JInt i) = show_int i"
| "dumps (JFloat f) = f"
| "dumps (JStr s) = dumps_str s"
| "dumps (JList l) = CHR ''['' # join '','' (map dumps l) @ '']''"
| "dumps (JObj d) =
     CHR 0x7B # join '','' (map (\<lambda>(k, v). dumps_str k @ CHR '':'' # dumps v) d) @ [CHR 0x7D]"

text \<open>
  The writers of the program differ in how they write a text and in what stands behind commas and
  colons; \<open>dumps\<close> is the one that writes texts by \<open>dumps_str\<close> and nothing there.
\<close>

fun dumps_with :: "(string \<Rightarrow> string) \<Rightarrow> string \<Rightarrow> json \<Rightarrow> string" where
  "dumps_with lit gap JNull = ''null''"
| "dumps_with lit gap (JBool b) = (if b then ''true'' else ''false'')"
| "dumps_with lit gap (JInt i) = show_int i"
| "dumps_with lit gap (JFloat f) = f"
| "dumps_with lit gap (JStr s) = lit s"
| "dumps_with lit gap (JList l) = CHR ''['' # join (CHR '','' # gap) (map (dumps_with lit gap) l) @ '']''"
| "dumps_with lit gap (JObj d) =
     CHR 0x7B # join (CHR '','' # gap) (map (\<lambda>(k, v). lit k @ CHR '':'' # gap @ dumps_with lit gap v) d) @ [CHR 0x7D]"

lemma dumps_eq: "dumps v = dumps_with dumps_str [] v"
proof (induction v)
  case (JList l)
  then have eq: "map dumps l = map (dumps_with dumps_str []) l" by simp
  show ?case unfolding dumps.simps dumps_with.simps eq ..
next
  case (JObj d)
  then have eq: "map (\<lambda>(k, v). dumps_str k @ CHR '':'' # dumps v) d =
      map (\<lambda>(k, v). dumps_str k @ CHR '':'' # [] @ dumps_with dumps_str [] v) d" by auto
  show ?case unfolding dumps.simps dumps_with.simps eq ..
qed simp_all

section \<open>Parsing\<close>

definition json_space :: "char \<Rightarrow> bool" where
  "json_space c \<longleftrightarrow> c \<in> {CHR '' '', CHR 0x09, CHR 0x0A, CHR 0x0D}"

abbreviation skip_ws :: "string \<Rightarrow> string" where
  "skip_ws \<equiv> dropWhile json_space"

definition hex_val :: "char \<Rightarrow> nat option" where
  "hex_val c =
     (let n = (of_char c :: nat) in
      if 48 \<le> n \<and> n \<le> 57 then Some (n - 48)
      else if 97 \<le> n \<and> n \<le> 102 then Some (n - 87)
      else if 65 \<le> n \<and> n \<le> 70 then Some (n - 55)
      else None)"

fun hex4 :: "string \<Rightarrow> (nat \<times> string) option" where
  "hex4 (a # b # c # d # s) =
     (case (hex_val a, hex_val b, hex_val c, hex_val d) of
        (Some p, Some q, Some u, Some v) \<Rightarrow> Some (((p * 16 + q) * 16 + u) * 16 + v, s)
      | _ \<Rightarrow> None)"
| "hex4 _ = None"

text \<open>UTF-8 encoding of a code point (a lone surrogate is written the same way)\<close>

definition utf8 :: "nat \<Rightarrow> string" where
  "utf8 n =
     (if n < 128 then [char_of n]
      else if n < 2048 then [char_of (192 + n div 64), char_of (128 + n mod 64)]
      else if n < 65536 then [char_of (224 + n div 4096), char_of (128 + n div 64 mod 64), char_of (128 + n mod 64)]
      else [char_of (240 + n div 262144), char_of (128 + n div 4096 mod 64),
            char_of (128 + n div 64 mod 64), char_of (128 + n mod 64)])"

definition unescape_char :: "char \<Rightarrow> char option" where
  "unescape_char c =
     map_of [(CHR 0x22, CHR 0x22), (CHR 0x5C, CHR 0x5C), (CHR ''/'', CHR ''/''), (CHR ''b'', CHR 0x08),
             (CHR ''f'', CHR 0x0C), (CHR ''n'', CHR 0x0A), (CHR ''r'', CHR 0x0D), (CHR ''t'', CHR 0x09)] c"

text \<open>A \<open>\u\<close> escape, its four digits and, for a surrogate pair, the second escape: the code point and the rest.\<close>

definition unicode_escape :: "string \<Rightarrow> (nat \<times> string) option" where
  "unicode_escape s =
     (case hex4 s of
        None \<Rightarrow> None
      | Some (n, r) \<Rightarrow>
          if 55296 \<le> n \<and> n \<le> 56319 \<and> starts_with [CHR 0x5C, CHR ''u''] r then
            (case hex4 (drop 2 r) of
               None \<Rightarrow> None
             | Some (m, r') \<Rightarrow>
                 if 56320 \<le> m \<and> m \<le> 57343
                 then Some (65536 + (n - 55296) * 1024 + (m - 56320), r') else Some (n, r))
          else Some (n, r))"

lemma hex4_shorter: "hex4 s = Some (n, r) \<Longrightarrow> length r < length s"
  by (induction s rule: hex4.induct) (auto split: option.splits)

lemma unicode_escape_shorter: "unicode_escape s = Some (n, r) \<Longrightarrow> length r < length s"
  by (auto simp: unicode_escape_def split: option.splits prod.splits if_splits dest!: hex4_shorter)

text \<open>The rest of a string literal after its opening quote: the string and what follows.\<close>

function scan_string :: "string \<Rightarrow> (string \<times> string) option" where
  "scan_string [] = None"
| "scan_string (c # s) =
     (if c = CHR 0x22 then Some ([], s)
      else if c = CHR 0x5C then
        (case s of
           [] \<Rightarrow> None
         | e # s' \<Rightarrow>
             if e = CHR ''u'' then
               (case unicode_escape s' of
                  None \<Rightarrow> None
                | Some (n, r) \<Rightarrow> map_option (\<lambda>(t, q). (utf8 n @ t, q)) (scan_string r))
             else
               (case unescape_char e of
                  None \<Rightarrow> None
                | Some ch \<Rightarrow> map_option (\<lambda>(t, q). (ch # t, q)) (scan_string s')))
      else if (of_char c :: nat) < 32 then None
      else map_option (\<lambda>(t, q). (c # t, q)) (scan_string s))"
  by pat_completeness auto
termination
  by (relation "measure length") (auto dest: unicode_escape_shorter)

text \<open>A number: \<open>-?(0|[1-9][0-9]*)\<close>, then optionally a fraction and an exponent.\<close>

definition scan_int :: "string \<Rightarrow> (string \<times> string) option" where
  "scan_int s =
     (let sign = (if s \<noteq> [] \<and> hd s = CHR ''-'' then ''-'' else []);
          u = (if sign = [] then s else tl s)
      in if u = [] then None
         else if hd u = CHR ''0'' then Some (sign @ ''0'', tl u)
         else if is_digit (hd u) then Some (sign @ takeWhile is_digit u, dropWhile is_digit u)
         else None)"

definition scan_frac :: "string \<Rightarrow> string \<times> string" where
  "scan_frac s =
     (if s \<noteq> [] \<and> hd s = CHR ''.'' \<and> tl s \<noteq> [] \<and> is_digit (hd (tl s))
      then (CHR ''.'' # takeWhile is_digit (tl s), dropWhile is_digit (tl s)) else ([], s))"

definition scan_exp :: "string \<Rightarrow> string \<times> string" where
  "scan_exp s =
     (if s \<noteq> [] \<and> (hd s = CHR ''e'' \<or> hd s = CHR ''E'') then
        (let sg = (if tl s \<noteq> [] \<and> (hd (tl s) = CHR ''+'' \<or> hd (tl s) = CHR ''-'') then [hd (tl s)] else []);
             u = (if sg = [] then tl s else tl (tl s))
         in if u \<noteq> [] \<and> is_digit (hd u)
            then (hd s # sg @ takeWhile is_digit u, dropWhile is_digit u) else ([], s))
      else ([], s))"

definition int_literal :: "string \<Rightarrow> int" where
  "int_literal s = (case parse_int s of Some i \<Rightarrow> i | None \<Rightarrow> 0)"

definition scan_number :: "string \<Rightarrow> (json \<times> string) option" where
  "scan_number s =
     (case scan_int s of
        None \<Rightarrow> None
      | Some (ip, r) \<Rightarrow>
          (let (fp, r1) = scan_frac r; (ep, r2) = scan_exp r1
           in if fp = [] \<and> ep = [] then Some (JInt (int_literal ip), r)
              else Some (JFloat (ip @ fp @ ep), r2)))"

definition literals :: "(string \<times> json) list" where
  "literals =
     [(''null'', JNull), (''true'', JBool True), (''false'', JBool False), (''NaN'', JFloat ''nan''),
      (''Infinity'', JFloat ''inf''), (''-Infinity'', JFloat ''-inf'')]"

definition scan_literal :: "string \<Rightarrow> (json \<times> string) option" where
  "scan_literal s =
     (case find (\<lambda>(t, v). starts_with t s) literals of
        Some (t, v) \<Rightarrow> Some (v, drop (length t) s) | None \<Rightarrow> None)"

definition scan_scalar :: "string \<Rightarrow> (json \<times> string) option" where
  "scan_scalar s = (case scan_literal s of Some r \<Rightarrow> Some r | None \<Rightarrow> scan_number s)"

text \<open>Values, the elements after a bracket, and the members after a brace.\<close>

fun parse_value :: "nat \<Rightarrow> string \<Rightarrow> (json \<times> string) option"
  and parse_items :: "nat \<Rightarrow> string \<Rightarrow> (json list \<times> string) option"
  and parse_members :: "nat \<Rightarrow> json dict \<Rightarrow> string \<Rightarrow> (json dict \<times> string) option" where
  "parse_value 0 s = None"
| "parse_value (Suc n) s =
     (case s of
        [] \<Rightarrow> None
      | c # r \<Rightarrow>
          if c = CHR 0x22 then map_option (\<lambda>(t, q). (JStr t, q)) (scan_string r)
          else if c = CHR ''['' then
            (let u = skip_ws r
             in if u \<noteq> [] \<and> hd u = CHR '']'' then Some (JList [], tl u)
                else map_option (\<lambda>(l, q). (JList l, q)) (parse_items n u))
          else if c = CHR 0x7B then
            (let u = skip_ws r
             in if u \<noteq> [] \<and> hd u = CHR 0x7D then Some (JObj [], tl u)
                else map_option (\<lambda>(d, q). (JObj d, q)) (parse_members n [] u))
          else scan_scalar s)"
| "parse_items 0 s = None"
| "parse_items (Suc n) s =
     (case parse_value n s of
        None \<Rightarrow> None
      | Some (v, r) \<Rightarrow>
          (case skip_ws r of
             [] \<Rightarrow> None
           | c # q \<Rightarrow>
               if c = CHR '']'' then Some ([v], q)
               else if c = CHR '','' then map_option (\<lambda>(l, p). (v # l, p)) (parse_items n (skip_ws q))
               else None))"
| "parse_members 0 d s = None"
| "parse_members (Suc n) d s =
     (if s = [] \<or> hd s \<noteq> CHR 0x22 then None
      else
        (case scan_string (tl s) of
           None \<Rightarrow> None
         | Some (k, r) \<Rightarrow>
             (case skip_ws r of
                [] \<Rightarrow> None
              | c # q \<Rightarrow>
                  if c \<noteq> CHR '':'' then None
                  else
                    (case parse_value n (skip_ws q) of
                       None \<Rightarrow> None
                     | Some (v, q1) \<Rightarrow>
                         (case skip_ws q1 of
                            [] \<Rightarrow> None
                          | e # q2 \<Rightarrow>
                              if e = CHR 0x7D then Some (AList.update k v d, q2)
                              else if e = CHR '','' then parse_members n (AList.update k v d) (skip_ws q2)
                              else None)))))"

definition json_error :: exn where
  "json_error = Exn JSONDecodeError ''Expecting value''"

definition loads :: "string \<Rightarrow> json res" where
  "loads s =
     (case parse_value (Suc (2 * length s)) (skip_ws s) of
        Some (v, r) \<Rightarrow> if skip_ws r = [] then Inr v else Inl json_error
      | None \<Rightarrow> Inl json_error)"

section \<open>Enough fuel\<close>

lemma length_skip_ws: "length (skip_ws s) \<le> length s"
  by (simp add: length_dropWhile_le)

lemma less_by_le: "a < b \<Longrightarrow> b \<le> c \<Longrightarrow> a < Suc (c :: nat)"
  by simp

lemma scan_string_shorter: "scan_string s = Some (t, r) \<Longrightarrow> length r < length s"
proof (induction s arbitrary: t r rule: scan_string.induct)
  case (2 c s)
  consider (quote) "c = CHR 0x22" | (escape) "c = CHR 0x5C" | (plain) "c \<noteq> CHR 0x22" "c \<noteq> CHR 0x5C" by blast
  then show ?case
  proof cases
    case quote
    with 2(4) show ?thesis by simp
  next
    case plain
    with 2(4) obtain t' where "\<not> (of_char c :: nat) < 32" "scan_string s = Some (t', r)"
      by (auto split: if_splits)
    from 2(3) [OF plain this] show ?thesis by simp
  next
    case escape
    with 2(4) obtain e s' where s: "s = e # s'" by (auto split: list.splits)
    show ?thesis
    proof (cases "e = CHR ''u''")
      case True
      with escape s 2(4) obtain n q t' where u: "unicode_escape s' = Some (n, q)" "scan_string q = Some (t', r)"
        by (auto split: option.splits)
      have "c \<noteq> CHR 0x22" using escape by simp
      from 2(1) [OF this escape s True u(1) refl u(2)] unicode_escape_shorter [OF u(1)] show ?thesis
        by (simp add: s)
    next
      case False
      with escape s 2(4) obtain ch t' where u: "unescape_char e = Some ch" "scan_string s' = Some (t', r)"
        by (auto split: option.splits)
      have "c \<noteq> CHR 0x22" using escape by simp
      from 2(2) [OF this escape s False u] show ?thesis by (simp add: s)
    qed
  qed
qed simp

lemma dropWhile_less: "length (dropWhile p s) < Suc (length s)"
  by (simp add: le_imp_less_Suc length_dropWhile_le)

lemma scan_int_shorter: "scan_int s = Some (t, r) \<Longrightarrow> length r < length s"
  using dropWhile_less [of is_digit s] dropWhile_less [of is_digit "tl s"] dropWhile_less [of is_digit "tl (tl s)"]
  by (cases s; cases "tl s") (auto simp: scan_int_def Let_def split: if_splits)

lemma scan_frac_le: "scan_frac s = (t, r) \<Longrightarrow> length r \<le> length s"
  using length_dropWhile_le [of is_digit "tl s"]
  by (cases s) (auto simp: scan_frac_def split: if_splits)

lemma scan_exp_le: "scan_exp s = (t, r) \<Longrightarrow> length r \<le> length s"
  using length_dropWhile_le [of is_digit "tl s"] length_dropWhile_le [of is_digit "tl (tl s)"]
  by (cases s; cases "tl s") (auto simp: scan_exp_def Let_def split: if_splits)

lemma scan_scalar_shorter: "scan_scalar s = Some (v, r) \<Longrightarrow> length r < length s"
proof -
  assume s: "scan_scalar s = Some (v, r)"
  show "length r < length s"
  proof (cases "scan_literal s")
    case None
    with s have "scan_number s = Some (v, r)" by (simp add: scan_scalar_def)
    then show ?thesis
      by (auto simp: scan_number_def Let_def split: option.splits prod.splits if_splits
          dest!: scan_int_shorter scan_frac_le scan_exp_le)
  next
    case (Some a)
    then obtain t w where f: "find (\<lambda>(t, v). starts_with t s) literals = Some (t, w)"
      and a: "a = (w, drop (length t) s)"
      by (auto simp: scan_literal_def split: option.splits prod.splits)
    from find_SomeD [OF f] have m: "(t, w) \<in> set literals" and "starts_with t s" by auto
    then have "length t \<le> length s" by (auto dest: starts_withD)
    moreover have "0 < length t" using m by (auto simp: literals_def)
    ultimately have "length (drop (length t) s) < length s" by (simp only: length_drop)
    then show ?thesis using s Some a by (auto simp: scan_scalar_def)
  qed
qed

lemma parse_shorter:
  "parse_value n s = Some (v, r) \<Longrightarrow> length r < length s"
  "parse_items n s = Some (l, r) \<Longrightarrow> length r < length s"
  "parse_members n d s = Some (d', r) \<Longrightarrow> length r < length s"
proof (induction n s and n s and n d s arbitrary: v r and l r and d' r
    rule: parse_value_parse_items_parse_members.induct)
  case (2 n s)
  from 2(3) obtain c q where s: "s = c # q" by (auto split: list.splits)
  have ws: "length (skip_ws q) \<le> length q" by (rule length_skip_ws)
  consider "c = CHR 0x22" | "c = CHR ''[''" | "c = CHR 0x7B"
    | "c \<noteq> CHR 0x22" "c \<noteq> CHR ''[''" "c \<noteq> CHR 0x7B" by blast
  then show ?case
  proof cases
    case 1
    with 2(3) s show ?thesis by (auto dest: scan_string_shorter)
  next
    case b: 2
    show ?thesis
    proof (cases "skip_ws q \<noteq> [] \<and> hd (skip_ws q) = CHR '']''")
      case True
      with 2(3) s b ws show ?thesis by auto
    next
      case False
      with 2(3) s b obtain l where "parse_items n (skip_ws q) = Some (l, r)" by (auto simp: Let_def)
      from 2(1) [OF s _ b refl False this] b ws s show ?thesis by auto
    qed
  next
    case b: 3
    show ?thesis
    proof (cases "skip_ws q \<noteq> [] \<and> hd (skip_ws q) = CHR 0x7D")
      case True
      with 2(3) s b ws show ?thesis by auto
    next
      case False
      with 2(3) s b obtain l where "parse_members n [] (skip_ws q) = Some (l, r)" by (auto simp: Let_def)
      from 2(2) [OF s _ _ b refl False this] b ws s show ?thesis by auto
    qed
  next
    case 4
    with 2(3) s show ?thesis by (auto dest: scan_scalar_shorter)
  qed
next
  case (4 n s)
  from 4(3) obtain v q where v: "parse_value n s = Some (v, q)" by (auto split: option.splits)
  with 4(3) obtain c p where c: "skip_ws q = c # p" by (auto split: list.splits)
  have l: "length (skip_ws q) \<le> length q" "length (skip_ws p) \<le> length p" by (rule length_skip_ws)+
  have q: "length q < length s" using 4(1) [OF v] .
  show ?case
  proof (cases "c = CHR '']''")
    case True
    with 4(3) v c l q show ?thesis by auto
  next
    case False
    with 4(3) v c obtain m where "c = CHR '',''" "parse_items n (skip_ws p) = Some (m, r)"
      by (auto split: if_splits)
    from 4(2) [OF v refl c False this] l q c show ?thesis by simp
  qed
next
  case (6 n d s)
  from 6(3) have ne: "\<not> (s = [] \<or> hd s \<noteq> CHR 0x22)" by (auto split: if_splits)
  with 6(3) obtain k q where k: "scan_string (tl s) = Some (k, q)" by (auto split: option.splits)
  with ne 6(3) obtain c p where c: "skip_ws q = c # p" by (auto split: list.splits)
  with ne k 6(3) have colon: "\<not> c \<noteq> CHR '':''" by (auto split: if_splits)
  with ne k c 6(3) obtain v q1 where v: "parse_value n (skip_ws p) = Some (v, q1)"
    by (auto split: option.splits)
  with ne k c colon 6(3) obtain e q2 where e: "skip_ws q1 = e # q2" by (auto split: list.splits)
  have l: "length (skip_ws q) \<le> length q" "length (skip_ws p) \<le> length p"
    "length (skip_ws q1) \<le> length q1" "length (skip_ws q2) \<le> length q2" by (rule length_skip_ws)+
  have q: "length q < length (tl s)" using scan_string_shorter [OF k] .
  have q1: "length q1 < length (skip_ws p)" using 6(1) [OF ne k refl c colon v] .
  show ?case
  proof (cases "e = CHR 0x7D")
    case True
    with ne k c colon v e 6(3) have "r = q2" by simp
    with l q q1 c e show ?thesis by simp
  next
    case False
    with ne k c colon v e 6(3) have "e = CHR '',''" "parse_members n (AList.update k v d) (skip_ws q2) = Some (d', r)"
      by (auto split: if_splits)
    from 6(2) [OF ne k refl c colon v refl e False this] l q q1 c e show ?thesis by simp
  qed
qed simp_all

lemma parse_fuel:
  "2 * length s < n \<Longrightarrow> parse_value (Suc n) s = parse_value n s"
  "2 * length s + 1 < n \<Longrightarrow> parse_items (Suc n) s = parse_items n s"
  "2 * length s + 1 < n \<Longrightarrow> parse_members (Suc n) d s = parse_members n d s"
proof (induction n s and n s and n d s rule: parse_value_parse_items_parse_members.induct)
  case (2 n s)
  show ?case
  proof (cases s)
    case (Cons c q)
    have "length (skip_ws q) \<le> length q" by (rule length_skip_ws)
    then have le: "2 * length (skip_ws q) + 1 < n" using 2(3) Cons by simp
    have "parse_items (Suc n) (skip_ws q) = parse_items n (skip_ws q)"
      if "c = CHR ''[''" "\<not> (skip_ws q \<noteq> [] \<and> hd (skip_ws q) = CHR '']'')"
      using 2(1) [OF Cons _ that(1) refl that(2) le] that(1) by simp
    moreover have "parse_members (Suc n) [] (skip_ws q) = parse_members n [] (skip_ws q)"
      if "c = CHR 0x7B" "\<not> (skip_ws q \<noteq> [] \<and> hd (skip_ws q) = CHR 0x7D)"
      using 2(2) [OF Cons _ _ that(1) refl that(2) le] that(1) by simp
    ultimately show ?thesis
      by (simp add: Cons Let_def del: parse_items.simps parse_members.simps)
  qed simp
next
  case (4 n s)
  have v: "parse_value (Suc n) s = parse_value n s" using 4(1) 4(3) by simp
  show ?case
  proof (cases "parse_value n s")
    case (Some a)
    obtain x r where a: "a = (x, r)" by fastforce
    show ?thesis
    proof (cases "skip_ws r")
      case (Cons c q)
      have "length r < length s" using parse_shorter(1) Some a by blast
      moreover have "length (skip_ws r) \<le> length r" "length (skip_ws q) \<le> length q"
        by (rule length_skip_ws)+
      ultimately have "2 * length (skip_ws q) + 1 < n" using 4(3) Cons by simp
      then have "parse_items (Suc n) (skip_ws q) = parse_items n (skip_ws q)" if "c = CHR '',''"
        using 4(2) [OF Some [unfolded a] refl Cons _ that] that by simp
      with v Some a Cons show ?thesis by (simp del: parse_value.simps)
    qed (use v Some a in \<open>simp del: parse_value.simps dropWhile_eq_Nil_conv\<close>)
  qed (use v in \<open>simp del: parse_value.simps dropWhile_eq_Nil_conv\<close>)
next
  case (6 n d s)
  show ?case
  proof (cases "s = [] \<or> hd s \<noteq> CHR 0x22 \<or> scan_string (tl s) = None")
    case False
    then obtain k r where ne: "\<not> (s = [] \<or> hd s \<noteq> CHR 0x22)" and k: "scan_string (tl s) = Some (k, r)"
      by auto
    show ?thesis
    proof (cases "\<exists>q. skip_ws r = CHR '':'' # q")
      case True
      then obtain q where c: "skip_ws r = CHR '':'' # q" ..
      have l: "length (skip_ws r) \<le> length r" "length (skip_ws q) \<le> length q" by (rule length_skip_ws)+
      have lq: "2 * length (skip_ws q) < n"
        using scan_string_shorter [OF k] l c 6(3) ne by (cases s) auto
      have v: "parse_value (Suc n) (skip_ws q) = parse_value n (skip_ws q)"
        using 6(1) [OF ne k refl c _ lq] by simp
      show ?thesis
      proof (cases "parse_value n (skip_ws q)")
        case (Some a)
        obtain x q1 where a: "a = (x, q1)" by fastforce
        have q1: "length q1 < length (skip_ws q)" using parse_shorter(1) Some a by blast
        show ?thesis
        proof (cases "skip_ws q1")
          case (Cons e q2)
          have "length (skip_ws q1) \<le> length q1" "length (skip_ws q2) \<le> length q2" by (rule length_skip_ws)+
          then have "2 * length (skip_ws q2) + 1 < n" using q1 lq Cons by simp
          then have "parse_members (Suc n) d' (skip_ws q2) = parse_members n d' (skip_ws q2)"
            if "e = CHR '',''" "d' = AList.update k x d" for d'
            using 6(2) [OF ne k refl c _ Some [unfolded a] refl Cons _ that(1)] that by simp
          with v Some a Cons k c ne show ?thesis by (simp del: parse_value.simps)
        qed (use v Some a k c ne in \<open>simp del: parse_value.simps dropWhile_eq_Nil_conv\<close>)
      qed (use v k c ne in \<open>simp del: parse_value.simps dropWhile_eq_Nil_conv\<close>)
    next
      case False
      with ne k show ?thesis by (cases "skip_ws r") (auto simp del: dropWhile_eq_Nil_conv)
    qed
  qed auto
qed simp_all

section \<open>Round trip\<close>

text \<open>Values without floats and with distinct keys at every level: all that the job payloads hold.\<close>

fun plain :: "json \<Rightarrow> bool" where
  "plain (JFloat f) = False"
| "plain (JList l) = list_all plain l"
| "plain (JObj d) = (distinct (map fst d) \<and> list_all (\<lambda>(k, v). plain v) d)"
| "plain v = True"

lemma hex_val_digit: "d < 16 \<Longrightarrow> hex_val (hex_digit d) = Some d"
  by (auto simp: hex_val_def hex_digit_def Let_def)

lemma char_code: "(of_char c :: nat) = of_char d \<Longrightarrow> c = d"
  by simp

lemma not_escaped_char:
  assumes "(of_char c :: nat) \<noteq> 34" and "(of_char c :: nat) \<noteq> 92"
  shows "c \<noteq> CHR 0x22 \<and> c \<noteq> CHR 0x5C"
  using assms by auto

lemma scan_escape_char: "scan_string (escape_char c @ s) = map_option (\<lambda>(t, q). (c # t, q)) (scan_string s)"
proof -
  define n where "n = (of_char c :: nat)"
  have c: "c = char_of n" by (simp add: n_def)
  consider "n = 34 \<or> n = 92" | "n \<in> {8, 9, 10, 12, 13}" | "n < 32" "n \<notin> {8, 9, 10, 12, 13}"
    | "32 \<le> n" "n \<noteq> 34" "n \<noteq> 92" by fastforce
  then show ?thesis
  proof cases
    case 1
    then have "c = CHR 0x22 \<or> c = CHR 0x5C"
      using char_code [of c "CHR 0x22"] char_code [of c "CHR 0x5C"] by (auto simp: n_def)
    then show ?thesis by (auto simp: escape_char_def unescape_char_def)
  next
    case 2
    then have "c = CHR 0x08 \<or> c = CHR 0x09 \<or> c = CHR 0x0A \<or> c = CHR 0x0C \<or> c = CHR 0x0D"
      using char_code [of c "CHR 0x08"] char_code [of c "CHR 0x09"] char_code [of c "CHR 0x0A"]
        char_code [of c "CHR 0x0C"] char_code [of c "CHR 0x0D"] by (auto simp: n_def)
    then show ?thesis by (elim disjE) (simp_all add: escape_char_def unescape_char_def)
  next
    case 3
    then have e: "escape_char c = CHR 0x5C # ''u00'' @ [hex_digit (n div 16), hex_digit (n mod 16)]"
      by (auto simp: escape_char_def n_def [symmetric] Let_def)
    have "hex_val (CHR ''0'') = Some 0" by (simp add: hex_val_def)
    moreover have "n div 16 < 16" using 3 by auto
    moreover have "n div 16 * 16 + n mod 16 = n" by simp
    ultimately have "hex4 (''00'' @ [hex_digit (n div 16), hex_digit (n mod 16)] @ s) = Some (n, s)"
      by (simp add: hex_val_digit)
    then have "unicode_escape (''00'' @ [hex_digit (n div 16), hex_digit (n mod 16)] @ s) = Some (n, s)"
      using 3 by (simp add: unicode_escape_def)
    then show ?thesis using 3 unfolding e by (simp add: utf8_def c)
  next
    case 4
    then have "escape_char c = [c]" by (auto simp: escape_char_def n_def [symmetric] Let_def)
    moreover have "c \<noteq> CHR 0x22 \<and> c \<noteq> CHR 0x5C"
      using 4 not_escaped_char by (simp add: n_def)
    ultimately show ?thesis using 4 by (simp add: n_def)
  qed
qed

lemma scan_escape: "scan_string (escape s @ CHR 0x22 # r) = Some (s, r)"
proof (induction s)
  case (Cons c s)
  then show ?case by (simp add: escape_def scan_escape_char)
qed (simp add: escape_def)

text \<open>What may follow a number: the end of the text or a character that does not continue it.\<close>

definition ends_number :: "string \<Rightarrow> bool" where
  "ends_number r \<longleftrightarrow> r = [] \<or> hd r \<in> {CHR '','', CHR '']'', CHR 0x7D}"

lemma scan_number_nat:
  assumes "ends_number r"
  shows "scan_int (show_nat n @ r) = Some (show_nat n, r)"
proof -
  let ?s = "show_nat n"
  have d: "\<forall>c \<in> set ?s. is_digit c" by (rule show_nat_digits)
  obtain c cs where s: "?s = c # cs" by (metis show_nat_ne list.exhaust)
  have nd: "r = [] \<or> \<not> is_digit (hd r)" using assms by (auto simp: ends_number_def is_digit_def)
  have tw: "takeWhile is_digit (?s @ r) = ?s" "dropWhile is_digit (?s @ r) = r"
    using d nd by (cases r; simp)+
  have minus: "c \<noteq> CHR ''-''" using d s by (auto simp: is_digit_def)
  have zero: "cs = []" if "c = CHR ''0''"
  proof (rule ccontr)
    assume "cs \<noteq> []"
    have "hd (show_nat m) \<noteq> CHR ''0''" if "0 < m" for m
      using that
    proof (induction m rule: show_nat.induct)
      case (1 m)
      show ?case
      proof (cases "m < 10")
        case True
        have "(of_char (digit_char m) :: nat) = 48 + m" using True by simp
        then have "digit_char m \<noteq> CHR ''0''" using 1(2) by auto
        with True show ?thesis by (simp add: show_nat.simps [of m])
      next
        case False
        with 1(1) show ?thesis by (simp add: show_nat.simps [of m])
      qed
    qed
    moreover have "0 < n"
    proof (rule ccontr)
      assume "\<not> 0 < n"
      then have "show_nat n = [digit_char 0]" by (simp add: show_nat.simps [of 0])
      with s \<open>cs \<noteq> []\<close> show False by simp
    qed
    ultimately have "hd ?s \<noteq> CHR ''0''" by blast
    with s that show False by simp
  qed
  show ?thesis
  proof (cases "c = CHR ''0''")
    case True
    with zero s show ?thesis by (simp add: scan_int_def)
  next
    case False
    with s minus d tw show ?thesis by (simp add: scan_int_def Let_def)
  qed
qed

lemma scan_number_int:
  assumes "ends_number r"
  shows "scan_number (show_int i @ r) = Some (JInt i, r)"
proof -
  have "scan_int (show_int i @ r) = Some (show_int i, r)"
  proof (cases "i < 0")
    case True
    let ?s = "show_nat (nat (- i))"
    obtain c cs where s: "?s = c # cs" by (metis show_nat_ne list.exhaust)
    have "is_digit c" using show_nat_digits [of "nat (- i)"] s by simp
    then have "c \<noteq> CHR ''-''" by (auto simp: is_digit_def)
    then show ?thesis
      using scan_number_nat [OF assms, of "nat (- i)"] s True
      by (auto simp: scan_int_def show_int_def Let_def split: if_splits)
  qed (simp add: show_int_def scan_number_nat assms)
  moreover have "scan_frac r = ([], r)" "scan_exp r = ([], r)"
    using assms by (auto simp: ends_number_def scan_frac_def scan_exp_def)
  ultimately show ?thesis by (simp add: scan_number_def int_literal_def)
qed

lemma show_int_head:
  obtains c cs where "show_int i = c # cs" and "is_digit c \<or> (c = CHR ''-'' \<and> cs \<noteq> [] \<and> is_digit (hd cs))"
proof -
  have "show_nat n \<noteq> [] \<and> is_digit (hd (show_nat n))" for n
    using show_nat_digits [of n] by (simp add: show_nat_ne)
  then show ?thesis
    by (metis list.exhaust_sel list.sel(1,3) show_int_def that)
qed

lemma scan_scalar_int: "ends_number r \<Longrightarrow> scan_scalar (show_int i @ r) = Some (JInt i, r)"
proof -
  assume r: "ends_number r"
  obtain c cs where s: "show_int i = c # cs" "is_digit c \<or> (c = CHR ''-'' \<and> cs \<noteq> [] \<and> is_digit (hd cs))"
    by (rule show_int_head)
  have "\<not> starts_with t (c # cs @ r)" if "(t, v) \<in> set literals" for t v
    using s(2) that by (cases cs) (auto simp: literals_def starts_with_def is_digit_def)
  then have "scan_literal (show_int i @ r) = None"
    unfolding s(1) scan_literal_def by (auto split: option.split dest!: find_SomeD)
  with scan_number_int [OF r] show ?thesis by (simp add: scan_scalar_def)
qed

lemma join_Cons: "join sep (x # xs) = x @ (if xs = [] then [] else sep @ join sep xs)"
  by (cases xs) auto

lemma ends_number_simps [simp]:
  "ends_number (CHR '','' # r)" "ends_number (CHR '']'' # r)" "ends_number (CHR 0x7D # r)" "ends_number []"
  by (simp_all add: ends_number_def)

lemma not_space_simps [simp]:
  "\<not> json_space (CHR '','')" "\<not> json_space (CHR '']'')" "\<not> json_space (CHR 0x7D)" "\<not> json_space (CHR '':'')"
  "\<not> json_space (CHR 0x22)"
  by (simp_all add: json_space_def)

lemma scan_scalar_literals:
  "scan_scalar (''null'' @ r) = Some (JNull, r)"
  "scan_scalar (''true'' @ r) = Some (JBool True, r)"
  "scan_scalar (''false'' @ r) = Some (JBool False, r)"
  by (simp_all add: scan_scalar_def scan_literal_def literals_def starts_with_def)

text \<open>Values a writer can write so that they are read back: no floats, no key twice, and good texts.\<close>

fun writable :: "(string \<Rightarrow> bool) \<Rightarrow> json \<Rightarrow> bool" where
  "writable good (JFloat f) = False"
| "writable good (JStr s) = good s"
| "writable good (JList l) = list_all (writable good) l"
| "writable good (JObj d) = (distinct (map fst d) \<and> list_all (\<lambda>(k, v). good k \<and> writable good v) d)"
| "writable good v = True"

lemma plain_writable: "plain v \<Longrightarrow> writable (\<lambda>s. True) v"
  by (induction v) (auto simp: list_all_iff)

section \<open>Writers\<close>

text \<open>
  What a writer must do for its texts to be read back by \<open>loads\<close>: a good text is written as a string
  literal the scanner reads back, and only white space stands behind commas and colons.
\<close>

locale json_writer =
  fixes lit :: "string \<Rightarrow> string"
    and gap :: string
    and good :: "string \<Rightarrow> bool"
  assumes lit_read: "good s \<Longrightarrow> \<exists>t. lit s = CHR 0x22 # t \<and> (\<forall>r. scan_string (t @ r) = Some (s, r))"
    and gap_space: "list_all json_space gap"
begin

lemma skip_gap [simp]: "skip_ws (gap @ s) = skip_ws s"
  using gap_space by (simp add: dropWhile_append list_all_iff)

lemma lit_head: "good s \<Longrightarrow> lit s \<noteq> [] \<and> hd (lit s) = CHR 0x22"
  using lit_read by fastforce

lemma scan_lit: "good s \<Longrightarrow> scan_string (tl (lit s @ r)) = Some (s, r)"
  using lit_read [of s] by auto

lemma value_head:
  assumes "writable good v"
  shows "dumps_with lit gap v \<noteq> [] \<and> \<not> json_space (hd (dumps_with lit gap v)) \<and> hd (dumps_with lit gap v) \<noteq> CHR '']''"
proof (cases v)
  case (JInt i)
  obtain c cs where "show_int i = c # cs" "is_digit c \<or> c = CHR ''-''" by (rule show_int_head) auto
  with JInt show ?thesis by (auto simp: json_space_def is_digit_def)
qed (use assms lit_head in \<open>auto simp: json_space_def\<close>)

lemma skip_value: "writable good v \<Longrightarrow> skip_ws (dumps_with lit gap v @ s) = dumps_with lit gap v @ s"
  using value_head [of v] by (cases "dumps_with lit gap v") auto

text \<open>The induction hypothesis of the round trip, for one value.\<close>

definition reads_back :: "json \<Rightarrow> bool" where
  "reads_back v \<longleftrightarrow>
     (\<forall>n r. 2 * length (dumps_with lit gap v) < n \<longrightarrow> ends_number r \<longrightarrow>
        parse_value n (dumps_with lit gap v @ r) = Some (v, r))"

lemma reads_backI:
  "(\<And>m r. ends_number r \<Longrightarrow> parse_value (Suc m) (dumps_with lit gap v @ r) = Some (v, r)) \<Longrightarrow> reads_back v"
  unfolding reads_back_def by (metis gr0_conv_Suc less_nat_zero_code not_gr_zero)

lemma items_read_back:
  "l \<noteq> [] \<Longrightarrow> \<forall>v \<in> set l. writable good v \<and> reads_back v \<Longrightarrow>
   2 * length (join (CHR '','' # gap) (map (dumps_with lit gap) l)) + 1 < n \<Longrightarrow>
   parse_items n (join (CHR '','' # gap) (map (dumps_with lit gap) l) @ CHR '']'' # r) = Some (l, r)"
proof (induction l arbitrary: n)
  case (Cons v l)
  from Cons.prems(3) obtain m where n: "n = Suc m" by (cases n) auto
  have v: "writable good v" "reads_back v" using Cons.prems(2) by auto
  show ?case
  proof (cases "l = []")
    case True
    with Cons.prems(3) n have "2 * length (dumps_with lit gap v) < m" by simp
    then have "parse_value m (dumps_with lit gap v @ CHR '']'' # r) = Some (v, CHR '']'' # r)"
      using v(2) by (simp add: reads_back_def)
    with True n show ?thesis by simp
  next
    case False
    let ?rest = "join (CHR '','' # gap) (map (dumps_with lit gap) l) @ CHR '']'' # r"
    have len: "2 * length (dumps_with lit gap v) < m"
      "2 * length (join (CHR '','' # gap) (map (dumps_with lit gap) l)) + 1 < m"
      using Cons.prems(3) False n by (auto simp: join_Cons)
    have "parse_value m (dumps_with lit gap v @ CHR '','' # gap @ ?rest) = Some (v, CHR '','' # gap @ ?rest)"
      using v(2) len(1) by (simp add: reads_back_def)
    moreover have "skip_ws ?rest = ?rest"
      using False Cons.prems(2) by (cases l) (auto simp: join_Cons skip_value)
    ultimately show ?thesis
      using Cons.IH [OF False _ len(2)] Cons.prems(2) False n by (simp add: join_Cons)
  qed
qed simp

definition member_text :: "string \<times> json \<Rightarrow> string" where
  "member_text = (\<lambda>(k, v). lit k @ CHR '':'' # gap @ dumps_with lit gap v)"

lemma member_step:
  assumes "good k" "writable good v" "reads_back v" "2 * length (member_text (k, v)) < m" "ends_number (c # s)"
    "c \<in> {CHR '','', CHR 0x7D}"
  shows "parse_members (Suc m) d (member_text (k, v) @ c # s) =
    (if c = CHR 0x7D then Some (AList.update k v d, s) else parse_members m (AList.update k v d) (skip_ws s))"
proof -
  obtain t where t: "lit k = CHR 0x22 # t" "\<And>r. scan_string (t @ r) = Some (k, r)"
    using lit_read [OF assms(1)] by blast
  have "parse_value m (dumps_with lit gap v @ c # s) = Some (v, c # s)"
    using assms(3-5) by (simp add: reads_back_def member_text_def)
  with t assms(2,6) show ?thesis by (auto simp: member_text_def skip_value)
qed

lemma members_read_back:
  "e \<noteq> [] \<Longrightarrow> \<forall>(k, v) \<in> set e. good k \<and> writable good v \<and> reads_back v \<Longrightarrow> distinct (map fst (d @ e)) \<Longrightarrow>
   2 * length (join (CHR '','' # gap) (map member_text e)) + 1 < n \<Longrightarrow>
   parse_members n d (join (CHR '','' # gap) (map member_text e) @ CHR 0x7D # r) = Some (d @ e, r)"
proof (induction e arbitrary: n d)
  case (Cons p e)
  obtain k v where p: "p = (k, v)" by fastforce
  from Cons.prems(4) obtain m where n: "n = Suc m" by (cases n) auto
  have v: "good k" "writable good v" "reads_back v" using Cons.prems(2) p by auto
  have upd: "AList.update k v d = d @ [(k, v)]"
    using Cons.prems(3) p by (intro update_fresh) (auto simp: map_of_eq_None_iff)
  show ?case
  proof (cases "e = []")
    case True
    with Cons.prems(4) n p v upd member_step [OF v, of m "CHR 0x7D" r d] show ?thesis by simp
  next
    case False
    let ?rest = "join (CHR '','' # gap) (map member_text e) @ CHR 0x7D # r"
    have len: "2 * length (member_text (k, v)) < m" "2 * length (join (CHR '','' # gap) (map member_text e)) + 1 < m"
      using Cons.prems(4) False n p by (auto simp: join_Cons)
    have "skip_ws ?rest = ?rest"
      using False Cons.prems(2) lit_head by (cases e; cases "lit (fst (hd e))") (fastforce simp: join_Cons member_text_def)+
    moreover have "distinct (map fst ((d @ [(k, v)]) @ e))" using Cons.prems(3) p by simp
    ultimately show ?thesis
      using Cons.IH [OF False _ _ len(2), of "d @ [(k, v)]"] Cons.prems(2) False n p upd
        member_step [OF v len(1), of "CHR '',''" "gap @ ?rest" d]
      by (simp add: join_Cons)
  qed
qed simp

lemma list_reads_back:
  assumes "\<forall>v \<in> set l. writable good v \<and> reads_back v"
  shows "reads_back (JList l)"
  unfolding reads_back_def
proof (intro allI impI)
  fix n r
  assume n: "2 * length (dumps_with lit gap (JList l)) < n" and r: "ends_number r"
  obtain m where m: "n = Suc m" using n by (cases n) auto
  show "parse_value n (dumps_with lit gap (JList l) @ r) = Some (JList l, r)"
  proof (cases l)
    case (Cons v l')
    let ?text = "join (CHR '','' # gap) (map (dumps_with lit gap) l) @ CHR '']'' # r"
    have "parse_items m ?text = Some (l, r)"
      using n m assms Cons by (intro items_read_back) auto
    moreover have "skip_ws ?text = ?text" and "hd ?text \<noteq> CHR '']''"
      using assms Cons value_head [of v] by (auto simp: join_Cons skip_value)
    ultimately show ?thesis by (simp add: m)
  qed (simp add: m)
qed

lemma object_reads_back:
  assumes "\<forall>(k, v) \<in> set d. good k \<and> writable good v \<and> reads_back v" "distinct (map fst d)"
  shows "reads_back (JObj d)"
  unfolding reads_back_def
proof (intro allI impI)
  fix n r
  assume n: "2 * length (dumps_with lit gap (JObj d)) < n" and r: "ends_number r"
  obtain m where m: "n = Suc m" using n by (cases n) auto
  have dm: "dumps_with lit gap (JObj d) = CHR 0x7B # join (CHR '','' # gap) (map member_text d) @ [CHR 0x7D]"
    by (simp add: member_text_def)
  show "parse_value n (dumps_with lit gap (JObj d) @ r) = Some (JObj d, r)"
  proof (cases d)
    case (Cons q d')
    let ?text = "join (CHR '','' # gap) (map member_text d) @ CHR 0x7D # r"
    have "parse_members m [] ?text = Some ([] @ d, r)"
      using n m assms Cons unfolding dm by (intro members_read_back) auto
    moreover have "hd ?text = CHR 0x22"
      using assms(1) Cons lit_head [of "fst q"] by (cases q) (auto simp: join_Cons member_text_def)
    moreover from this have "skip_ws ?text = ?text" by (cases ?text) auto
    ultimately show ?thesis unfolding dm by (simp add: m)
  qed (simp add: m)
qed

lemma writable_reads_back: "writable good v \<Longrightarrow> reads_back v"
proof (induction v)
  case JNull
  then show ?case using scan_scalar_literals(1) by (intro reads_backI) simp
next
  case (JBool b)
  then show ?case using scan_scalar_literals(2,3) by (intro reads_backI) simp
next
  case (JInt i)
  obtain c cs where s: "show_int i = c # cs" and "is_digit c \<or> c = CHR ''-''" by (rule show_int_head) auto
  then have "c \<noteq> CHR 0x22" "c \<noteq> CHR ''[''" "c \<noteq> CHR 0x7B" by (auto simp: is_digit_def)
  moreover have "ends_number r \<Longrightarrow> scan_scalar (c # cs @ r) = Some (JInt i, r)" for r
    using scan_scalar_int [of r i] s by simp
  ultimately show ?case by (intro reads_backI) (simp add: s)
next
  case (JStr t)
  then show ?case using lit_read [of t] by (intro reads_backI) auto
next
  case (JList l)
  then show ?case by (intro list_reads_back) (auto simp: list_all_iff)
next
  case (JObj d)
  then show ?case by (intro object_reads_back) (fastforce simp: list_all_iff)+
qed simp

lemma loads_text:
  assumes "writable good v"
  shows "loads (dumps_with lit gap v) = Inr v"
proof -
  let ?s = "dumps_with lit gap v"
  have "parse_value (Suc (2 * length ?s)) (?s @ []) = Some (v, [])"
    by (rule writable_reads_back [OF assms, unfolded reads_back_def, rule_format]) simp_all
  moreover have "skip_ws ?s = ?s" using skip_value [OF assms, of "[]"] by simp
  ultimately show ?thesis unfolding loads_def by (simp del: parse_value.simps)
qed

end

interpretation compact: json_writer dumps_str "[]" "\<lambda>s. True"
  by unfold_locales (simp_all add: dumps_str_def scan_escape)

lemma loads_dumps: "plain v \<Longrightarrow> loads (dumps v) = Inr v"
  unfolding dumps_eq by (rule compact.loads_text [OF plain_writable])

end
