(* ===== verification/Jobs.thy ===== *)
theory Jobs
  imports Contracts Json
begin

text \<open>
  Jobs and queues of \<open>src/app/jobs.py\<close>: the envelope of a normalized event, its JSON form and
  the decoding of queue messages, the in-memory queue and the queue on Redis streams over a client
  (record \<open>redis_client\<close>); and the choice between them in \<open>src/app/queue_factory.py\<close>. Workers see
  a queue through the locale \<open>job_queue\<close>.
\<close>

section \<open>Jobs\<close>

record 's event_job =
  ej_event :: "'s event"
  ej_correlation_id :: string
  ej_delivery_id :: string

datatype 's queued_job = Job "'s event_job" | MalformedJob (md_delivery_id: string) (md_error: string)

fun delivery_id :: "'s queued_job \<Rightarrow> string" where
  "delivery_id (Job j) = ej_delivery_id j"
| "delivery_id (MalformedJob d e) = d"

section \<open>Encoding\<close>

text \<open>
  \<open>dataclasses.asdict\<close> and the changes made to it. The text fields go to \<open>json.dumps\<close> as they are:
  \<open>enc\<close> is \<open>JStr\<close> for an event whose text fields are strings, \<open>id\<close> for one that holds JSON values.
\<close>

definition meta_payload :: "event_meta \<Rightarrow> json" where
  "meta_payload m = JObj
     [(''event_id'', JStr (em_event_id m)), (''event_type'', JStr (event_type_value (em_event_type m))),
      (''correlation_id'', JStr (em_correlation_id m)), (''timestamp'', JStr (isoformat (em_timestamp m))),
      (''source'', JStr (event_source_value (em_source m)))]"

definition optional_json :: "int option \<Rightarrow> json" where
  "optional_json x = (case x of None \<Rightarrow> JNull | Some i \<Rightarrow> JInt i)"

definition file_payload :: "('s \<Rightarrow> json) \<Rightarrow> 's file_change \<Rightarrow> json" where
  "file_payload enc f = JObj
     [(''path'', enc (fc_path f)), (''status'', enc (fc_status f)), (''additions'', JInt (fc_additions f)),
      (''deletions'', JInt (fc_deletions f)), (''previous_filename'', enc (fc_previous_filename f))]"

definition pr_fields :: "('s \<Rightarrow> json) \<Rightarrow> 's pr_event \<Rightarrow> json dict" where
  "pr_fields enc e =
     [(''meta'', meta_payload (pe_meta e)), (''repo_full_name'', enc (pe_repo_full_name e)),
      (''pr_number'', JInt (pe_pr_number e)), (''title'', enc (pe_title e)), (''body'', enc (pe_body e)),
      (''author'', enc (pe_author e)), (''base_branch'', enc (pe_base_branch e)),
      (''head_branch'', enc (pe_head_branch e)), (''diff_url'', enc (pe_diff_url e)),
      (''files_changed'', JList (map (file_payload enc) (pe_files_changed e))),
      (''head_sha'', enc (pe_head_sha e))]"

definition ci_fields :: "('s \<Rightarrow> json) \<Rightarrow> 's ci_completed \<Rightarrow> json dict" where
  "ci_fields enc e =
     [(''meta'', meta_payload (ci_meta e)), (''repo_full_name'', enc (ci_repo_full_name e)),
      (''pr_number'', optional_json (ci_pr_number e)), (''commit_sha'', enc (ci_commit_sha e)),
      (''workflow_name'', enc (ci_workflow_name e)), (''conclusion'', enc (ci_conclusion e)),
      (''run_url'', enc (ci_run_url e)), (''failed_jobs'', JList (map enc (ci_failed_jobs e))),
      (''logs_url'', enc (ci_logs_url e)), (''run_id'', optional_json (ci_run_id e))]"

fun event_fields :: "('s \<Rightarrow> json) \<Rightarrow> 's event \<Rightarrow> json dict" where
  "event_fields enc (PROpened e) = pr_fields enc e"
| "event_fields enc (PRUpdated e) = pr_fields enc e"
| "event_fields enc (PRCommented e) =
     [(''meta'', meta_payload (pc_meta e)), (''repo_full_name'', enc (pc_repo_full_name e)),
      (''pr_number'', JInt (pc_pr_number e)), (''comment_id'', JInt (pc_comment_id e)),
      (''author'', enc (pc_author e)), (''body'', enc (pc_body e)),
      (''is_review_comment'', JBool (pc_is_review_comment e)), (''path'', enc (pc_path e)),
      (''line'', optional_json (pc_line e))]"
| "event_fields enc (PRReviewed e) =
     [(''meta'', meta_payload (pv_meta e)), (''repo_full_name'', enc (pv_repo_full_name e)),
      (''pr_number'', JInt (pv_pr_number e)), (''reviewer'', enc (pv_reviewer e)),
      (''state'', enc (pv_state e)), (''body'', enc (pv_body e))]"
| "event_fields enc (CICompleted e) = ci_fields enc e"
| "event_fields enc (ChatMention e) =
     [(''meta'', meta_payload (cm_meta e)), (''platform'', enc (cm_platform e)),
      (''channel_id'', enc (cm_channel_id e)), (''channel_name'', enc (cm_channel_name e)),
      (''author'', enc (cm_author e)), (''message'', enc (cm_message e)), (''thread_id'', enc (cm_thread_id e)),
      (''referenced_pr'', optional_json (cm_referenced_pr e))]"

definition event_to_payload :: "('s \<Rightarrow> json) \<Rightarrow> 's event \<Rightarrow> json dict" where
  "event_to_payload enc e =
     event_fields enc e @ [(''kind'', JStr (event_type_value (em_event_type (event_meta_of e))))]"

definition job_payload :: "('s \<Rightarrow> json) \<Rightarrow> 's event_job \<Rightarrow> json" where
  "job_payload enc job = JObj
     [(''schema_version'', JInt 1), (''correlation_id'', JStr (ej_correlation_id job)),
      (''event'', JObj (event_to_payload enc (ej_event job)))]"

definition serialize_job :: "('s \<Rightarrow> json) \<Rightarrow> 's event_job \<Rightarrow> string" where
  "serialize_job enc job = dumps (job_payload enc job)"

section \<open>Checked fields\<close>

definition must_be :: "string \<Rightarrow> string \<Rightarrow> exn" where
  "must_be field what = Exn TypeError (field @ '' must be '' @ what)"

fun require_mapping :: "json \<Rightarrow> string \<Rightarrow> json dict res" where
  "require_mapping (JObj d) field = Inr d"
| "require_mapping _ field = Inl (must_be field ''an object'')"

fun require_str :: "json \<Rightarrow> string \<Rightarrow> string res" where
  "require_str (JStr s) field = Inr s"
| "require_str _ field = Inl (must_be field ''a string'')"

fun require_int :: "json \<Rightarrow> string \<Rightarrow> int res" where
  "require_int (JInt i) field = Inr i"
| "require_int _ field = Inl (must_be field ''an integer'')"

definition optional_int_field :: "json \<Rightarrow> string \<Rightarrow> int option res" where
  "optional_int_field v field =
     (if v = JNull then Inr None else bindR (require_int v field) (\<lambda>i. Inr (Some i)))"

fun require_bool :: "json \<Rightarrow> string \<Rightarrow> bool res" where
  "require_bool (JBool b) field = Inr b"
| "require_bool _ field = Inl (must_be field ''a boolean'')"

fun require_list :: "json \<Rightarrow> string \<Rightarrow> json list res" where
  "require_list (JList l) field = Inr l"
| "require_list _ field = Inl (must_be field ''a list or tuple'')"

definition indexed :: "string \<Rightarrow> nat \<Rightarrow> string" where
  "indexed field i = field @ ''['' @ show_nat i @ '']''"

definition str_tuple :: "json \<Rightarrow> string \<Rightarrow> string list res" where
  "str_tuple v field =
     bindR (require_list v field) (\<lambda>items.
       mapR (\<lambda>(i, item). require_str item (indexed field i)) (enumerate 0 items))"

section \<open>Decoding\<close>

text \<open>
  \<open>v == 1\<close>: also for \<open>True\<close> and for a float literal whose nearest double is 1, that is one whose
  value lies between \<open>1 - 2^-54\<close> and \<open>1 + 2^-53\<close>.
\<close>

definition literal_value :: "string \<Rightarrow> rat" where
  "literal_value u =
     (let ip = takeWhile is_digit u;
          r = dropWhile is_digit u;
          fp = (if r \<noteq> [] \<and> hd r = CHR ''.'' then takeWhile is_digit (tl r) else []);
          r2 = (if r \<noteq> [] \<and> hd r = CHR ''.'' then dropWhile is_digit (tl r) else r);
          e = (if r2 \<noteq> [] then (case parse_int (tl r2) of Some i \<Rightarrow> i | None \<Rightarrow> 0) else 0);
          m = of_nat (digits_val (ip @ fp));
          k = e - int (length fp)
      in if 0 \<le> k then m * 10 ^ nat k else m / 10 ^ nat (- k))"

fun equals_one :: "json \<Rightarrow> bool" where
  "equals_one (JInt i) = (i = 1)"
| "equals_one (JBool b) = b"
| "equals_one (JFloat f) =
     (f \<noteq> [] \<and> is_digit (hd f) \<and>
      1 - 1 / 2 ^ 54 \<le> literal_value f \<and> literal_value f \<le> 1 + 1 / 2 ^ 53)"
| "equals_one _ = False"

definition event_type_of :: "string \<Rightarrow> event_type res" where
  "event_type_of s = enum_of_value ''EventType'' event_types event_type_value s"

definition meta_from_payload :: "json dict \<Rightarrow> event_meta res" where
  "meta_from_payload d =
     bindR (require_str (dget d ''event_id'' JNull) ''meta.event_id'') (\<lambda>event_id.
     bindR (bindR (require_str (dget d ''event_type'' JNull) ''meta.event_type'') event_type_of) (\<lambda>event_type.
     bindR (require_str (dget d ''correlation_id'' JNull) ''meta.correlation_id'') (\<lambda>correlation_id.
     bindR (bindR (require_str (dget d ''timestamp'' JNull) ''meta.timestamp'') fromisoformat) (\<lambda>timestamp.
     bindR (bindR (require_str (dget d ''source'' JNull) ''meta.source'')
              (enum_of_value ''EventSource'' event_sources event_source_value)) (\<lambda>source.
     Inr \<lparr>em_event_id = event_id, em_event_type = event_type, em_correlation_id = correlation_id,
          em_timestamp = timestamp, em_source = source\<rparr>)))))"

definition file_change_from_payload :: "json \<Rightarrow> string \<Rightarrow> string file_change res" where
  "file_change_from_payload data field =
     bindR (require_mapping data field) (\<lambda>d.
     bindR (require_str (dget d ''path'' JNull) (field @ ''.path'')) (\<lambda>path.
     bindR (require_str (dget d ''status'' JNull) (field @ ''.status'')) (\<lambda>status.
     bindR (require_int (dget d ''additions'' (JInt 0)) (field @ ''.additions'')) (\<lambda>additions.
     bindR (require_int (dget d ''deletions'' (JInt 0)) (field @ ''.deletions'')) (\<lambda>deletions.
     bindR (require_str (dget d ''previous_filename'' (JStr [])) (field @ ''.previous_filename'')) (\<lambda>previous.
     Inr \<lparr>fc_path = path, fc_status = status, fc_additions = additions, fc_deletions = deletions,
          fc_previous_filename = previous\<rparr>))))))"

definition str_field :: "json dict \<Rightarrow> string \<Rightarrow> string res" where
  "str_field d k = require_str (dget d k JNull) k"

definition str_field_or_empty :: "json dict \<Rightarrow> string \<Rightarrow> string res" where
  "str_field_or_empty d k = require_str (dget d k (JStr [])) k"

definition int_field :: "json dict \<Rightarrow> string \<Rightarrow> int res" where
  "int_field d k = require_int (dget d k JNull) k"

definition opt_int_field :: "json dict \<Rightarrow> string \<Rightarrow> int option res" where
  "opt_int_field d k = optional_int_field (dget d k JNull) k"

definition pr_event_from_payload :: "event_meta \<Rightarrow> json dict \<Rightarrow> string pr_event res" where
  "pr_event_from_payload m d =
     bindR (require_list (dget d ''files_changed'' (JList [])) ''files_changed'') (\<lambda>file_values.
     bindR (str_field d ''repo_full_name'') (\<lambda>repo.
     bindR (int_field d ''pr_number'') (\<lambda>n.
     bindR (str_field d ''title'') (\<lambda>title.
     bindR (str_field d ''body'') (\<lambda>body.
     bindR (str_field d ''author'') (\<lambda>author.
     bindR (str_field d ''base_branch'') (\<lambda>base.
     bindR (str_field d ''head_branch'') (\<lambda>head.
     bindR (str_field d ''diff_url'') (\<lambda>diff_url.
     bindR (mapR (\<lambda>(i, f). file_change_from_payload f (indexed ''files_changed'' i)) (enumerate 0 file_values)) (\<lambda>fs.
     bindR (str_field_or_empty d ''head_sha'') (\<lambda>sha.
     Inr \<lparr>pe_meta = m, pe_repo_full_name = repo, pe_pr_number = n, pe_title = title, pe_body = body,
          pe_author = author, pe_base_branch = base, pe_head_branch = head, pe_diff_url = diff_url,
          pe_files_changed = fs, pe_head_sha = sha\<rparr>)))))))))))"

definition commented_from_payload :: "event_meta \<Rightarrow> json dict \<Rightarrow> string pr_commented res" where
  "commented_from_payload m d =
     bindR (str_field d ''repo_full_name'') (\<lambda>repo.
     bindR (int_field d ''pr_number'') (\<lambda>n.
     bindR (int_field d ''comment_id'') (\<lambda>comment_id.
     bindR (str_field d ''author'') (\<lambda>author.
     bindR (str_field d ''body'') (\<lambda>body.
     bindR (require_bool (dget d ''is_review_comment'' (JBool False)) ''is_review_comment'') (\<lambda>is_review.
     bindR (str_field_or_empty d ''path'') (\<lambda>path.
     bindR (opt_int_field d ''line'') (\<lambda>line.
     Inr \<lparr>pc_meta = m, pc_repo_full_name = repo, pc_pr_number = n, pc_comment_id = comment_id,
          pc_author = author, pc_body = body, pc_is_review_comment = is_review, pc_path = path,
          pc_line = line\<rparr>))))))))"

definition reviewed_from_payload :: "event_meta \<Rightarrow> json dict \<Rightarrow> string pr_reviewed res" where
  "reviewed_from_payload m d =
     bindR (str_field d ''repo_full_name'') (\<lambda>repo.
     bindR (int_field d ''pr_number'') (\<lambda>n.
     bindR (str_field d ''reviewer'') (\<lambda>reviewer.
     bindR (str_field d ''state'') (\<lambda>state.
     bindR (str_field_or_empty d ''body'') (\<lambda>body.
     Inr \<lparr>pv_meta = m, pv_repo_full_name = repo, pv_pr_number = n, pv_reviewer = reviewer,
          pv_state = state, pv_body = body\<rparr>)))))"

definition ci_from_payload :: "event_meta \<Rightarrow> json dict \<Rightarrow> string ci_completed res" where
  "ci_from_payload m d =
     bindR (str_field d ''repo_full_name'') (\<lambda>repo.
     bindR (opt_int_field d ''pr_number'') (\<lambda>n.
     bindR (str_field d ''commit_sha'') (\<lambda>sha.
     bindR (str_field d ''workflow_name'') (\<lambda>name.
     bindR (str_field d ''conclusion'') (\<lambda>conclusion.
     bindR (str_field d ''run_url'') (\<lambda>run_url.
     bindR (str_tuple (dget d ''failed_jobs'' (JList [])) ''failed_jobs'') (\<lambda>failed_jobs.
     bindR (str_field_or_empty d ''logs_url'') (\<lambda>logs_url.
     bindR (opt_int_field d ''run_id'') (\<lambda>run_id.
     Inr \<lparr>ci_meta = m, ci_repo_full_name = repo, ci_pr_number = n, ci_commit_sha = sha,
          ci_workflow_name = name, ci_conclusion = conclusion, ci_run_url = run_url,
          ci_failed_jobs = failed_jobs, ci_logs_url = logs_url, ci_run_id = run_id\<rparr>)))))))))"

definition chat_from_payload :: "event_meta \<Rightarrow> json dict \<Rightarrow> string chat_mention res" where
  "chat_from_payload m d =
     bindR (str_field d ''platform'') (\<lambda>platform.
     bindR (str_field d ''channel_id'') (\<lambda>channel_id.
     bindR (str_field d ''channel_name'') (\<lambda>channel_name.
     bindR (str_field d ''author'') (\<lambda>author.
     bindR (str_field d ''message'') (\<lambda>message.
     bindR (str_field_or_empty d ''thread_id'') (\<lambda>thread_id.
     bindR (opt_int_field d ''referenced_pr'') (\<lambda>referenced_pr.
     Inr \<lparr>cm_meta = m, cm_platform = platform, cm_channel_id = channel_id, cm_channel_name = channel_name,
          cm_author = author, cm_message = message, cm_thread_id = thread_id,
          cm_referenced_pr = referenced_pr\<rparr>)))))))"

definition event_from_payload :: "json dict \<Rightarrow> string event res" where
  "event_from_payload d =
     bindR (bindR (str_field d ''kind'') event_type_of) (\<lambda>kind.
     bindR (bindR (require_mapping (dget d ''meta'' JNull) ''meta'') meta_from_payload) (\<lambda>m.
     case kind of
       PR_OPENED \<Rightarrow> bindR (pr_event_from_payload m d) (\<lambda>e. Inr (PROpened e))
     | PR_UPDATED \<Rightarrow> bindR (pr_event_from_payload m d) (\<lambda>e. Inr (PRUpdated e))
     | PR_COMMENTED \<Rightarrow> bindR (commented_from_payload m d) (\<lambda>e. Inr (PRCommented e))
     | PR_REVIEWED \<Rightarrow> bindR (reviewed_from_payload m d) (\<lambda>e. Inr (PRReviewed e))
     | CI_COMPLETED \<Rightarrow> bindR (ci_from_payload m d) (\<lambda>e. Inr (CICompleted e))
     | CHAT_MENTION \<Rightarrow> bindR (chat_from_payload m d) (\<lambda>e. Inr (ChatMention e))))"

definition deserialize_job :: "string \<Rightarrow> string \<Rightarrow> string event_job res" where
  "deserialize_job payload delivery =
     bindR (loads payload) (\<lambda>data.
     bindR (require_mapping data ''job'') (\<lambda>d.
     (let schema_version = dget d ''schema_version'' JNull in
      if \<not> equals_one schema_version
      then Inl (Exn ValueError (''Unsupported job schema version: '' @ py_repr schema_version))
      else
        bindR (bindR (require_mapping (dget d ''event'' JNull) ''event'') event_from_payload) (\<lambda>event.
        bindR (str_field d ''correlation_id'') (\<lambda>correlation_id.
        Inr \<lparr>ej_event = event, ej_correlation_id = correlation_id, ej_delivery_id = delivery\<rparr>)))))"

section \<open>Messages of a Redis stream\<close>

text \<open>What redis-py returns for a key, a value or an id: bytes, a string, or something else with its \<open>str\<close>.\<close>

datatype redis_value = RBytes string | RStr string | ROther string

type_synonym redis_message = "redis_value \<times> (redis_value \<times> redis_value) list"

text \<open>Well-formed UTF-8: no overlong forms, no surrogates, nothing above U+10FFFF.\<close>

fun cont_bytes :: "nat list \<Rightarrow> bool" where
  "cont_bytes bs = (\<forall>b \<in> set bs. 128 \<le> b \<and> b < 192)"

fun utf8_ok :: "nat list \<Rightarrow> bool" where
  "utf8_ok [] = True"
| "utf8_ok (a # s) =
     (if a < 128 then utf8_ok s
      else if 194 \<le> a \<and> a < 224 then (case s of b # s1 \<Rightarrow> cont_bytes [b] \<and> utf8_ok s1 | _ \<Rightarrow> False)
      else if 224 \<le> a \<and> a < 240 then
        (case s of b # c # s1 \<Rightarrow> cont_bytes [b, c] \<and> (a = 224 \<longrightarrow> 160 \<le> b) \<and> (a = 237 \<longrightarrow> b < 160) \<and> utf8_ok s1
         | _ \<Rightarrow> False)
      else if 240 \<le> a \<and> a < 245 then
        (case s of b # c # d # s1 \<Rightarrow>
           cont_bytes [b, c, d] \<and> (a = 240 \<longrightarrow> 144 \<le> b) \<and> (a = 244 \<longrightarrow> b < 144) \<and> utf8_ok s1
         | _ \<Rightarrow> False)
      else False)"

text \<open>\<open>b.decode("utf-8")\<close>; where in the bytes the decoder stopped is left out of the message.\<close>

definition decode_utf8 :: "string \<Rightarrow> string res" where
  "decode_utf8 b =
     (if utf8_ok (map of_char b) then Inr b
      else Inl (Exn UnicodeDecodeError (repr_str ''utf-8'' @ '' codec can't decode bytes'')))"

fun to_str :: "redis_value \<Rightarrow> string res" where
  "to_str (RBytes b) = decode_utf8 b"
| "to_str (RStr s) = Inr s"
| "to_str (ROther s) = Inr s"

definition field_value :: "(redis_value \<times> redis_value) list \<Rightarrow> string \<Rightarrow> string res" where
  "field_value entries key =
     (case map_of entries (RStr key) of
        Some v \<Rightarrow> to_str v
      | None \<Rightarrow>
          (case map_of entries (RBytes key) of
             Some v \<Rightarrow> to_str v
           | None \<Rightarrow> Inl (Exn ValueError (''Redis stream message is missing field: '' @ key))))"

text \<open>Whatever fails after the id has been read makes the message a malformed job.\<close>

definition job_from_message :: "redis_message \<Rightarrow> string queued_job res" where
  "job_from_message message =
     (case message of (message_id, entries) \<Rightarrow>
        bindR (to_str message_id) (\<lambda>delivery.
          Inr (case bindR (field_value entries ''job'') (\<lambda>payload. deserialize_job payload delivery) of
                 Inr job \<Rightarrow> Job job
               | Inl exc \<Rightarrow> MalformedJob delivery (exn_msg exc))))"

section \<open>The in-memory queue\<close>

definition memory_enqueue :: "'s event_job \<Rightarrow> ('s event_job list, unit) act" where
  "memory_enqueue job q = (Inr (), q @ [job])"

definition memory_dequeue :: "('s event_job list, 's queued_job option) act" where
  "memory_dequeue q = (case q of [] \<Rightarrow> (Inr None, []) | job # rest \<Rightarrow> (Inr (Some (Job job)), rest))"

definition memory_ack :: "'s queued_job \<Rightarrow> ('s event_job list, unit) act" where
  "memory_ack job q = (Inr (), q)"

section \<open>The queue on Redis streams\<close>

record 'w redis_client =
  rc_xgroup_create :: "string \<Rightarrow> string \<Rightarrow> string \<Rightarrow> bool \<Rightarrow> ('w, unit) act"
  rc_xadd :: "string \<Rightarrow> (string \<times> string) list \<Rightarrow> ('w, unit) act"
  rc_xreadgroup :: "string \<Rightarrow> string \<Rightarrow> (string \<times> string) list \<Rightarrow> int \<Rightarrow> int \<Rightarrow>
    ('w, (redis_value \<times> redis_message list) list) act"
  rc_xautoclaim :: "string \<Rightarrow> string \<Rightarrow> string \<Rightarrow> int \<Rightarrow> string \<Rightarrow> int \<Rightarrow>
    ('w, redis_value \<times> redis_message list) act"
  rc_xack :: "string \<Rightarrow> string \<Rightarrow> string \<Rightarrow> ('w, unit) act"

record redis_settings =
  rq_stream :: string
  rq_group :: string
  rq_consumer :: string
  rq_read_block_ms :: int
  rq_claim_idle_ms :: int
  rq_busy_group_error :: "exn \<Rightarrow> bool"

text \<open>The state of a queue: the id the next claim starts from, and the world of the client.\<close>

record 'w redis_queue =
  rs_claim_start_id :: string
  rs_redis :: 'w

definition on_redis :: "('w, 'a) act \<Rightarrow> ('w redis_queue, 'a) act" where
  "on_redis m q = (case m (rs_redis q) of (x, w) \<Rightarrow> (x, q\<lparr>rs_redis := w\<rparr>))"

definition validate_redis_timing :: "int \<Rightarrow> int \<Rightarrow> unit res" where
  "validate_redis_timing read_block_ms claim_idle_ms =
     (if read_block_ms < 0 then Inl (Exn ValueError ''read_block_ms must be >= 0'')
      else if claim_idle_ms < 0 then Inl (Exn ValueError ''claim_idle_ms must be >= 0'')
      else if read_block_ms > 0 \<and> claim_idle_ms < read_block_ms then
        Inl (Exn ValueError ''redis_claim_idle_ms/claim_idle_ms must be >= redis_read_block_ms/read_block_ms to avoid reclaiming normal blocking reads'')
      else Inr ())"

definition ensure_group :: "'w redis_client \<Rightarrow> redis_settings \<Rightarrow> ('w, unit) act" where
  "ensure_group client cfg =
     tryS (rc_xgroup_create client (rq_stream cfg) (rq_group cfg) ''0'' True) (\<lambda>exc.
       if rq_busy_group_error cfg exc \<and> contains ''BUSYGROUP'' (exn_msg exc) then retS () else raiseS exc)"

text \<open>\<open>__init__\<close>: the queue it builds, if it returns.\<close>

definition redis_init :: "'w redis_client \<Rightarrow> redis_settings \<Rightarrow> ('w, 'w redis_queue) act" where
  "redis_init client cfg =
     bindS (liftS (validate_redis_timing (rq_read_block_ms cfg) (rq_claim_idle_ms cfg))) (\<lambda>_.
     bindS (ensure_group client cfg) (\<lambda>_ w.
     (Inr \<lparr>rs_claim_start_id = ''0-0'', rs_redis = w\<rparr>, w)))"

definition redis_enqueue ::
  "('s \<Rightarrow> json) \<Rightarrow> 'w redis_client \<Rightarrow> redis_settings \<Rightarrow> 's event_job \<Rightarrow> ('w redis_queue, unit) act" where
  "redis_enqueue enc client cfg job =
     on_redis (rc_xadd client (rq_stream cfg) [(''job'', serialize_job enc job)])"

definition claim_pending ::
  "'w redis_client \<Rightarrow> redis_settings \<Rightarrow> ('w redis_queue, string queued_job option) act" where
  "claim_pending client cfg q =
     bindS (on_redis (rc_xautoclaim client (rq_stream cfg) (rq_group cfg) (rq_consumer cfg)
              (rq_claim_idle_ms cfg) (rs_claim_start_id q) 1)) (\<lambda>(next_start_id, messages).
     bindS (liftS (to_str next_start_id)) (\<lambda>next_id.
     bindS (\<lambda>q. (Inr (), q\<lparr>rs_claim_start_id := next_id\<rparr>)) (\<lambda>_.
     case messages of [] \<Rightarrow> retS None
     | m # _ \<Rightarrow> bindS (liftS (job_from_message m)) (\<lambda>job. retS (Some job))))) q"

definition job_from_streams :: "(redis_value \<times> redis_message list) list \<Rightarrow> string queued_job option res" where
  "job_from_streams streams =
     (case streams of
        [] \<Rightarrow> Inr None
      | (_, messages) # _ \<Rightarrow>
          (case messages of [] \<Rightarrow> Inr None | m # _ \<Rightarrow> bindR (job_from_message m) (\<lambda>job. Inr (Some job))))"

definition redis_dequeue ::
  "'w redis_client \<Rightarrow> redis_settings \<Rightarrow> ('w redis_queue, string queued_job option) act" where
  "redis_dequeue client cfg =
     bindS (claim_pending client cfg) (\<lambda>pending.
     case pending of
       Some job \<Rightarrow> retS (Some job)
     | None \<Rightarrow>
         bindS (on_redis (rc_xreadgroup client (rq_group cfg) (rq_consumer cfg) [(rq_stream cfg, ''>'')] 1
                  (rq_read_block_ms cfg))) (\<lambda>streams.
         liftS (job_from_streams streams)))"

definition redis_ack ::
  "'w redis_client \<Rightarrow> redis_settings \<Rightarrow> 's queued_job \<Rightarrow> ('w redis_queue, unit) act" where
  "redis_ack client cfg job =
     (if delivery_id job \<noteq> [] then on_redis (rc_xack client (rq_stream cfg) (rq_group cfg) (delivery_id job))
      else retS ())"

section \<open>Choosing a queue\<close>

record queue_settings =
  qs_backend :: string
  qs_redis_url :: string
  qs_redis :: redis_settings
  qs_redis_consumer :: string

datatype queue_choice = MemoryQueue | RedisQueue string redis_settings

text \<open>
  \<open>build_job_queue\<close>: the arguments \<open>RedisStreamsJobQueue.from_url\<close> is called with; \<open>consumer\<close>
  overrides the configured one.
\<close>

definition build_job_queue :: "queue_settings \<Rightarrow> string option \<Rightarrow> queue_choice res" where
  "build_job_queue cfg consumer =
     (if qs_backend cfg = ''memory'' then Inr MemoryQueue
      else if qs_backend cfg = ''redis-streams'' then
        bindR (validate_redis_timing (rq_read_block_ms (qs_redis cfg)) (rq_claim_idle_ms (qs_redis cfg))) (\<lambda>_.
          Inr (RedisQueue (qs_redis_url cfg) ((qs_redis cfg)\<lparr>rq_consumer :=
            (case consumer of None \<Rightarrow> qs_redis_consumer cfg
             | Some c \<Rightarrow> if c = [] then qs_redis_consumer cfg else c)\<rparr>)))
      else Inl (Exn ValueError (''Unsupported queue backend: '' @ repr_str (qs_backend cfg))))"

end
