(* ===== verification/Gateway.thy ===== *)
theory Gateway
  imports Parsers Hmac Jobs
begin

text \<open>
  The webhook gateway: the signature check (\<open>connectors/github/webhook.py\<close>), the handling of a
  delivery (\<open>app/gateway/github.py\<close>) over the enqueue operation of a queue, and the HTTP endpoint in
  front of it (\<open>app/gateway/server.py\<close>). New ids and the time are arguments. The correlation id that
  \<open>set_correlation_id\<close> keeps for the log is left out.
\<close>

section \<open>Signatures\<close>

definition signature_prefix :: string where
  "signature_prefix = ''sha256=''"

text \<open>\<open>hmac.compare_digest\<close> on two strings; it refuses anything but ASCII.\<close>

definition compare_digest :: "string \<Rightarrow> string \<Rightarrow> bool res" where
  "compare_digest a b =
     (if \<forall>c \<in> set (a @ b). (of_char c :: nat) < 128 then Inr (a = b)
      else Inl (Exn TypeError ''comparing strings with non-ASCII characters is not supported''))"

definition verify_signature :: "string \<Rightarrow> string \<Rightarrow> string option \<Rightarrow> bool res" where
  "verify_signature secret body signature_header =
     (case signature_header of
        None \<Rightarrow> Inr False
      | Some header \<Rightarrow>
          if secret = [] \<or> header = [] then Inr False
          else if \<not> starts_with signature_prefix header then Inr False
          else compare_digest (strip (drop (length signature_prefix) header)) (hmac_hexdigest secret body))"

section \<open>Deliveries\<close>

record webhook_request =
  wr_headers :: "string dict"
  wr_body :: string

record webhook_response =
  ws_status :: int
  ws_message :: string
  ws_correlation_id :: string

definition normalise_headers :: "string dict \<Rightarrow> string dict" where
  "normalise_headers headers = foldl (\<lambda>d (key, value). AList.update (lower key) value d) [] headers"

text \<open>\<open>_correlation_id\<close>; \<open>fresh\<close> is what \<open>new_correlation_id\<close> returns.\<close>

definition correlation_id_of :: "string \<Rightarrow> string dict \<Rightarrow> string" where
  "correlation_id_of fresh headers =
     (case map_of headers ''x-github-delivery'' of
        Some cid \<Rightarrow> if cid = [] then fresh else cid
      | None \<Rightarrow> fresh)"

definition parse_event ::
  "string \<Rightarrow> json dict \<Rightarrow> string \<Rightarrow> string \<Rightarrow> datetime \<Rightarrow> json event option res" where
  "parse_event event_name payload correlation_id event_id now =
     (let action = py_str (dget payload ''action'' (JStr [])) in
      if event_name = ''pull_request'' then parse_github_pr_event payload action correlation_id event_id now
      else if event_name = ''workflow_run'' then parse_github_ci_event payload correlation_id event_id now
      else if event_name = ''pull_request_review'' then
        parse_github_pr_review_event payload correlation_id event_id now
      else if event_name \<in> {''issue_comment'', ''pull_request_review_comment''} then
        parse_github_comment_event payload correlation_id event_id now
      else Inr None)"

record gateway =
  gw_secret :: string
  gw_new_correlation_id :: string
  gw_new_event_id :: string
  gw_now :: datetime

definition enqueue_event ::
  "(json event_job \<Rightarrow> ('q, unit) act) \<Rightarrow> json event \<Rightarrow> string \<Rightarrow> ('q, webhook_response) act" where
  "enqueue_event enqueue event correlation_id =
     bindS (enqueue \<lparr>ej_event = event, ej_correlation_id = correlation_id, ej_delivery_id = []\<rparr>) (\<lambda>_.
     retS \<lparr>ws_status = 202, ws_message = ''enqueued'', ws_correlation_id = correlation_id\<rparr>)"

definition handle_payload ::
  "gateway \<Rightarrow> (json event_job \<Rightarrow> ('q, unit) act) \<Rightarrow> string dict \<Rightarrow> json \<Rightarrow> string \<Rightarrow> ('q, webhook_response) act" where
  "handle_payload gw enqueue headers payload cid =
     (case payload of
        JObj d \<Rightarrow>
          bindS (liftS (parse_event (case map_of headers ''x-github-event'' of Some e \<Rightarrow> e | None \<Rightarrow> []) d cid
                   (gw_new_event_id gw) (gw_now gw))) (\<lambda>parsed.
          case parsed of
            None \<Rightarrow> retS \<lparr>ws_status = 204, ws_message = [], ws_correlation_id = cid\<rparr>
          | Some event \<Rightarrow> enqueue_event enqueue event cid)
      | _ \<Rightarrow> retS \<lparr>ws_status = 400, ws_message = ''payload must be a JSON object'', ws_correlation_id = cid\<rparr>)"

definition handle ::
  "gateway \<Rightarrow> (json event_job \<Rightarrow> ('q, unit) act) \<Rightarrow> webhook_request \<Rightarrow> ('q, webhook_response) act" where
  "handle gw enqueue request =
     (let headers = normalise_headers (wr_headers request) in
      bindS (liftS (verify_signature (gw_secret gw) (wr_body request) (map_of headers ''x-hub-signature-256''))) (\<lambda>valid.
      if \<not> valid then retS \<lparr>ws_status = 401, ws_message = ''invalid signature'', ws_correlation_id = []\<rparr>
      else
        (let cid = correlation_id_of (gw_new_correlation_id gw) headers in
         case bindR (decode_utf8 (wr_body request)) loads of
           Inl _ \<Rightarrow> retS \<lparr>ws_status = 400, ws_message = ''invalid json'', ws_correlation_id = cid\<rparr>
         | Inr payload \<Rightarrow> handle_payload gw enqueue headers payload cid)))"

section \<open>The HTTP endpoint\<close>

text \<open>
  A POST request: its path, its header lines in order and what can be read from the connection. A
  look-up of \<open>http.server\<close> in the header lines ignores case and takes the first.
\<close>

record http_post =
  hp_path :: string
  hp_headers :: "(string \<times> string) list"
  hp_stream :: string

record http_answer =
  ha_status :: int
  ha_correlation_id :: "string option"
  ha_body :: string

definition webhook_path :: string where
  "webhook_path = ''/webhooks/github''"

definition header_line :: "(string \<times> string) list \<Rightarrow> string \<Rightarrow> string \<Rightarrow> string" where
  "header_line lines name dflt =
     (case find (\<lambda>(k, v). lower k = lower name) lines of Some (k, v) \<Rightarrow> v | None \<Rightarrow> dflt)"

definition read_body :: "int \<Rightarrow> string \<Rightarrow> string" where
  "read_body n stream = (if n < 0 then stream else take (nat n) stream)"

text \<open>\<open>{key: value for key, value in self.headers.items()}\<close>\<close>

definition headers_dict :: "(string \<times> string) list \<Rightarrow> string dict" where
  "headers_dict lines = foldl (\<lambda>d (key, value). AList.update key value d) [] lines"

definition do_POST :: "(webhook_request \<Rightarrow> ('q, webhook_response) act) \<Rightarrow> http_post \<Rightarrow> ('q, http_answer) act" where
  "do_POST handler post =
     (if hp_path post \<noteq> webhook_path then retS \<lparr>ha_status = 404, ha_correlation_id = None, ha_body = []\<rparr>
      else
        bindS (liftS (py_int (JStr (header_line (hp_headers post) ''Content-Length'' ''0'')))) (\<lambda>length.
        bindS (handler \<lparr>wr_headers = headers_dict (hp_headers post), wr_body = read_body length (hp_stream post)\<rparr>)
          (\<lambda>response.
        retS \<lparr>ha_status = ws_status response,
              ha_correlation_id =
                (if ws_correlation_id response = [] then None else Some (ws_correlation_id response)),
              ha_body = (if ws_message response \<noteq> [] \<and> ws_status response \<notin> {204, 304}
                         then ws_message response else [])\<rparr>)))"

end
