(* ===== verification/Aggregate.thy ===== *)
theory Aggregate
  imports Contracts
begin

text \<open>
  The PR aggregate of \<open>src/runtime/orchestrator/pr_aggregate.py\<close>: the revisions of a pull
  request, the CI runs recorded against each, the readiness verdict for the current head, the
  export to the strategy engine, and the in-memory store of aggregates. The invariant \<open>agg_inv\<close>
  holds in every store the operations can reach (\<open>store_reachable\<close>).
\<close>

section \<open>Data\<close>

datatype pr_revision_status = REV_CURRENT | REV_SUPERSEDED

datatype check_run_status = CK_UNKNOWN | QUEUED | IN_PROGRESS | PENDING | COMPLETED

fun check_run_status_value :: "check_run_status \<Rightarrow> string" where
  "check_run_status_value CK_UNKNOWN = ''unknown''"
| "check_run_status_value QUEUED = ''queued''"
| "check_run_status_value IN_PROGRESS = ''in_progress''"
| "check_run_status_value PENDING = ''pending''"
| "check_run_status_value COMPLETED = ''completed''"

abbreviation check_run_statuses :: "check_run_status list" where
  "check_run_statuses \<equiv> [CK_UNKNOWN, QUEUED, IN_PROGRESS, PENDING, COMPLETED]"

interpretation check_status:
  str_enum "''CheckRunStatus''" check_run_statuses check_run_status_value
proof unfold_locales
  fix m m' :: check_run_status
  show "m \<in> set check_run_statuses" by (cases m) auto
  show "check_run_status_value m = check_run_status_value m' \<Longrightarrow> m = m'"
    by (cases m; cases m'; simp)
qed

datatype review_readiness_state = READY | WAITING_FOR_CHECKS | CHECKS_FAILED

datatype review_run_trigger = MANUAL | AUTO | TRIGGER_CI_COMPLETED

record check_run_snapshot =
  cs_name :: string
  cs_status :: check_run_status
  cs_conclusion :: "string option"
  cs_head_sha :: string

record ci_workflow_run_record =
  wr_event_id :: string
  wr_workflow_name :: string
  wr_conclusion :: string
  wr_run_url :: string
  wr_failed_jobs :: "string list"
  wr_commit_sha :: string
  wr_is_current_head :: bool

record pr_revision_state =
  rv_head_sha :: string
  rv_status :: pr_revision_status
  rv_ci_runs :: "ci_workflow_run_record list"

record review_run =
  rn_head_sha :: string
  rn_trigger :: review_run_trigger
  rn_requested_by :: string

record review_readiness =
  rd_state :: review_readiness_state
  rd_head_sha :: string
  rd_blocking_checks :: "string list"
  rd_summary :: string

record pr_aggregate_state =
  ag_repo_full_name :: string
  ag_pr_number :: int
  ag_title :: string
  ag_current_head_sha :: string
  ag_revisions :: "pr_revision_state dict"
  ag_event_ids :: "string list"
  ag_review_runs :: "review_run list"

section \<open>Operations\<close>

subsection \<open>Checks, runs and revisions\<close>

definition normalize_check_run_status :: "string \<Rightarrow> check_run_status" where
  "normalize_check_run_status status =
     (let normalized = lower (strip status) in
      case map_of [(''requested'', PENDING), (''waiting'', PENDING)] normalized of
        Some s \<Rightarrow> s
      | None \<Rightarrow>
          (case enum_of_value ''CheckRunStatus'' check_run_statuses check_run_status_value normalized of
             Inr s \<Rightarrow> s
           | Inl _ \<Rightarrow> CK_UNKNOWN))"

definition is_pending :: "check_run_snapshot \<Rightarrow> bool" where
  "is_pending c \<longleftrightarrow> cs_status c \<noteq> COMPLETED"

definition is_failure :: "check_run_snapshot \<Rightarrow> bool" where
  "is_failure c \<longleftrightarrow> cs_status c = COMPLETED \<and>
     lower (case cs_conclusion c of None \<Rightarrow> [] | Some s \<Rightarrow> s)
       \<in> {''action_required'', ''failure'', ''startup_failure'', ''timed_out''}"

definition snapshot_from_result :: "check_run_result \<Rightarrow> check_run_snapshot" where
  "snapshot_from_result r =
     \<lparr>cs_name = ck_name r, cs_status = normalize_check_run_status (ck_status r),
      cs_conclusion = (if ck_conclusion r = [] then None else Some (ck_conclusion r)),
      cs_head_sha = ck_head_sha r\<rparr>"

definition record_from_event :: "string ci_completed \<Rightarrow> string \<Rightarrow> ci_workflow_run_record" where
  "record_from_event e current_head_sha =
     \<lparr>wr_event_id = em_event_id (ci_meta e), wr_workflow_name = ci_workflow_name e,
      wr_conclusion = ci_conclusion e, wr_run_url = ci_run_url e,
      wr_failed_jobs = ci_failed_jobs e, wr_commit_sha = ci_commit_sha e,
      wr_is_current_head = (ci_commit_sha e = current_head_sha)\<rparr>"

definition as_historical :: "ci_workflow_run_record \<Rightarrow> ci_workflow_run_record" where
  "as_historical w = (if \<not> wr_is_current_head w then w else w\<lparr>wr_is_current_head := False\<rparr>)"

definition record_ci_run :: "pr_revision_state \<Rightarrow> ci_workflow_run_record \<Rightarrow> pr_revision_state" where
  "record_ci_run r w = r\<lparr>rv_ci_runs := rv_ci_runs r @ [w]\<rparr>"

definition supersede :: "pr_revision_state \<Rightarrow> pr_revision_state" where
  "supersede r =
     (if rv_status r = REV_SUPERSEDED \<and> (\<forall>w \<in> set (rv_ci_runs r). \<not> wr_is_current_head w) then r
      else r\<lparr>rv_status := REV_SUPERSEDED, rv_ci_runs := map as_historical (rv_ci_runs r)\<rparr>)"

definition can_publish_final_review :: "review_readiness \<Rightarrow> bool" where
  "can_publish_final_review r \<longleftrightarrow> rd_state r \<in> {READY, CHECKS_FAILED}"

definition can_publish_interim_response :: "review_readiness \<Rightarrow> bool" where
  "can_publish_interim_response r \<longleftrightarrow> rd_state r = WAITING_FOR_CHECKS"

definition append_unique :: "string list \<Rightarrow> string \<Rightarrow> string list" where
  "append_unique vs v = (if v \<in> set vs then vs else vs @ [v])"

subsection \<open>The aggregate\<close>

definition head_sha_for :: "string pr_event \<Rightarrow> string res" where
  "head_sha_for e =
     (let head_sha = strip (pe_head_sha e) in
      if head_sha = []
      then Inl (Exn ValueError ''PR event head_sha is required for aggregate revision state'')
      else Inr head_sha)"

definition fresh_revision :: "string \<Rightarrow> pr_revision_status \<Rightarrow> pr_revision_state" where
  "fresh_revision sha st = \<lparr>rv_head_sha = sha, rv_status = st, rv_ci_runs = []\<rparr>"

definition from_pr_event :: "string pr_event \<Rightarrow> pr_aggregate_state res" where
  "from_pr_event e =
     bindR (head_sha_for e) (\<lambda>head_sha. Inr
       \<lparr>ag_repo_full_name = pe_repo_full_name e, ag_pr_number = pe_pr_number e,
        ag_title = pe_title e, ag_current_head_sha = head_sha,
        ag_revisions = [(head_sha, fresh_revision head_sha REV_CURRENT)],
        ag_event_ids = [em_event_id (pe_meta e)], ag_review_runs = []\<rparr>)"

definition current_revision :: "pr_aggregate_state \<Rightarrow> pr_revision_state res" where
  "current_revision a =
     (case map_of (ag_revisions a) (ag_current_head_sha a) of
        Some r \<Rightarrow> Inr r
      | None \<Rightarrow> Inl (Exn KeyError (repr_str (ag_current_head_sha a))))"

text \<open>\<open>{sha: revision.supersede() if sha == head else revision for ...}\<close>\<close>

definition supersede_head :: "string \<Rightarrow> pr_revision_state dict \<Rightarrow> pr_revision_state dict" where
  "supersede_head head revisions =
     map (\<lambda>(sha, r). (sha, if sha = head then supersede r else r)) revisions"

definition apply_pr_event ::
  "pr_aggregate_state \<Rightarrow> string pr_event \<Rightarrow> pr_aggregate_state res" where
  "apply_pr_event a e =
     bindR (head_sha_for e) (\<lambda>head_sha.
       let revisions =
             (if head_sha \<noteq> ag_current_head_sha a
              then supersede_head (ag_current_head_sha a) (ag_revisions a) else ag_revisions a);
           old = (case map_of revisions head_sha of
                    Some r \<Rightarrow> r | None \<Rightarrow> fresh_revision head_sha REV_CURRENT)
       in Inr (a\<lparr>ag_title := (if pe_title e = [] then ag_title a else pe_title e),
                ag_current_head_sha := head_sha,
                ag_revisions := AList.update head_sha (old\<lparr>rv_status := REV_CURRENT\<rparr>) revisions,
                ag_event_ids := append_unique (ag_event_ids a) (em_event_id (pe_meta e))\<rparr>))"

definition record_ci_completed ::
  "pr_aggregate_state \<Rightarrow> string ci_completed \<Rightarrow> pr_aggregate_state" where
  "record_ci_completed a e =
     (let w = record_from_event e (ag_current_head_sha a);
          sha = ci_commit_sha e;
          old = (case map_of (ag_revisions a) sha of
                   Some r \<Rightarrow> r | None \<Rightarrow> fresh_revision sha REV_SUPERSEDED)
      in a\<lparr>ag_revisions := AList.update sha (record_ci_run old w) (ag_revisions a),
           ag_event_ids := append_unique (ag_event_ids a) (em_event_id (ci_meta e))\<rparr>)"

definition start_review_run ::
  "pr_aggregate_state \<Rightarrow> review_run_trigger \<Rightarrow> string \<Rightarrow> pr_aggregate_state" where
  "start_review_run a trigger requested_by =
     a\<lparr>ag_review_runs := ag_review_runs a @
         [\<lparr>rn_head_sha = ag_current_head_sha a, rn_trigger = trigger, rn_requested_by = requested_by\<rparr>]\<rparr>"

definition evaluate_readiness ::
  "pr_aggregate_state \<Rightarrow> check_run_snapshot list \<Rightarrow> review_readiness" where
  "evaluate_readiness a snapshot =
     (let head = ag_current_head_sha a;
          current_checks = filter (\<lambda>c. cs_head_sha c = head) snapshot;
          blocking = map cs_name (filter is_pending current_checks);
          failed = map cs_name (filter is_failure current_checks)
      in if blocking \<noteq> [] then
           \<lparr>rd_state = WAITING_FOR_CHECKS, rd_head_sha = head, rd_blocking_checks = blocking,
            rd_summary = ''Waiting for current-head checks to finish: '' @ join '', '' blocking @ ''.''\<rparr>
         else if failed \<noteq> [] then
           \<lparr>rd_state = CHECKS_FAILED, rd_head_sha = head, rd_blocking_checks = failed,
            rd_summary = ''Current-head checks completed with failures: '' @ join '', '' failed @ ''.''\<rparr>
         else
           \<lparr>rd_state = READY, rd_head_sha = head, rd_blocking_checks = [],
            rd_summary = ''Current-head checks are complete; final review can be published.''\<rparr>)"

definition ci_observation_from_record :: "ci_workflow_run_record \<Rightarrow> ci_observation" where
  "ci_observation_from_record w =
     \<lparr>ob_workflow_name = wr_workflow_name w, ob_conclusion = wr_conclusion w,
      ob_run_url = wr_run_url w, ob_failed_jobs = wr_failed_jobs w,
      ob_commit_sha = wr_commit_sha w, ob_logs_url = []\<rparr>"

definition ci_observation_from_check :: "check_run_snapshot \<Rightarrow> ci_observation" where
  "ci_observation_from_check c =
     \<lparr>ob_workflow_name = cs_name c,
      ob_conclusion = (case cs_conclusion c of
         None \<Rightarrow> check_run_status_value (cs_status c)
       | Some s \<Rightarrow> if s = [] then check_run_status_value (cs_status c) else s),
      ob_run_url = [], ob_failed_jobs = (if is_failure c then [cs_name c] else []),
      ob_commit_sha = cs_head_sha c, ob_logs_url = []\<rparr>"

text \<open>The loop of \<open>_merge_current_observations\<close> over the checks: result list and keys seen.\<close>

definition observation_key :: "ci_observation \<Rightarrow> string \<times> string" where
  "observation_key ob = (ob_workflow_name ob, ob_commit_sha ob)"

fun merge_checks ::
  "(string \<times> string) set \<Rightarrow> (string \<times> string) set \<Rightarrow> ci_observation list \<Rightarrow> ci_observation list"
where
  "merge_checks jobs seen [] = []"
| "merge_checks jobs seen (c # cs) =
     (if observation_key c \<in> seen \<or> (ob_commit_sha c, ob_workflow_name c) \<in> jobs
      then merge_checks jobs seen cs
      else c # merge_checks jobs (insert (observation_key c) seen) cs)"

definition recorded_failed_jobs :: "ci_observation list \<Rightarrow> (string \<times> string) set" where
  "recorded_failed_jobs records =
     set (concat (map (\<lambda>r. map (Pair (ob_commit_sha r))
       (filter (\<lambda>j. ob_commit_sha r \<noteq> [] \<and> j \<noteq> []) (ob_failed_jobs r))) records))"

definition merge_current_observations ::
  "ci_observation list \<Rightarrow> ci_observation list \<Rightarrow> ci_observation list" where
  "merge_current_observations records checks =
     records @ merge_checks (recorded_failed_jobs records) (set (map observation_key records)) checks"

fun ci_readiness_state_from :: "review_readiness_state \<Rightarrow> ci_readiness_state" where
  "ci_readiness_state_from WAITING_FOR_CHECKS = CI_WAITING_FOR_CHECKS"
| "ci_readiness_state_from CHECKS_FAILED = CI_CHECKS_FAILED"
| "ci_readiness_state_from READY = CI_READY"

definition to_ci_feedback_context ::
  "pr_aggregate_state \<Rightarrow> review_readiness \<Rightarrow> check_run_snapshot list \<Rightarrow> ci_feedback_context res" where
  "to_ci_feedback_context a readiness snapshot =
     bindR (current_revision a) (\<lambda>cur.
       let head = ag_current_head_sha a;
           historical =
             map (\<lambda>r. \<lparr>he_head_sha = rv_head_sha r,
                       he_observations = map ci_observation_from_record (rv_ci_runs r)\<rparr>)
               (filter (\<lambda>r. rv_head_sha r \<noteq> head \<and> rv_ci_runs r \<noteq> []) (map snd (ag_revisions a)))
       in Inr \<lparr>fb_current_head_sha = head,
              fb_readiness = ci_readiness_state_from (rd_state readiness),
              fb_current_observations =
                merge_current_observations
                  (map ci_observation_from_record (rv_ci_runs cur))
                  (map ci_observation_from_check (filter (\<lambda>c. cs_head_sha c = head) snapshot)),
              fb_historical_evidence = historical,
              fb_pending_checks =
                (if rd_state readiness = WAITING_FOR_CHECKS then rd_blocking_checks readiness else [])\<rparr>)"

subsection \<open>The in-memory store\<close>

type_synonym aggregate_store = "((string \<times> int) \<times> pr_aggregate_state) list"

definition store_get :: "aggregate_store \<Rightarrow> string \<Rightarrow> int \<Rightarrow> pr_aggregate_state option" where
  "store_get s repo n = map_of s (repo, n)"

definition store_save :: "pr_aggregate_state \<Rightarrow> aggregate_store \<Rightarrow> aggregate_store" where
  "store_save a s = AList.update (ag_repo_full_name a, ag_pr_number a) a s"

definition store_apply_pr_event :: "string pr_event \<Rightarrow> (aggregate_store, pr_aggregate_state) act" where
  "store_apply_pr_event e s =
     (case (case store_get s (pe_repo_full_name e) (pe_pr_number e) of
              None \<Rightarrow> from_pr_event e | Some existing \<Rightarrow> apply_pr_event existing e) of
        Inl x \<Rightarrow> (Inl x, s)
      | Inr a \<Rightarrow> (Inr a, store_save a s))"

definition store_record_ci_completed ::
  "string ci_completed \<Rightarrow> aggregate_store \<Rightarrow> pr_aggregate_state option \<times> aggregate_store" where
  "store_record_ci_completed e s =
     (case ci_pr_number e of
        None \<Rightarrow> (None, s)
      | Some n \<Rightarrow>
          (case store_get s (ci_repo_full_name e) n of
             None \<Rightarrow> (None, s)
           | Some existing \<Rightarrow>
               let a = record_ci_completed existing e in (Some a, store_save a s)))"

definition store_start_review_run ::
  "string \<Rightarrow> int \<Rightarrow> review_run_trigger \<Rightarrow> string \<Rightarrow> aggregate_store \<Rightarrow>
     pr_aggregate_state option \<times> aggregate_store" where
  "store_start_review_run repo n trigger requested_by s =
     (case store_get s repo n of
        None \<Rightarrow> (None, s)
      | Some existing \<Rightarrow>
          let a = start_review_run existing trigger requested_by in (Some a, store_save a s))"

text \<open>
  \<open>_load_ci_feedback_for_pr_event\<close> of \<open>src/app/worker/factory.py\<close>: update the aggregate, load
  the check runs of its current head through the given provider, and export both. The provider
  has a state of its own.
\<close>

definition load_ci_feedback_for_pr_event ::
  "(string \<Rightarrow> string \<Rightarrow> string \<Rightarrow> ('w, check_run_snapshot list) act) \<Rightarrow> string pr_event \<Rightarrow>
     (aggregate_store \<times> 'w, ci_feedback_context) act" where
  "load_ci_feedback_for_pr_event load_checks e sw =
     (case sw of (s, w) \<Rightarrow>
        (case store_apply_pr_event e s of
           (Inl x, s') \<Rightarrow> (Inl x, s', w)
         | (Inr a, s') \<Rightarrow>
             (case load_checks (pe_repo_full_name e) (ag_current_head_sha a)
                     (em_correlation_id (pe_meta e)) w of
                (Inl x, w') \<Rightarrow> (Inl x, s', w')
              | (Inr checks, w') \<Rightarrow>
                  (to_ci_feedback_context a (evaluate_readiness a checks) checks, s', w'))))"

end
