(* ===== verification/Samples.thy ===== *)
theory Samples
  imports Aggregate
begin

text \<open>Concrete events for the witnesses: one pull request with revisions \<open>aaa\<close> and \<open>bbb\<close>.\<close>

definition sample_time :: datetime where
  "sample_time = \<lparr>dt_year = 2024, dt_month = 2, dt_day = 29, dt_hour = 12, dt_minute = 30,
     dt_second = 5, dt_micro = 250000, dt_offset = Some 0\<rparr>"

definition sample_meta :: "string \<Rightarrow> event_type \<Rightarrow> event_meta" where
  "sample_meta i t = \<lparr>em_event_id = i, em_event_type = t, em_correlation_id = ''corr'',
     em_timestamp = sample_time, em_source = GITHUB\<rparr>"

definition sample_pr :: "string \<Rightarrow> string \<Rightarrow> string pr_event" where
  "sample_pr i sha = \<lparr>pe_meta = sample_meta i PR_OPENED, pe_repo_full_name = ''o/r'', pe_pr_number = 7,
     pe_title = ''Add login'', pe_body = [], pe_author = ''ann'', pe_base_branch = ''main'',
     pe_head_branch = ''login'', pe_diff_url = [],
     pe_files_changed = [\<lparr>fc_path = ''src/app.py'', fc_status = ''modified'', fc_additions = 3,
       fc_deletions = 1, fc_previous_filename = []\<rparr>],
     pe_head_sha = sha\<rparr>"

definition sample_ci :: "string \<Rightarrow> string \<Rightarrow> string \<Rightarrow> string ci_completed" where
  "sample_ci i sha concl = \<lparr>ci_meta = sample_meta i CI_COMPLETED, ci_repo_full_name = ''o/r'',
     ci_pr_number = Some 7, ci_commit_sha = sha, ci_workflow_name = ''CI'', ci_conclusion = concl,
     ci_run_url = [], ci_failed_jobs = (if concl = ''failure'' then [''pytest''] else []),
     ci_logs_url = [], ci_run_id = Some 5\<rparr>"

definition sample_check :: "string \<Rightarrow> check_run_status \<Rightarrow> string option \<Rightarrow> string \<Rightarrow> check_run_snapshot" where
  "sample_check n st c sha =
     \<lparr>cs_name = n, cs_status = st, cs_conclusion = c, cs_head_sha = sha\<rparr>"

lemmas sample_defs = sample_time_def sample_meta_def sample_pr_def sample_ci_def sample_check_def

lemma strip_aaa [simp]: "strip ''aaa'' = ''aaa''" "strip ''bbb'' = ''bbb''"
  by (simp_all add: strip_keep is_space_def)

definition sample_aggregate :: pr_aggregate_state where
  "sample_aggregate =
     \<lparr>ag_repo_full_name = ''o/r'', ag_pr_number = 7, ag_title = ''Add login'',
      ag_current_head_sha = ''aaa'', ag_revisions = [(''aaa'', fresh_revision ''aaa'' REV_CURRENT)],
      ag_event_ids = [''e1''], ag_review_runs = []\<rparr>"

lemma sample_aggregate_opened: "from_pr_event (sample_pr ''e1'' ''aaa'') = Inr sample_aggregate"
  by (simp add: from_pr_event_def head_sha_for_def sample_defs sample_aggregate_def)

end
