(* ===== verification/Jobs_Facts.thy ===== *)
theory Jobs_Facts
  imports Jobs Samples
begin

text \<open>
  Facts on jobs and queues: the JSON form of a job is read back, a job with a text field that is not
  a string comes back malformed, and the queue interface \<open>job_queue\<close> with the in-memory queue as its
  instance.
\<close>

section \<open>Reading a payload back\<close>

lemma require_str_Inr [simp]: "require_str v field = Inr s \<longleftrightarrow> v = JStr s"
  by (cases v) auto

lemma require_str_Inl: "require_str v field = Inl e \<Longrightarrow> exn_class e = TypeError \<and> (\<forall>s. v \<noteq> JStr s)"
  by (cases v) (auto simp: must_be_def)

lemma optional_int_back [simp]: "optional_int_field (optional_json x) field = Inr x"
  by (cases x) (simp_all add: optional_int_field_def optional_json_def)

lemma meta_back:
  assumes "valid_datetime (em_timestamp m)"
  shows "bindR (require_mapping (meta_payload m) field) meta_from_payload = Inr m"
  using fromisoformat_isoformat [OF assms]
  by (simp add: meta_payload_def meta_from_payload_def dget_def event_type_of_def
      event_type.of_value_value event_source.of_value_value)

lemma file_back: "file_change_from_payload (file_payload JStr f) field = Inr f"
  by (simp add: file_payload_def file_change_from_payload_def dget_def)

lemma files_back:
  "mapR (\<lambda>(i, f). file_change_from_payload f (indexed field i)) (enumerate n (map (file_payload JStr) fs)) = Inr fs"
  by (induction fs arbitrary: n) (simp_all add: file_back)

lemma strs_back:
  "mapR (\<lambda>(i, item). require_str item (indexed field i)) (enumerate n (map JStr xs)) = Inr xs"
  by (induction xs arbitrary: n) simp_all

lemmas field_defs = str_field_def str_field_or_empty_def int_field_def opt_int_field_def dget_def

lemma pr_event_back: "pr_event_from_payload (pe_meta e) (pr_fields JStr e @ r) = Inr e"
  by (simp add: pr_event_from_payload_def pr_fields_def field_defs files_back)

lemma ci_back: "ci_from_payload (ci_meta e) (ci_fields JStr e @ r) = Inr e"
  by (simp add: ci_from_payload_def ci_fields_def field_defs str_tuple_def strs_back)

lemma payload_kind:
  "str_field (event_to_payload enc e) ''kind'' = Inr (event_type_value (em_event_type (event_meta_of e)))"
  by (cases e) (simp_all add: event_to_payload_def field_defs pr_fields_def ci_fields_def)

lemma payload_meta: "dget (event_to_payload enc e) ''meta'' JNull = meta_payload (event_meta_of e)"
  by (cases e) (simp_all add: event_to_payload_def dget_def pr_fields_def ci_fields_def)

definition well_typed :: "'s event \<Rightarrow> bool" where
  "well_typed e \<longleftrightarrow> em_event_type (event_meta_of e) = event_kind e \<and> valid_datetime (em_timestamp (event_meta_of e))"

lemma event_front:
  assumes "well_typed e"
  shows "event_from_payload (event_to_payload enc e) =
    (let m = event_meta_of e; d = event_to_payload enc e in
     case event_kind e of
       PR_OPENED \<Rightarrow> bindR (pr_event_from_payload m d) (\<lambda>e. Inr (PROpened e))
     | PR_UPDATED \<Rightarrow> bindR (pr_event_from_payload m d) (\<lambda>e. Inr (PRUpdated e))
     | PR_COMMENTED \<Rightarrow> bindR (commented_from_payload m d) (\<lambda>e. Inr (PRCommented e))
     | PR_REVIEWED \<Rightarrow> bindR (reviewed_from_payload m d) (\<lambda>e. Inr (PRReviewed e))
     | CI_COMPLETED \<Rightarrow> bindR (ci_from_payload m d) (\<lambda>e. Inr (CICompleted e))
     | CHAT_MENTION \<Rightarrow> bindR (chat_from_payload m d) (\<lambda>e. Inr (ChatMention e)))"
proof -
  have "bindR (require_mapping (meta_payload (event_meta_of e)) ''meta'') meta_from_payload = Inr (event_meta_of e)"
    using assms by (intro meta_back) (simp add: well_typed_def)
  then show ?thesis
    using assms
    by (simp only: event_from_payload_def payload_kind payload_meta event_type_of_def bindR.simps
        event_type.of_value_value well_typed_def Let_def)
qed

lemma event_back:
  assumes "well_typed e"
  shows "event_from_payload (event_to_payload JStr e) = Inr e"
  unfolding event_front [OF assms]
  by (cases e)
    (simp_all add: event_to_payload_def pr_event_back ci_back commented_from_payload_def reviewed_from_payload_def
      chat_from_payload_def field_defs)

lemma plain_files: "list_all plain (map (file_payload JStr) fs)"
  by (simp add: list_all_iff file_payload_def)

lemma plain_strs: "list_all plain (map JStr xs)"
  by (simp add: list_all_iff)

lemma plain_optional [simp]: "plain (optional_json x)"
  by (cases x) (simp_all add: optional_json_def)

lemma plain_payload: "plain (job_payload JStr job)"
  by (cases "ej_event job")
    (simp_all add: job_payload_def event_to_payload_def meta_payload_def pr_fields_def ci_fields_def
      plain_files plain_strs)

lemma job_back:
  assumes "well_typed (ej_event job)"
  shows "deserialize_job (serialize_job JStr job) message_id = Inr (job\<lparr>ej_delivery_id := message_id\<rparr>)"
  by (simp add: deserialize_job_def serialize_job_def loads_dumps [OF plain_payload])
    (simp add: job_payload_def dget_def event_back [OF assms] str_field_def)

text \<open>C28. The queue transports jobs faithfully: a job whose event is of the class its type names and has
  a valid timestamp is read back from its JSON text exactly as it was, with the id of the message it
  came in.\<close>

theorem job_roundtrip:
  assumes "well_typed (ej_event job)"
  shows "deserialize_job (serialize_job JStr job) message_id = Inr (job\<lparr>ej_delivery_id := message_id\<rparr>)"
  by (rule job_back [OF assms])

theorem job_roundtrip_witness:
  "deserialize_job (serialize_job JStr
      \<lparr>ej_event = CICompleted (sample_ci ''e1'' ''aaa'' ''failure''), ej_correlation_id = ''corr'', ej_delivery_id = []\<rparr>) ''1-0'' =
   Inr \<lparr>ej_event = CICompleted (sample_ci ''e1'' ''aaa'' ''failure''), ej_correlation_id = ''corr'', ej_delivery_id = ''1-0''\<rparr>"
proof -
  let ?job = "\<lparr>ej_event = CICompleted (sample_ci ''e1'' ''aaa'' ''failure''), ej_correlation_id = ''corr'', ej_delivery_id = []\<rparr>"
  have "well_typed (ej_event ?job)"
    by (simp add: well_typed_def sample_defs valid_datetime_def days_in_month_def leap_year_def)
  from job_roundtrip [OF this] show ?thesis by simp
qed

section \<open>Jobs that cannot be read back\<close>

definition file_texts :: "'s file_change \<Rightarrow> 's list" where
  "file_texts f = [fc_path f, fc_status f, fc_previous_filename f]"

definition pr_texts :: "'s pr_event \<Rightarrow> 's list" where
  "pr_texts e = [pe_repo_full_name e, pe_title e, pe_body e, pe_author e, pe_base_branch e, pe_head_branch e,
     pe_diff_url e, pe_head_sha e] @ concat (map file_texts (pe_files_changed e))"

text \<open>The text fields of an event.\<close>

fun event_texts :: "'s event \<Rightarrow> 's list" where
  "event_texts (PROpened e) = pr_texts e"
| "event_texts (PRUpdated e) = pr_texts e"
| "event_texts (PRCommented e) = [pc_repo_full_name e, pc_author e, pc_body e, pc_path e]"
| "event_texts (PRReviewed e) = [pv_repo_full_name e, pv_reviewer e, pv_state e, pv_body e]"
| "event_texts (CICompleted e) = [ci_repo_full_name e, ci_commit_sha e, ci_workflow_name e, ci_conclusion e,
     ci_run_url e, ci_logs_url e] @ ci_failed_jobs e"
| "event_texts (ChatMention e) = [cm_platform e, cm_channel_id e, cm_channel_name e, cm_author e, cm_message e,
     cm_thread_id e]"

definition is_text :: "json \<Rightarrow> bool" where
  "is_text v \<longleftrightarrow> (\<exists>s. v = JStr s)"

lemma strs_texts:
  "mapR (\<lambda>(i, item). require_str item (indexed field i)) (enumerate n xs) = Inr ys \<Longrightarrow> \<forall>v \<in> set xs. is_text v"
  by (induction xs arbitrary: n ys) (auto simp: is_text_def)

lemma file_texts_read:
  "file_change_from_payload (file_payload id f) field = Inr g \<Longrightarrow> \<forall>v \<in> set (file_texts f). is_text v"
  by (auto simp: file_change_from_payload_def file_payload_def dget_def file_texts_def is_text_def)

lemma files_texts_read:
  "mapR (\<lambda>(i, f). file_change_from_payload f (indexed field i)) (enumerate n (map (file_payload id) fs)) = Inr gs \<Longrightarrow>
     \<forall>v \<in> set (concat (map file_texts fs)). is_text v"
proof (induction fs arbitrary: n gs)
  case (Cons f fs)
  from Cons.prems obtain g hs where g: "file_change_from_payload (file_payload id f) (indexed field n) = Inr g"
    and hs: "mapR (\<lambda>(i, f). file_change_from_payload f (indexed field i)) (enumerate (Suc n) (map (file_payload id) fs)) = Inr hs"
    by (auto simp: id_def)
  show ?case using file_texts_read [OF g] Cons.IH [OF hs] by auto
qed simp

lemma pr_texts_read: "pr_event_from_payload m (pr_fields id e @ r) = Inr x \<Longrightarrow> \<forall>v \<in> set (pr_texts e). is_text v"
  by (auto simp: pr_event_from_payload_def pr_fields_def field_defs pr_texts_def is_text_def
      dest!: files_texts_read)

lemma ci_texts_read:
  "ci_from_payload m (ci_fields id e @ r) = Inr x \<Longrightarrow> \<forall>v \<in> set (event_texts (CICompleted e)). is_text v"
  by (auto simp: ci_from_payload_def ci_fields_def field_defs str_tuple_def is_text_def dest!: strs_texts)

lemma texts_read:
  assumes "well_typed e" and "event_from_payload (event_to_payload id e) = Inr x"
  shows "\<forall>v \<in> set (event_texts e). is_text v"
  using assms(2) unfolding event_front [OF assms(1)]
  by (cases e)
    (auto simp: event_to_payload_def commented_from_payload_def reviewed_from_payload_def
      chat_from_payload_def field_defs is_text_def dest!: pr_texts_read ci_texts_read)

definition text_message :: "string \<Rightarrow> string \<Rightarrow> redis_message" where
  "text_message message_id job_text = (RStr message_id, [(RStr ''job'', RStr job_text)])"

lemma text_message_job:
  "job_from_message (text_message message_id job_text) =
     Inr (case deserialize_job job_text message_id of Inr job \<Rightarrow> Job job | Inl e \<Rightarrow> MalformedJob message_id (exn_msg e))"
  by (simp add: job_from_message_def text_message_def field_value_def)

text \<open>
  A job is lost on the way when one of its text fields is not a string: \<open>json.dumps\<close> writes it, and
  the worker's decoder refuses it, so that the message comes back as a malformed job.
\<close>

lemma poisoned_job:
  assumes "well_typed (ej_event job)" and "plain (job_payload id job)"
    and "v \<in> set (event_texts (ej_event job))" and "\<And>s. v \<noteq> JStr s"
  shows "\<exists>err. job_from_message (text_message message_id (serialize_job id job)) = Inr (MalformedJob message_id err)"
proof (cases "event_from_payload (event_to_payload id (ej_event job))")
  case (Inr x)
  from texts_read [OF assms(1) this] assms(3,4) show ?thesis by (auto simp: is_text_def)
next
  case (Inl e)
  then have "deserialize_job (serialize_job id job) message_id = Inl e"
    by (simp add: deserialize_job_def serialize_job_def loads_dumps [OF assms(2)])
      (simp add: job_payload_def dget_def)
  then show ?thesis by (simp add: text_message_job)
qed

section \<open>The queue contract\<close>

text \<open>
  What a worker relies on: the queue holds a list of jobs; \<open>dequeue\<close> takes the first of them and
  returns nothing when there is none, \<open>enqueue\<close> appends, and \<open>ack\<close> of a job leaves what is waiting.
\<close>

locale job_queue =
  fixes waiting :: "'q \<Rightarrow> 'j list"
    and enqueue :: "'e \<Rightarrow> ('q, unit) act"
    and dequeue :: "('q, 'j option) act"
    and ack :: "'j \<Rightarrow> ('q, unit) act"
    and as_queued :: "'e \<Rightarrow> 'j"
  assumes dequeue_empty: "waiting q = [] \<Longrightarrow> \<exists>q'. dequeue q = (Inr None, q') \<and> waiting q' = []"
    and dequeue_next: "waiting q = j # js \<Longrightarrow> \<exists>q'. dequeue q = (Inr (Some j), q') \<and> waiting q' = js"
    and enqueue_last: "\<exists>q'. enqueue e q = (Inr (), q') \<and> waiting q' = waiting q @ [as_queued e]"
    and ack_keeps: "\<exists>q'. ack j q = (Inr (), q') \<and> waiting q' = waiting q"
begin

text \<open>First in, first out: \<open>n\<close> jobs taken after some were put are the first \<open>n\<close>.\<close>

fun put_all :: "'e list \<Rightarrow> 'q \<Rightarrow> 'q" where
  "put_all [] q = q"
| "put_all (e # es) q = put_all es (snd (enqueue e q))"

fun take_jobs :: "nat \<Rightarrow> 'q \<Rightarrow> 'j list \<times> 'q" where
  "take_jobs 0 q = ([], q)"
| "take_jobs (Suc n) q =
     (case dequeue q of
        (Inr (Some j), q') \<Rightarrow> (let (js, r) = take_jobs n q' in (j # js, r))
      | (_, q') \<Rightarrow> ([], q'))"

lemma waiting_put_all: "waiting (put_all es q) = waiting q @ map as_queued es"
proof (induction es arbitrary: q)
  case (Cons e es)
  then show ?case using enqueue_last [of e q] by auto
qed simp

lemma take_jobs_first: "fst (take_jobs n q) = take n (waiting q) \<and> waiting (snd (take_jobs n q)) = drop n (waiting q)"
proof (induction n arbitrary: q)
  case (Suc n)
  show ?case
  proof (cases "waiting q")
    case Nil
    then show ?thesis using dequeue_empty [of q] by auto
  next
    case (Cons j js)
    then obtain q' where "dequeue q = (Inr (Some j), q')" "waiting q' = js" using dequeue_next by blast
    with Cons Suc [of q'] show ?thesis by (cases "take_jobs n q'") auto
  qed
qed simp

lemma fifo: "fst (take_jobs n (put_all es q)) = take n (waiting q @ map as_queued es)"
  by (simp add: take_jobs_first waiting_put_all)

end

interpretation memory: job_queue "map Job" memory_enqueue memory_dequeue memory_ack Job
proof unfold_locales
  fix q :: "'s event_job list" and j js
  show "map Job q = j # js \<Longrightarrow> \<exists>q'. memory_dequeue q = (Inr (Some j), q') \<and> map Job q' = js"
    by (cases q) (simp_all add: memory_dequeue_def)
qed (simp_all add: memory_dequeue_def memory_enqueue_def memory_ack_def)

end
