(* ===== verification/Gateway_Facts.thy ===== *)
theory Gateway_Facts
  imports Gateway Jobs_Facts
begin

text \<open>
  What the gateway guarantees: only a delivery with a valid signature reaches the queue, exactly once
  and as the event its payload describes; and what becomes of such a delivery on the worker's side.
\<close>

section \<open>Admission\<close>

text \<open>The bytes were signed with the secret: the header carries their HMAC.\<close>

definition authentic :: "string \<Rightarrow> string dict \<Rightarrow> string \<Rightarrow> bool" where
  "authentic secret headers body \<longleftrightarrow> secret \<noteq> [] \<and>
     (\<exists>header \<in> set_option (map_of (normalise_headers headers) ''x-hub-signature-256'').
        starts_with signature_prefix header \<and>
        strip (drop (length signature_prefix) header) = hmac_hexdigest secret body)"

lemma starts_with_ne: "starts_with signature_prefix h \<Longrightarrow> h \<noteq> []"
  by (auto simp: starts_with_def signature_prefix_def)

lemma compare_digest_Inr: "compare_digest a b = Inr v \<Longrightarrow> v = (a = b)"
  by (auto simp: compare_digest_def split: if_splits)

lemma verify_signature_authentic:
  "verify_signature secret body (map_of (normalise_headers headers) ''x-hub-signature-256'') = Inr v \<Longrightarrow>
     v = authentic secret headers body"
  by (auto simp: verify_signature_def authentic_def dest!: compare_digest_Inr dest: starts_with_ne
      split: option.splits if_splits)

text \<open>The event a delivery stands for, if any.\<close>

definition event_of_delivery :: "gateway \<Rightarrow> webhook_request \<Rightarrow> json event option" where
  "event_of_delivery gw request =
     (let headers = normalise_headers (wr_headers request) in
      case bindR (decode_utf8 (wr_body request)) loads of
        Inr (JObj d) \<Rightarrow>
          (case parse_event (case map_of headers ''x-github-event'' of Some e \<Rightarrow> e | None \<Rightarrow> []) d
                  (correlation_id_of (gw_new_correlation_id gw) headers) (gw_new_event_id gw) (gw_now gw) of
             Inr parsed \<Rightarrow> parsed
           | Inl _ \<Rightarrow> None)
      | _ \<Rightarrow> None)"

definition delivery_correlation_id :: "gateway \<Rightarrow> webhook_request \<Rightarrow> string" where
  "delivery_correlation_id gw request =
     correlation_id_of (gw_new_correlation_id gw) (normalise_headers (wr_headers request))"

definition refusal :: "webhook_response res \<Rightarrow> bool" where
  "refusal r = (case r of Inr response \<Rightarrow> ws_status response \<in> {204, 400, 401} | Inl _ \<Rightarrow> True)"

lemma bool_res_cases: "(\<exists>e. x = Inl e) \<or> x = Inr False \<or> x = Inr True"
  by (cases x) auto

lemma handle_payload_cases:
  assumes "bindR (decode_utf8 (wr_body request)) loads = Inr payload"
  shows "(\<exists>event. event_of_delivery gw request = Some event \<and>
      handle_payload gw enqueue (normalise_headers (wr_headers request)) payload (delivery_correlation_id gw request) q =
        enqueue_event enqueue event (delivery_correlation_id gw request) q) \<or>
    (\<exists>r. handle_payload gw enqueue (normalise_headers (wr_headers request)) payload
      (delivery_correlation_id gw request) q = (r, q) \<and> refusal r)"
proof (cases "\<exists>d. payload = JObj d")
  case True
  let ?h = "normalise_headers (wr_headers request)"
  from True obtain d where d: "payload = JObj d" by blast
  show ?thesis
    using assms
    by (cases "parse_event (case map_of ?h ''x-github-event'' of Some e \<Rightarrow> e | None \<Rightarrow> []) d
          (correlation_id_of (gw_new_correlation_id gw) ?h) (gw_new_event_id gw) (gw_now gw)")
      (auto simp: d handle_payload_def event_of_delivery_def delivery_correlation_id_def refusal_def act_simps
        split: option.split)
next
  case False
  then show ?thesis by (cases payload) (auto simp: handle_payload_def refusal_def act_simps)
qed

lemma handle_cases:
  "(\<exists>event. authentic (gw_secret gw) (wr_headers request) (wr_body request) \<and>
      event_of_delivery gw request = Some event \<and>
      handle gw enqueue request q = enqueue_event enqueue event (delivery_correlation_id gw request) q) \<or>
   (\<exists>r. handle gw enqueue request q = (r, q) \<and> refusal r)"
proof -
  let ?h = "normalise_headers (wr_headers request)"
  define v where "v = verify_signature (gw_secret gw) (wr_body request) (map_of ?h ''x-hub-signature-256'')"
  consider (raised) e where "v = Inl e" | (refused) "v = Inr False" | (signed) "v = Inr True"
    using bool_res_cases [of v] by blast
  then show ?thesis
  proof cases
    case signed
    have auth: "authentic (gw_secret gw) (wr_headers request) (wr_body request)"
      using verify_signature_authentic [OF signed [unfolded v_def]] by simp
    show ?thesis
    proof (cases "bindR (decode_utf8 (wr_body request)) loads")
      case (Inl e)
      with signed show ?thesis by (simp add: handle_def refusal_def act_simps Let_def v_def [symmetric])
    next
      case (Inr payload)
      with signed have h: "handle gw enqueue request q =
          handle_payload gw enqueue ?h payload (delivery_correlation_id gw request) q"
        by (auto simp: handle_def delivery_correlation_id_def act_simps Let_def v_def [symmetric])
      show ?thesis unfolding h using handle_payload_cases [OF Inr, of gw enqueue q] auth by simp
    qed
  qed (simp_all add: handle_def refusal_def act_simps Let_def v_def [symmetric])
qed

text \<open>The delivery in a POST request whose announced length is \<open>n\<close>.\<close>

definition posted_delivery :: "http_post \<Rightarrow> int \<Rightarrow> webhook_request" where
  "posted_delivery post n =
     \<lparr>wr_headers = headers_dict (hp_headers post), wr_body = read_body n (hp_stream post)\<rparr>"

text \<open>C8. Only signed deliveries are enqueued: a request to the HTTP endpoint changes the queue only
  when it is a POST to the webhook path whose body, as it was read, carries its HMAC-SHA256 under a
  secret that is not empty; then exactly one job is appended, with the event its JSON payload
  describes and the delivery's correlation id, and the answer is 202. Any other answer leaves the
  queue as it was.\<close>

theorem only_signed_deliveries:
  "case do_POST (handle gw memory_enqueue) post q of
     (r, q') \<Rightarrow>
       if q' = q then \<not> (\<exists>answer. r = Inr answer \<and> ha_status answer = 202)
       else \<exists>n event request cid.
         hp_path post = ''/webhooks/github'' \<and>
         py_int (JStr (header_line (hp_headers post) ''Content-Length'' ''0'')) = Inr n \<and>
         request = posted_delivery post n \<and> cid = delivery_correlation_id gw request \<and>
         authentic (gw_secret gw) (wr_headers request) (wr_body request) \<and>
         event_of_delivery gw request = Some event \<and>
         q' = q @ [\<lparr>ej_event = event, ej_correlation_id = cid, ej_delivery_id = []\<rparr>] \<and>
         r = Inr \<lparr>ha_status = 202, ha_correlation_id = (if cid = [] then None else Some cid),
                  ha_body = ''enqueued''\<rparr>"
proof (cases "hp_path post = webhook_path")
  case True
  show ?thesis
  proof (cases "py_int (JStr (header_line (hp_headers post) ''Content-Length'' ''0''))")
    case (Inr n)
    let ?request = "posted_delivery post n"
    from True Inr have post: "do_POST h post q =
      bindS (h ?request) (\<lambda>response. retS \<lparr>ha_status = ws_status response,
        ha_correlation_id = (if ws_correlation_id response = [] then None else Some (ws_correlation_id response)),
        ha_body = (if ws_message response \<noteq> [] \<and> ws_status response \<notin> {204, 304}
          then ws_message response else [])\<rparr>) q" for h :: "webhook_request \<Rightarrow> ('q, webhook_response) act" and q
      by (simp add: do_POST_def posted_delivery_def act_simps del: py_int.simps)
    from handle_cases [of gw ?request memory_enqueue q] show ?thesis
    proof (elim disjE exE conjE)
      fix event
      assume "authentic (gw_secret gw) (wr_headers ?request) (wr_body ?request)"
        and "event_of_delivery gw ?request = Some event"
        and "handle gw memory_enqueue ?request q = enqueue_event memory_enqueue event (delivery_correlation_id gw ?request) q"
      with True Inr show ?thesis
        unfolding post
        by (auto simp: webhook_path_def act_simps enqueue_event_def memory_enqueue_def simp del: py_int.simps
            intro!: exI [of _ n] exI [of _ event])
    qed (auto simp: post act_simps refusal_def split: sum.splits)
  qed (auto simp: do_POST_def act_simps)
qed (auto simp: do_POST_def act_simps)

text \<open>A signature header outside ASCII is not answered with 401: the comparison raises.\<close>

lemma signature_not_ascii:
  assumes "secret \<noteq> []" and "\<exists>c \<in> set (strip s). (of_char c :: nat) \<ge> 128"
  shows "\<exists>msg. verify_signature secret body (Some (signature_prefix @ s)) = Inl (Exn TypeError msg)"
  using assms by (auto simp: verify_signature_def signature_prefix_def starts_with_def compare_digest_def not_less)

section \<open>From the gateway to the worker\<close>

text \<open>A parsed event is well typed and, when the payload is, free of floats and of repeated keys.\<close>

lemma plain_dget: "plain (JObj d) \<Longrightarrow> plain dflt \<Longrightarrow> plain (dget d k dflt)"
  by (auto simp: dget_def list_all_iff split: option.split dest: map_of_SomeD)

lemma plain_vget: "vget v k dflt = Inr x \<Longrightarrow> plain v \<Longrightarrow> plain dflt \<Longrightarrow> plain x"
  by (cases v) (auto intro: plain_dget simp del: plain.simps)

lemma plain_get_text: "get_text v k = Inr x \<Longrightarrow> plain v \<Longrightarrow> plain x"
  by (auto simp: get_text_def intro: plain_vget)

lemma plain_path: "plain v \<Longrightarrow> plain (text_at v ks)"
proof -
  have "plain v \<Longrightarrow> plain dflt \<Longrightarrow> plain (get_path v ks dflt)" for dflt
    by (induction v ks dflt rule: get_path.induct) (auto intro: plain_dget simp del: plain.simps)
  then show "plain v \<Longrightarrow> plain (text_at v ks)" by (simp add: text_at_def)
qed

lemma plain_por [simp]: "plain v \<Longrightarrow> plain w \<Longrightarrow> plain (por v w)"
  by (simp add: por_def)

lemma plain_iter: "py_iter v = Inr xs \<Longrightarrow> plain v \<Longrightarrow> list_all plain xs"
  by (cases v) (auto simp: list_all_iff)

lemma mapR_all: "mapR f xs = Inr ys \<Longrightarrow> (\<And>x y. x \<in> set xs \<Longrightarrow> f x = Inr y \<Longrightarrow> P y) \<Longrightarrow> list_all P ys"
proof (induction xs arbitrary: ys)
  case (Cons x xs)
  from Cons.prems(1) obtain z zs where z: "f x = Inr z" and zs: "mapR f xs = Inr zs" and ys: "ys = z # zs" by auto
  have "list_all P zs" by (rule Cons.IH [OF zs]) (rule Cons.prems(2), auto)
  with Cons.prems(2) [OF _ z] show ?case by (simp add: ys)
qed simp

lemma plain_file_parsed:
  assumes "parse_file f = Inr g" and "plain f"
  shows "plain (file_payload id g)"
proof -
  note texts = plain_get_text [OF _ assms(2)] plain_vget [OF _ assms(2)]
  from assms(1) show ?thesis by (auto simp: parse_file_def file_payload_def intro!: plain_por intro: texts)
qed

lemma plain_files_parsed:
  "parse_files v = Inr fs \<Longrightarrow> plain v \<Longrightarrow> list_all (\<lambda>f. plain (file_payload id f)) fs"
  by (auto simp: parse_files_def list_all_iff [of plain] dest!: plain_iter elim!: mapR_all intro: plain_file_parsed)

lemma plain_jobs_named: "named_jobs v = Inr xs \<Longrightarrow> plain v \<Longrightarrow> list_all plain xs"
proof -
  assume "named_jobs v = Inr xs" and "plain v"
  then obtain js names where js: "list_all plain js" and names: "mapR (\<lambda>j. vget j ''name'' JNull) js = Inr names"
    and xs: "xs = filter truthy names"
    by (auto simp: named_jobs_def dest: plain_iter)
  from names js have "list_all plain names" by (auto simp: list_all_iff [of plain js] elim!: mapR_all intro: plain_vget)
  then show ?thesis by (simp add: xs list_all_iff)
qed

lemma plain_pr_parsed:
  assumes "pr_common m payload pr repo = Inr e" and p: "plain pr" "plain repo" "plain (JObj payload)"
  shows "plain (JObj (pr_fields id e))"
proof -
  note texts = plain_get_text [OF _ p(1)] plain_get_text [OF _ p(2)] plain_path [OF p(1)]
  have "parse_files (dget payload ''files'' (JList [])) = Inr fs \<Longrightarrow> list_all (\<lambda>f. plain (file_payload id f)) fs" for fs
    by (erule plain_files_parsed) (rule plain_dget [OF p(3)], simp)
  with assms(1) texts show ?thesis
    by (auto simp: pr_common_def pr_fields_def meta_payload_def list_all_iff)
qed

lemma plain_value [simp]: "plain (JStr s)" "plain (JInt i)" "plain (JBool b)" "plain JNull" "plain (JList [])" "plain (JObj [])"
  by simp_all

definition parsed_ok :: "datetime \<Rightarrow> json event \<Rightarrow> bool" where
  "parsed_ok now e \<longleftrightarrow> plain (JObj (event_fields id e)) \<and>
     em_event_type (event_meta_of e) = event_kind e \<and> em_timestamp (event_meta_of e) = now"

lemma pr_parsed_ok:
  assumes "parse_github_pr_event payload action cid event_id now = Inr (Some e)" and p: "plain (JObj payload)"
  shows "parsed_ok now e"
proof -
  have part: "plain (dget payload k (JObj []))" for k by (rule plain_dget [OF p]) simp
  have "pe_meta x = m" if "pr_common m payload pr repo = Inr x" for m pr repo x
    using that by (auto simp: pr_common_def)
  with assms(1) plain_pr_parsed [OF _ part part p] show ?thesis
    by (auto simp: parse_github_pr_event_def parsed_ok_def github_meta_def Let_def split: if_splits
        simp del: plain.simps)
qed

lemma ci_parsed_ok:
  assumes "parse_github_ci_event payload cid event_id now = Inr (Some e)" and p: "plain (JObj payload)"
  shows "parsed_ok now e"
proof -
  have part: "plain (dget payload k (JObj []))" for k by (rule plain_dget [OF p]) simp
  have jobs: "plain (JList xs)" if "named_jobs (dget payload ''failed_jobs'' (JList [])) = Inr xs" for xs
    using plain_jobs_named [OF that] plain_dget [OF p, of "JList []"] by simp
  show ?thesis
    using assms(1) plain_get_text [OF _ part] plain_path [OF part] jobs
    by (auto simp: parse_github_ci_event_def parsed_ok_def github_meta_def ci_fields_def meta_payload_def Let_def
        optional_json_def split: if_splits option.split)
qed

lemma review_parsed_ok:
  assumes "parse_github_pr_review_event payload cid event_id now = Inr (Some e)" and p: "plain (JObj payload)"
  shows "parsed_ok now e"
proof -
  have part: "plain (dget payload k (JObj []))" for k by (rule plain_dget [OF p]) simp
  have "plain w" if "lower_value v = Inr w" for v w using that by (cases v) auto
  with assms(1) plain_get_text [OF _ part] plain_path [OF part] show ?thesis
    by (auto simp: parse_github_pr_review_event_def parsed_ok_def github_meta_def meta_payload_def Let_def
        split: if_splits)
qed

lemma comment_parsed_ok:
  assumes "parse_github_comment_event payload cid event_id now = Inr (Some e)" and p: "plain (JObj payload)"
  shows "parsed_ok now e"
proof -
  have part: "plain (dget payload k (JObj []))" for k by (rule plain_dget [OF p]) simp
  with assms(1) plain_get_text [OF _ part] plain_path [OF part] show ?thesis
    by (auto simp: parse_github_comment_event_def parsed_ok_def github_meta_def meta_payload_def Let_def
        split: if_splits option.splits)
qed

lemma event_parsed_ok:
  assumes "parse_event name payload cid event_id now = Inr (Some e)" and "plain (JObj payload)"
  shows "parsed_ok now e"
  using assms(1) pr_parsed_ok [OF _ assms(2)] ci_parsed_ok [OF _ assms(2)] review_parsed_ok [OF _ assms(2)]
    comment_parsed_ok [OF _ assms(2)]
  by (simp add: parse_event_def Let_def split: if_splits)

lemma parsed_ok_job:
  assumes "parsed_ok now e" and "valid_datetime now"
  shows "well_typed e" and "plain (job_payload id \<lparr>ej_event = e, ej_correlation_id = cid, ej_delivery_id = []\<rparr>)"
proof -
  show "well_typed e" using assms by (simp add: parsed_ok_def well_typed_def)
  from assms(1) show "plain (job_payload id \<lparr>ej_event = e, ej_correlation_id = cid, ej_delivery_id = []\<rparr>)"
    by (cases e)
      (auto simp: parsed_ok_def job_payload_def event_to_payload_def pr_fields_def ci_fields_def)
qed

text \<open>The event with the strings its text fields hold.\<close>

fun the_text :: "json \<Rightarrow> string" where
  "the_text (JStr s) = s"
| "the_text _ = []"

definition text_file :: "json file_change \<Rightarrow> string file_change" where
  "text_file f =
     \<lparr>fc_path = the_text (fc_path f), fc_status = the_text (fc_status f), fc_additions = fc_additions f,
      fc_deletions = fc_deletions f, fc_previous_filename = the_text (fc_previous_filename f)\<rparr>"

definition text_pr :: "json pr_event \<Rightarrow> string pr_event" where
  "text_pr e =
     \<lparr>pe_meta = pe_meta e, pe_repo_full_name = the_text (pe_repo_full_name e), pe_pr_number = pe_pr_number e,
      pe_title = the_text (pe_title e), pe_body = the_text (pe_body e), pe_author = the_text (pe_author e),
      pe_base_branch = the_text (pe_base_branch e), pe_head_branch = the_text (pe_head_branch e),
      pe_diff_url = the_text (pe_diff_url e), pe_files_changed = map text_file (pe_files_changed e),
      pe_head_sha = the_text (pe_head_sha e)\<rparr>"

fun text_event :: "json event \<Rightarrow> string event" where
  "text_event (PROpened e) = PROpened (text_pr e)"
| "text_event (PRUpdated e) = PRUpdated (text_pr e)"
| "text_event (PRCommented e) = PRCommented
     \<lparr>pc_meta = pc_meta e, pc_repo_full_name = the_text (pc_repo_full_name e), pc_pr_number = pc_pr_number e,
      pc_comment_id = pc_comment_id e, pc_author = the_text (pc_author e), pc_body = the_text (pc_body e),
      pc_is_review_comment = pc_is_review_comment e, pc_path = the_text (pc_path e), pc_line = pc_line e\<rparr>"
| "text_event (PRReviewed e) = PRReviewed
     \<lparr>pv_meta = pv_meta e, pv_repo_full_name = the_text (pv_repo_full_name e), pv_pr_number = pv_pr_number e,
      pv_reviewer = the_text (pv_reviewer e), pv_state = the_text (pv_state e), pv_body = the_text (pv_body e)\<rparr>"
| "text_event (CICompleted e) = CICompleted
     \<lparr>ci_meta = ci_meta e, ci_repo_full_name = the_text (ci_repo_full_name e), ci_pr_number = ci_pr_number e,
      ci_commit_sha = the_text (ci_commit_sha e), ci_workflow_name = the_text (ci_workflow_name e),
      ci_conclusion = the_text (ci_conclusion e), ci_run_url = the_text (ci_run_url e),
      ci_failed_jobs = map the_text (ci_failed_jobs e), ci_logs_url = the_text (ci_logs_url e),
      ci_run_id = ci_run_id e\<rparr>"
| "text_event (ChatMention e) = ChatMention
     \<lparr>cm_meta = cm_meta e, cm_platform = the_text (cm_platform e), cm_channel_id = the_text (cm_channel_id e),
      cm_channel_name = the_text (cm_channel_name e), cm_author = the_text (cm_author e),
      cm_message = the_text (cm_message e), cm_thread_id = the_text (cm_thread_id e),
      cm_referenced_pr = cm_referenced_pr e\<rparr>"

definition all_text :: "json event \<Rightarrow> bool" where
  "all_text e \<longleftrightarrow> list_all is_text (event_texts e)"

lemma the_text_back [simp]: "is_text v \<Longrightarrow> JStr (the_text v) = v"
  by (auto simp: is_text_def)

lemma text_payload: "all_text e \<Longrightarrow> event_to_payload JStr (text_event e) = event_to_payload id e"
  by (cases e)
    (auto simp: all_text_def event_to_payload_def pr_fields_def ci_fields_def text_pr_def text_file_def
      pr_texts_def file_texts_def file_payload_def list_all_iff intro!: map_idI)

lemma text_event_same [simp]: "event_meta_of (text_event e) = event_meta_of e" "event_kind (text_event e) = event_kind e"
  by (cases e; simp add: text_pr_def)+

text \<open>What becomes of an accepted delivery: the job the gateway appends to the stream is, when the
  worker reads its message back, the same event with the same correlation id when every text field
  of it holds a string, and a malformed job, which no workflow sees, when one of them holds another
  JSON value (a null title, a number for a name), although the gateway answered 202.\<close>

lemma delivered_job:
  assumes "parse_event name payload cid event_id now = Inr (Some event)"
    and "plain (JObj payload)" and "valid_datetime now"
  shows "\<exists>queued. job_from_message (text_message message_id
      (serialize_job id \<lparr>ej_event = event, ej_correlation_id = cid, ej_delivery_id = []\<rparr>)) = Inr queued \<and>
    (if all_text event
     then queued = Job \<lparr>ej_event = text_event event, ej_correlation_id = cid, ej_delivery_id = message_id\<rparr>
     else \<exists>err. queued = MalformedJob message_id err)"
proof -
  let ?job = "\<lparr>ej_event = event, ej_correlation_id = cid, ej_delivery_id = []\<rparr>"
  note ok = parsed_ok_job [OF event_parsed_ok [OF assms(1,2)] assms(3)]
  show ?thesis
  proof (cases "all_text event")
    case True
    let ?text = "\<lparr>ej_event = text_event event, ej_correlation_id = cid, ej_delivery_id = []\<rparr>"
    have "serialize_job id ?job = serialize_job JStr ?text"
      by (simp add: serialize_job_def job_payload_def text_payload [OF True])
    moreover have "well_typed (ej_event ?text)" using ok(1) by (simp add: well_typed_def)
    ultimately show ?thesis using True by (simp add: text_message_job job_back)
  next
    case False
    then obtain v where "v \<in> set (event_texts (ej_event ?job))" "\<And>s. v \<noteq> JStr s"
      by (auto simp: all_text_def list_all_iff is_text_def)
    then show ?thesis using False ok poisoned_job [of ?job v message_id] by auto
  qed
qed

definition unnamed_payload :: "json dict" where
  "unnamed_payload =
     [(''workflow_run'', JObj [(''conclusion'', JStr ''failure''), (''name'', JNull), (''id'', JInt 5)]),
      (''repository'', JObj [(''full_name'', JStr ''o/r'')])]"

definition unnamed_run :: "json ci_completed" where
  "unnamed_run =
     \<lparr>ci_meta = github_meta CI_COMPLETED ''corr'' ''e1'' sample_time, ci_repo_full_name = JStr ''o/r'',
      ci_pr_number = None, ci_commit_sha = JStr [], ci_workflow_name = JNull, ci_conclusion = JStr ''failure'',
      ci_run_url = JStr [], ci_failed_jobs = [], ci_logs_url = JStr [], ci_run_id = Some 5\<rparr>"

lemma poisoned_delivery:
  "\<exists>err. job_from_message (text_message ''1-0'' (serialize_job id
     \<lparr>ej_event = CICompleted unnamed_run, ej_correlation_id = ''corr'', ej_delivery_id = []\<rparr>)) =
   Inr (MalformedJob ''1-0'' err)"
proof -
  have "parse_event ''workflow_run'' unnamed_payload ''corr'' ''e1'' sample_time = Inr (Some (CICompleted unnamed_run))"
    by (simp add: parse_event_def unnamed_payload_def unnamed_run_def parse_github_ci_event_def dget_def get_text_def
        linked_pr_number_def named_jobs_def optional_id_def text_at_def)
  moreover have "plain (JObj unnamed_payload)" by (simp add: unnamed_payload_def)
  moreover have "valid_datetime sample_time"
    by (simp add: sample_defs valid_datetime_def days_in_month_def leap_year_def)
  ultimately have "\<exists>queued. job_from_message (text_message ''1-0'' (serialize_job id
     \<lparr>ej_event = CICompleted unnamed_run, ej_correlation_id = ''corr'', ej_delivery_id = []\<rparr>)) = Inr queued \<and>
    (if all_text (CICompleted unnamed_run)
     then queued = Job \<lparr>ej_event = text_event (CICompleted unnamed_run), ej_correlation_id = ''corr'', ej_delivery_id = ''1-0''\<rparr>
     else \<exists>err. queued = MalformedJob ''1-0'' err)"
    by (rule delivered_job)
  moreover have "\<not> all_text (CICompleted unnamed_run)"
    by (simp add: all_text_def unnamed_run_def is_text_def)
  ultimately show ?thesis by auto
qed

end
