(* ===== verification/Knowledge.thy ===== *)
theory Knowledge
  imports Contracts
begin

text \<open>
  The in-memory knowledge base of \<open>src/core/knowledge/memory.py\<close>, and the contract of the
  \<open>KnowledgeBase\<close> port the strategy engine relies on (locale \<open>knowledge_port\<close>). A token set is a
  list with repetitions: only membership is used.
\<close>

record knowledge_entry =
  ke_key :: string
  ke_summary :: string
  ke_repos :: "string list"
  ke_checklist_items :: "string list"

record knowledge_query =
  kq_repo_full_name :: string
  kq_query_text :: string

definition punctuation :: string where
  "punctuation = ''.,:;()[]'' @ [CHR 0x7B, CHR 0x7D, CHR ''#'', CHR 0x27, CHR 0x22]"

definition tokens :: "string \<Rightarrow> string list" where
  "tokens text =
     map (\<lambda>token. lower (strip_chars punctuation token))
       (filter (\<lambda>token. cp_length (strip_chars punctuation token) \<ge> 3) (split_ws text))"

definition haystack :: "knowledge_entry \<Rightarrow> string" where
  "haystack e = join '' '' [ke_key e, ke_summary e, join '' '' (ke_checklist_items e)]"

definition entry_matches_terms :: "knowledge_entry \<Rightarrow> string list \<Rightarrow> bool" where
  "entry_matches_terms e terms \<longleftrightarrow>
     (\<exists>t \<in> set terms. t \<in> set (tokens (haystack e))) \<or>
     (\<exists>t \<in> set terms. contains t (lower (haystack e)))"

definition in_scope :: "string \<Rightarrow> knowledge_entry \<Rightarrow> bool" where
  "in_scope repo e \<longleftrightarrow> \<not> (ke_repos e \<noteq> [] \<and> repo \<notin> set (ke_repos e))"

definition search :: "knowledge_entry list \<Rightarrow> knowledge_query \<Rightarrow> knowledge_entry list" where
  "search entries q =
     (let query_terms = tokens (kq_query_text q)
      in sort_key ke_key
           (filter (\<lambda>e. in_scope (kq_repo_full_name q) e \<and>
                        (query_terms = [] \<or> entry_matches_terms e query_terms)) entries))"

section \<open>Tokens occur in their text\<close>

lemma contains_lower: "contains p s \<Longrightarrow> contains (lower p) (lower s)"
  unfolding contains_iff lower_def by (metis map_append)

lemma split_ws_contains: "w \<in> set (split_ws s) \<Longrightarrow> contains w s"
proof (induction s rule: split_ws.induct)
  case (1 s)
  let ?t = "dropWhile is_space s"
  let ?p = "\<lambda>c. \<not> is_space c"
  have s: "s = takeWhile is_space s @ takeWhile ?p ?t @ dropWhile ?p ?t"
    by (simp add: takeWhile_dropWhile_id)
  from 1(2) have "?t \<noteq> []" and "w = takeWhile ?p ?t \<or> w \<in> set (split_ws (dropWhile ?p ?t))"
    by (subst (asm) split_ws.simps, auto simp: Let_def split: if_splits)+
  with 1(1) [of ?t] show ?case
    by (metis append_assoc contains_appendI2 contains_middle s)
qed

lemma token_occurs: "t \<in> set (tokens s) \<Longrightarrow> contains t (lower s)"
proof -
  assume "t \<in> set (tokens s)"
  then obtain w where w: "w \<in> set (split_ws s)" and t: "t = lower (strip_chars punctuation w)"
    by (auto simp: tokens_def)
  have "contains (strip_chars punctuation w) s"
    using split_ws_contains [OF w] contains_strip_by contains_trans unfolding strip_chars_def by blast
  then show ?thesis unfolding t by (rule contains_lower)
qed

lemma matches_iff_occurs:
  "entry_matches_terms e terms \<longleftrightarrow> (\<exists>t \<in> set terms. contains t (lower (haystack e)))"
  unfolding entry_matches_terms_def using token_occurs by blast

section \<open>The knowledge port\<close>

text \<open>
  What a strategy engine may assume of its knowledge base: the answers are known entries, in the
  scope of the repository asked about, ordered by key.
\<close>

locale knowledge_port =
  fixes find_entries :: "knowledge_query \<Rightarrow> knowledge_entry list"
    and known :: "knowledge_entry set"
  assumes known_entries: "e \<in> set (find_entries q) \<Longrightarrow> e \<in> known"
    and scoped: "e \<in> set (find_entries q) \<Longrightarrow> in_scope (kq_repo_full_name q) e"
    and ordered: "sorted (map ke_key (find_entries q))"
begin

lemma refs_sorted_and_scoped:
  "sorted (map ke_key (find_entries q)) \<and>
   set (map ke_key (find_entries q)) \<subseteq> ke_key ` {e \<in> known. in_scope (kq_repo_full_name q) e}"
  using known_entries scoped ordered by auto

end

interpretation in_memory: knowledge_port "search entries" "set entries" for entries
  by unfold_locales (auto simp: search_def Let_def)

text \<open>Searching the in-memory knowledge base returns, ordered by key and without reordering
  entries of equal key, exactly the entries whose repository list is empty or names the repository
  and in whose lower-cased text some query term occurs (all of those when the query has no term):
  the token intersection of the code adds nothing to the substring test beside it.\<close>

lemma search_is_substring_search:
  "search entries q =
     (let terms = tokens (kq_query_text q);
          hit = (\<lambda>e. (ke_repos e = [] \<or> kq_repo_full_name q \<in> set (ke_repos e)) \<and>
                     (terms = [] \<or> (\<exists>t \<in> set terms. contains t (lower (haystack e)))))
      in sort_key ke_key (filter hit entries))"
proof -
  have e: "in_scope (kq_repo_full_name q) e \<and>
        (tokens (kq_query_text q) = [] \<or> entry_matches_terms e (tokens (kq_query_text q))) \<longleftrightarrow>
      (ke_repos e = [] \<or> kq_repo_full_name q \<in> set (ke_repos e)) \<and>
        (tokens (kq_query_text q) = [] \<or>
         (\<exists>t \<in> set (tokens (kq_query_text q)). contains t (lower (haystack e))))" for e
    by (auto simp: in_scope_def matches_iff_occurs)
  show ?thesis unfolding search_def Let_def e ..
qed

end
