(* ===== verification/Strategy.thy ===== *)
theory Strategy
  imports Knowledge
begin

text \<open>
  The strategy engine of \<open>src/core/strategy/rules.py\<close>. The knowledge base is the argument
  \<open>find_entries\<close> of \<open>plan\<close>; its contract is \<open>knowledge_port\<close>.
\<close>

definition quote :: "string \<Rightarrow> string" where
  "quote s = CHR 0x27 # s @ [CHR 0x27]"

definition ci_job_action :: "ci_observation \<Rightarrow> string \<Rightarrow> strategy_action" where
  "ci_job_action ob job =
     \<lparr>sa_action_type = CUSTOM,
      sa_description = ''Prioritize failed CI job '' @ quote job @ '' from workflow '' @ quote (ob_workflow_name ob),
      sa_target = ''ci:'' @ ob_workflow_name ob @ ''/'' @ job,
      sa_priority = 5,
      sa_rationale = ''Current-head failed job is observed evidence and should drive validation priority.''\<rparr>"

definition failed_conclusions :: "string list" where
  "failed_conclusions = [''failure'', ''timed_out'', ''cancelled'', ''action_required'', ''startup_failure'']"

definition ci_workflow_action :: "ci_observation \<Rightarrow> strategy_action" where
  "ci_workflow_action ob =
     (let conclusion = lower (strip (ob_conclusion ob)) in
      \<lparr>sa_action_type = CUSTOM,
       sa_description = ''Review current-head CI workflow '' @ quote (ob_workflow_name ob) @ '' result'',
       sa_target = ''ci:'' @ ob_workflow_name ob,
       sa_priority = (if conclusion \<in> {''failure'', ''timed_out'', ''action_required'', ''startup_failure''} then 4 else 3),
       sa_rationale = ''Current-head CI workflow concluded '' @ conclusion @ ''.''\<rparr>)"

fun observation_actions :: "ci_observation list \<Rightarrow> strategy_action list" where
  "observation_actions [] = []"
| "observation_actions (ob # obs) =
     (if lower (strip (ob_conclusion ob)) \<notin> set failed_conclusions then observation_actions obs
      else ci_workflow_action ob # map (ci_job_action ob) (ob_failed_jobs ob) @ observation_actions obs)"

definition ci_feedback_actions :: "ci_feedback_context option \<Rightarrow> strategy_action list" where
  "ci_feedback_actions fb =
     (case fb of None \<Rightarrow> [] | Some f \<Rightarrow> observation_actions (fb_current_observations f))"

definition observation_summary :: "ci_observation \<Rightarrow> string" where
  "observation_summary ob =
     ob_workflow_name ob @ ''='' @ lower (strip (ob_conclusion ob)) @
     (if ob_failed_jobs ob \<noteq> [] then '' (failed jobs: '' @ join '', '' (ob_failed_jobs ob) @ '')'' else [])"

definition historical_summary :: "ci_historical_evidence \<Rightarrow> string" where
  "historical_summary ev =
     he_head_sha ev @ '': '' @ join '', '' (map observation_summary (he_observations ev))"

definition superseded_evidence :: "ci_feedback_context \<Rightarrow> ci_historical_evidence list" where
  "superseded_evidence fb =
     filter (\<lambda>ev. he_head_sha ev \<noteq> fb_current_head_sha fb \<and> he_observations ev \<noteq> [])
       (fb_historical_evidence fb)"

definition ci_reasoning :: "ci_feedback_context \<Rightarrow> string" where
  "ci_reasoning fb =
     (let historical = superseded_evidence fb in
      join '' ''
        ([''source of truth: '' @ fb_current_head_sha fb @ ''.''] @
         (if fb_current_observations fb \<noteq> [] then
            [''current-head CI/check feedback: '' @
             join ''; '' (map observation_summary (fb_current_observations fb)) @ ''.''] else []) @
         (if fb_pending_checks fb \<noteq> [] then
            [''pending checks: '' @ join '', '' (fb_pending_checks fb) @ ''.''] else []) @
         (if historical \<noteq> [] then
            [''historical CI evidence on superseded heads: '' @
             join ''; '' (map historical_summary historical) @ ''.''] else [])))"

definition reasoning ::
  "behaviour_impact \<Rightarrow> knowledge_entry list \<Rightarrow> ci_feedback_context option \<Rightarrow> string" where
  "reasoning impact matches ci_feedback =
     (let groups = join '', '' (map ia_module (bi_areas impact));
          path_groups = (if groups = [] then ''none'' else groups)
      in join '' ''
        ([''Uncalibrated strategy context only; path groups and knowledge token matches are not executable recommendations.'',
          ''Observed path groups: '' @ path_groups @ ''.''] @
         (if matches \<noteq> [] then [''Knowledge refs: '' @ join '', '' (map ke_key matches) @ ''.''] else []) @
         (case ci_feedback of None \<Rightarrow> [] | Some fb \<Rightarrow> [ci_reasoning fb])))"

definition query_text_from_title_and_impact :: "string \<Rightarrow> behaviour_impact \<Rightarrow> string" where
  "query_text_from_title_and_impact title impact =
     (let files = join '' '' (concat (map ia_affected_files (bi_areas impact)));
          path_groups = join '' '' (map ia_module (bi_areas impact))
      in join '' '' [title, bi_summary impact, path_groups, files])"

definition plan ::
  "(knowledge_query \<Rightarrow> knowledge_entry list) \<Rightarrow> string \<Rightarrow> string \<Rightarrow> behaviour_impact \<Rightarrow>
   ci_feedback_context option \<Rightarrow> strategy_result" where
  "plan find_entries repo title impact ci_feedback =
     (let matches = find_entries
            \<lparr>kq_repo_full_name = repo, kq_query_text = query_text_from_title_and_impact title impact\<rparr>
      in \<lparr>sr_actions = ci_feedback_actions ci_feedback,
          sr_reasoning = reasoning impact matches ci_feedback,
          sr_confidence = 0,
          sr_knowledge_refs = map ke_key matches\<rparr>)"

section \<open>Facts\<close>

lemma observation_actions_iff:
  "a \<in> set (observation_actions obs) \<longleftrightarrow>
     (\<exists>ob \<in> set obs. lower (strip (ob_conclusion ob)) \<in> set failed_conclusions \<and>
        (a = ci_workflow_action ob \<or> (\<exists>job \<in> set (ob_failed_jobs ob). a = ci_job_action ob job)))"
  by (induction obs) auto

lemma action_priority:
  "sa_priority (ci_workflow_action ob) = 3 \<or> sa_priority (ci_workflow_action ob) = 4"
  "sa_priority (ci_job_action ob job) = 5"
  by (simp_all add: ci_workflow_action_def ci_job_action_def Let_def)

lemma feedback_actions_iff:
  "a \<in> set (ci_feedback_actions feedback) \<longleftrightarrow>
     (\<exists>fb ob. feedback = Some fb \<and> ob \<in> set (fb_current_observations fb) \<and>
        lower (strip (ob_conclusion ob)) \<in> set failed_conclusions \<and>
        (a = ci_workflow_action ob \<or> a \<in> ci_job_action ob ` set (ob_failed_jobs ob)))"
  by (cases feedback) (auto simp: ci_feedback_actions_def observation_actions_iff)

lemma feedback_action_priority:
  "a \<in> set (ci_feedback_actions feedback) \<Longrightarrow>
     sa_priority a \<in> {3..5} \<and> (sa_priority a = 5 \<longrightarrow> (\<exists>ob job. a = ci_job_action ob job))"
proof -
  assume "a \<in> set (ci_feedback_actions feedback)"
  then obtain ob where "a = ci_workflow_action ob \<or> (\<exists>job. a = ci_job_action ob job)"
    unfolding feedback_actions_iff by auto
  then show ?thesis
  proof
    assume "a = ci_workflow_action ob"
    then show ?thesis using action_priority(1) [of ob] by auto
  next
    assume "\<exists>job. a = ci_job_action ob job"
    then obtain job where "a = ci_job_action ob job" ..
    then show ?thesis using action_priority(2) [of ob job] by auto
  qed
qed

text \<open>The planned actions are evidence of the current head and of nothing else: an action is
  planned exactly when it is the review action of a current observation with a failing conclusion,
  or the action of one of its failed jobs; priorities are 3 to 5, 5 being kept for failed jobs; and
  the confidence is 0. Knowledge, impact, history, pending checks and readiness play no part.\<close>

lemma plan_actions:
  "(let result = plan find_entries repo title impact feedback
    in sr_confidence result = 0 \<and>
       set (sr_actions result) =
         {a. \<exists>fb ob. feedback = Some fb \<and> ob \<in> set (fb_current_observations fb) \<and>
               lower (strip (ob_conclusion ob)) \<in>
                 set [''failure'', ''timed_out'', ''cancelled'', ''action_required'', ''startup_failure''] \<and>
               (a = ci_workflow_action ob \<or> a \<in> ci_job_action ob ` set (ob_failed_jobs ob))} \<and>
       sa_priority ` set (sr_actions result) \<subseteq> {3..5} \<and>
       {a \<in> set (sr_actions result). sa_priority a = 5} \<subseteq> {a. \<exists>ob job. a = ci_job_action ob job})"
proof -
  have "set (ci_feedback_actions feedback) =
      {a. \<exists>fb ob. feedback = Some fb \<and> ob \<in> set (fb_current_observations fb) \<and>
            lower (strip (ob_conclusion ob)) \<in> set failed_conclusions \<and>
            (a = ci_workflow_action ob \<or> a \<in> ci_job_action ob ` set (ob_failed_jobs ob))}"
    using feedback_actions_iff [of _ feedback] by blast
  moreover have "sa_priority ` set (ci_feedback_actions feedback) \<subseteq> {3..5}"
    using feedback_action_priority by blast
  moreover have "{a \<in> set (ci_feedback_actions feedback). sa_priority a = 5}
      \<subseteq> {a. \<exists>ob job. a = ci_job_action ob job}"
    using feedback_action_priority by blast
  ultimately show ?thesis
    unfolding plan_def Let_def strategy_result.simps failed_conclusions_def by blast
qed

text \<open>Planning over the in-memory knowledge base cites only entries the base holds and whose
  scope admits the repository, in key order, and evidence recorded under the current head or without
  any observation is ignored: dropping it from the history leaves the whole strategy unchanged.\<close>

lemma plan_evidence:
  "(let refs = sr_knowledge_refs (plan (search entries) repo title impact (Some fb))
    in sorted refs \<and>
       set refs \<subseteq> ke_key ` {e \<in> set entries. ke_repos e = [] \<or> repo \<in> set (ke_repos e)}) \<and>
   plan find_entries repo title impact
     (Some (fb\<lparr>fb_historical_evidence :=
        filter (\<lambda>ev. he_head_sha ev \<noteq> fb_current_head_sha fb \<and> he_observations ev \<noteq> [])
          (fb_historical_evidence fb)\<rparr>)) =
   plan find_entries repo title impact (Some fb)"
  using in_memory.refs_sorted_and_scoped
    [of entries "\<lparr>kq_repo_full_name = repo, kq_query_text = query_text_from_title_and_impact title impact\<rparr>"]
  by (auto simp: plan_def Let_def ci_feedback_actions_def reasoning_def ci_reasoning_def
      superseded_evidence_def in_scope_def)

end
