(* ===== verification/Aggregate_Facts.thy ===== *)
theory Aggregate_Facts
  imports Aggregate Samples
begin

text \<open>
  What the PR aggregate guarantees: the revision invariant and its preservation by every
  operation of the store, the CI history as an append-only log (a refinement of the list of CI
  events seen), the meaning of the readiness verdict, and which observations are exported as
  current-head evidence.
\<close>

section \<open>Revisions\<close>

lemma as_historical_eq: "as_historical w = w\<lparr>wr_is_current_head := False\<rparr>"
  by (cases w) (simp add: as_historical_def)

lemma as_historical_idem [simp]: "as_historical (as_historical w) = as_historical w"
  by (simp add: as_historical_eq)

lemma as_historical_sel [simp]:
  "wr_commit_sha (as_historical w) = wr_commit_sha w"
  "\<not> wr_is_current_head (as_historical w)"
  by (simp_all add: as_historical_eq)

lemma map_as_historical_id:
  "\<forall>w \<in> set ws. \<not> wr_is_current_head w \<Longrightarrow> map as_historical ws = ws"
  by (induction ws) (auto simp: as_historical_def)

text \<open>The early return of \<open>supersede\<close> only skips a copy.\<close>

lemma supersede_eq:
  "supersede r = r\<lparr>rv_status := REV_SUPERSEDED, rv_ci_runs := map as_historical (rv_ci_runs r)\<rparr>"
  by (cases r) (auto simp: supersede_def map_as_historical_id)

lemma supersede_sel [simp]:
  "rv_head_sha (supersede r) = rv_head_sha r"
  "rv_status (supersede r) = REV_SUPERSEDED"
  "rv_ci_runs (supersede r) = map as_historical (rv_ci_runs r)"
  by (simp_all add: supersede_eq)

lemma fst_supersede_head [simp]: "map fst (supersede_head h rs) = map fst rs"
  by (induction rs) (auto simp: supersede_head_def)

lemma wf_supersede_head [simp]: "wf_dict (supersede_head h rs) = wf_dict rs"
  by (simp add: wf_dict_def)

lemma map_of_supersede_head:
  "map_of (supersede_head h rs) k = map_option (\<lambda>r. if k = h then supersede r else r) (map_of rs k)"
  by (induction rs) (auto simp: supersede_head_def)

text \<open>The operations on the revisions, seen through lookup.\<close>

lemma head_sha_for_Inr:
  "head_sha_for e = Inr h \<longleftrightarrow> h = strip (pe_head_sha e) \<and> h \<noteq> []"
  by (auto simp: head_sha_for_def Let_def)

definition next_revision :: "pr_aggregate_state \<Rightarrow> string \<Rightarrow> string \<Rightarrow> pr_revision_state option" where
  "next_revision a head sha =
     (if sha = head then
        Some ((case map_of (ag_revisions a) head of
                 Some r \<Rightarrow> r | None \<Rightarrow> fresh_revision head REV_CURRENT)\<lparr>rv_status := REV_CURRENT\<rparr>)
      else map_option (\<lambda>r. if sha = ag_current_head_sha a then supersede r else r)
             (map_of (ag_revisions a) sha))"

lemma apply_pr_event_lookup:
  assumes "apply_pr_event a e = Inr a'"
  shows "map_of (ag_revisions a') sha = next_revision a (strip (pe_head_sha e)) sha"
  using assms
  by (auto simp: apply_pr_event_def next_revision_def head_sha_for_Inr update_conv Let_def
      map_of_supersede_head option.map_ident split: option.splits if_splits)

lemma apply_pr_event_fields:
  assumes "apply_pr_event a e = Inr a'"
  shows "ag_repo_full_name a' = ag_repo_full_name a" "ag_pr_number a' = ag_pr_number a"
    "ag_current_head_sha a' = strip (pe_head_sha e)" "ag_current_head_sha a' \<noteq> []"
    "ag_title a' = (if pe_title e = [] then ag_title a else pe_title e)"
    "ag_event_ids a' = append_unique (ag_event_ids a) (em_event_id (pe_meta e))"
    "ag_review_runs a' = ag_review_runs a"
  using assms by (auto simp: apply_pr_event_def head_sha_for_Inr Let_def)

lemma apply_pr_event_ok: "strip (pe_head_sha e) \<noteq> [] \<Longrightarrow> \<exists>a'. apply_pr_event a e = Inr a'"
  by (simp add: apply_pr_event_def head_sha_for_def Let_def)

lemma apply_pr_event_wf:
  "apply_pr_event a e = Inr a' \<Longrightarrow> wf_dict (ag_revisions a) \<Longrightarrow> wf_dict (ag_revisions a')"
  by (auto simp: apply_pr_event_def Let_def)

lemma record_ci_lookup:
  "map_of (ag_revisions (record_ci_completed a e)) sha =
     (if sha = ci_commit_sha e then
        Some (record_ci_run (case map_of (ag_revisions a) sha of
                Some r \<Rightarrow> r | None \<Rightarrow> fresh_revision sha REV_SUPERSEDED)
              (record_from_event e (ag_current_head_sha a)))
      else map_of (ag_revisions a) sha)"
  by (auto simp: record_ci_completed_def Let_def update_conv)

lemma record_ci_fields [simp]:
  "ag_repo_full_name (record_ci_completed a e) = ag_repo_full_name a"
  "ag_pr_number (record_ci_completed a e) = ag_pr_number a"
  "ag_current_head_sha (record_ci_completed a e) = ag_current_head_sha a"
  "ag_review_runs (record_ci_completed a e) = ag_review_runs a"
  "ag_event_ids (record_ci_completed a e) = append_unique (ag_event_ids a) (em_event_id (ci_meta e))"
  by (simp_all add: record_ci_completed_def Let_def)

lemma start_review_run_fields [simp]:
  "ag_repo_full_name (start_review_run a t b) = ag_repo_full_name a"
  "ag_pr_number (start_review_run a t b) = ag_pr_number a"
  "ag_current_head_sha (start_review_run a t b) = ag_current_head_sha a"
  "ag_revisions (start_review_run a t b) = ag_revisions a"
  "ag_event_ids (start_review_run a t b) = ag_event_ids a"
  by (simp_all add: start_review_run_def)

section \<open>The invariant\<close>

definition revision_ok :: "string \<Rightarrow> string \<Rightarrow> pr_revision_state \<Rightarrow> bool" where
  "revision_ok head sha r \<longleftrightarrow>
     rv_head_sha r = sha \<and> (rv_status r = REV_CURRENT \<longleftrightarrow> sha = head) \<and>
     (\<forall>w \<in> set (rv_ci_runs r). wr_commit_sha w = sha \<and> (wr_is_current_head w \<longrightarrow> sha = head))"

definition agg_inv :: "pr_aggregate_state \<Rightarrow> bool" where
  "agg_inv a \<longleftrightarrow>
     ag_current_head_sha a \<noteq> [] \<and> wf_dict (ag_revisions a) \<and>
     map_of (ag_revisions a) (ag_current_head_sha a) \<noteq> None \<and>
     (\<forall>sha r. map_of (ag_revisions a) sha = Some r \<longrightarrow> revision_ok (ag_current_head_sha a) sha r) \<and>
     distinct (ag_event_ids a) \<and>
     (\<forall>run \<in> set (ag_review_runs a). map_of (ag_revisions a) (rn_head_sha run) \<noteq> None)"

lemma distinct_append_unique [simp]: "distinct vs \<Longrightarrow> distinct (append_unique vs v)"
  by (simp add: append_unique_def)

lemma fresh_revision_sel [simp]:
  "rv_head_sha (fresh_revision s st) = s" "rv_status (fresh_revision s st) = st"
  "rv_ci_runs (fresh_revision s st) = []"
  by (simp_all add: fresh_revision_def)

lemma agg_inv_from_pr_event: "from_pr_event e = Inr a \<Longrightarrow> agg_inv a"
  by (auto simp: from_pr_event_def head_sha_for_Inr agg_inv_def revision_ok_def wf_dict_def
      split: if_splits)

lemma next_revision_ok:
  assumes inv: "agg_inv a" and n: "next_revision a head sha = Some r"
  shows "revision_ok head sha r"
proof (cases "sha = head")
  case True
  then show ?thesis
    using inv n by (auto simp: next_revision_def agg_inv_def revision_ok_def split: option.splits)
next
  case False
  then obtain r0 where "map_of (ag_revisions a) sha = Some r0"
    and r: "r = (if sha = ag_current_head_sha a then supersede r0 else r0)"
    using n by (auto simp: next_revision_def)
  with inv have "revision_ok (ag_current_head_sha a) sha r0" by (simp add: agg_inv_def)
  with False show ?thesis by (auto simp: r revision_ok_def)
qed

lemma agg_inv_apply_pr_event:
  assumes inv: "agg_inv a" and a': "apply_pr_event a e = Inr a'"
  shows "agg_inv a'"
proof -
  note f = apply_pr_event_fields [OF a'] and l = apply_pr_event_lookup [OF a']
  have "next_revision a (strip (pe_head_sha e)) sha \<noteq> None"
    if "map_of (ag_revisions a) sha \<noteq> None" for sha
    using that by (auto simp: next_revision_def)
  moreover have "next_revision a h h \<noteq> None" for h by (simp add: next_revision_def)
  ultimately show ?thesis
    using inv next_revision_ok [OF inv] f apply_pr_event_wf [OF a']
    by (auto simp: agg_inv_def l simp del: not_None_eq)
qed

lemma agg_inv_record_ci: "agg_inv a \<Longrightarrow> agg_inv (record_ci_completed a e)"
  unfolding agg_inv_def record_ci_lookup record_ci_fields
  by (auto simp: revision_ok_def record_ci_run_def record_from_event_def record_ci_completed_def Let_def
      split: option.splits if_splits)

lemma agg_inv_start_review: "agg_inv a \<Longrightarrow> agg_inv (start_review_run a t b)"
  by (auto simp: agg_inv_def start_review_run_def)

section \<open>The CI history is a log\<close>

text \<open>The runs recorded for a commit, without the flag that says whether it was the head.\<close>

definition ci_history :: "pr_aggregate_state \<Rightarrow> string \<Rightarrow> ci_workflow_run_record list" where
  "ci_history a sha =
     (case map_of (ag_revisions a) sha of None \<Rightarrow> [] | Some r \<Rightarrow> map as_historical (rv_ci_runs r))"

text \<open>What a CI event contributes to the history of its commit.\<close>

definition history_entry :: "string ci_completed \<Rightarrow> ci_workflow_run_record" where
  "history_entry e = as_historical (record_from_event e [])"

lemma as_historical_record [simp]: "as_historical (record_from_event e h) = history_entry e"
  by (simp add: history_entry_def as_historical_eq record_from_event_def)

lemma ci_history_apply_pr_event:
  "apply_pr_event a e = Inr a' \<Longrightarrow> ci_history a' sha = ci_history a sha"
  by (auto simp: ci_history_def apply_pr_event_lookup next_revision_def comp_def
      split: option.splits if_splits)

lemma ci_history_record:
  "ci_history (record_ci_completed a e) sha =
     ci_history a sha @ (if sha = ci_commit_sha e then [history_entry e] else [])"
  by (auto simp: ci_history_def record_ci_lookup record_ci_run_def split: option.splits)

datatype agg_op =
    OpPR "string pr_event"
  | OpCI "string ci_completed"
  | OpReview review_run_trigger string

fun agg_step :: "pr_aggregate_state \<Rightarrow> agg_op \<Rightarrow> pr_aggregate_state res" where
  "agg_step a (OpPR e) = apply_pr_event a e"
| "agg_step a (OpCI e) = Inr (record_ci_completed a e)"
| "agg_step a (OpReview t b) = Inr (start_review_run a t b)"

fun agg_run :: "pr_aggregate_state \<Rightarrow> agg_op list \<Rightarrow> pr_aggregate_state res" where
  "agg_run a [] = Inr a"
| "agg_run a (op # ops) = bindR (agg_step a op) (\<lambda>a'. agg_run a' ops)"

text \<open>The abstract aggregate: the head named last, and the CI events of each commit in order.\<close>

fun spec_head :: "string \<Rightarrow> agg_op list \<Rightarrow> string" where
  "spec_head h [] = h"
| "spec_head h (OpPR e # ops) = spec_head (strip (pe_head_sha e)) ops"
| "spec_head h (op # ops) = spec_head h ops"

fun spec_history :: "string \<Rightarrow> agg_op list \<Rightarrow> ci_workflow_run_record list" where
  "spec_history sha [] = []"
| "spec_history sha (OpCI e # ops) =
     (if sha = ci_commit_sha e then [history_entry e] else []) @ spec_history sha ops"
| "spec_history sha (op # ops) = spec_history sha ops"

lemma agg_step_history:
  "agg_step a op = Inr a' \<Longrightarrow> ci_history a' sha = ci_history a sha @ spec_history sha [op]"
  by (cases op) (auto simp: ci_history_apply_pr_event ci_history_record, simp add: ci_history_def)

lemma spec_history_Cons: "spec_history sha (op # ops) = spec_history sha [op] @ spec_history sha ops"
  by (cases op) auto

lemma agg_step_head:
  "agg_step a op = Inr a' \<Longrightarrow> ag_current_head_sha a' = spec_head (ag_current_head_sha a) [op]"
  by (cases op) (auto simp: apply_pr_event_fields)

lemma spec_head_Cons: "spec_head h (op # ops) = spec_head (spec_head h [op]) ops"
  by (cases op) auto

lemma agg_run_refines:
  "agg_run a ops = Inr a' \<Longrightarrow>
     ci_history a' sha = ci_history a sha @ spec_history sha ops \<and>
     ag_current_head_sha a' = spec_head (ag_current_head_sha a) ops"
proof (induction ops arbitrary: a)
  case (Cons op ops)
  then obtain b where b: "agg_step a op = Inr b" and r: "agg_run b ops = Inr a'" by auto
  from Cons.IH [OF r] agg_step_history [OF b] agg_step_head [OF b] show ?case
    by (simp add: spec_history_Cons [of sha op ops] spec_head_Cons [of _ op ops])
qed simp

lemma agg_step_inv: "agg_step a op = Inr a' \<Longrightarrow> agg_inv a \<Longrightarrow> agg_inv a'"
  by (cases op) (auto intro: agg_inv_apply_pr_event agg_inv_record_ci agg_inv_start_review)

lemma agg_run_inv: "agg_run a ops = Inr a' \<Longrightarrow> agg_inv a \<Longrightarrow> agg_inv a'"
  by (induction ops arbitrary: a) (auto dest: agg_step_inv)

text \<open>Processing the same PR event again changes nothing.\<close>

lemma apply_pr_event_idem:
  assumes "agg_inv a" and "apply_pr_event a e = Inr a'"
  shows "apply_pr_event a' e = Inr a'"
proof -
  from apply_pr_event_fields [OF assms(2)] have h: "head_sha_for e = Inr (ag_current_head_sha a')"
    by (simp add: head_sha_for_Inr)
  obtain r where r: "map_of (ag_revisions a') (ag_current_head_sha a') = Some r"
    and st: "rv_status r = REV_CURRENT"
    using apply_pr_event_lookup [OF assms(2)] apply_pr_event_fields [OF assms(2)]
    by (auto simp: next_revision_def)
  have "AList.update (ag_current_head_sha a') (r\<lparr>rv_status := REV_CURRENT\<rparr>) (ag_revisions a') = ag_revisions a'"
    using r st by (intro update_same) (cases r; simp)
  moreover have "append_unique (ag_event_ids a') (em_event_id (pe_meta e)) = ag_event_ids a'"
    and "(if pe_title e = [] then ag_title a' else pe_title e) = ag_title a'"
    using apply_pr_event_fields [OF assms(2)] by (simp_all add: append_unique_def)
  ultimately show ?thesis by (simp add: apply_pr_event_def h r Let_def)
qed

section \<open>Readiness\<close>

lemma evaluate_readiness_current_only:
  "evaluate_readiness a (filter (\<lambda>c. cs_head_sha c = ag_current_head_sha a) snapshot) =
     evaluate_readiness a snapshot"
  by (simp add: evaluate_readiness_def Let_def conj_commute cong: conj_cong)

lemma readiness_state:
  "rd_state (evaluate_readiness a cs) =
     (if \<exists>c \<in> set cs. cs_head_sha c = ag_current_head_sha a \<and> is_pending c then WAITING_FOR_CHECKS
      else if \<exists>c \<in> set cs. cs_head_sha c = ag_current_head_sha a \<and> is_failure c then CHECKS_FAILED
      else READY)"
  by (auto simp: evaluate_readiness_def Let_def filter_empty_conv)

section \<open>Merging observations\<close>

lemma set_merge_checks: "set (merge_checks jobs seen cs) \<subseteq> set cs"
  by (induction jobs seen cs rule: merge_checks.induct) auto

lemma merge_checks_fresh:
  "c \<in> set (merge_checks jobs seen cs) \<Longrightarrow>
     observation_key c \<notin> seen \<and> (ob_commit_sha c, ob_workflow_name c) \<notin> jobs"
  by (induction jobs seen cs rule: merge_checks.induct) (auto split: if_splits)

lemma merge_checks_distinct: "distinct (map observation_key (merge_checks jobs seen cs))"
proof (induction jobs seen cs rule: merge_checks.induct)
  case (2 jobs seen c cs)
  have "observation_key c \<notin> observation_key ` set (merge_checks jobs (insert (observation_key c) seen) cs)"
    by (auto dest: merge_checks_fresh)
  with 2 show ?case by simp
qed simp

lemma merge_checks_complete:
  "c \<in> set cs \<Longrightarrow>
     observation_key c \<in> seen \<or> (ob_commit_sha c, ob_workflow_name c) \<in> jobs \<or>
     observation_key c \<in> observation_key ` set (merge_checks jobs seen cs)"
  by (induction jobs seen cs rule: merge_checks.induct) (auto split: if_splits)

lemma recorded_failed_jobs_iff:
  "(sha, j) \<in> recorded_failed_jobs rs \<longleftrightarrow>
     sha \<noteq> [] \<and> j \<noteq> [] \<and> (\<exists>r \<in> set rs. ob_commit_sha r = sha \<and> j \<in> set (ob_failed_jobs r))"
  by (auto simp: recorded_failed_jobs_def)

section \<open>The store\<close>

text \<open>
  What the workflows rely on in a store of aggregates: a saved aggregate is found under its
  repository and number, and saving it disturbs no other.
\<close>

locale aggregate_store_laws =
  fixes get :: "'s \<Rightarrow> string \<Rightarrow> int \<Rightarrow> pr_aggregate_state option"
    and save :: "pr_aggregate_state \<Rightarrow> 's \<Rightarrow> 's"
  assumes get_save:
    "get (save a s) repo n =
       (if repo = ag_repo_full_name a \<and> n = ag_pr_number a then Some a else get s repo n)"
begin

lemma get_saved [simp]: "get (save a s) (ag_repo_full_name a) (ag_pr_number a) = Some a"
  by (simp add: get_save)

lemma save_frame:
  "(repo, n) \<noteq> (ag_repo_full_name a, ag_pr_number a) \<Longrightarrow> get (save a s) repo n = get s repo n"
  by (auto simp: get_save)

end

interpretation memory: aggregate_store_laws store_get store_save
  by unfold_locales (simp add: store_get_def store_save_def update_conv)

definition store_inv :: "aggregate_store \<Rightarrow> bool" where
  "store_inv s \<longleftrightarrow> (\<forall>repo n a. store_get s repo n = Some a \<longrightarrow>
     agg_inv a \<and> ag_repo_full_name a = repo \<and> ag_pr_number a = n)"

lemma store_invD:
  "store_inv s \<Longrightarrow> store_get s repo n = Some a \<Longrightarrow>
     agg_inv a \<and> ag_repo_full_name a = repo \<and> ag_pr_number a = n"
  by (simp add: store_inv_def)

lemma store_inv_save: "store_inv s \<Longrightarrow> agg_inv b \<Longrightarrow> store_inv (store_save b s)"
  by (auto simp: store_inv_def memory.get_save)

inductive store_step :: "aggregate_store \<Rightarrow> aggregate_store \<Rightarrow> bool" where
  pr: "store_apply_pr_event e s = (r, s') \<Longrightarrow> store_step s s'"
| ci: "store_record_ci_completed e s = (r', s') \<Longrightarrow> store_step s s'"
| review: "store_start_review_run repo n t b s = (r', s') \<Longrightarrow> store_step s s'"

inductive store_reachable :: "aggregate_store \<Rightarrow> bool" where
  empty: "store_reachable []"
| step: "store_reachable s \<Longrightarrow> store_step s s' \<Longrightarrow> store_reachable s'"

inductive_cases store_stepE: "store_step s s'"

lemma store_apply_Inr:
  "store_apply_pr_event e s = (Inr a, s') \<Longrightarrow>
     s' = store_save a s \<and>
     (case store_get s (pe_repo_full_name e) (pe_pr_number e) of
        None \<Rightarrow> from_pr_event e | Some b \<Rightarrow> apply_pr_event b e) = Inr a"
  by (auto simp: store_apply_pr_event_def split: sum.splits)

lemma store_apply_Inl: "store_apply_pr_event e s = (Inl x, s') \<Longrightarrow> s' = s"
  by (auto simp: store_apply_pr_event_def split: sum.splits)

lemma store_apply_agg_inv:
  assumes "store_inv s" and "store_apply_pr_event e s = (Inr a, s')"
  shows "agg_inv a"
  using store_apply_Inr [OF assms(2)]
  by (auto dest: agg_inv_from_pr_event agg_inv_apply_pr_event store_invD [OF assms(1)]
      split: option.splits)

lemma store_apply_inv:
  assumes "store_inv s" and "store_apply_pr_event e s = (r, s')"
  shows "store_inv s'"
proof (cases r)
  case (Inl x)
  with assms show ?thesis by (auto dest: store_apply_Inl)
next
  case (Inr a)
  with assms store_apply_agg_inv [of s e a s'] store_apply_Inr [of e s a s'] show ?thesis
    by (simp add: store_inv_save)
qed

lemma store_record_inv:
  "store_inv s \<Longrightarrow> store_record_ci_completed e s = (r, s') \<Longrightarrow> store_inv s'"
  by (auto simp: store_record_ci_completed_def Let_def dest!: store_invD
      intro!: store_inv_save agg_inv_record_ci split: option.splits)

lemma store_review_inv:
  "store_inv s \<Longrightarrow> store_start_review_run repo n t b s = (r, s') \<Longrightarrow> store_inv s'"
  by (auto simp: store_start_review_run_def Let_def dest!: store_invD
      intro!: store_inv_save agg_inv_start_review split: option.splits)

lemma store_step_inv: "store_step s s' \<Longrightarrow> store_inv s \<Longrightarrow> store_inv s'"
  by (erule store_stepE) (blast intro: store_apply_inv store_record_inv store_review_inv)+

lemma store_reachable_inv: "store_reachable s \<Longrightarrow> store_inv s"
proof (induction rule: store_reachable.induct)
  case empty
  show ?case by (simp add: store_inv_def store_get_def)
next
  case (step s s')
  then show ?case by (blast intro: store_step_inv)
qed

section \<open>Export\<close>

lemma feedback_export:
  assumes "agg_inv a"
  shows "\<exists>fb. to_ci_feedback_context a (evaluate_readiness a cs) cs = Inr fb \<and>
    fb_current_head_sha fb = ag_current_head_sha a \<and>
    (\<forall>ob \<in> set (fb_current_observations fb). ob_commit_sha ob = ag_current_head_sha a) \<and>
    (\<forall>h \<in> set (fb_historical_evidence fb). he_head_sha h \<noteq> ag_current_head_sha a \<and>
       he_observations h \<noteq> [] \<and> (\<forall>ob \<in> set (he_observations h). ob_commit_sha ob = he_head_sha h)) \<and>
    (fb_pending_checks fb \<noteq> [] \<longleftrightarrow> fb_readiness fb = CI_WAITING_FOR_CHECKS)"
proof -
  let ?head = "ag_current_head_sha a"
  from assms obtain r where r: "map_of (ag_revisions a) ?head = Some r" by (auto simp: agg_inv_def)
  have ok: "revision_ok ?head sha v" if "(sha, v) \<in> set (ag_revisions a)" for sha v
    using assms that by (simp add: agg_inv_def wf_dict_in)
  have cur: "ob_commit_sha ob = ?head"
    if "ob \<in> set (merge_current_observations (map ci_observation_from_record (rv_ci_runs r))
              (map ci_observation_from_check (filter (\<lambda>c. cs_head_sha c = ?head) cs)))" for ob
    using that ok [OF map_of_SomeD [OF r]] set_merge_checks
    by (fastforce simp: merge_current_observations_def revision_ok_def ci_observation_from_record_def
        ci_observation_from_check_def)
  show ?thesis
    using ok
    by (fastforce simp: to_ci_feedback_context_def current_revision_def r Let_def cur
        evaluate_readiness_def revision_ok_def ci_observation_from_record_def)
qed

section \<open>Properties\<close>

text \<open>C3. In every store the event handlers can reach from the empty one, the aggregate found under
  a repository and PR number belongs to that pull request; its current head is a tracked revision
  and is the only one with status CURRENT; every revision is filed under its own head sha and holds
  only CI runs of that commit; a run is flagged as current-head only in the current revision; event
  ids are not repeated; every review run names a tracked revision.\<close>

theorem reachable_aggregate_invariant:
  assumes "store_reachable s" and "store_get s repo n = Some a"
  shows "ag_repo_full_name a = repo \<and> ag_pr_number a = n \<and>
    (\<exists>r. map_of (ag_revisions a) (ag_current_head_sha a) = Some r) \<and>
    distinct (map fst (ag_revisions a)) \<and>
    (\<forall>(sha, r) \<in> set (ag_revisions a).
       rv_head_sha r = sha \<and> (rv_status r = REV_CURRENT \<longleftrightarrow> sha = ag_current_head_sha a) \<and>
       (\<forall>w \<in> set (rv_ci_runs r). wr_commit_sha w = sha \<and>
          (wr_is_current_head w \<longrightarrow> sha = ag_current_head_sha a))) \<and>
    distinct (ag_event_ids a) \<and>
    (\<forall>run \<in> set (ag_review_runs a). rn_head_sha run \<in> fst ` set (ag_revisions a))"
proof -
  from store_invD [OF store_reachable_inv [OF assms(1)] assms(2)]
  have i: "agg_inv a" and k: "ag_repo_full_name a = repo" "ag_pr_number a = n" by auto
  from i have wf: "wf_dict (ag_revisions a)" by (simp add: agg_inv_def)
  have "\<forall>(sha, r) \<in> set (ag_revisions a). revision_ok (ag_current_head_sha a) sha r"
    using i by (auto simp: agg_inv_def wf_dict_in)
  moreover have "rn_head_sha run \<in> fst ` set (ag_revisions a)" if "run \<in> set (ag_review_runs a)" for run
    using i that by (auto simp: agg_inv_def) (metis domI dom_map_of_conv_image_fst)
  ultimately show ?thesis
    using i k wf by (auto simp: agg_inv_def revision_ok_def wf_dict_def)
qed

lemma sample_store_reachable:
  "\<exists>s a. store_reachable s \<and> store_get s ''o/r'' 7 = Some a \<and> length (ag_revisions a) = 2"
proof -
  let ?e = "sample_pr ''e2'' ''bbb''"
  have 1: "store_apply_pr_event (sample_pr ''e1'' ''aaa'') [] =
      (Inr sample_aggregate, store_save sample_aggregate [])"
    by (simp add: store_apply_pr_event_def store_get_def sample_aggregate_opened)
  have g: "store_get (store_save sample_aggregate []) (pe_repo_full_name ?e) (pe_pr_number ?e) =
      Some sample_aggregate"
    by (simp add: memory.get_save sample_aggregate_def sample_defs)
  obtain a where a: "apply_pr_event sample_aggregate ?e = Inr a"
    and l: "length (ag_revisions a) = 2" and k: "ag_repo_full_name a = ''o/r''" "ag_pr_number a = 7"
    by (simp add: apply_pr_event_def head_sha_for_def sample_defs sample_aggregate_def supersede_head_def)
  have 2: "store_apply_pr_event ?e (store_save sample_aggregate []) =
      (Inr a, store_save a (store_save sample_aggregate []))"
    by (simp add: store_apply_pr_event_def g a)
  have "store_reachable (store_save a (store_save sample_aggregate []))"
    using store_reachable.step [OF store_reachable.step [OF store_reachable.empty store_step.pr [OF 1]]
        store_step.pr [OF 2]] .
  moreover have "store_get (store_save a (store_save sample_aggregate [])) ''o/r'' 7 = Some a"
    using k by (simp add: memory.get_save)
  ultimately show ?thesis using l by blast
qed

theorem reachable_aggregate_invariant_witness:
  "\<exists>s a. store_reachable s \<and> store_get s ''o/r'' 7 = Some a \<and> length (ag_revisions a) = 2 \<and>
     distinct (map fst (ag_revisions a))"
  using sample_store_reachable reachable_aggregate_invariant by blast



text \<open>C12. Readiness is decided by the current head's checks alone: the verdict is WAITING exactly when
  one of them has a status other than COMPLETED, otherwise CHECKS_FAILED exactly when one of them
  completed with the conclusion failure, timed_out, startup_failure or action_required, in whatever
  case, otherwise READY (so that a completed check without conclusion does not block); the blocking
  checks are the pending ones, respectively the failed ones, in order; checks of other commits make
  no difference; and a final review may be published exactly when no current-head check is pending.\<close>

theorem readiness_verdict:
  "let cur = filter (\<lambda>c. cs_head_sha c = ag_current_head_sha a) cs;
       pending = filter (\<lambda>c. cs_status c \<noteq> COMPLETED) cur;
       failed = filter (\<lambda>c. cs_status c = COMPLETED \<and> (\<exists>s. cs_conclusion c = Some s \<and>
         lower s \<in> {''failure'', ''timed_out'', ''startup_failure'', ''action_required''})) cur;
       verdict = evaluate_readiness a cs
   in rd_state verdict =
        (if pending \<noteq> [] then WAITING_FOR_CHECKS else if failed \<noteq> [] then CHECKS_FAILED else READY) \<and>
      rd_blocking_checks verdict = map cs_name (if pending \<noteq> [] then pending else failed) \<and>
      rd_head_sha verdict = ag_current_head_sha a \<and>
      evaluate_readiness a cur = verdict \<and>
      (can_publish_final_review verdict \<longleftrightarrow> pending = []) \<and>
      (can_publish_interim_response verdict \<longleftrightarrow> pending \<noteq> [])"
proof -
  have "is_pending = (\<lambda>c. cs_status c \<noteq> COMPLETED)" by (simp add: is_pending_def fun_eq_iff)
  moreover have "is_failure = (\<lambda>c. cs_status c = COMPLETED \<and> (\<exists>s. cs_conclusion c = Some s \<and>
      lower s \<in> {''failure'', ''timed_out'', ''startup_failure'', ''action_required''}))"
    by (auto simp: is_failure_def fun_eq_iff lower_def split: option.split)
  ultimately show ?thesis
    using evaluate_readiness_current_only [of a cs]
    by (simp add: evaluate_readiness_def Let_def can_publish_final_review_def can_publish_interim_response_def)
qed

text \<open>C11. The feedback exported to the strategy engine never mixes revisions: the export succeeds, its
  current observations all belong to the current head, its historical evidence only to other
  heads (each observation to the head it is listed under), and pending checks are reported exactly
  when the verdict is WAITING.\<close>

theorem feedback_separates_heads:
  assumes "agg_inv a"
  shows "\<exists>fb. to_ci_feedback_context a (evaluate_readiness a cs) cs = Inr fb \<and>
    fb_current_head_sha fb = ag_current_head_sha a \<and>
    (\<forall>ob \<in> set (fb_current_observations fb). ob_commit_sha ob = ag_current_head_sha a) \<and>
    (\<forall>h \<in> set (fb_historical_evidence fb). he_head_sha h \<noteq> ag_current_head_sha a \<and>
       he_observations h \<noteq> [] \<and> (\<forall>ob \<in> set (he_observations h). ob_commit_sha ob = he_head_sha h)) \<and>
    (fb_pending_checks fb \<noteq> [] \<longleftrightarrow> fb_readiness fb = CI_WAITING_FOR_CHECKS)"
  using assms by (rule feedback_export)

lemma sample_agg_inv: "agg_inv sample_aggregate"
  using agg_inv_from_pr_event [OF sample_aggregate_opened] .

theorem feedback_separates_heads_witness:
  "\<exists>fb. to_ci_feedback_context sample_aggregate
          (evaluate_readiness sample_aggregate [sample_check ''lint'' QUEUED None ''aaa''])
          [sample_check ''lint'' QUEUED None ''aaa''] = Inr fb \<and>
        fb_current_head_sha fb = ag_current_head_sha sample_aggregate"
  using feedback_separates_heads [OF sample_agg_inv, of "[sample_check ''lint'' QUEUED None ''aaa'']"]
  by blast

text \<open>Merging check observations into the recorded CI runs keeps every record, in order, and adds
  checks without duplication or loss: the added checks have pairwise different (name, commit) keys,
  none repeats a record's key or a failed job already named by a record, and every check that was
  not added is represented by one of those.\<close>

lemma merged_observations:
  "let jobs = recorded_failed_jobs rs; added = merge_checks jobs (set (map observation_key rs)) cs;
       covered = (\<lambda>c keys. observation_key c \<in> keys \<or> (ob_commit_sha c, ob_workflow_name c) \<in> jobs)
   in merge_current_observations rs cs = rs @ added \<and> set added \<subseteq> set cs \<and>
      distinct (map observation_key added) \<and>
      (\<forall>c \<in> set added. \<not> covered c (observation_key ` set rs)) \<and>
      (\<forall>c \<in> set cs. covered c (observation_key ` set (merge_current_observations rs cs)))"
proof -
  let ?jobs = "recorded_failed_jobs rs" and ?seen = "set (map observation_key rs)"
  let ?added = "merge_checks ?jobs ?seen cs"
  have 1: "merge_current_observations rs cs = rs @ ?added"
    by (simp add: merge_current_observations_def)
  have 2: "\<forall>c \<in> set ?added. \<not> (observation_key c \<in> observation_key ` set rs \<or>
      (ob_commit_sha c, ob_workflow_name c) \<in> ?jobs)"
    using merge_checks_fresh [of _ ?jobs ?seen cs] by auto
  have 3: "\<forall>c \<in> set cs. observation_key c \<in> observation_key ` set (rs @ ?added) \<or>
      (ob_commit_sha c, ob_workflow_name c) \<in> ?jobs"
    using merge_checks_complete [of _ cs ?seen ?jobs] by auto
  show ?thesis unfolding Let_def
    using 1 2 3 set_merge_checks [of ?jobs ?seen cs] merge_checks_distinct [of ?jobs ?seen cs] by simp
qed

lemma merged_observations_witness:
  "let rs = [ci_observation_from_record (history_entry (sample_ci ''c1'' ''aaa'' ''failure''))];
       lint = ci_observation_from_check (sample_check ''lint'' COMPLETED (Some ''success'') ''aaa'');
       pytest = ci_observation_from_check (sample_check ''pytest'' COMPLETED (Some ''failure'') ''aaa'')
   in merge_current_observations rs [pytest, lint, lint] = rs @ [lint] \<and>
      distinct (map observation_key (rs @ [lint]))"
proof -
  let ?rs = "[ci_observation_from_record (history_entry (sample_ci ''c1'' ''aaa'' ''failure''))]"
  let ?lint = "ci_observation_from_check (sample_check ''lint'' COMPLETED (Some ''success'') ''aaa'')"
  let ?pytest = "ci_observation_from_check (sample_check ''pytest'' COMPLETED (Some ''failure'') ''aaa'')"
  have m: "merge_checks (recorded_failed_jobs ?rs) (set (map observation_key ?rs)) [?pytest, ?lint, ?lint] = [?lint]"
    by (auto simp: recorded_failed_jobs_iff observation_key_def ci_observation_from_check_def
      ci_observation_from_record_def history_entry_def as_historical_eq record_from_event_def
      sample_defs is_failure_def)
  note p = merged_observations [of ?rs "[?pytest, ?lint, ?lint]", unfolded Let_def m]
  then have "merge_current_observations ?rs [?pytest, ?lint, ?lint] = ?rs @ [?lint]" by (rule conjunct1)
  moreover from p have "observation_key ?lint \<notin> observation_key ` set ?rs" by simp
  ultimately show ?thesis by simp
qed

text \<open>Redelivery of a PR event is harmless, redelivery of a CI event is not: applying a PR event to
  the aggregate it produced changes nothing, while a CI event that is recorded twice appears twice
  in the history of its commit although its id is remembered once.\<close>

lemma redelivery:
  assumes "agg_inv a" and "apply_pr_event a e = Inr a'"
  shows "apply_pr_event a' e = Inr a' \<and>
    ci_history (record_ci_completed (record_ci_completed a c) c) (ci_commit_sha c) =
      ci_history a (ci_commit_sha c) @ [history_entry c, history_entry c] \<and>
    ag_event_ids (record_ci_completed (record_ci_completed a c) c) =
      ag_event_ids (record_ci_completed a c)"
  using apply_pr_event_idem [OF assms] by (simp add: ci_history_record append_unique_def)

lemma redelivery_witness:
  "\<exists>a'. apply_pr_event sample_aggregate (sample_pr ''e2'' ''bbb'') = Inr a' \<and>
        apply_pr_event a' (sample_pr ''e2'' ''bbb'') = Inr a'"
proof -
  have "strip (pe_head_sha (sample_pr ''e2'' ''bbb'')) \<noteq> []" by (simp add: sample_pr_def)
  then obtain a' where "apply_pr_event sample_aggregate (sample_pr ''e2'' ''bbb'') = Inr a'"
    using apply_pr_event_ok by blast
  with redelivery [OF sample_agg_inv this] show ?thesis by blast
qed

text \<open>C16. Loading CI feedback for a PR event in a reachable store: when the event names a head and the
  check provider answers, the call returns feedback for exactly that head (the aggregate lookup
  cannot fail), the stored aggregate becomes the event's, no other pull request's aggregate changes
  and the store invariant is kept.\<close>

theorem ci_feedback_for_event:
  assumes "store_reachable s" and "strip (pe_head_sha e) \<noteq> []"
    and "\<And>c w. \<exists>cs w'. load_checks (pe_repo_full_name e) (strip (pe_head_sha e)) c w = (Inr cs, w')"
  shows "\<exists>fb s' w'. load_ci_feedback_for_pr_event load_checks e (s, w) = (Inr fb, s', w') \<and>
    fb_current_head_sha fb = strip (pe_head_sha e) \<and> store_reachable s' \<and>
    (\<exists>a. store_get s' (pe_repo_full_name e) (pe_pr_number e) = Some a \<and>
         ag_current_head_sha a = strip (pe_head_sha e)) \<and>
    (\<forall>repo n. (repo, n) \<noteq> (pe_repo_full_name e, pe_pr_number e) \<longrightarrow>
       store_get s' repo n = store_get s repo n)"
proof -
  note inv = store_reachable_inv [OF assms(1)]
  obtain r s' where ap: "store_apply_pr_event e s = (r, s')" by (cases "store_apply_pr_event e s")
  have h: "head_sha_for e = Inr (strip (pe_head_sha e))"
    using assms(2) by (simp add: head_sha_for_Inr)
  obtain a where r: "r = Inr a"
    using ap h
    by (auto simp: store_apply_pr_event_def from_pr_event_def apply_pr_event_def Let_def
        split: option.splits)
  note s' = store_apply_Inr [OF ap [unfolded r]]
  have k: "ag_repo_full_name a = pe_repo_full_name e" "ag_pr_number a = pe_pr_number e"
      "ag_current_head_sha a = strip (pe_head_sha e)"
    using s' store_invD [OF inv]
    by (auto simp: from_pr_event_def head_sha_for_Inr apply_pr_event_fields split: option.splits)
  obtain cs w' where l: "load_checks (pe_repo_full_name e) (strip (pe_head_sha e))
      (em_correlation_id (pe_meta e)) w = (Inr cs, w')" using assms(3) by blast
  obtain fb where fb: "to_ci_feedback_context a (evaluate_readiness a cs) cs = Inr fb"
      "fb_current_head_sha fb = ag_current_head_sha a"
    using feedback_export [OF store_apply_agg_inv [OF inv ap [unfolded r]], of cs] by blast
  have "store_reachable s'" using store_reachable.step [OF assms(1) store_step.pr [OF ap]] .
  then show ?thesis
    using s' k fb l by (auto simp: load_ci_feedback_for_pr_event_def ap r memory.get_save)
qed

theorem ci_feedback_for_event_witness:
  "\<exists>fb s' w'. load_ci_feedback_for_pr_event (\<lambda>_ _ _ w. (Inr [], w)) (sample_pr ''e1'' ''aaa'') ([], ()) =
     (Inr fb, s', w') \<and> fb_current_head_sha fb = ''aaa''"
proof -
  have h: "strip (pe_head_sha (sample_pr ''e1'' ''aaa'')) = ''aaa''" by (simp add: sample_pr_def)
  then show ?thesis
    using ci_feedback_for_event [OF store_reachable.empty, of "sample_pr ''e1'' ''aaa''"
        "\<lambda>_ _ _ w. (Inr [], w)" "()"] by auto
qed

end
