(* ===== verification/Analyzer.thy ===== *)
theory Analyzer
  imports Samples "HOL-Library.Multiset"
begin

text \<open>
  The rule-based behaviour analyzer of \<open>src/core/analyzer/rules.py\<close>: path groups, impact areas,
  diff statistics, the first added line of a patch and the summary. \<open>PurePosixPath(p).parts\<close> of a
  path without a root is its list of components without the empty ones and the dots; a path with no
  component left (such as a single dot) makes \<open>parts[0]\<close> raise \<open>IndexError\<close>.
\<close>

section \<open>Impact areas\<close>

definition path_parts :: "string \<Rightarrow> string list" where
  "path_parts p = filter (\<lambda>c. c \<noteq> [] \<and> c \<noteq> ''.'') (split_char (CHR ''/'') p)"

definition path_group_for_file :: "string \<Rightarrow> string res" where
  "path_group_for_file path =
     (let clean_path = strip_chars ''/'' path in
      if clean_path = [] then Inr ''unknown''
      else
        (let parts = path_parts clean_path in
         if length parts = 1 then Inr (parts ! 0)
         else if parts = [] then Inl (Exn IndexError ''tuple index out of range'')
         else if parts ! 0 \<in> {''src'', ''tests''} then
           Inr (if length parts > 2 then join ''/'' (butlast parts) else parts ! 0)
         else if parts ! 0 = ''.github'' \<and> length parts \<ge> 2 then Inr (join ''/'' (take 2 parts))
         else if length parts > 2 then Inr (join ''/'' (butlast parts))
         else Inr (parts ! 0)))"

text \<open>\<open>grouped.setdefault(group, []).append(file)\<close> for each file\<close>

fun group_files ::
  "pr_file_diff list \<Rightarrow> pr_file_diff list dict \<Rightarrow> pr_file_diff list dict res" where
  "group_files [] grouped = Inr grouped"
| "group_files (f # fs) grouped =
     bindR (path_group_for_file (fd_path f)) (\<lambda>g.
       group_files fs
         (AList.update g ((case map_of grouped g of None \<Rightarrow> [] | Some l \<Rightarrow> l) @ [f]) grouped))"

definition area_description :: "string \<Rightarrow> pr_file_diff list \<Rightarrow> string" where
  "area_description path_group files =
     join '', '' (sort (remdups (map (\<lambda>f. file_status_value (fd_status f)) files))) @ '' '' @
     show_nat (length files) @ '' file(s) under '' @ path_group @ '', '' @
     show_int (sum_list (map (\<lambda>f. fd_additions f + fd_deletions f) files)) @ '' changed line(s)''"

definition impact_area_of :: "string \<Rightarrow> pr_file_diff list \<Rightarrow> impact_area" where
  "impact_area_of path_group files =
     \<lparr>ia_module = path_group, ia_description = area_description path_group files,
      ia_risk_level = NOT_ASSESSED, ia_affected_files = map fd_path files\<rparr>"

definition build_impact_areas :: "pr_file_diff list \<Rightarrow> impact_area list res" where
  "build_impact_areas files =
     bindR (group_files files []) (\<lambda>grouped.
       Inr (map (\<lambda>g. impact_area_of g (the (map_of grouped g))) (sort (map fst grouped))))"

section \<open>Patches\<close>

text \<open>
  \<open>str.splitlines()\<close>: length of the line boundary at the front of a string, 0 if there is none
  (the last two are the UTF-8 forms of U+0085 and of U+2028, U+2029).
\<close>

definition break_len :: "string \<Rightarrow> nat" where
  "break_len s =
     (if starts_with [CHR 0x0D, CHR 0x0A] s then 2
      else if s \<noteq> [] \<and> hd s \<in> {CHR 0x0A, CHR 0x0B, CHR 0x0C, CHR 0x0D, CHR 0x1C, CHR 0x1D, CHR 0x1E} then 1
      else if starts_with [CHR 0xC2, CHR 0x85] s then 2
      else if starts_with [CHR 0xE2, CHR 0x80, CHR 0xA8] s \<or> starts_with [CHR 0xE2, CHR 0x80, CHR 0xA9] s then 3
      else 0)"

fun splitlines_from :: "string \<Rightarrow> string \<Rightarrow> string list" where
  "splitlines_from cur [] = (if cur = [] then [] else [rev cur])"
| "splitlines_from cur (c # s) =
     (let k = break_len (c # s) in
      if k = 0 then splitlines_from (c # cur) s
      else rev cur # splitlines_from [] (drop (k - 1) s))"

definition splitlines :: "string \<Rightarrow> string list" where
  "splitlines s = splitlines_from [] s"

text \<open>\<open>s.split(sep, maxsplit=1)\<close>: the text before and, if \<open>sep\<close> occurs, after its first occurrence\<close>

fun split_once :: "string \<Rightarrow> string \<Rightarrow> string \<times> string option" where
  "split_once sep [] = ([], None)"
| "split_once sep (c # s) =
     (if starts_with sep (c # s) then ([], Some (drop (length sep) (c # s)))
      else (let (a, b) = split_once sep s in (c # a, b)))"

definition new_line_start_from_hunk :: "string \<Rightarrow> int option" where
  "new_line_start_from_hunk header =
     (case snd (split_once '' +'' header) of
        None \<Rightarrow> None
      | Some rest \<Rightarrow>
          let segment = fst (split_once '' '' rest)
          in parse_int (remove_prefix ''+'' (fst (split_once '','' segment))))"

fun scan_patch :: "int option \<Rightarrow> string list \<Rightarrow> int option" where
  "scan_patch new_line [] = None"
| "scan_patch new_line (l # ls) =
     (if starts_with ''@@'' l then scan_patch (new_line_start_from_hunk l) ls
      else (case new_line of
              None \<Rightarrow> scan_patch None ls
            | Some n \<Rightarrow>
                if starts_with ''+'' l \<and> \<not> starts_with ''+++'' l then Some n
                else if starts_with ''-'' l \<and> \<not> starts_with ''---'' l then scan_patch (Some n) ls
                else scan_patch (Some (n + 1)) ls))"

definition first_added_line_from_patch :: "string \<Rightarrow> int option" where
  "first_added_line_from_patch patch = scan_patch None (splitlines patch)"

section \<open>Statistics and summary\<close>

definition patch_text :: "pr_file_diff \<Rightarrow> string" where
  "patch_text f = (case fd_patch f of None \<Rightarrow> [] | Some p \<Rightarrow> p)"

definition primary_changed_file :: "pr_file_diff list \<Rightarrow> string" where
  "primary_changed_file files =
     (case find (\<lambda>f. patch_text f \<noteq> []) files of
        Some f \<Rightarrow> fd_path f
      | None \<Rightarrow> (case files of [] \<Rightarrow> [] | f # _ \<Rightarrow> fd_path f))"

fun primary_added_line :: "pr_file_diff list \<Rightarrow> int option" where
  "primary_added_line [] = None"
| "primary_added_line (f # fs) =
     (case fd_first_added_line f of
        Some n \<Rightarrow>
          if n > 0 then Some n
          else (case (if patch_text f \<noteq> [] then first_added_line_from_patch (patch_text f) else None) of
                  Some l \<Rightarrow> Some l | None \<Rightarrow> primary_added_line fs)
      | None \<Rightarrow>
          (case (if patch_text f \<noteq> [] then first_added_line_from_patch (patch_text f) else None) of
             Some l \<Rightarrow> Some l | None \<Rightarrow> primary_added_line fs))"

definition count_status :: "pr_file_status set \<Rightarrow> pr_file_diff list \<Rightarrow> stat" where
  "count_status sts files = StatInt (int (length (filter (\<lambda>f. fd_status f \<in> sts) files)))"

definition diff_stats :: "pr_file_diff list \<Rightarrow> stat dict" where
  "diff_stats files =
     [(''files_changed'', StatInt (int (length files))),
      (''additions'', StatInt (sum_list (map fd_additions files))),
      (''deletions'', StatInt (sum_list (map fd_deletions files))),
      (''files_added'', count_status {ADDED} files),
      (''files_modified'', count_status {MODIFIED, CHANGED} files),
      (''files_removed'', count_status {REMOVED} files),
      (''files_renamed'', count_status {RENAMED} files),
      (''files_copied'', count_status {COPIED} files),
      (''files_unchanged'', count_status {UNCHANGED} files),
      (''files_unknown'', count_status {UNKNOWN} files),
      (''primary_file'', StatStr (primary_changed_file files)),
      (''primary_line'', StatInt (case primary_added_line files of None \<Rightarrow> 0 | Some n \<Rightarrow> n))]"

definition or_text :: "string \<Rightarrow> string \<Rightarrow> string" where
  "or_text s dflt = (if s = [] then dflt else s)"

definition analysis_summary :: "pr_analysis_context \<Rightarrow> impact_area list \<Rightarrow> string" where
  "analysis_summary ctx areas =
     ''PR #'' @ show_int (ax_pr_number ctx) @ '' ('' @ ax_title ctx @ '') changes '' @
     show_nat (length (ax_files ctx)) @ '' files (+'' @
     show_int (sum_list (map fd_additions (ax_files ctx))) @ ''/-'' @
     show_int (sum_list (map fd_deletions (ax_files ctx))) @ '') across '' @
     or_text (join '', '' (map ia_module areas)) ''no path groups'' @
     ''. Risk is not assessed by the path-group analyzer. Lead files: '' @
     or_text (join '', '' (map fd_path (take 3 (ax_files ctx)))) ''no files'' @ ''.''"

definition analyze :: "pr_analysis_context \<Rightarrow> behaviour_impact res" where
  "analyze ctx =
     bindR (build_impact_areas (ax_files ctx)) (\<lambda>areas. Inr
       \<lparr>bi_summary = analysis_summary ctx areas, bi_areas = areas, bi_overall_risk = NOT_ASSESSED,
        bi_raw_diff_stats = diff_stats (ax_files ctx)\<rparr>)"

section \<open>Facts\<close>

definition sample_file :: "string \<Rightarrow> pr_file_diff" where
  "sample_file p = \<lparr>fd_path = p, fd_status = MODIFIED, fd_additions = 2, fd_deletions = 1,
     fd_patch = None, fd_previous_filename = [], fd_first_added_line = None\<rparr>"

definition sample_analysis :: "string list \<Rightarrow> pr_analysis_context" where
  "sample_analysis paths = \<lparr>ax_repo_full_name = ''o/r'', ax_pr_number = 7, ax_title = ''Add login'',
     ax_body = [], ax_base_branch = ''main'', ax_head_branch = ''login'',
     ax_files = map sample_file paths, ax_unified_diff = []\<rparr>"

abbreviation file_group :: "pr_file_diff \<Rightarrow> string res" where
  "file_group f \<equiv> path_group_for_file (fd_path f)"

definition files_in :: "pr_file_diff list dict \<Rightarrow> string \<Rightarrow> pr_file_diff list" where
  "files_in grouped g = (case map_of grouped g of None \<Rightarrow> [] | Some l \<Rightarrow> l)"

lemma group_files_wf: "group_files fs d = Inr d' \<Longrightarrow> wf_dict d \<Longrightarrow> wf_dict d'"
  by (induction fs d rule: group_files.induct) auto

lemma group_files_dom:
  "group_files fs d = Inr d' \<Longrightarrow>
     set (map fst d') = set (map fst d) \<union> {g. \<exists>f \<in> set fs. file_group f = Inr g}"
proof (induction fs d rule: group_files.induct)
  case (2 f fs d)
  then obtain g where "file_group f = Inr g" by auto
  with 2 show ?case by (auto simp: dom_update)
qed simp

lemma group_files_lookup:
  "group_files fs d = Inr d' \<Longrightarrow>
     files_in d' g = files_in d g @ filter (\<lambda>f. file_group f = Inr g) fs"
proof (induction fs d rule: group_files.induct)
  case (2 f fs d)
  then obtain h where h: "file_group f = Inr h" by auto
  with 2 show ?case by (auto simp: files_in_def update_conv split: option.splits)
qed simp

lemma group_files_ok:
  "(\<exists>d'. group_files fs d = Inr d') \<longleftrightarrow> (\<forall>f \<in> set fs. \<exists>g. file_group f = Inr g)"
proof (induction fs d rule: group_files.induct)
  case (2 f fs d)
  then show ?case by (cases "file_group f") auto
qed simp

lemma build_areas_eq:
  assumes "build_impact_areas files = Inr areas"
  shows "areas = map (\<lambda>g. impact_area_of g (filter (\<lambda>f. file_group f = Inr g) files))
           (sorted_list_of_set {g. \<exists>f \<in> set files. file_group f = Inr g})"
proof -
  from assms obtain d where d: "group_files files [] = Inr d"
    and a: "areas = map (\<lambda>g. impact_area_of g (the (map_of d g))) (sort (map fst d))"
    by (auto simp: build_impact_areas_def)
  have wf: "distinct (map fst d)" using group_files_wf [OF d] by (simp add: wf_dict_def)
  have "the (map_of d g) = filter (\<lambda>f. file_group f = Inr g) files" if "g \<in> set (map fst d)" for g
    using that group_files_lookup [OF d, of g]
    by (auto simp: files_in_def map_of_eq_None_iff split: option.splits)
  moreover have "sort (map fst d) = sorted_list_of_set {g. \<exists>f \<in> set files. file_group f = Inr g}"
    using group_files_dom [OF d] wf sorted_list_of_set_sort_remdups [of "map fst d"]
    by (simp add: distinct_remdups_id)
  moreover have "set (sort (map fst d)) = set (map fst d)" by simp
  ultimately show ?thesis unfolding a by (metis (mono_tags, lifting) map_eq_conv)
qed

lemma path_group_fails:
  "path_group_for_file p = Inl e \<longleftrightarrow>
     e = Exn IndexError ''tuple index out of range'' \<and> strip_chars ''/'' p \<noteq> [] \<and>
     path_parts (strip_chars ''/'' p) = []"
  by (auto simp: path_group_for_file_def Let_def)

lemma path_group_fails_not:
  "path_group_for_file p = Inr g \<Longrightarrow>
     strip_chars ''/'' p = [] \<or> path_parts (strip_chars ''/'' p) \<noteq> []"
  by (auto simp: path_group_for_file_def Let_def split: if_splits)

text \<open>The analyzer's impact areas are the partition of the changed files by path group: when the
  analysis succeeds the modules are exactly the groups of the files, sorted and without repetition,
  each area lists the paths of the files of its group in their order, none carries a risk
  judgement; and the analysis fails only when some path has no component besides dots and slashes.\<close>

lemma impact_areas_partition:
  "(case analyze ctx of
      Inr impact \<Rightarrow>
        map ia_module (bi_areas impact) =
          sorted_list_of_set {g. \<exists>f \<in> set (ax_files ctx). path_group_for_file (fd_path f) = Inr g} \<and>
        (\<forall>a \<in> set (bi_areas impact).
           ia_affected_files a =
             map fd_path (filter (\<lambda>f. path_group_for_file (fd_path f) = Inr (ia_module a)) (ax_files ctx)) \<and>
           ia_risk_level a = NOT_ASSESSED) \<and>
        bi_overall_risk impact = NOT_ASSESSED
    | Inl e \<Rightarrow> exn_class e = IndexError \<and>
        (\<exists>f \<in> set (ax_files ctx). strip_chars ''/'' (fd_path f) \<noteq> [] \<and>
           path_parts (strip_chars ''/'' (fd_path f)) = []))"
proof (cases "analyze ctx")
  case (Inl e)
  then have "group_files (ax_files ctx) [] = Inl e"
    by (auto simp: analyze_def build_impact_areas_def bindR_eq_Inl)
  moreover have "group_files fs d = Inl e \<Longrightarrow> \<exists>f \<in> set fs. file_group f = Inl e" for fs d
    by (induction fs d rule: group_files.induct) (auto simp: bindR_eq_Inl)
  ultimately obtain f where "f \<in> set (ax_files ctx)" "file_group f = Inl e" by blast
  with Inl show ?thesis by (auto simp: path_group_fails)
next
  case (Inr impact)
  then obtain areas where b: "build_impact_areas (ax_files ctx) = Inr areas"
    and i: "bi_areas impact = areas" "bi_overall_risk impact = NOT_ASSESSED"
    by (auto simp: analyze_def)
  have "map ia_module areas =
      sorted_list_of_set {g. \<exists>f \<in> set (ax_files ctx). path_group_for_file (fd_path f) = Inr g}"
    by (simp add: build_areas_eq [OF b] comp_def impact_area_of_def)
  moreover have "\<forall>a \<in> set areas. ia_affected_files a =
      map fd_path (filter (\<lambda>f. path_group_for_file (fd_path f) = Inr (ia_module a)) (ax_files ctx)) \<and>
      ia_risk_level a = NOT_ASSESSED"
    by (auto simp: build_areas_eq [OF b] impact_area_of_def)
  ultimately show ?thesis by (simp add: Inr i)
qed

lemma impact_areas_partition_witness:
  "map ia_module (bi_areas (the (case analyze (sample_analysis [''src/app.py'', ''/README.md'', ''src/app/db/x.py''])
       of Inr i \<Rightarrow> Some i | Inl _ \<Rightarrow> None))) = [''README.md'', ''src'', ''src/app/db'']"
proof -
  let ?ctx = "sample_analysis [''src/app.py'', ''/README.md'', ''src/app/db/x.py'']"
  note p = impact_areas_partition [of ?ctx]
  have g: "path_group_for_file ''src/app.py'' = Inr ''src''"
    "path_group_for_file ''/README.md'' = Inr ''README.md''"
    "path_group_for_file ''src/app/db/x.py'' = Inr ''src/app/db''"
    by code_simp+
  then obtain i where i: "analyze ?ctx = Inr i"
    using p by (cases "analyze ?ctx") (auto simp: sample_analysis_def sample_file_def dest!: path_group_fails_not)
  have "{g. \<exists>f \<in> set (ax_files ?ctx). path_group_for_file (fd_path f) = Inr g}
      = set [''src'', ''README.md'', ''src/app/db'']"
    using g by (auto simp: sample_analysis_def sample_file_def)
  moreover have "sorted_list_of_set (set [''src'', ''README.md'', ''src/app/db''])
      = [''README.md'', ''src'', ''src/app/db'']"
    by (simp only: sorted_list_of_set_sort_remdups) code_simp
  ultimately show ?thesis using p i by simp
qed

section \<open>The first added line\<close>

text \<open>
  A patch as \<open>diff\<close> writes it: hunks of lines that are kept, removed or added, with the mark behind a
  line that ends the file without a line break. A span is a start and, unless it is one, a length.
\<close>

datatype diff_line = KeptLine string | RemovedLine string | AddedLine string | NoNewline

record diff_hunk =
  hk_old :: "nat \<times> nat option"
  hk_new :: "nat \<times> nat option"
  hk_section :: string
  hk_lines :: "diff_line list"

fun line_text :: "diff_line \<Rightarrow> string" where
  "line_text (KeptLine s) = CHR '' '' # s"
| "line_text (RemovedLine s) = CHR ''-'' # s"
| "line_text (AddedLine s) = CHR ''+'' # s"
| "line_text NoNewline = CHR 0x5C # '' No newline at end of file''"

definition span_text :: "nat \<times> nat option \<Rightarrow> string" where
  "span_text r = show_nat (fst r) @ (case snd r of None \<Rightarrow> [] | Some n \<Rightarrow> '','' @ show_nat n)"

definition hunk_header :: "diff_hunk \<Rightarrow> string" where
  "hunk_header h = ''@@ -'' @ span_text (hk_old h) @ '' +'' @ span_text (hk_new h) @ '' @@'' @ hk_section h"

definition patch_lines :: "diff_hunk list \<Rightarrow> string list" where
  "patch_lines hs = concat (map (\<lambda>h. hunk_header h # map line_text (hk_lines h)) hs)"

definition patch_of :: "diff_hunk list \<Rightarrow> string" where
  "patch_of hs = join [CHR 0x0A] (patch_lines hs)"

text \<open>
  The added lines of a hunk that starts at line \<open>n\<close> of the new file: the number of each in the new file,
  how many lines before it in the hunk were removed with a text that starts with two dashes or are the
  mark of a missing line break, and its text. The new file has the kept and the added lines.
\<close>

fun additions :: "int \<Rightarrow> int \<Rightarrow> diff_line list \<Rightarrow> (int \<times> int \<times> string) list" where
  "additions n k [] = []"
| "additions n k (l # ls) =
     (case l of
        AddedLine s \<Rightarrow> (n, k, s) # additions (n + 1) k ls
      | KeptLine s \<Rightarrow> additions (n + 1) k ls
      | RemovedLine s \<Rightarrow> additions n (if starts_with ''--'' s then k + 1 else k) ls
      | NoNewline \<Rightarrow> additions n (k + 1) ls)"

definition all_additions :: "diff_hunk list \<Rightarrow> (int \<times> int \<times> string) list" where
  "all_additions hs = concat (map (\<lambda>h. additions (int (fst (hk_new h))) 0 (hk_lines h)) hs)"

text \<open>A line without any of the characters \<open>str.splitlines\<close> breaks lines at.\<close>

fun unbroken :: "string \<Rightarrow> bool" where
  "unbroken [] = True"
| "unbroken (c # s) = (break_len (c # s) = 0 \<and> unbroken s)"

lemma break_before_nl: "break_len (c # s) = 0 \<Longrightarrow> break_len (c # s @ CHR 0x0A # r) = 0"
  by (cases s; cases "tl s") (auto simp: break_len_def starts_with_def split: if_splits)

lemma split_unbroken: "unbroken l \<Longrightarrow> splitlines_from cur (l @ CHR 0x0A # r) = (rev cur @ l) # splitlines_from [] r"
  by (induction l arbitrary: cur) (simp_all add: break_before_nl, simp add: break_len_def starts_with_def)

lemma split_last: "unbroken l \<Longrightarrow> splitlines_from cur l = (if rev cur @ l = [] then [] else [rev cur @ l])"
  by (induction l arbitrary: cur) simp_all

lemma splitlines_join: "list_all (\<lambda>l. unbroken l \<and> l \<noteq> []) ls \<Longrightarrow> splitlines (join [CHR 0x0A] ls) = ls"
proof (induction ls rule: induct_list012)
  case (3 x y zs)
  then show ?case by (simp add: splitlines_def split_unbroken)
qed (simp_all add: splitlines_def split_last)

lemma plain_char:
  assumes "32 \<le> (of_char c :: nat) \<and> (of_char c :: nat) < 127"
  shows "break_len (c # s) = 0"
proof -
  have "c \<noteq> d" if "(of_char d :: nat) < 32 \<or> 127 \<le> (of_char d :: nat)" for d
    using that assms by auto
  from this [of "CHR 0x0A"] this [of "CHR 0x0B"] this [of "CHR 0x0C"] this [of "CHR 0x0D"] this [of "CHR 0x1C"]
    this [of "CHR 0x1D"] this [of "CHR 0x1E"] this [of "CHR 0xC2"] this [of "CHR 0xE2"]
  show ?thesis by (simp add: break_len_def starts_with_def)
qed

lemma unbroken_append: "list_all (\<lambda>c. 32 \<le> (of_char c :: nat) \<and> (of_char c :: nat) < 127) l \<Longrightarrow> unbroken r \<Longrightarrow> unbroken (l @ r)"
  by (induction l) (simp_all add: plain_char)

lemma plain_nat: "list_all (\<lambda>c. 32 \<le> (of_char c :: nat) \<and> (of_char c :: nat) < 127) (show_nat n)"
  unfolding list_all_iff using show_nat_digits [of n] by (auto simp: is_digit_def Let_def)

lemma plain_span: "list_all (\<lambda>c. 32 \<le> (of_char c :: nat) \<and> (of_char c :: nat) < 127) (span_text r)"
  using plain_nat by (auto simp: span_text_def split: option.split)

lemma unbroken_header: "unbroken (hk_section h) \<Longrightarrow> unbroken (hunk_header h)"
  unfolding hunk_header_def by (intro unbroken_append plain_span) simp_all


lemma split_once_char: "c \<notin> set x \<Longrightarrow> split_once [c] (x @ c # y) = (x, Some y)"
  by (induction x) (auto simp: starts_with_def)

lemma split_once_none: "c \<notin> set x \<Longrightarrow> split_once [c] x = (x, None)"
  by (induction x) (auto simp: starts_with_def)

lemma split_once_plus: "CHR ''+'' \<notin> set x \<Longrightarrow> snd (split_once '' +'' (x @ '' +'' @ y)) = Some y"
proof (induction x)
  case (Cons a x)
  then have "\<not> starts_with '' +'' ((a # x) @ '' +'' @ y)" by (cases x) (auto simp: starts_with_def)
  with Cons show ?case by (simp add: case_prod_beta)
qed (simp add: starts_with_def)

lemma digits_free: "\<not> is_digit c \<Longrightarrow> c \<notin> set (show_nat n)"
  using show_nat_digits [of n] by blast

lemma not_digits: "\<not> is_digit (CHR '','')" "\<not> is_digit (CHR '' '')" "\<not> is_digit (CHR ''+'')"
  by (simp_all add: is_digit_def)

lemma span_start: "parse_int (remove_prefix ''+'' (fst (split_once '','' (span_text r)))) = Some (int (fst r))"
proof -
  have "fst (split_once '','' (span_text r)) = show_nat (fst r)"
    using digits_free [OF not_digits(1)]
    by (cases "snd r") (simp_all add: span_text_def split_once_none split_once_char)
  moreover have "\<not> starts_with ''+'' (show_nat (fst r))"
    using digits_free [OF not_digits(3), of "fst r"] by (cases "show_nat (fst r)") (auto simp: starts_with_def)
  ultimately show ?thesis by (simp add: remove_prefix_def parse_show_nat)
qed

lemma header_start: "new_line_start_from_hunk (hunk_header h) = Some (int (fst (hk_new h)))"
proof -
  have free: "CHR ''+'' \<notin> set (span_text r) \<and> CHR '' '' \<notin> set (span_text r)" for r
    using digits_free [OF not_digits(2)] digits_free [OF not_digits(3)] by (auto simp: span_text_def split: option.splits)
  then have "CHR ''+'' \<notin> set (''@@ -'' @ span_text (hk_old h))" by simp
  from split_once_plus [OF this, of "span_text (hk_new h) @ '' @@'' @ hk_section h"]
  have "snd (split_once '' +'' (hunk_header h)) = Some (span_text (hk_new h) @ '' @@'' @ hk_section h)"
    by (simp add: hunk_header_def)
  moreover have "fst (split_once '' '' (span_text (hk_new h) @ '' @@'' @ hk_section h)) = span_text (hk_new h)"
    using split_once_char [of "CHR '' ''" "span_text (hk_new h)" "''@@'' @ hk_section h"] free by simp
  ultimately show ?thesis by (simp add: new_line_start_from_hunk_def Let_def span_start)
qed

text \<open>The scan of one hunk, behind its header.\<close>

lemma line_marks:
  "\<not> starts_with ''@@'' (line_text l)"
  "starts_with ''+'' (line_text l) \<and> \<not> starts_with ''+++'' (line_text l) \<longleftrightarrow>
     (\<exists>s. l = AddedLine s \<and> \<not> starts_with ''++'' s)"
  "starts_with ''-'' (line_text l) \<and> \<not> starts_with ''---'' (line_text l) \<longleftrightarrow>
     (\<exists>s. l = RemovedLine s \<and> \<not> starts_with ''--'' s)"
  by (cases l; simp add: starts_with_def)+

lemma scan_hunk:
  "\<exists>c. scan_patch (Some (n + k)) (map line_text ls @ rest) =
     (case filter (\<lambda>(n, k, s). \<not> starts_with ''++'' s) (additions n k ls) of
        [] \<Rightarrow> scan_patch c rest
      | (m, j, s) # _ \<Rightarrow> Some (m + j))"
proof (induction ls arbitrary: n k)
  case (Cons l ls)
  have step: "scan_patch (Some (n + k)) (map line_text (l # ls) @ rest) =
      (if \<exists>s. l = AddedLine s \<and> \<not> starts_with ''++'' s then Some (n + k)
       else if \<exists>s. l = RemovedLine s \<and> \<not> starts_with ''--'' s then scan_patch (Some (n + k)) (map line_text ls @ rest)
       else scan_patch (Some (n + k + 1)) (map line_text ls @ rest))"
    by (simp only: list.map append_Cons scan_patch.simps line_marks if_False option.case)
  have shift: "n + k + 1 = n + 1 + k" "n + k + 1 = n + (k + 1)" by simp_all
  show ?case
  proof (cases l)
    case (KeptLine s)
    with Cons [of "n + 1" k] show ?thesis unfolding step by (simp add: shift(1))
  next
    case (RemovedLine s)
    with Cons [of n k] Cons [of n "k + 1"] show ?thesis unfolding step by (simp add: shift(2))
  next
    case (AddedLine s)
    with Cons [of "n + 1" k] show ?thesis unfolding step by (simp add: shift(1))
  next
    case NoNewline
    with Cons [of n "k + 1"] show ?thesis unfolding step by (simp add: shift(2))
  qed
qed (simp, blast)

lemma scan_hunks:
  "scan_patch c (patch_lines hs) =
     (case filter (\<lambda>(n, k, s). \<not> starts_with ''++'' s) (all_additions hs) of [] \<Rightarrow> None | (n, k, s) # _ \<Rightarrow> Some (n + k))"
proof (induction hs arbitrary: c)
  case (Cons h hs)
  have "starts_with ''@@'' (hunk_header h)" by (simp add: hunk_header_def starts_with_def)
  then have "scan_patch c (patch_lines (h # hs)) =
      scan_patch (Some (int (fst (hk_new h)) + 0)) (map line_text (hk_lines h) @ patch_lines hs)"
    by (simp add: patch_lines_def header_start)
  with scan_hunk [of "int (fst (hk_new h))" 0 "hk_lines h" "patch_lines hs"] Cons show ?case
    by (auto simp: all_additions_def split: list.split)
qed (simp add: patch_lines_def all_additions_def)

text \<open>C17. The line the analyzer reads from a patch, for every patch of hunks whose lines have no other line
  boundary of \<open>str.splitlines\<close> inside: there is none exactly when no line is added, lines whose text
  starts with two plus signs left out; otherwise it is the number of the first such line in the new
  file plus the number of lines before it in its hunk that were removed with a text starting with
  two dashes or are the mark of a missing line break. So the line is right when the patch has none
  of these, and otherwise too large: the code takes them for lines of the new file.\<close>

theorem first_added_line_sound:
  assumes "list_all (\<lambda>h. unbroken (hk_section h) \<and> list_all (\<lambda>l. unbroken (line_text l)) (hk_lines h)) hs"
  shows "first_added_line_from_patch (patch_of hs) =
      (case filter (\<lambda>(n, k, s). \<not> starts_with ''++'' s) (all_additions hs) of
         [] \<Rightarrow> None | (n, k, s) # _ \<Rightarrow> Some (n + k)) \<and>
    (if list_all (\<lambda>(n, k, s). k = 0 \<and> \<not> starts_with ''++'' s) (all_additions hs)
     then first_added_line_from_patch (patch_of hs) =
       (case all_additions hs of [] \<Rightarrow> None | (n, k, s) # _ \<Rightarrow> Some n)
     else True)"
proof -
  have "line_text l \<noteq> []" for l by (cases l) simp_all
  moreover have "hunk_header h \<noteq> []" for h by (simp add: hunk_header_def)
  ultimately have "list_all (\<lambda>l. unbroken l \<and> l \<noteq> []) (patch_lines hs)"
    using assms by (auto simp: patch_lines_def list_all_iff unbroken_header)
  from splitlines_join [OF this] have line: "first_added_line_from_patch (patch_of hs) =
      (case filter (\<lambda>(n, k, s). \<not> starts_with ''++'' s) (all_additions hs) of [] \<Rightarrow> None | (n, k, s) # _ \<Rightarrow> Some (n + k))"
    by (simp add: first_added_line_from_patch_def patch_of_def scan_hunks)
  show ?thesis
  proof (cases "list_all (\<lambda>(n, k, s). k = 0 \<and> \<not> starts_with ''++'' s) (all_additions hs)")
    case True
    then have "filter (\<lambda>(n, k, s). \<not> starts_with ''++'' s) (all_additions hs) = all_additions hs"
      by (auto simp: list_all_iff intro: filter_True)
    with True line show ?thesis by (auto split: list.split)
  qed (simp add: line)
qed

text \<open>A file that gets its last line break: its line 1 is changed, and the code says line 2.\<close>

definition last_break_hunk :: diff_hunk where
  "last_break_hunk = \<lparr>hk_old = (1, None), hk_new = (1, None), hk_section = [],
     hk_lines = [RemovedLine ''old'', NoNewline, AddedLine ''new'']\<rparr>"

lemma first_added_line_sound_witness:
  "map fst (all_additions [last_break_hunk]) = [1] \<and> first_added_line_from_patch (patch_of [last_break_hunk]) = Some 2"
proof -
  have "all_additions [last_break_hunk] = [(1, 1, ''new'')]" by (simp add: all_additions_def last_break_hunk_def starts_with_def)
  moreover have "list_all (\<lambda>h. unbroken (hk_section h) \<and> list_all (\<lambda>l. unbroken (line_text l)) (hk_lines h)) [last_break_hunk]"
    by (simp add: last_break_hunk_def plain_char)
  ultimately show ?thesis using first_added_line_sound [of "[last_break_hunk]"] by (simp add: starts_with_def)
qed

end
