(* ===== verification/Tools.thy ===== *)
theory Tools
  imports Contracts
begin

text \<open>
  The tool runtime: types, stage policy, registered runtime and agent-framework adapter of
  \<open>src/runtime/tools\<close> (\<open>types.py\<close>, \<open>policy.py\<close>, \<open>runtime.py\<close>, \<open>agent_framework.py\<close>).
  A handler may read and change the world outside the process, the type parameter \<open>'w\<close>; the
  input of a call is a dictionary of JSON values (a tuple is a \<open>JList\<close>). Clients see the runtime
  through the locale \<open>tool_runtime\<close>.
\<close>

section \<open>Types\<close>

datatype tool_capability = READ | WRITE | EXECUTE | DESTRUCTIVE

record tool_call =
  tc_stage :: workflow_stage
  tc_name :: string
  tc_input :: "json dict"
  tc_correlation_id :: string

text \<open>The objects the registered tools return, as far as \<open>isinstance\<close> tells them apart.\<close>

datatype py_object =
    ObjNone
  | ObjPRMeta pr_meta
  | ObjFileDiff file_diff
  | ObjText string
  | ObjActionsJob actions_job_result
  | ObjCheckRun check_run_result
  | ObjComment comment_result
  | ObjReview review_result
  | ObjDict "json dict"
  | ObjTuple "py_object list"

record tool_result =
  tr_call :: tool_call
  tr_ok :: bool
  tr_output :: py_object
  tr_error :: string

record tool_audit_entry =
  ta_stage :: workflow_stage
  ta_name :: string
  ta_correlation_id :: string
  ta_ok :: bool
  ta_error :: string

record 'w tool_definition =
  td_name :: string
  td_capabilities :: "tool_capability list"
  td_handler :: "tool_call \<Rightarrow> ('w, py_object) act"
  td_description :: string
  td_input_schema :: "json dict option"

section \<open>Stage policy\<close>

record stage_tool_policy =
  sp_allowed_tools_by_stage :: "(workflow_stage \<times> string list) list"
  sp_allow_destructive :: bool

definition allowed_tools :: "stage_tool_policy \<Rightarrow> workflow_stage \<Rightarrow> string list" where
  "allowed_tools pol stage =
     (case map_of (sp_allowed_tools_by_stage pol) stage of None \<Rightarrow> [] | Some ts \<Rightarrow> ts)"

definition allowed_tool_names :: "stage_tool_policy \<Rightarrow> workflow_stage \<Rightarrow> string list" where
  "allowed_tool_names pol stage = sort (remdups (allowed_tools pol stage))"

text \<open>\<open>repr\<close> of a member of a string enumeration\<close>

definition stage_repr :: "workflow_stage \<Rightarrow> string" where
  "stage_repr st = ''<WorkflowStage.'' @ upper (stage_value st) @ '': '' @ repr_str (stage_value st) @ ''>''"

definition denial_reason ::
  "stage_tool_policy \<Rightarrow> workflow_stage \<Rightarrow> string \<Rightarrow> 'w tool_definition \<Rightarrow> string" where
  "denial_reason pol stage name def =
     (if name \<notin> set (allowed_tools pol stage) then
        ''tool '' @ repr_str name @ '' is not allowed during '' @ stage_repr stage @ '' stage''
      else if DESTRUCTIVE \<in> set (td_capabilities def) \<and> \<not> sp_allow_destructive pol then
        ''destructive tool '' @ repr_str name @ '' is denied by default''
      else if stage = VALIDATOR \<and> WRITE \<in> set (td_capabilities def) then
        ''write capability on tool '' @ repr_str name @ '' is denied during validator stage''
      else [])"

definition check_policy :: "stage_tool_policy \<Rightarrow> tool_call \<Rightarrow> 'w tool_definition \<Rightarrow> unit res" where
  "check_policy pol call def =
     (let denial = denial_reason pol (tc_stage call) (tc_name call) def
      in if denial \<noteq> [] then Inl (Exn ToolPolicyError denial) else Inr ())"

section \<open>Registered runtime\<close>

record 'w registered_tool_runtime =
  rt_tools :: "'w tool_definition dict"
  rt_policy :: stage_tool_policy

definition tool_table :: "'w tool_definition list \<Rightarrow> 'w tool_definition dict" where
  "tool_table tools = foldl (\<lambda>d tool. AList.update (td_name tool) tool d) [] tools"

definition registered_runtime ::
  "'w tool_definition list \<Rightarrow> stage_tool_policy \<Rightarrow> 'w registered_tool_runtime" where
  "registered_runtime tools pol = \<lparr>rt_tools = tool_table tools, rt_policy = pol\<rparr>"

text \<open>The state: the audit log, and the world the handlers act on.\<close>

record 'w runtime_state =
  rs_audit_log :: "tool_audit_entry list"
  rs_world :: 'w

definition audit_entry :: "tool_call \<Rightarrow> bool \<Rightarrow> string \<Rightarrow> tool_audit_entry" where
  "audit_entry call ok err =
     \<lparr>ta_stage = tc_stage call, ta_name = tc_name call, ta_correlation_id = tc_correlation_id call,
      ta_ok = ok, ta_error = err\<rparr>"

definition execute :: "'w registered_tool_runtime \<Rightarrow> tool_call \<Rightarrow> ('w runtime_state, tool_result) act" where
  "execute rt call s =
     (case map_of (rt_tools rt) (tc_name call) of
        None \<Rightarrow> (Inl (Exn ToolNotFoundError (''tool '' @ repr_str (tc_name call) @ '' is not registered'')), s)
      | Some def \<Rightarrow>
          (case check_policy (rt_policy rt) call def of
             Inl e \<Rightarrow> (Inl e, s)
           | Inr _ \<Rightarrow>
               (case td_handler def call (rs_world s) of
                  (Inl exc, w) \<Rightarrow>
                    (Inr \<lparr>tr_call = call, tr_ok = False, tr_output = ObjNone, tr_error = exn_msg exc\<rparr>,
                     \<lparr>rs_audit_log = rs_audit_log s @ [audit_entry call False (exn_msg exc)], rs_world = w\<rparr>)
                | (Inr output, w) \<Rightarrow>
                    (Inr \<lparr>tr_call = call, tr_ok = True, tr_output = output, tr_error = []\<rparr>,
                     \<lparr>rs_audit_log = rs_audit_log s @ [audit_entry call True []], rs_world = w\<rparr>))))"

section \<open>Agent-framework adapter\<close>

record agent_framework_tool_spec =
  ts_name :: string
  ts_description :: string
  ts_parameters_schema :: "json dict"
  ts_stage :: workflow_stage
  ts_capabilities :: "tool_capability list"

definition default_schema :: "json dict" where
  "default_schema = [(''type'', JStr ''object''), (''properties'', JObj [])]"

definition tool_spec :: "workflow_stage \<Rightarrow> 'w tool_definition \<Rightarrow> agent_framework_tool_spec" where
  "tool_spec stage def =
     \<lparr>ts_name = td_name def, ts_description = td_description def,
      ts_parameters_schema =
        (case td_input_schema def of None \<Rightarrow> default_schema
         | Some sch \<Rightarrow> if sch = [] then default_schema else sch),
      ts_stage = stage, ts_capabilities = td_capabilities def\<rparr>"

definition tool_exposure_for_stage ::
  "'w tool_definition dict \<Rightarrow> stage_tool_policy \<Rightarrow> workflow_stage \<Rightarrow>
   (agent_framework_tool_spec \<times> string) list" where
  "tool_exposure_for_stage tools pol stage =
     concat (map (\<lambda>name.
       (case map_of tools name of
          None \<Rightarrow> []
        | Some def \<Rightarrow> [(tool_spec stage def, denial_reason pol stage name def)]))
       (allowed_tool_names pol stage))"

definition tool_specs_for_stage ::
  "'w tool_definition dict \<Rightarrow> stage_tool_policy \<Rightarrow> workflow_stage \<Rightarrow> agent_framework_tool_spec list" where
  "tool_specs_for_stage tools pol stage =
     map fst (filter (\<lambda>(spec, reason). reason = []) (tool_exposure_for_stage tools pol stage))"

text \<open>The adapter's single invocation path; \<open>run\<close> is \<open>execute\<close> of its runtime.\<close>

definition invoke ::
  "(tool_call \<Rightarrow> ('s, tool_result) act) \<Rightarrow> workflow_stage \<Rightarrow> string \<Rightarrow> json dict \<Rightarrow> string \<Rightarrow>
   ('s, tool_result) act" where
  "invoke run stage name arguments correlation_id =
     run \<lparr>tc_stage = stage, tc_name = name, tc_input = arguments, tc_correlation_id = correlation_id\<rparr>"

section \<open>The runtime's contract\<close>

text \<open>
  What the clients of a tool runtime rely on: a call that raises has no effect; a call that returns
  answers the call it was given, and leaves one audit entry, with the outcome it reports.
\<close>

locale tool_runtime =
  fixes run :: "tool_call \<Rightarrow> ('s, tool_result) act"
    and audit :: "'s \<Rightarrow> tool_audit_entry list"
  assumes refusal: "run call s = (Inl e, t) \<Longrightarrow> t = s"
    and answers: "run call s = (Inr r, t) \<Longrightarrow>
      tr_call r = call \<and> audit t = audit s @ [audit_entry call (tr_ok r) (tr_error r)]"
begin

text \<open>Run calls one after another, keeping what each returns and skipping those that raise.\<close>

fun run_all :: "tool_call list \<Rightarrow> 's \<Rightarrow> tool_result list \<times> 's" where
  "run_all [] s = ([], s)"
| "run_all (c # cs) s =
     (case run c s of
        (Inl e, t) \<Rightarrow> run_all cs t
      | (Inr r, t) \<Rightarrow> (let (rs, u) = run_all cs t in (r # rs, u)))"

lemma audit_of_run_all:
  "run_all cs s = (rs, t) \<Longrightarrow>
     audit t = audit s @ map (\<lambda>r. audit_entry (tr_call r) (tr_ok r) (tr_error r)) rs"
proof (induction cs arbitrary: s rs)
  case (Cons c cs)
  show ?case
  proof (cases "run c s")
    case (Pair r u)
    show ?thesis
    proof (cases r)
      case (Inl e)
      with Pair have "u = s" using refusal by simp
      with Cons Pair Inl show ?thesis by simp
    next
      case (Inr x)
      with Cons.prems Pair obtain rs' where "run_all cs u = (rs', t)" "rs = x # rs'"
        by (auto simp: Let_def split: prod.splits)
      with Cons.IH answers Pair Inr show ?thesis by auto
    qed
  qed
qed simp

end

lemma execute_Inl_cases:
  "execute rt call s = (Inl e, t) \<longleftrightarrow> t = s \<and>
     (case map_of (rt_tools rt) (tc_name call) of
        None \<Rightarrow> e = Exn ToolNotFoundError (''tool '' @ repr_str (tc_name call) @ '' is not registered'')
      | Some def \<Rightarrow> check_policy (rt_policy rt) call def = Inl e)"
  by (auto simp: execute_def split: option.splits sum.splits prod.splits)

lemma execute_Inr_cases:
  "execute rt call s = (Inr r, t) \<Longrightarrow>
     tr_call r = call \<and>
     rs_audit_log t = rs_audit_log s @ [audit_entry call (tr_ok r) (tr_error r)]"
  by (auto simp: execute_def split: option.splits sum.splits prod.splits)

interpretation registered: tool_runtime "execute rt" rs_audit_log for rt
  by unfold_locales (auto simp: execute_Inl_cases dest: execute_Inr_cases)

section \<open>Facts\<close>

lemma denial_reason_Nil:
  "denial_reason pol stage name def = [] \<longleftrightarrow>
     name \<in> set (allowed_tools pol stage) \<and>
     (DESTRUCTIVE \<in> set (td_capabilities def) \<longrightarrow> sp_allow_destructive pol) \<and>
     (stage = VALIDATOR \<longrightarrow> WRITE \<notin> set (td_capabilities def))"
  by (auto simp: denial_reason_def)

lemma check_policy_Inr: "check_policy pol call def = Inr u \<longleftrightarrow>
    denial_reason pol (tc_stage call) (tc_name call) def = []"
  by (simp add: check_policy_def Let_def)

lemma tool_table_append:
  "tool_table (ts @ [t]) = AList.update (td_name t) t (tool_table ts)"
  by (simp add: tool_table_def)

lemma tool_table_name: "map_of (tool_table ts) n = Some def \<Longrightarrow> td_name def = n"
proof (induction ts rule: rev_induct)
  case (snoc t ts)
  then show ?case by (auto simp: tool_table_append update_conv split: if_splits)
qed (simp add: tool_table_def)

text \<open>C18. No handler runs without its policy. Executing a call either raises, and then neither the
  world nor the audit log changed, which happens exactly when no tool of that name is registered,
  the stage's allowlist misses it, it is destructive and destructive tools are not allowed, or it
  can write and the stage is the validator; or it runs the registered handler once on the current
  world, reports its output, or the message of what it raised, and appends one audit entry that says so.\<close>

theorem execute_guarded:
  "(let permitted = (\<lambda>def.
          tc_name call \<in> set (allowed_tools (rt_policy rt) (tc_stage call)) \<and>
          \<not> (DESTRUCTIVE \<in> set (td_capabilities def) \<and> \<not> sp_allow_destructive (rt_policy rt)) \<and>
          \<not> (tc_stage call = VALIDATOR \<and> WRITE \<in> set (td_capabilities def)))
    in case execute rt call s of
         (Inl e, t) \<Rightarrow> t = s \<and>
           (case map_of (rt_tools rt) (tc_name call) of
              None \<Rightarrow> exn_class e = ToolNotFoundError
            | Some def \<Rightarrow> \<not> permitted def \<and> exn_class e = ToolPolicyError)
       | (Inr r, t) \<Rightarrow>
           (\<exists>def. map_of (rt_tools rt) (tc_name call) = Some def \<and> permitted def \<and>
              tr_call r = call \<and> rs_world t = snd (td_handler def call (rs_world s)) \<and>
              (case fst (td_handler def call (rs_world s)) of
                 Inl exc \<Rightarrow> \<not> tr_ok r \<and> tr_output r = ObjNone \<and> tr_error r = exn_msg exc
               | Inr output \<Rightarrow> tr_ok r \<and> tr_output r = output \<and> tr_error r = []) \<and>
              rs_audit_log t = rs_audit_log s @ [audit_entry call (tr_ok r) (tr_error r)]))"
  by (auto simp: Let_def execute_def check_policy_def denial_reason_Nil
      split: option.splits sum.splits prod.splits)

text \<open>The audit log is complete: after any sequence of calls it holds, in order, one entry for
  every call that returned a result, carrying the stage, name, correlation id and outcome of the
  call, and nothing for the calls the runtime refused.\<close>

lemma audit_log_complete:
  "(let (results, t) = registered.run_all rt calls s
    in rs_audit_log t =
         rs_audit_log s @ map (\<lambda>r. audit_entry (tr_call r) (tr_ok r) (tr_error r)) results)"
  by (auto split: prod.splits intro: registered.audit_of_run_all)

lemma in_exposure:
  "(spec, reason) \<in> set (tool_exposure_for_stage tools pol stage) \<longleftrightarrow>
     (\<exists>name def. name \<in> set (allowed_tools pol stage) \<and> map_of tools name = Some def \<and>
        spec = tool_spec stage def \<and> reason = denial_reason pol stage name def)"
proof -
  have "(spec, reason) \<in> set (tool_exposure_for_stage tools pol stage) \<longleftrightarrow>
      (\<exists>name \<in> set (allowed_tools pol stage). (spec, reason) \<in>
         set (case map_of tools name of None \<Rightarrow> []
              | Some def \<Rightarrow> [(tool_spec stage def, denial_reason pol stage name def)]))"
    by (simp add: tool_exposure_for_stage_def allowed_tool_names_def)
  also have "\<dots> \<longleftrightarrow> (\<exists>name \<in> set (allowed_tools pol stage). \<exists>def. map_of tools name = Some def \<and>
        spec = tool_spec stage def \<and> reason = denial_reason pol stage name def)"
  proof (intro bex_cong refl)
    fix name
    show "(spec, reason) \<in> set (case map_of tools name of None \<Rightarrow> []
        | Some def \<Rightarrow> [(tool_spec stage def, denial_reason pol stage name def)]) \<longleftrightarrow>
      (\<exists>def. map_of tools name = Some def \<and> spec = tool_spec stage def \<and>
         reason = denial_reason pol stage name def)"
      by (cases "map_of tools name") auto
  qed
  finally show ?thesis by blast
qed

lemma in_specs:
  "spec \<in> set (tool_specs_for_stage tools pol stage) \<longleftrightarrow>
     (\<exists>name def. map_of tools name = Some def \<and> spec = tool_spec stage def \<and>
        denial_reason pol stage name def = [])"
proof -
  have "spec \<in> set (tool_specs_for_stage tools pol stage) \<longleftrightarrow>
      (spec, []) \<in> set (tool_exposure_for_stage tools pol stage)"
    by (auto simp: tool_specs_for_stage_def image_iff)
  moreover have "(spec, []) \<in> set (tool_exposure_for_stage tools pol stage) \<longleftrightarrow>
      (\<exists>name def. map_of tools name = Some def \<and> spec = tool_spec stage def \<and>
        denial_reason pol stage name def = [])" (is "?l \<longleftrightarrow> ?r")
  proof
    assume ?l
    then obtain name def where "map_of tools name = Some def" "spec = tool_spec stage def"
      "[] = denial_reason pol stage name def" unfolding in_exposure by blast
    then show ?r by (intro exI [of _ name] exI [of _ def]) simp
  next
    assume ?r
    then obtain name def where n: "map_of tools name = Some def" "spec = tool_spec stage def"
      "denial_reason pol stage name def = []" by blast
    then have "name \<in> set (allowed_tools pol stage)" by (simp add: denial_reason_Nil)
    with n show ?l unfolding in_exposure by (intro exI [of _ name] exI [of _ def]) simp
  qed
  ultimately show ?thesis by simp
qed

text \<open>C19. The adapter offers an agent exactly what it may call: with the tools and the policy of the
  runtime, a name is among the specs exposed for a stage if and only if invoking it at that stage
  does not raise, whatever the arguments, the correlation id and the state.\<close>

theorem exposed_iff_invocable:
  "(let rt = registered_runtime tools pol
    in name \<in> set (map ts_name (tool_specs_for_stage (tool_table tools) pol stage)) \<longleftrightarrow>
       \<not> isl (fst (invoke (execute rt) stage name arguments cid s)))"
proof -
  let ?rt = "registered_runtime tools pol"
  let ?call = "\<lparr>tc_stage = stage, tc_name = name, tc_input = arguments, tc_correlation_id = cid\<rparr>"
  have "\<not> isl (fst (execute ?rt ?call s)) \<longleftrightarrow>
      (\<exists>def. map_of (tool_table tools) name = Some def \<and> denial_reason pol stage name def = [])"
    by (auto simp: execute_def registered_runtime_def check_policy_def Let_def
        split: option.split sum.split prod.split)
  moreover have "name \<in> set (map ts_name (tool_specs_for_stage (tool_table tools) pol stage)) \<longleftrightarrow>
      (\<exists>def. map_of (tool_table tools) name = Some def \<and> denial_reason pol stage name def = [])"
    (is "?l \<longleftrightarrow> ?r")
  proof
    have spec_name: "ts_name (tool_spec stage def) = n" if "map_of (tool_table tools) n = Some def" for n def
      using tool_table_name [OF that] by (simp add: tool_spec_def)
    {
      assume ?l
      then obtain n def where "map_of (tool_table tools) n = Some def"
        "name = ts_name (tool_spec stage def)" "denial_reason pol stage n def = []"
        by (auto simp: in_specs)
      then show ?r using spec_name by (intro exI [of _ def]) simp
    next
      assume ?r
      then obtain def where n: "map_of (tool_table tools) name = Some def"
        "denial_reason pol stage name def = []" by blast
      then have "tool_spec stage def \<in> set (tool_specs_for_stage (tool_table tools) pol stage)"
        unfolding in_specs by (intro exI [of _ name] exI [of _ def]) simp
      then show ?l using spec_name [OF n(1)] by (auto simp: image_iff intro!: bexI [rotated])
    }
  qed
  ultimately show ?thesis by (simp add: invoke_def)
qed

end
