(* ===== verification/Agent.thy ===== *)
theory Agent
  imports Tools
begin

text \<open>
  The agent runtime: value types (\<open>src/runtime/agent/types.py\<close>), the fake runner
  (\<open>fake.py\<close>) and the workflow session manager (\<open>manager.py\<close>). A runner is a record of its
  three operations over a world \<open>'w\<close>; what the manager assumes of it is the locale
  \<open>session_runner\<close>.
\<close>

section \<open>Types\<close>

datatype agent_session_scope = SCOPE_WORKFLOW | SCOPE_STAGE

datatype agent_session_status = ACTIVE | COMPLETED | SESSION_FAILED | SESSION_CANCELLED | EXPIRED

datatype agent_run_status = SUCCEEDED | FAILED | TIMEOUT | CANCELLED

fun agent_run_status_value :: "agent_run_status \<Rightarrow> string" where
  "agent_run_status_value SUCCEEDED = ''succeeded''"
| "agent_run_status_value FAILED = ''failed''"
| "agent_run_status_value TIMEOUT = ''timeout''"
| "agent_run_status_value CANCELLED = ''cancelled''"

record agent_session_handle =
  ah_session_id :: string
  ah_scope :: agent_session_scope
  ah_repo_full_name :: string
  ah_pr_number :: int
  ah_head_sha :: string
  ah_trigger :: string
  ah_correlation_id :: string
  ah_provider_session_id :: string

record agent_run_input =
  ai_stage :: workflow_stage
  ai_prompt :: string
  ai_correlation_id :: string
  ai_allowed_tools :: "agent_framework_tool_spec list"
  ai_context :: "json dict option"
  ai_max_turns :: "int option"
  ai_max_tool_calls :: "int option"
  ai_timeout_seconds :: "rat option"

definition allowed_tool_names_of :: "agent_run_input \<Rightarrow> string list" where
  "allowed_tool_names_of run_input = map ts_name (ai_allowed_tools run_input)"

record agent_run_result =
  ar_session :: agent_session_handle
  ar_stage :: workflow_stage
  ar_status :: agent_run_status
  ar_output_text :: string
  ar_error :: string
  ar_allowed_tool_names :: "string list"

record agent_session_turn =
  at_stage :: workflow_stage
  at_correlation_id :: string
  at_status :: agent_run_status
  at_allowed_tool_names :: "string list"
  at_error :: string

record agent_session_record =
  ac_handle :: agent_session_handle
  ac_status :: agent_session_status
  ac_turns :: "agent_session_turn list"
  ac_termination_reason :: string

definition is_active :: "agent_session_record \<Rightarrow> bool" where
  "is_active r \<longleftrightarrow> ac_status r = ACTIVE"

record 'w agent_runner =
  ru_start_session :: "agent_session_handle \<Rightarrow> ('w, agent_session_handle) act"
  ru_run :: "agent_session_handle \<Rightarrow> agent_run_input \<Rightarrow> ('w, agent_run_result) act"
  ru_close_session :: "agent_session_handle \<Rightarrow> string \<Rightarrow> ('w, unit) act"

section \<open>The fake runner\<close>

record fake_state =
  fk_started_sessions :: "agent_session_handle list"
  fk_closed_sessions :: "(string \<times> string) list"
  fk_run_inputs :: "agent_run_input list"

definition fake_run_result ::
  "string \<Rightarrow> agent_session_handle \<Rightarrow> agent_run_input \<Rightarrow> agent_run_result" where
  "fake_run_result response session run_input =
     \<lparr>ar_session = session, ar_stage = ai_stage run_input, ar_status = SUCCEEDED,
      ar_output_text = response, ar_error = [],
      ar_allowed_tool_names = allowed_tool_names_of run_input\<rparr>"

definition fake_runner :: "string \<Rightarrow> fake_state agent_runner" where
  "fake_runner response =
     \<lparr>ru_start_session = (\<lambda>handle w.
        (Inr handle, w\<lparr>fk_started_sessions := fk_started_sessions w @ [handle]\<rparr>)),
      ru_run = (\<lambda>session run_input w.
        (Inr (fake_run_result response session run_input),
         w\<lparr>fk_run_inputs := fk_run_inputs w @ [run_input]\<rparr>)),
      ru_close_session = (\<lambda>handle reason w.
        (Inr (), w\<lparr>fk_closed_sessions := fk_closed_sessions w @ [(ah_session_id handle, reason)]\<rparr>))\<rparr>"

section \<open>The session manager\<close>

record 'w manager_state =
  ms_records :: "agent_session_record dict"
  ms_next_id :: nat
  ms_world :: 'w

definition initial_manager :: "'w \<Rightarrow> 'w manager_state" where
  "initial_manager w = \<lparr>ms_records = [], ms_next_id = 1, ms_world = w\<rparr>"

text \<open>An operation of the runner, inside the manager's state.\<close>

definition on_runner :: "('w, 'a) act \<Rightarrow> ('w manager_state, 'a) act" where
  "on_runner m s = (case m (ms_world s) of (r, w) \<Rightarrow> (r, s\<lparr>ms_world := w\<rparr>))"

definition session_id_text :: "string \<Rightarrow> int \<Rightarrow> string \<Rightarrow> nat \<Rightarrow> string" where
  "session_id_text repo pr head_sha n =
     (let safe_repo = replace ''/'' ''-'' repo;
          short_sha = (if head_sha \<noteq> [] then cp_take 12 head_sha else ''unknown'')
      in ''review-'' @ safe_repo @ ''-'' @ show_int pr @ ''-'' @ short_sha @ ''-'' @ show_nat n)"

definition new_session_id :: "string \<Rightarrow> int \<Rightarrow> string \<Rightarrow> ('w manager_state, string) act" where
  "new_session_id repo pr head_sha s =
     (Inr (session_id_text repo pr head_sha (ms_next_id s)), s\<lparr>ms_next_id := ms_next_id s + 1\<rparr>)"

definition put_record :: "string \<Rightarrow> agent_session_record \<Rightarrow> ('w manager_state, unit) act" where
  "put_record i r s = (Inr (), s\<lparr>ms_records := AList.update i r (ms_records s)\<rparr>)"

definition start_workflow_session ::
  "'w agent_runner \<Rightarrow> string \<Rightarrow> int \<Rightarrow> string \<Rightarrow> string \<Rightarrow> string \<Rightarrow>
   ('w manager_state, agent_session_record) act" where
  "start_workflow_session runner repo pr head_sha trigger cid =
     bindS (new_session_id repo pr head_sha) (\<lambda>session_id.
     bindS (on_runner (ru_start_session runner
        \<lparr>ah_session_id = session_id, ah_scope = SCOPE_WORKFLOW, ah_repo_full_name = repo,
         ah_pr_number = pr, ah_head_sha = head_sha, ah_trigger = trigger, ah_correlation_id = cid,
         ah_provider_session_id = []\<rparr>)) (\<lambda>handle.
     (let rec = \<lparr>ac_handle = handle, ac_status = ACTIVE, ac_turns = [], ac_termination_reason = []\<rparr>
      in bindS (put_record (ah_session_id handle) rec) (\<lambda>_. retS rec))))"

definition get_session :: "string \<Rightarrow> ('w manager_state, agent_session_record) act" where
  "get_session session_id s =
     (case map_of (ms_records s) session_id of
        None \<Rightarrow> (Inl (Exn AgentSessionNotFoundError
                  (''agent session '' @ repr_str session_id @ '' was not found'')), s)
      | Some r \<Rightarrow> (Inr r, s))"

definition turns_for_session :: "string \<Rightarrow> ('w manager_state, agent_session_turn list) act" where
  "turns_for_session session_id = bindS (get_session session_id) (\<lambda>r. retS (ac_turns r))"

definition run_stage ::
  "'w agent_runner \<Rightarrow> agent_session_handle \<Rightarrow> agent_run_input \<Rightarrow>
   ('w manager_state, agent_run_result) act" where
  "run_stage runner handle run_input =
     bindS (get_session (ah_session_id handle)) (\<lambda>rec.
     if \<not> is_active rec then
       raiseS (Exn AgentSessionNotFoundError
         (''agent session '' @ repr_str (ah_session_id handle) @ '' is not active''))
     else
       bindS (on_runner (ru_run runner (ac_handle rec) run_input)) (\<lambda>result.
       (let turn = \<lparr>at_stage = ai_stage run_input, at_correlation_id = ai_correlation_id run_input,
              at_status = ar_status result, at_allowed_tool_names = allowed_tool_names_of run_input,
              at_error = ar_error result\<rparr>
        in bindS (put_record (ah_session_id handle) (rec\<lparr>ac_turns := ac_turns rec @ [turn]\<rparr>))
             (\<lambda>_. retS result))))"

text \<open>The loop of \<open>_close_matching\<close> over the snapshot of the records.\<close>

fun close_records ::
  "'w agent_runner \<Rightarrow> string \<Rightarrow> int \<Rightarrow> string \<Rightarrow> (agent_session_record \<Rightarrow> bool) \<Rightarrow>
   agent_session_status \<Rightarrow> agent_session_record list \<Rightarrow>
   ('w manager_state, agent_session_record list) act" where
  "close_records runner repo pr reason pred terminal [] = retS []"
| "close_records runner repo pr reason pred terminal (r # rs) =
     (if \<not> is_active r \<or> ah_repo_full_name (ac_handle r) \<noteq> repo \<or> ah_pr_number (ac_handle r) \<noteq> pr \<or> \<not> pred r
      then close_records runner repo pr reason pred terminal rs
      else
        bindS (on_runner (ru_close_session runner (ac_handle r) reason)) (\<lambda>_.
        (let updated = r\<lparr>ac_status := terminal, ac_termination_reason := reason\<rparr>
         in bindS (put_record (ah_session_id (ac_handle r)) updated) (\<lambda>_.
            bindS (close_records runner repo pr reason pred terminal rs) (\<lambda>ended.
            retS (updated # ended))))))"

definition close_matching ::
  "'w agent_runner \<Rightarrow> string \<Rightarrow> int \<Rightarrow> string \<Rightarrow> (agent_session_record \<Rightarrow> bool) \<Rightarrow>
   agent_session_status \<Rightarrow> ('w manager_state, agent_session_record list) act" where
  "close_matching runner repo pr reason pred terminal s =
     close_records runner repo pr reason pred terminal (map snd (ms_records s)) s"

definition cancel_superseded_sessions ::
  "'w agent_runner \<Rightarrow> string \<Rightarrow> int \<Rightarrow> string \<Rightarrow> string \<Rightarrow>
   ('w manager_state, agent_session_record list) act" where
  "cancel_superseded_sessions runner repo pr current_head_sha reason =
     close_matching runner repo pr reason (\<lambda>r. ah_head_sha (ac_handle r) \<noteq> current_head_sha)
       SESSION_CANCELLED"

definition close_pr_sessions ::
  "'w agent_runner \<Rightarrow> string \<Rightarrow> int \<Rightarrow> string \<Rightarrow> ('w manager_state, agent_session_record list) act" where
  "close_pr_sessions runner repo pr reason =
     close_matching runner repo pr reason (\<lambda>_. True) COMPLETED"

section \<open>Session identifiers\<close>

lemma session_id_inj:
  assumes "session_id_text repo pr sha n = session_id_text repo' pr' sha' n'"
  shows "n = n'"
proof -
  have last_part: "takeWhile is_digit (rev (a @ ''-'' @ show_nat k)) = rev (show_nat k)" for a k
    using show_nat_digits [of k] by (simp add: takeWhile_append is_digit_def [of "CHR ''-''"])
  obtain a a' where "a @ ''-'' @ show_nat n = a' @ ''-'' @ show_nat n'"
    using assms unfolding session_id_text_def Let_def by (metis append_assoc)
  then have "rev (show_nat n) = rev (show_nat n')" using last_part by metis
  then show ?thesis by (simp add: show_nat_inj)
qed

text \<open>
  The invariant of the manager: records sit under the id of their handle, every id was generated
  from a counter value already used, and a record is unfinished exactly when it is active.
\<close>

definition own_record :: "nat \<Rightarrow> string \<Rightarrow> agent_session_record \<Rightarrow> bool" where
  "own_record next i r \<longleftrightarrow> ah_session_id (ac_handle r) = i \<and>
     (\<exists>repo pr sha n. i = session_id_text repo pr sha n \<and> n < next)"

definition manager_inv :: "'w manager_state \<Rightarrow> bool" where
  "manager_inv s \<longleftrightarrow> wf_dict (ms_records s) \<and>
     (\<forall>i r. map_of (ms_records s) i = Some r \<longrightarrow> own_record (ms_next_id s) i r)"

text \<open>How the record of a session may change: it keeps its handle, never leaves a terminal state, gains turns while active.\<close>

definition record_evolves :: "agent_session_record \<Rightarrow> agent_session_record \<Rightarrow> bool" where
  "record_evolves r r' \<longleftrightarrow> ac_handle r' = ac_handle r \<and> (\<exists>ts. ac_turns r' = ac_turns r @ ts) \<and>
     (is_active r \<or> r' = r)"

definition manager_evolves :: "'w manager_state \<Rightarrow> 'w manager_state \<Rightarrow> bool" where
  "manager_evolves s t \<longleftrightarrow> manager_inv t \<and> ms_next_id s \<le> ms_next_id t \<and>
     (\<forall>i r. map_of (ms_records s) i = Some r \<longrightarrow>
        (\<exists>r'. map_of (ms_records t) i = Some r' \<and> record_evolves r r'))"

lemma record_evolves_refl [simp]: "record_evolves r r"
  by (simp add: record_evolves_def)

lemma record_evolves_trans: "record_evolves a b \<Longrightarrow> record_evolves b c \<Longrightarrow> record_evolves a c"
  by (auto simp: record_evolves_def)

lemma manager_evolves_refl: "manager_inv s \<Longrightarrow> manager_evolves s s"
  by (simp add: manager_evolves_def)

lemma manager_evolves_trans:
  "manager_evolves s t \<Longrightarrow> manager_evolves t u \<Longrightarrow> manager_evolves s u"
  unfolding manager_evolves_def by (meson order_trans record_evolves_trans)

lemma manager_inv_initial: "manager_inv (initial_manager w)"
  by (simp add: manager_inv_def initial_manager_def)

lemma manager_inv_world [simp]: "manager_inv (s\<lparr>ms_world := w\<rparr>) = manager_inv s"
  by (simp add: manager_inv_def)

lemma manager_evolves_world [simp]: "manager_evolves s (t\<lparr>ms_world := w\<rparr>) = manager_evolves s t"
  by (simp add: manager_evolves_def)

lemma on_runner_state: "on_runner m s = (r, t) \<Longrightarrow> \<exists>w. t = s\<lparr>ms_world := w\<rparr>"
  by (auto simp: on_runner_def split: prod.splits)

lemma own_record_mono: "own_record m i r \<Longrightarrow> m \<le> n \<Longrightarrow> own_record n i r"
  unfolding own_record_def using order_less_le_trans by blast

lemma own_record_Suc: "own_record n i r \<Longrightarrow> own_record (Suc n) i r"
  using own_record_mono [of n i r "Suc n"] by simp

lemma own_record_handle: "own_record n i r \<Longrightarrow> ac_handle r' = ac_handle r \<Longrightarrow> own_record n i r'"
  by (simp add: own_record_def)

lemma own_record_fresh: "\<not> own_record n (session_id_text repo pr sha n) r"
  unfolding own_record_def using session_id_inj by (metis less_irrefl)

lemma put_known:
  assumes "manager_inv s" and "map_of (ms_records s) i = Some r" and "record_evolves r r'"
  shows "manager_evolves s (s\<lparr>ms_records := AList.update i r' (ms_records s)\<rparr>)"
proof -
  from assms have "own_record (ms_next_id s) i r" by (simp add: manager_inv_def)
  then have "own_record (ms_next_id s) i r'"
    using assms(3) by (auto simp: record_evolves_def intro: own_record_handle)
  with assms show ?thesis
    by (auto simp: manager_evolves_def manager_inv_def update_conv)
qed

section \<open>What the manager keeps\<close>

text \<open>The manager relies on its runner to keep the id of the session it starts.\<close>

locale session_runner =
  fixes runner :: "'w agent_runner"
  assumes keeps_id: "ru_start_session runner h w = (Inr h', w') \<Longrightarrow> ah_session_id h' = ah_session_id h"
begin

lemma start_fresh:
  assumes "manager_inv s" and "start_workflow_session runner repo pr sha trigger cid s = (Inr r, t)"
  shows "manager_evolves s t \<and> map_of (ms_records s) (ah_session_id (ac_handle r)) = None \<and>
    map_of (ms_records t) (ah_session_id (ac_handle r)) = Some r \<and> is_active r \<and> ac_turns r = [] \<and>
    ah_session_id (ac_handle r) = session_id_text repo pr sha (ms_next_id s)"
proof -
  let ?i = "session_id_text repo pr sha (ms_next_id s)"
  from assms(2) obtain h w where h: "ah_session_id h = ?i"
    and r: "r = \<lparr>ac_handle = h, ac_status = ACTIVE, ac_turns = [], ac_termination_reason = []\<rparr>"
    and t: "t = s\<lparr>ms_next_id := ms_next_id s + 1, ms_world := w, ms_records := AList.update ?i r (ms_records s)\<rparr>"
    by (auto simp: start_workflow_session_def new_session_id_def on_runner_def put_record_def Let_def
        act_simps dest: keeps_id split: prod.splits sum.splits)
  have new: "map_of (ms_records s) ?i = None"
  proof (cases "map_of (ms_records s) ?i")
    case (Some r0)
    with assms(1) have "own_record (ms_next_id s) ?i r0" by (simp add: manager_inv_def)
    then show ?thesis using own_record_fresh by blast
  qed
  have "own_record (Suc (ms_next_id s)) ?i r"
    unfolding own_record_def using h r by (auto intro: exI [of _ "ms_next_id s"])
  then have "manager_inv t"
    using assms(1) by (auto simp: manager_inv_def t update_conv intro: own_record_Suc)
  moreover have "map_of (ms_records t) i = Some r0" if "map_of (ms_records s) i = Some r0" for i r0
    using that new by (auto simp: t update_conv)
  ultimately have "manager_evolves s t"
    unfolding manager_evolves_def by (auto simp: t)
  with new h r show ?thesis by (simp add: t is_active_def update_conv)
qed

lemma start_evolves:
  assumes "manager_inv s" and "start_workflow_session runner repo pr sha trigger cid s = (res, t)"
  shows "manager_evolves s t"
proof (cases res)
  case (Inr r)
  with assms start_fresh show ?thesis by blast
next
  case (Inl e)
  with assms(2) obtain w where "t = s\<lparr>ms_next_id := ms_next_id s + 1, ms_world := w\<rparr>"
    by (auto simp: start_workflow_session_def new_session_id_def on_runner_def put_record_def Let_def
        act_simps split: prod.splits sum.splits)
  with assms(1) show ?thesis
    by (auto simp: manager_evolves_def manager_inv_def intro: own_record_Suc)
qed

end

interpretation fake: session_runner "fake_runner response" for response
  by unfold_locales (simp add: fake_runner_def)

lemma run_stage_cases:
  assumes "run_stage runner h inp s = (res, t)"
  shows "(\<exists>w. t = s\<lparr>ms_world := w\<rparr>) \<or>
    (\<exists>r w x. map_of (ms_records s) (ah_session_id h) = Some r \<and> is_active r \<and>
       t = s\<lparr>ms_world := w, ms_records := AList.update (ah_session_id h)
               (r\<lparr>ac_turns := ac_turns r @ [x]\<rparr>) (ms_records s)\<rparr>)"
proof (cases "map_of (ms_records s) (ah_session_id h)")
  case None
  with assms have "t = s" by (simp add: run_stage_def get_session_def bindS_def)
  then show ?thesis by (metis manager_state.surjective manager_state.update_convs(3))
next
  case (Some r)
  show ?thesis
  proof (cases "is_active r")
    case False
    with Some assms have "t = s" by (simp add: run_stage_def get_session_def bindS_def raiseS_def)
    then show ?thesis by (metis manager_state.surjective manager_state.update_convs(3))
  next
    case True
    obtain x w where x: "ru_run runner (ac_handle r) inp (ms_world s) = (x, w)" by fastforce
    show ?thesis
    proof (cases x)
      case (Inl e)
      with x True Some assms show ?thesis
        by (auto simp: run_stage_def get_session_def on_runner_def act_simps)
    next
      case (Inr y)
      with x True Some assms show ?thesis
        by (auto simp: run_stage_def get_session_def on_runner_def put_record_def Let_def act_simps)
    qed
  qed
qed

lemma run_stage_evolves:
  assumes "manager_inv s" and "run_stage runner h inp s = (res, t)"
  shows "manager_evolves s t"
  using run_stage_cases [OF assms(2)]
proof (elim disjE exE conjE)
  fix w assume "t = s\<lparr>ms_world := w\<rparr>"
  with assms(1) show ?thesis by (simp add: manager_evolves_refl)
next
  fix r w x
  assume r: "map_of (ms_records s) (ah_session_id h) = Some r" "is_active r"
    and t: "t = s\<lparr>ms_world := w, ms_records := AList.update (ah_session_id h)
               (r\<lparr>ac_turns := ac_turns r @ [x]\<rparr>) (ms_records s)\<rparr>"
  have "record_evolves r (r\<lparr>ac_turns := ac_turns r @ [x]\<rparr>)" using r(2) by (simp add: record_evolves_def)
  from put_known [OF assms(1) r(1) this]
  show ?thesis by (simp add: t manager_evolves_def manager_inv_def)
qed

section \<open>Closing sessions\<close>

definition closes :: "string \<Rightarrow> int \<Rightarrow> (agent_session_record \<Rightarrow> bool) \<Rightarrow> agent_session_record \<Rightarrow> bool" where
  "closes repo pr pred r \<longleftrightarrow>
     is_active r \<and> ah_repo_full_name (ac_handle r) = repo \<and> ah_pr_number (ac_handle r) = pr \<and> pred r"

definition finish :: "agent_session_status \<Rightarrow> string \<Rightarrow> agent_session_record \<Rightarrow> agent_session_record" where
  "finish terminal reason r = r\<lparr>ac_status := terminal, ac_termination_reason := reason\<rparr>"

abbreviation record_id :: "agent_session_record \<Rightarrow> string" where
  "record_id r \<equiv> ah_session_id (ac_handle r)"

lemma close_records_prefix:
  "close_records runner repo pr reason pred terminal rs s = (res, t) \<Longrightarrow>
     \<exists>m \<le> length rs. ms_next_id t = ms_next_id s \<and>
       ms_records t = foldl (\<lambda>d r. AList.update (record_id r) (finish terminal reason r) d)
         (ms_records s) (filter (closes repo pr pred) (take m rs)) \<and>
       (\<forall>ended. res = Inr ended \<longrightarrow> m = length rs \<and>
          ended = map (finish terminal reason) (filter (closes repo pr pred) rs))"
proof (induction rs arbitrary: s res t)
  case (Cons r rs)
  show ?case
  proof (cases "closes repo pr pred r")
    case False
    with Cons.prems have "close_records runner repo pr reason pred terminal rs s = (res, t)"
      by (auto simp: closes_def)
    from Cons.IH [OF this] obtain m where m: "m \<le> length rs" "ms_next_id t = ms_next_id s"
      "ms_records t = foldl (\<lambda>d r. AList.update (record_id r) (finish terminal reason r) d)
         (ms_records s) (filter (closes repo pr pred) (take m rs))"
      "\<forall>ended. res = Inr ended \<longrightarrow> m = length rs \<and>
          ended = map (finish terminal reason) (filter (closes repo pr pred) rs)" by blast
    with False show ?thesis by (intro exI [of _ "Suc m"]) simp
  next
    case True
    obtain x w where x: "ru_close_session runner (ac_handle r) reason (ms_world s) = (x, w)" by fastforce
    show ?thesis
    proof (cases x)
      case (Inl e)
      with Cons.prems True x have "res = Inl e" "t = s\<lparr>ms_world := w\<rparr>"
        by (auto simp: closes_def on_runner_def act_simps)
      then show ?thesis by (intro exI [of _ 0]) auto
    next
      case (Inr u)
      let ?s = "s\<lparr>ms_world := w, ms_records := AList.update (record_id r) (finish terminal reason r) (ms_records s)\<rparr>"
      obtain y t' where y: "close_records runner repo pr reason pred terminal rs ?s = (y, t')" by fastforce
      from Cons.prems True x Inr y have t: "t' = t"
        and res: "res = (case y of Inl e \<Rightarrow> Inl e | Inr c \<Rightarrow> Inr (finish terminal reason r # c))"
        by (auto simp: closes_def on_runner_def put_record_def finish_def Let_def act_simps
            split: sum.splits)
      from Cons.IH [OF y] obtain m where "m \<le> length rs" "ms_next_id t = ms_next_id s"
        "ms_records t = foldl (\<lambda>d r. AList.update (record_id r) (finish terminal reason r) d)
           (ms_records ?s) (filter (closes repo pr pred) (take m rs))"
        "\<forall>ended. y = Inr ended \<longrightarrow> m = length rs \<and>
           ended = map (finish terminal reason) (filter (closes repo pr pred) rs)"
        unfolding t by auto
      with True res show ?thesis by (intro exI [of _ "Suc m"]) (auto split: sum.splits)
    qed
  qed
qed (auto simp: retS_def)

lemma foldl_update_lookup:
  "distinct (map key rs) \<Longrightarrow>
     map_of (foldl (\<lambda>d r. AList.update (key r) (f r) d) d rs) i =
       (case find (\<lambda>r. key r = i) rs of None \<Rightarrow> map_of d i | Some r \<Rightarrow> Some (f r))"
proof (induction rs arbitrary: d)
  case (Cons r rs)
  from Cons.prems have "\<forall>x \<in> set rs. key r \<noteq> key x" by (auto simp: image_iff)
  then have "key r = i \<Longrightarrow> find (\<lambda>r. key r = i) rs = None" unfolding find_None_iff by auto
  with Cons show ?case by (auto simp: update_conv split: option.split)
qed simp

lemma foldl_update_wf: "wf_dict d \<Longrightarrow> wf_dict (foldl (\<lambda>d r. AList.update (key r) (f r) d) d rs)"
  by (induction rs arbitrary: d) auto

lemma inv_record_ids:
  assumes "manager_inv s"
  shows "map record_id (map snd (ms_records s)) = map fst (ms_records s)"
  unfolding map_map
proof (rule map_cong [OF refl])
  fix x assume "x \<in> set (ms_records s)"
  with assms have "map_of (ms_records s) (fst x) = Some (snd x)"
    by (simp add: manager_inv_def wf_dict_def)
  with assms show "(record_id \<circ> snd) x = fst x"
    by (auto simp: manager_inv_def own_record_def)
qed

lemma find_record:
  assumes inv: "manager_inv s" and sub: "set rs \<subseteq> set (map snd (ms_records s))"
    and f: "find (\<lambda>r. record_id r = i) rs = Some r"
  shows "map_of (ms_records s) i = Some r"
proof -
  from f have "r \<in> set rs" "record_id r = i" by (auto dest: find_SomeD)
  with sub obtain j where j: "(j, r) \<in> set (ms_records s)" by auto
  with inv have m: "map_of (ms_records s) j = Some r" by (simp add: manager_inv_def wf_dict_def)
  with inv have "j = i" using \<open>record_id r = i\<close> by (auto simp: manager_inv_def own_record_def)
  with m show ?thesis by simp
qed

lemma close_matching_lookup:
  assumes inv: "manager_inv s"
    and c: "close_matching runner repo pr reason pred terminal s = (res, t)"
  obtains finished where
    "\<And>i. map_of (ms_records t) i =
       (case map_of (ms_records s) i of None \<Rightarrow> None
        | Some r \<Rightarrow> Some (if r \<in> finished then finish terminal reason r else r))"
    and "finished \<subseteq> Collect (closes repo pr pred)" and "ms_next_id t = ms_next_id s"
    and "wf_dict (ms_records t)"
    and "\<And>ended. res = Inr ended \<Longrightarrow>
       finished = {r \<in> set (map snd (ms_records s)). closes repo pr pred r} \<and>
       ended = map (finish terminal reason) (filter (closes repo pr pred) (map snd (ms_records s)))"
proof -
  let ?rs = "map snd (ms_records s)"
  obtain m where n: "ms_next_id t = ms_next_id s"
    and t: "ms_records t = foldl (\<lambda>d r. AList.update (record_id r) (finish terminal reason r) d)
         (ms_records s) (filter (closes repo pr pred) (take m ?rs))"
    and ok: "\<And>ended. res = Inr ended \<Longrightarrow> m = length ?rs \<and>
          ended = map (finish terminal reason) (filter (closes repo pr pred) ?rs)"
    using close_records_prefix [OF c [unfolded close_matching_def]] by auto
  let ?finished = "filter (closes repo pr pred) (take m ?rs)"
  have sub: "set ?finished \<subseteq> set ?rs" by (auto dest: in_set_takeD)
  have "distinct (map record_id ?rs)"
    using inv by (simp only: inv_record_ids [OF inv]) (simp add: manager_inv_def wf_dict_def)
  then have d: "distinct (map record_id ?finished)"
    by (metis distinct_map_filter distinct_take take_map)
  have "map_of (ms_records t) i =
       (case map_of (ms_records s) i of None \<Rightarrow> None
        | Some r \<Rightarrow> Some (if r \<in> set ?finished then finish terminal reason r else r))" for i
  proof (cases "find (\<lambda>r. record_id r = i) ?finished")
    case None
    then have "r \<notin> set ?finished" if "map_of (ms_records s) i = Some r" for r
      using inv that unfolding find_None_iff manager_inv_def own_record_def by blast
    with None show ?thesis
      by (cases "map_of (ms_records s) i") (simp_all add: t foldl_update_lookup [OF d] del: set_filter)
  next
    case (Some r)
    moreover from Some have "r \<in> set ?finished" by (rule find_SomeD [THEN conjunct1])
    ultimately show ?thesis
      using find_record [OF inv sub Some] by (simp add: t foldl_update_lookup [OF d])
  qed
  then show thesis
    using n ok inv by (intro that [of "set ?finished"])
      (auto simp: t manager_inv_def intro!: foldl_update_wf dest: in_set_takeD)
qed

lemma finish_evolves: "is_active r \<Longrightarrow> record_evolves r (finish terminal reason r)"
  by (simp add: record_evolves_def finish_def)

lemma close_matching_evolves:
  assumes inv: "manager_inv s"
    and c: "close_matching runner repo pr reason pred terminal s = (res, t)"
  shows "manager_evolves s t"
proof (rule close_matching_lookup [OF inv c])
  fix finished
  assume look: "\<And>i. map_of (ms_records t) i =
       (case map_of (ms_records s) i of None \<Rightarrow> None
        | Some r \<Rightarrow> Some (if r \<in> finished then finish terminal reason r else r))"
    and d: "finished \<subseteq> Collect (closes repo pr pred)" and n: "ms_next_id t = ms_next_id s"
    and wf: "wf_dict (ms_records t)"
  have "own_record (ms_next_id t) i r" if "map_of (ms_records t) i = Some r" for i r
    using inv that own_record_handle [of _ i _ r]
    by (fastforce simp: look n manager_inv_def finish_def split: option.splits if_splits)
  moreover have "record_evolves r (if r \<in> finished then finish terminal reason r else r)" for r
    using d finish_evolves [of r] by (cases "r \<in> finished") (auto simp: closes_def)
  ultimately show ?thesis
    using wf by (auto simp: manager_evolves_def manager_inv_def n look)
qed

section \<open>Runs of the manager\<close>

datatype manager_op =
    StartSession string int string string string
  | RunStage agent_session_handle agent_run_input
  | CancelSuperseded string int string string
  | ClosePR string int string

fun manager_step :: "'w agent_runner \<Rightarrow> manager_op \<Rightarrow> 'w manager_state \<Rightarrow> 'w manager_state" where
  "manager_step runner (StartSession repo pr sha trigger cid) s =
     snd (start_workflow_session runner repo pr sha trigger cid s)"
| "manager_step runner (RunStage h inp) s = snd (run_stage runner h inp s)"
| "manager_step runner (CancelSuperseded repo pr sha reason) s =
     snd (cancel_superseded_sessions runner repo pr sha reason s)"
| "manager_step runner (ClosePR repo pr reason) s = snd (close_pr_sessions runner repo pr reason s)"

context session_runner
begin

lemma step_evolves: "manager_inv s \<Longrightarrow> manager_evolves s (manager_step runner op s)"
  by (cases op)
    (simp_all, (rule start_evolves run_stage_evolves close_matching_evolves; simp add: prod_eq_iff
       cancel_superseded_sessions_def close_pr_sessions_def)+)

lemma steps_evolve:
  "manager_inv s \<Longrightarrow> manager_evolves s (foldl (\<lambda>s op. manager_step runner op s) s ops)"
proof (induction ops arbitrary: s)
  case (Cons op ops)
  let ?t = "manager_step runner op s"
  have st: "manager_evolves s ?t" using Cons.prems by (rule step_evolves)
  then have "manager_inv ?t" by (simp add: manager_evolves_def)
  from manager_evolves_trans [OF st Cons.IH [OF this]] show ?case by simp
qed (simp add: manager_evolves_refl)

end

text \<open>A state the manager can be in, starting without sessions.\<close>

definition manager_run :: "'w agent_runner \<Rightarrow> 'w \<Rightarrow> manager_op list \<Rightarrow> 'w manager_state" where
  "manager_run runner w ops = foldl (\<lambda>s op. manager_step runner op s) (initial_manager w) ops"

lemma manager_run_inv: "session_runner runner \<Longrightarrow> manager_inv (manager_run runner w ops)"
  using session_runner.steps_evolve [of runner "initial_manager w" ops] manager_inv_initial [of w]
  by (simp add: manager_run_def manager_evolves_def)

lemma manager_run_append:
  "session_runner runner \<Longrightarrow> manager_evolves (manager_run runner w ops) (manager_run runner w (ops @ later))"
  using session_runner.steps_evolve [of runner "manager_run runner w ops" later]
    manager_run_inv [of runner w ops]
  by (simp add: manager_run_def)

definition sample_ops :: "manager_op list" where
  "sample_ops = [StartSession ''o/r'' 7 ''aaa'' ''pr_opened'' ''c1'', StartSession ''o/r'' 7 ''bbb'' ''pr_updated'' ''c2'',
     CancelSuperseded ''o/r'' 7 ''bbb'' ''new head'']"

abbreviation idle_fake :: fake_state where
  "idle_fake \<equiv> \<lparr>fk_started_sessions = [], fk_closed_sessions = [], fk_run_inputs = []\<rparr>"

text \<open>C20. Sessions are never lost, reopened or mixed up: with a runner that keeps session ids, after
  any operations and any further ones every session recorded before is still recorded under the id
  of its handle, with the same handle and its turns extended; a session that was no longer active is
  unchanged; and a new session gets an id no record has.\<close>

theorem sessions_persist:
  assumes "session_runner runner"
  shows "(let s = manager_run runner w ops; t = manager_run runner w (ops @ later)
    in (\<forall>i r. map_of (ms_records s) i = Some r \<longrightarrow>
          ah_session_id (ac_handle r) = i \<and>
          (\<exists>r'. map_of (ms_records t) i = Some r' \<and> ac_handle r' = ac_handle r \<and>
             (\<exists>ts. ac_turns r' = ac_turns r @ ts) \<and> (ac_status r \<noteq> ACTIVE \<longrightarrow> r' = r))) \<and>
       (case start_workflow_session runner repo pr sha trigger cid s of
          (Inl e, u) \<Rightarrow> True
        | (Inr r, u) \<Rightarrow> map_of (ms_records s) (ah_session_id (ac_handle r)) = None \<and>
                       ms_records u = ms_records s @ [(ah_session_id (ac_handle r), r)]))"
proof -
  let ?s = "manager_run runner w ops"
  have inv: "manager_inv ?s" using assms by (rule manager_run_inv)
  have "ms_records u = AList.update (ah_session_id (ac_handle r)) r (ms_records ?s)"
    if "start_workflow_session runner repo pr sha trigger cid ?s = (Inr r, u)" for r u
    using that by (auto simp: start_workflow_session_def new_session_id_def on_runner_def put_record_def
        Let_def act_simps split: prod.splits sum.splits)
  then have "case start_workflow_session runner repo pr sha trigger cid ?s of
      (Inl e, u) \<Rightarrow> True
    | (Inr r, u) \<Rightarrow> map_of (ms_records ?s) (ah_session_id (ac_handle r)) = None \<and>
        ms_records u = ms_records ?s @ [(ah_session_id (ac_handle r), r)]"
    using session_runner.start_fresh [OF assms inv]
    by (fastforce simp: update_fresh split: prod.split sum.split)
  moreover have "ah_session_id (ac_handle r) = i \<and>
      (\<exists>r'. map_of (ms_records (manager_run runner w (ops @ later))) i = Some r' \<and>
         ac_handle r' = ac_handle r \<and> (\<exists>ts. ac_turns r' = ac_turns r @ ts) \<and>
         (ac_status r \<noteq> ACTIVE \<longrightarrow> r' = r))" if r: "map_of (ms_records ?s) i = Some r" for i r
  proof -
    from manager_run_append [OF assms, of w ops later] r
    obtain r' where "map_of (ms_records (manager_run runner w (ops @ later))) i = Some r'"
      "record_evolves r r'" unfolding manager_evolves_def by blast
    moreover have "ah_session_id (ac_handle r) = i"
      using inv r by (simp add: manager_inv_def own_record_def)
    ultimately show ?thesis unfolding record_evolves_def is_active_def by blast
  qed
  ultimately show ?thesis unfolding Let_def by blast
qed

theorem sessions_persist_witness:
  "map (\<lambda>(i, r). (i, ac_status r)) (ms_records (manager_run (fake_runner []) idle_fake sample_ops)) =
     [(''review-o-r-7-aaa-1'', SESSION_CANCELLED), (''review-o-r-7-bbb-2'', ACTIVE)] \<and>
   map_of (ms_records (manager_run (fake_runner []) idle_fake (sample_ops @ [ClosePR ''o/r'' 7 ''merged''])))
     ''review-o-r-7-aaa-1'' =
   map_of (ms_records (manager_run (fake_runner []) idle_fake sample_ops)) ''review-o-r-7-aaa-1''"
proof -
  let ?s = "manager_run (fake_runner []) idle_fake sample_ops"
  have s: "map (\<lambda>(i, r). (i, ac_status r)) (ms_records ?s) =
      [(''review-o-r-7-aaa-1'', SESSION_CANCELLED), (''review-o-r-7-bbb-2'', ACTIVE)]"
    by code_simp
  then obtain r where r: "map_of (ms_records ?s) ''review-o-r-7-aaa-1'' = Some r" "ac_status r \<noteq> ACTIVE"
    by (auto simp: Cons_eq_map_conv map_eq_Cons_conv)
  note p = sessions_persist [OF fake.session_runner_axioms, of "[]" idle_fake sample_ops
      "[ClosePR ''o/r'' 7 ''merged'']", unfolded Let_def, THEN conjunct1, rule_format, OF r(1)]
  from p r(2)
  have "map_of (ms_records (manager_run (fake_runner []) idle_fake (sample_ops @ [ClosePR ''o/r'' 7 ''merged''])))
      ''review-o-r-7-aaa-1'' = Some r"
    by blast
  with s r show ?thesis by simp
qed

text \<open>A new head cancels exactly the superseded sessions: when the runner closes every session it
  is asked to close, the records afterwards are the records before with the active sessions of that
  pull request on another head cancelled with the given reason, and nothing else changed; when it
  raises, every record is either unchanged or one of those, cancelled.\<close>

lemma cancel_superseded_exact:
  assumes "session_runner runner"
  shows "(let s = manager_run runner w ops;
        superseded = (\<lambda>r. ac_status r = ACTIVE \<and> ah_repo_full_name (ac_handle r) = repo \<and>
          ah_pr_number (ac_handle r) = pr \<and> ah_head_sha (ac_handle r) \<noteq> current);
        cancelled = (\<lambda>r. r\<lparr>ac_status := SESSION_CANCELLED, ac_termination_reason := reason\<rparr>);
        expected = (\<lambda>i. map_option (\<lambda>r. if superseded r then cancelled r else r) (map_of (ms_records s) i))
    in case cancel_superseded_sessions runner repo pr current reason s of
         (Inr ended, t) \<Rightarrow> map_of (ms_records t) = expected \<and>
           ended = map cancelled (filter superseded (map snd (ms_records s)))
       | (Inl e, t) \<Rightarrow> \<forall>i. map_of (ms_records t) i \<in> {map_of (ms_records s) i, expected i})"
proof -
  let ?s = "manager_run runner w ops"
  let ?pred = "\<lambda>r. ah_head_sha (ac_handle r) \<noteq> current"
  have inv: "manager_inv ?s" using assms by (rule manager_run_inv)
  obtain res t where c: "cancel_superseded_sessions runner repo pr current reason ?s = (res, t)"
    by fastforce
  have cl: "closes repo pr ?pred = (\<lambda>r. ac_status r = ACTIVE \<and> ah_repo_full_name (ac_handle r) = repo \<and>
          ah_pr_number (ac_handle r) = pr \<and> ah_head_sha (ac_handle r) \<noteq> current)"
    by (auto simp: closes_def is_active_def)
  have fi: "finish SESSION_CANCELLED reason =
      (\<lambda>r. r\<lparr>ac_status := SESSION_CANCELLED, ac_termination_reason := reason\<rparr>)"
    by (auto simp: finish_def)
  show ?thesis
  proof (rule close_matching_lookup [OF inv c [unfolded cancel_superseded_sessions_def]])
    fix finished
    assume look: "\<And>i. map_of (ms_records t) i =
         (case map_of (ms_records ?s) i of None \<Rightarrow> None
          | Some r \<Rightarrow> Some (if r \<in> finished then finish SESSION_CANCELLED reason r else r))"
      and sub: "finished \<subseteq> Collect (closes repo pr ?pred)"
      and ok: "\<And>ended. res = Inr ended \<Longrightarrow>
         finished = {r \<in> set (map snd (ms_records ?s)). closes repo pr ?pred r} \<and>
         ended = map (finish SESSION_CANCELLED reason)
           (filter (closes repo pr ?pred) (map snd (ms_records ?s)))"
    let ?expected = "\<lambda>i. map_option (\<lambda>r. if closes repo pr ?pred r then finish SESSION_CANCELLED reason r else r)
        (map_of (ms_records ?s) i)"
    have "map_of (ms_records t) = ?expected" if "res = Inr ended" for ended
    proof
      fix i
      show "map_of (ms_records t) i = ?expected i"
        using ok [OF that] by (auto simp: look split: option.split dest!: map_of_SomeD intro: rev_image_eqI)
    qed
    moreover have "map_of (ms_records t) i \<in> {map_of (ms_records ?s) i, ?expected i}" for i
      using sub by (auto simp: look split: option.split)
    ultimately show ?thesis
      using ok c unfolding Let_def cl [symmetric] fi [symmetric] by (auto split: sum.split)
  qed
qed

lemma cancel_superseded_exact_witness:
  "map_option ac_status (map_of (ms_records (snd (cancel_superseded_sessions (fake_runner []) ''o/r'' 7
      ''ccc'' ''moved'' (manager_run (fake_runner []) idle_fake sample_ops)))) ''review-o-r-7-bbb-2'') =
   Some SESSION_CANCELLED"
proof -
  let ?s = "manager_run (fake_runner []) idle_fake sample_ops"
  have r: "map_option (\<lambda>r. (ac_status r, ac_handle r)) (map_of (ms_records ?s) ''review-o-r-7-bbb-2'') =
      Some (ACTIVE, \<lparr>ah_session_id = ''review-o-r-7-bbb-2'', ah_scope = SCOPE_WORKFLOW,
        ah_repo_full_name = ''o/r'', ah_pr_number = 7, ah_head_sha = ''bbb'', ah_trigger = ''pr_updated'',
        ah_correlation_id = ''c2'', ah_provider_session_id = []\<rparr>)"
    by code_simp
  have "\<not> isl (fst (cancel_superseded_sessions (fake_runner []) ''o/r'' 7 ''ccc'' ''moved'' ?s))"
    by code_simp
  with cancel_superseded_exact [OF fake.session_runner_axioms, of "[]" idle_fake sample_ops "''o/r''" 7 "''ccc''" "''moved''"] r
  show ?thesis by (auto simp: Let_def split: prod.splits sum.splits)
qed

end
