(* ===== verification/Triage.thy ===== *)
theory Triage
  imports Agent Json
begin

text \<open>
  Workflow depth selection: the prompt catalog loader (\<open>src/runtime/prompts/__init__.py\<close>, the
  file system being the argument \<open>read_text\<close>) and the rule-based and agent-backed classifiers of
  \<open>src/runtime/orchestrator/pr_triage.py\<close>. The agent-backed classifier acts on the world of its
  runner.
\<close>

section \<open>Prompt catalog\<close>

datatype prompt_id = PR_WORKFLOW_TRIAGE | VALIDATION_API_CONTRACT_PROBE_SELECTION

fun prompt_id_value :: "prompt_id \<Rightarrow> string" where
  "prompt_id_value PR_WORKFLOW_TRIAGE = ''pr-workflow-triage''"
| "prompt_id_value VALIDATION_API_CONTRACT_PROBE_SELECTION = ''validation-api-contract-probe-selection''"

abbreviation prompt_ids :: "prompt_id list" where
  "prompt_ids \<equiv> [PR_WORKFLOW_TRIAGE, VALIDATION_API_CONTRACT_PROBE_SELECTION]"

interpretation prompt_id: str_enum "''PromptId''" prompt_ids prompt_id_value
proof unfold_locales
  fix m m' :: prompt_id
  show "m \<in> set prompt_ids" by (cases m) auto
  show "prompt_id_value m = prompt_id_value m' \<Longrightarrow> m = m'" by (cases m; cases m'; simp)
qed

record prompt_template =
  pt_identifier :: prompt_id
  pt_path :: string
  pt_text :: string

fun prompt_file :: "prompt_id \<Rightarrow> string" where
  "prompt_file PR_WORKFLOW_TRIAGE = ''pr-workflow-triage.md''"
| "prompt_file VALIDATION_API_CONTRACT_PROBE_SELECTION = ''validation-api-contract-probe-selection.md''"

text \<open>\<open>read_text\<close> answers \<open>None\<close> for a missing file; \<open>prompt_dir\<close> is the catalog directory.\<close>

definition load_prompt ::
  "string \<Rightarrow> (string \<Rightarrow> string option) \<Rightarrow> prompt_id \<Rightarrow> prompt_template res" where
  "load_prompt prompt_dir read_text identifier =
     (let path = prompt_dir @ ''/'' @ prompt_file identifier in
      case read_text path of
        None \<Rightarrow> Inl (Exn PromptCatalogError
          (''prompt file not found for '' @ prompt_id_value identifier @ '': '' @ path))
      | Some content \<Rightarrow>
          (let text = strip content in
           if text = [] then Inl (Exn PromptCatalogError
             (''prompt file is empty for '' @ prompt_id_value identifier @ '': '' @ path))
           else Inr \<lparr>pt_identifier = identifier, pt_path = path, pt_text = text\<rparr>))"

text \<open>\<open>_normalize_prompt_id\<close>: a prompt is named by the enumeration (\<open>Inl\<close>) or by its text.\<close>

definition normalize_prompt_id :: "prompt_id + string \<Rightarrow> prompt_id res" where
  "normalize_prompt_id identifier =
     (case identifier of
        Inl m \<Rightarrow> Inr m
      | Inr name \<Rightarrow>
          (case enum_of_value ''PromptId'' prompt_ids prompt_id_value name of
             Inl e \<Rightarrow> Inl (Exn PromptCatalogError (''unknown prompt id: '' @ repr_str name))
           | Inr m \<Rightarrow> Inr m))"

lemma normalize_named:
  "normalize_prompt_id (Inr (prompt_id_value m)) = Inr m"
  "(\<And>m. name \<noteq> prompt_id_value m) \<Longrightarrow>
     normalize_prompt_id (Inr name) = Inl (Exn PromptCatalogError (''unknown prompt id: '' @ repr_str name))"
  by (auto simp: normalize_prompt_id_def prompt_id.of_value_Inr split: sum.split)

section \<open>Depth and triage\<close>

datatype pr_workflow_depth = NOOP | LIGHTWEIGHT | NORMAL | DEEP

fun depth_value :: "pr_workflow_depth \<Rightarrow> string" where
  "depth_value NOOP = ''noop''"
| "depth_value LIGHTWEIGHT = ''lightweight''"
| "depth_value NORMAL = ''normal''"
| "depth_value DEEP = ''deep''"

abbreviation depths :: "pr_workflow_depth list" where
  "depths \<equiv> [NOOP, LIGHTWEIGHT, NORMAL, DEEP]"

interpretation depth: str_enum "''PRWorkflowDepth''" depths depth_value
proof unfold_locales
  fix m m' :: pr_workflow_depth
  show "m \<in> set depths" by (cases m) auto
  show "depth_value m = depth_value m' \<Longrightarrow> m = m'" by (cases m; cases m'; simp)
qed

record pr_workflow_triage =
  tg_depth :: pr_workflow_depth
  tg_rationale :: string
  tg_allowed_stages :: "workflow_stage list"

definition runs_analysis :: "pr_workflow_triage \<Rightarrow> bool" where
  "runs_analysis t \<longleftrightarrow> ANALYZER \<in> set (tg_allowed_stages t)"

definition runs_strategy :: "pr_workflow_triage \<Rightarrow> bool" where
  "runs_strategy t \<longleftrightarrow> STRATEGY \<in> set (tg_allowed_stages t)"

definition allows_validation :: "pr_workflow_triage \<Rightarrow> bool" where
  "allows_validation t \<longleftrightarrow> VALIDATOR \<in> set (tg_allowed_stages t)"

definition renders_output :: "pr_workflow_triage \<Rightarrow> bool" where
  "renders_output t \<longleftrightarrow> tg_depth t \<noteq> NOOP"

definition rule_based_classify :: "pr_analysis_context \<Rightarrow> pr_workflow_triage" where
  "rule_based_classify context =
     \<lparr>tg_depth = NORMAL,
      tg_rationale = ''Conservative default PR workflow depth; run behaviour analysis and strategy planning.'',
      tg_allowed_stages = [ANALYZER, STRATEGY, VALIDATOR]\<rparr>"

section \<open>Agent-backed classifier\<close>

text \<open>\<open>[a-zA-Z0-9_.-]\<close>\<close>

definition session_char :: "char \<Rightarrow> bool" where
  "session_char c \<longleftrightarrow>
     (let n = (of_char c :: nat) in
      (97 \<le> n \<and> n \<le> 122) \<or> (65 \<le> n \<and> n \<le> 90) \<or> (48 \<le> n \<and> n \<le> 57) \<or> c \<in> set ''_.-'')"

text \<open>\<open>re.sub(r"[^a-zA-Z0-9_.-]+", "-", s)\<close>; the flag says whether the previous character was replaced.\<close>

fun dash_runs :: "bool \<Rightarrow> string \<Rightarrow> string" where
  "dash_runs prev [] = []"
| "dash_runs prev (c # s) =
     (if session_char c then c # dash_runs False s
      else if prev then dash_runs True s else CHR ''-'' # dash_runs True s)"

definition safe_session_part :: "string \<Rightarrow> string" where
  "safe_session_part value =
     (let part = strip_chars ''-'' (dash_runs False value) in if part = [] then ''repo'' else part)"

definition triage_session_handle :: "pr_analysis_context \<Rightarrow> agent_session_handle" where
  "triage_session_handle ctx =
     \<lparr>ah_session_id = ''triage-'' @ safe_session_part (ax_repo_full_name ctx) @ ''-'' @ show_int (ax_pr_number ctx),
      ah_scope = SCOPE_STAGE, ah_repo_full_name = ax_repo_full_name ctx, ah_pr_number = ax_pr_number ctx,
      ah_head_sha = ''unknown'', ah_trigger = ''triage'',
      ah_correlation_id = ''triage-'' @ ax_repo_full_name ctx @ ''-'' @ show_int (ax_pr_number ctx),
      ah_provider_session_id = []\<rparr>"

definition file_summary :: "pr_file_diff \<Rightarrow> json" where
  "file_summary f = JObj
     ([(''path'', JStr (fd_path f)), (''status'', JStr (file_status_value (fd_status f))),
       (''additions'', JInt (fd_additions f)), (''deletions'', JInt (fd_deletions f))] @
      (if fd_previous_filename f \<noteq> [] then [(''previous_filename'', JStr (fd_previous_filename f))] else []) @
      (case fd_patch f of None \<Rightarrow> []
       | Some p \<Rightarrow> if p \<noteq> [] then [(''patch_excerpt'', JStr (cp_take 1200 p))] else []))"

definition agent_triage_context :: "pr_analysis_context \<Rightarrow> json dict" where
  "agent_triage_context ctx =
     [(''repo_full_name'', JStr (ax_repo_full_name ctx)),
      (''pr_number'', JInt (ax_pr_number ctx)),
      (''title'', JStr (ax_title ctx)),
      (''body'', JStr (ax_body ctx)),
      (''base_branch'', JStr (ax_base_branch ctx)),
      (''head_branch'', JStr (ax_head_branch ctx)),
      (''changed_lines'', JInt (sum_list (map (\<lambda>f. fd_additions f + fd_deletions f) (ax_files ctx)))),
      (''files'', JList (map file_summary (ax_files ctx))),
      (''unified_diff_excerpt'', JStr (cp_take 8000 (ax_unified_diff ctx)))]"

definition default_allowed_stages :: "pr_workflow_depth \<Rightarrow> workflow_stage list" where
  "default_allowed_stages d = (if d \<in> {NORMAL, DEEP} then [ANALYZER, STRATEGY, VALIDATOR] else [])"

definition parse_depth :: "json \<Rightarrow> pr_workflow_depth res" where
  "parse_depth value =
     (case enum_of_value ''PRWorkflowDepth'' depths depth_value (lower (strip (py_str value))) of
        Inl _ \<Rightarrow> Inl (Exn ValueError (''unsupported triage depth: '' @ py_repr value))
      | Inr d \<Rightarrow> Inr d)"

definition parse_allowed_stage :: "json \<Rightarrow> workflow_stage res" where
  "parse_allowed_stage item =
     (case enum_of_value ''WorkflowStage'' stages stage_value (lower (strip (py_str item))) of
        Inl _ \<Rightarrow> Inl (Exn ValueError (''unsupported allowed stage: '' @ py_repr item))
      | Inr st \<Rightarrow>
          if st \<notin> {ANALYZER, STRATEGY, VALIDATOR}
          then Inl (Exn ValueError (''triage cannot allow workflow stage: '' @ stage_value st))
          else Inr st)"

text \<open>\<open>tuple(dict.fromkeys(xs))\<close>: the first occurrences, in order\<close>

fun fromkeys :: "'a list \<Rightarrow> 'a list" where
  "fromkeys [] = []"
| "fromkeys (x # xs) = x # filter (\<lambda>y. y \<noteq> x) (fromkeys xs)"

fun parse_allowed_stages :: "json \<Rightarrow> pr_workflow_depth \<Rightarrow> workflow_stage list res" where
  "parse_allowed_stages JNull d = Inr (default_allowed_stages d)"
| "parse_allowed_stages (JList l) d = bindR (mapR parse_allowed_stage l) (\<lambda>sts. Inr (fromkeys sts))"
| "parse_allowed_stages _ d = Inl (Exn ValueError ''allowed_stages must be a list of stage names'')"

text \<open>\<open>re.search(r"\{.*\}", s, DOTALL)\<close>: from the first opening brace to the last closing one\<close>

definition brace_match :: "string \<Rightarrow> string option" where
  "brace_match s =
     (let u = dropWhile (\<lambda>c. c \<noteq> CHR 0x7B) s; v = rev (dropWhile (\<lambda>c. c \<noteq> CHR 0x7D) (rev u))
      in if v = [] then None else Some v)"

definition json_object_from_text :: "string \<Rightarrow> json dict res" where
  "json_object_from_text output_text =
     bindR
       (case loads output_text of
          Inr parsed \<Rightarrow> Inr parsed
        | Inl exc \<Rightarrow>
            (case brace_match output_text of
               None \<Rightarrow> Inl (Exn ValueError ''agent output did not contain a JSON object'')
             | Some m \<Rightarrow> loads m))
       (\<lambda>parsed. case parsed of JObj d \<Rightarrow> Inr d
                  | _ \<Rightarrow> Inl (Exn ValueError ''agent output JSON must be an object''))"

definition default_rationale :: string where
  "default_rationale = ''Agent triage selected workflow depth.''"

definition triage_from_agent_output :: "string \<Rightarrow> pr_workflow_triage res" where
  "triage_from_agent_output output_text =
     bindR (json_object_from_text output_text) (\<lambda>data.
     bindR (parse_depth (dget data ''depth'' JNull)) (\<lambda>depth.
     (let text = strip (py_str (por (dget data ''rationale'' JNull) (JStr default_rationale)));
          rationale = (if text = [] then default_rationale else text)
      in bindR (parse_allowed_stages (dget data ''allowed_stages'' JNull) depth) (\<lambda>allowed.
         Inr \<lparr>tg_depth = depth, tg_rationale = rationale, tg_allowed_stages = allowed\<rparr>))))"

definition fallback_triage :: "pr_workflow_triage \<Rightarrow> string \<Rightarrow> pr_workflow_triage" where
  "fallback_triage fb reason =
     fb\<lparr>tg_rationale := ''Agent triage unavailable ('' @ reason @ ''); fallback used: '' @ tg_rationale fb\<rparr>"

definition safe_error :: "exn \<Rightarrow> string" where
  "safe_error exc =
     (let t = cp_take 160 (strip (replace [CHR 0x0A] '' '' (exn_msg exc)))
      in if t = [] then class_name (exn_class exc) else t)"

text \<open>The limits the classifier is built with, and the prompt it asks for.\<close>

record triage_settings =
  tt_max_turns :: int
  tt_timeout_seconds :: rat
  tt_prompt :: "prompt_template res"

definition triage_run_input ::
  "triage_settings \<Rightarrow> string \<Rightarrow> agent_session_handle \<Rightarrow> pr_analysis_context \<Rightarrow> agent_run_input" where
  "triage_run_input cfg prompt session ctx =
     \<lparr>ai_stage = TRIAGE, ai_prompt = prompt, ai_correlation_id = ah_correlation_id session,
      ai_allowed_tools = [], ai_context = Some (agent_triage_context ctx),
      ai_max_turns = Some (tt_max_turns cfg), ai_max_tool_calls = Some 0,
      ai_timeout_seconds = Some (tt_timeout_seconds cfg)\<rparr>"

text \<open>
  The \<open>try\<close> block: the session that is open when it ends, and the result of the run. A failure to
  start leaves the requested handle as the session.
\<close>

definition triage_attempt ::
  "'w agent_runner \<Rightarrow> triage_settings \<Rightarrow> pr_analysis_context \<Rightarrow> 'w \<Rightarrow>
   (agent_session_handle \<times> agent_run_result res) \<times> 'w" where
  "triage_attempt runner cfg ctx w =
     (let handle = triage_session_handle ctx in
      case ru_start_session runner handle w of
        (Inl e, w1) \<Rightarrow> ((handle, Inl e), w1)
      | (Inr session, w1) \<Rightarrow>
          (case tt_prompt cfg of
             Inl e \<Rightarrow> ((session, Inl e), w1)
           | Inr prompt \<Rightarrow>
               (case ru_run runner session (triage_run_input cfg (pt_text prompt) session ctx) w1 of
                  (r, w2) \<Rightarrow> ((session, r), w2))))"

definition agent_classify ::
  "'w agent_runner \<Rightarrow> triage_settings \<Rightarrow> pr_analysis_context \<Rightarrow> ('w, pr_workflow_triage) act" where
  "agent_classify runner cfg ctx w =
     (let fb = rule_based_classify ctx;
          ((session, outcome), w1) = triage_attempt runner cfg ctx w;
          w2 = snd (ru_close_session runner session ''triage stage complete'' w1)
      in case outcome of
           Inl exc \<Rightarrow> (Inr (fallback_triage fb (''agent_runner_exception: '' @ safe_error exc)), w2)
         | Inr result \<Rightarrow>
             if ar_status result \<noteq> SUCCEEDED then
               (Inr (fallback_triage fb (''agent_runner_status: '' @ agent_run_status_value (ar_status result))), w2)
             else
               (case triage_from_agent_output (ar_output_text result) of
                  Inr triage \<Rightarrow> (Inr triage, w2)
                | Inl exc \<Rightarrow>
                    if is_value_error exc
                    then (Inr (fallback_triage fb (''invalid_agent_output: '' @ safe_error exc)), w2)
                    else (Inl exc, w2)))"

section \<open>Facts\<close>

lemma set_fromkeys [simp]: "set (fromkeys xs) = set xs"
  by (induction xs) auto

lemma distinct_fromkeys [simp]: "distinct (fromkeys xs)"
  by (induction xs) auto

lemma loads_error: "loads s = Inl e \<Longrightarrow> is_value_error e"
  by (auto simp: loads_def json_error_def split: option.splits prod.splits if_splits)

lemma parse_allowed_stage_error: "parse_allowed_stage v = Inl e \<Longrightarrow> is_value_error e"
  by (auto simp: parse_allowed_stage_def split: sum.splits if_splits)

lemma parse_allowed_stages_error: "parse_allowed_stages v d = Inl e \<Longrightarrow> is_value_error e"
proof (induction v d rule: parse_allowed_stages.induct)
  case (2 l d)
  have "mapR parse_allowed_stage l = Inl e \<Longrightarrow> is_value_error e"
    by (induction l) (auto simp: bindR_eq_Inl dest: parse_allowed_stage_error)
  with 2 show ?case by (auto simp: bindR_eq_Inl)
qed auto

lemma parse_depth_error: "parse_depth v = Inl e \<Longrightarrow> is_value_error e"
  by (cases "enum_of_value ''PRWorkflowDepth'' depths depth_value (lower (strip (py_str v)))")
    (auto simp: parse_depth_def)

lemma json_object_error: "json_object_from_text t = Inl e \<Longrightarrow> is_value_error e"
proof -
  assume "json_object_from_text t = Inl e"
  moreover have obj: "(case v of JObj d \<Rightarrow> Inr d
      | _ \<Rightarrow> Inl (Exn ValueError ''agent output JSON must be an object'')) = Inl e \<Longrightarrow> is_value_error e" for v
    by (cases v) auto
  moreover have "(case loads t of
          Inr parsed \<Rightarrow> Inr parsed
        | Inl exc \<Rightarrow>
            (case brace_match t of
               None \<Rightarrow> Inl (Exn ValueError ''agent output did not contain a JSON object'')
             | Some m \<Rightarrow> loads m)) = Inl e \<Longrightarrow> is_value_error e"
    by (auto split: sum.splits option.splits dest: loads_error)
  ultimately show ?thesis unfolding json_object_from_text_def bindR_eq_Inl by blast
qed

lemma triage_output_error: "triage_from_agent_output t = Inl e \<Longrightarrow> is_value_error e"
  by (auto simp: triage_from_agent_output_def bindR_eq_Inl Let_def
      dest: json_object_error parse_depth_error parse_allowed_stages_error)

lemma parse_allowed_stage_Inr:
  "parse_allowed_stage v = Inr st \<Longrightarrow> st \<in> {ANALYZER, STRATEGY, VALIDATOR}"
  by (cases "enum_of_value ''WorkflowStage'' stages stage_value (lower (strip (py_str v)))")
    (auto simp: parse_allowed_stage_def split: if_splits)

lemma triage_output_stages:
  assumes "triage_from_agent_output t = Inr triage"
  shows "set (tg_allowed_stages triage) \<subseteq> {ANALYZER, STRATEGY, VALIDATOR} \<and> distinct (tg_allowed_stages triage)"
proof -
  from assms obtain v d where "parse_allowed_stages v d = Inr (tg_allowed_stages triage)"
    by (auto simp: triage_from_agent_output_def Let_def)
  then show ?thesis
  proof (induction v d rule: parse_allowed_stages.induct)
    case (2 l d)
    then obtain sts where m: "mapR parse_allowed_stage l = Inr sts" and a: "tg_allowed_stages triage = fromkeys sts"
      by auto
    have "st \<in> {ANALYZER, STRATEGY, VALIDATOR}" if "st \<in> set sts" for st
      using mapR_Inr_in [OF m that] parse_allowed_stage_Inr by blast
    then show ?case unfolding a by auto
  qed (auto simp: default_allowed_stages_def dest!: sym [of _ "tg_allowed_stages triage"] split: if_splits)
qed


end
