(* ===== verification/Renderer.thy ===== *)
theory Renderer
  imports Triage "HOL-Library.Product_Lexorder"
begin

text \<open>
  The pull request renderer of \<open>src/adapters/renderers/pr_comment.py\<close>: review payloads and their
  preparation for submission, and the Markdown body of the managed summary comment. Characters
  outside ASCII are written as their UTF-8 bytes. The duration of a validation, a float in the code,
  is a rational number, printed with three decimals rounded half to even.
\<close>

abbreviation nl :: string where "nl \<equiv> [CHR 0x0A]"

abbreviation em_dash :: string where "em_dash \<equiv> [CHR 0xE2, CHR 0x80, CHR 0x94]"

abbreviation arrow :: string where "arrow \<equiv> [CHR 0xE2, CHR 0x86, CHR 0x92]"

definition code :: "string \<Rightarrow> string" where
  "code s = CHR 0x60 # s @ [CHR 0x60]"

definition attribution :: string where
  "attribution = ''---'' @ nl @ [CHR 0xF0, CHR 0x9F, CHR 0xA4, CHR 0x96] @ '' *Generated by Qaestro*''"

section \<open>Payloads\<close>

record pr_comment_payload =
  cp_repo_full_name :: string
  cp_pr_number :: int
  cp_body :: string

record pr_review_comment =
  rv_path :: string
  rv_body :: string
  rv_line :: "int option"
  rv_side :: string
  rv_start_line :: "int option"
  rv_start_side :: string

definition is_mapped :: "pr_review_comment \<Rightarrow> bool" where
  "is_mapped c \<longleftrightarrow> strip (rv_path c) \<noteq> [] \<and> rv_line c \<noteq> None"

record pr_review_payload =
  rp_repo_full_name :: string
  rp_pr_number :: int
  rp_head_sha :: string
  rp_body :: string
  rp_event :: string
  rp_comments :: "pr_review_comment list"

definition with_attribution_text :: "string \<Rightarrow> string" where
  "with_attribution_text body =
     (let clean_body = strip body in
      if contains ''Generated by Qaestro'' clean_body then clean_body
      else if clean_body = [] then attribution
      else clean_body @ nl @ nl @ attribution)"

definition with_attribution :: "pr_review_comment \<Rightarrow> pr_review_comment" where
  "with_attribution c = c\<lparr>rv_body := with_attribution_text (rv_body c)\<rparr>"

definition to_client_input :: "pr_review_comment \<Rightarrow> review_comment_input res" where
  "to_client_input c =
     (if \<not> is_mapped c then Inl (Exn ValueError ''review comment requires path and line'')
      else Inr
        \<lparr>rc_path = rv_path c, rc_body = with_attribution_text (rv_body c), rc_line = rv_line c,
         rc_side = (if rv_side c \<noteq> [] then rv_side c else ''RIGHT''),
         rc_start_line = rv_start_line c,
         rc_start_side = (if rv_start_side c \<noteq> [] then rv_start_side c
           else if rv_side c \<noteq> [] then rv_side c else ''RIGHT'')\<rparr>)"

definition validated_review_comment :: "pr_review_comment \<Rightarrow> pr_review_comment res" where
  "validated_review_comment c =
     (case rv_line c of
        None \<Rightarrow> Inl (Exn ValueError ''review comment line must be a positive integer'')
      | Some line \<Rightarrow>
          if line \<le> 0 then Inl (Exn ValueError ''review comment line must be a positive integer'')
          else if rv_side c \<noteq> ''RIGHT'' then
            Inl (Exn ValueError ''review comment side must be RIGHT for qaestro output'')
          else (case rv_start_line c of
                  None \<Rightarrow> Inr c
                | Some start \<Rightarrow>
                    if start \<le> 0 then Inl (Exn ValueError ''review comment start_line must be a positive integer'')
                    else if start > line then
                      Inl (Exn ValueError ''review comment start_line must be less than or equal to line'')
                    else if rv_start_side c \<noteq> [] \<and> rv_start_side c \<noteq> ''RIGHT'' then
                      Inl (Exn ValueError ''review comment start_side must be RIGHT for qaestro output'')
                    else Inr c))"

definition unmapped_line :: "pr_review_comment \<Rightarrow> string" where
  "unmapped_line c =
     (let path = (if strip (rv_path c) \<noteq> [] then strip (rv_path c) else ''unknown path'')
      in ''- '' @ code path @ '': '' @ strip (rv_body c))"

definition append_unmapped_findings :: "string \<Rightarrow> pr_review_comment list \<Rightarrow> string" where
  "append_unmapped_findings body comments =
     join nl
       ((if strip body \<noteq> [] then [strip body, [], ''### Unmapped inline findings'']
         else [''### Unmapped inline findings'']) @
        map unmapped_line comments)"

definition prepared_for_submission :: "pr_review_payload \<Rightarrow> pr_review_payload res" where
  "prepared_for_submission p =
     bindR (mapR (\<lambda>c. bindR (validated_review_comment c) (\<lambda>c. Inr (with_attribution c)))
              (filter is_mapped (rp_comments p))) (\<lambda>mapped.
     (let unmapped = filter (\<lambda>c. \<not> is_mapped c) (rp_comments p);
          body = (if unmapped \<noteq> [] then append_unmapped_findings (rp_body p) unmapped else rp_body p)
      in Inr (p\<lparr>rp_body := with_attribution_text body, rp_event := ''COMMENT'', rp_comments := mapped\<rparr>)))"

definition to_client_comments :: "pr_review_payload \<Rightarrow> review_comment_input list res" where
  "to_client_comments p = mapR to_client_input (rp_comments p)"

definition correlation_marker :: "string \<Rightarrow> string" where
  "correlation_marker cid = ''Correlation ID: '' @ code cid"

definition with_correlation_id :: "pr_review_payload \<Rightarrow> string \<Rightarrow> pr_review_payload" where
  "with_correlation_id p cid =
     (let marker = correlation_marker cid in
      if contains marker (rp_body p) then p
      else p\<lparr>rp_body := (if strip (rp_body p) \<noteq> [] then strip (rp_body p) @ nl @ nl @ marker else marker)\<rparr>)"

section \<open>Payloads from tool input\<close>

definition optional_int :: "json \<Rightarrow> int option res" where
  "optional_int v =
     (if v = JNull \<or> v = JStr [] then Inr None else bindR (py_int (JStr (py_str v))) (\<lambda>i. Inr (Some i)))"

fun review_comment_from_raw :: "json \<Rightarrow> pr_review_comment res" where
  "review_comment_from_raw (JObj raw) =
     bindR (optional_int (dget raw ''line'' JNull)) (\<lambda>line.
     bindR (optional_int (dget raw ''start_line'' JNull)) (\<lambda>start_line.
     (let side = py_str (dget raw ''side'' (JStr ''RIGHT''))
      in Inr
        \<lparr>rv_path = py_str (dget raw ''path'' (JStr [])), rv_body = py_str (dget raw ''body'' (JStr [])),
         rv_line = line, rv_side = (if side \<noteq> [] then side else ''RIGHT''), rv_start_line = start_line,
         rv_start_side = py_str (dget raw ''start_side'' (JStr []))\<rparr>)))"
| "review_comment_from_raw _ = Inl (Exn ValueError ''review comment must be an object'')"

definition from_tool_input :: "json dict \<Rightarrow> pr_review_payload res" where
  "from_tool_input raw =
     bindR (bindR (py_iter (dget raw ''comments'' (JList []))) (mapR review_comment_from_raw)) (\<lambda>comments.
     bindR (py_int (dget raw ''pr_number'' (JInt 0))) (\<lambda>pr_number.
     (let event = py_str (dget raw ''event'' (JStr ''COMMENT''))
      in Inr
        \<lparr>rp_repo_full_name = py_str (dget raw ''repo_full_name'' (JStr [])), rp_pr_number = pr_number,
         rp_head_sha = py_str (dget raw ''head_sha'' (JStr [])), rp_body = py_str (dget raw ''body'' (JStr [])),
         rp_event = (if event \<noteq> [] then event else ''COMMENT''), rp_comments = comments\<rparr>)))"

section \<open>Markdown\<close>

fun backtick_run :: "nat \<Rightarrow> nat \<Rightarrow> string \<Rightarrow> nat" where
  "backtick_run longest current [] = longest"
| "backtick_run longest current (c # s) =
     (if c = CHR 0x60 then backtick_run (max longest (Suc current)) (Suc current) s
      else backtick_run longest 0 s)"

definition longest_backtick_run :: "string \<Rightarrow> nat" where
  "longest_backtick_run text = backtick_run 0 0 text"

definition inline_code_span :: "string \<Rightarrow> string" where
  "inline_code_span text =
     (let delimiter = replicate (longest_backtick_run text + 1) (CHR 0x60) in
      if starts_with [CHR 0x60] text \<or> ends_with [CHR 0x60] text
      then delimiter @ '' '' @ text @ '' '' @ delimiter
      else delimiter @ text @ delimiter)"

definition markdown_text :: "string \<Rightarrow> string" where
  "markdown_text text =
     replace ''_'' (CHR 0x5C # ''_'') (replace ''*'' (CHR 0x5C # ''*'') (replace ''['' (CHR 0x5C # ''['') text))"

definition spaced_upper :: "string \<Rightarrow> string" where
  "spaced_upper s = upper (replace ''_'' '' '' s)"

section \<open>The summary comment\<close>

definition triage_lines :: "pr_workflow_triage option \<Rightarrow> string list" where
  "triage_lines triage =
     (case triage of
        None \<Rightarrow> []
      | Some t \<Rightarrow>
          (let names = join '', '' (map stage_value (tg_allowed_stages t));
               allowed = (if names = [] then ''none'' else names)
           in [''Workflow depth: **'' @ upper (depth_value (tg_depth t)) @ ''**'',
               ''Triage rationale: '' @ tg_rationale t,
               ''Triaged analysis/validation stages: '' @ code allowed]))"

definition overall_risk_label :: "qa_report \<Rightarrow> string" where
  "overall_risk_label report = upper (replace ''_'' '' '' (risk_level_value (bi_overall_risk (qr_impact report))))"

fun int_stat :: "stat \<Rightarrow> int" where
  "int_stat (StatInt i) = i"
| "int_stat (StatStr s) = 0"

fun stat_text :: "stat \<Rightarrow> string" where
  "stat_text (StatInt i) = show_int i"
| "stat_text (StatStr s) = s"

definition get_stat :: "stat dict \<Rightarrow> string \<Rightarrow> string" where
  "get_stat stats key = stat_text (case map_of stats key of Some v \<Rightarrow> v | None \<Rightarrow> StatInt 0)"

definition status_label :: "string \<Rightarrow> string" where
  "status_label key = replace ''_'' '' '' (remove_prefix ''files_'' key)"

definition preferred_order :: "string list" where
  "preferred_order =
     [''files_added'', ''files_modified'', ''files_removed'', ''files_renamed'', ''files_copied'',
      ''files_unchanged'', ''files_unknown'']"

definition status_counts :: "stat dict \<Rightarrow> (string \<times> int) list" where
  "status_counts stats =
     (let known = concat (map (\<lambda>key. (case map_of stats key of None \<Rightarrow> [] | Some v \<Rightarrow> [(key, int_stat v)]))
            preferred_order);
          extra = sort (map (\<lambda>(key, v). (key, int_stat v))
            (filter (\<lambda>(key, v). starts_with ''files_'' key \<and> key \<notin> set (''files_changed'' # preferred_order)) stats))
      in map (\<lambda>(key, v). (status_label key, v)) (known @ extra))"

definition diff_stat_lines :: "qa_report \<Rightarrow> string list" where
  "diff_stat_lines report =
     (let stats = bi_raw_diff_stats (qr_impact report) in
      if stats = [] then [''- Diff statistics unavailable.'']
      else
        (let counts = status_counts stats;
             status_line =
               (if counts = [] then ''- File status counts: unavailable.''
                else ''- File status counts: '' @
                  join '', '' (map (\<lambda>(status, count). status @ '' '' @ code (show_int count)) counts))
         in [''- Files changed: '' @ code (get_stat stats ''files_changed''),
             ''- Additions/deletions: '' @
               code (''+'' @ get_stat stats ''additions'' @ ''/-'' @ get_stat stats ''deletions''),
             status_line]))"

definition ci_observation_links :: "ci_observation \<Rightarrow> string list" where
  "ci_observation_links ob =
     (if ob_run_url ob \<noteq> [] then [''[run]('' @ ob_run_url ob @ '')''] else []) @
     (if ob_logs_url ob \<noteq> [] then [''[logs]('' @ ob_logs_url ob @ '')''] else [])"

definition ci_observation_line :: "ci_observation \<Rightarrow> string" where
  "ci_observation_line ob =
     (let text = lower (strip (ob_conclusion ob));
          conclusion = inline_code_span (if text = [] then ''unknown'' else text);
          links = ci_observation_links ob
      in ''**'' @ markdown_text (ob_workflow_name ob) @ ''** '' @ em_dash @ '' '' @ conclusion @
         (if ob_failed_jobs ob \<noteq> []
          then ''; failed jobs: '' @ join '', '' (map inline_code_span (ob_failed_jobs ob)) else []) @
         (if links \<noteq> [] then '' ('' @ join ''; '' links @ '')'' else []))"

definition historical_ci_lines :: "ci_historical_evidence list \<Rightarrow> string list" where
  "historical_ci_lines evidence =
     map (\<lambda>item. ''  - '' @ inline_code_span (he_head_sha item) @ '': '' @
            join ''; '' (map ci_observation_line (he_observations item)))
       (filter (\<lambda>item. he_observations item \<noteq> []) evidence)"

definition ci_feedback_section :: "ci_feedback_context option \<Rightarrow> string list" where
  "ci_feedback_section ci_feedback =
     (case ci_feedback of
        None \<Rightarrow> []
      | Some fb \<Rightarrow>
          (let historical_lines = historical_ci_lines (fb_historical_evidence fb) in
           [[], ''### CI / Check Feedback'',
            ''- Current head: '' @ inline_code_span (fb_current_head_sha fb),
            ''- Readiness: **'' @ markdown_text (spaced_upper (ci_readiness_value (fb_readiness fb))) @ ''**''] @
           (if fb_pending_checks fb \<noteq> []
            then [''- Pending checks: '' @ join '', '' (map inline_code_span (fb_pending_checks fb))] else []) @
           (if fb_current_observations fb \<noteq> []
            then ''- Current-head observations:'' #
                 map (\<lambda>ob. ''  - '' @ ci_observation_line ob) (fb_current_observations fb)
            else [''- Current-head observations: none recorded.'']) @
           (if historical_lines \<noteq> []
            then ''- Historical CI evidence from superseded heads:'' # historical_lines else [])))"

definition impact_lines :: "qa_report \<Rightarrow> string list" where
  "impact_lines report =
     (if bi_areas (qr_impact report) = [] then [''- No impact areas identified.'']
      else map (\<lambda>area.
        ''- **'' @ ia_module area @ ''** ('' @ risk_level_value (ia_risk_level area) @ ''): '' @ ia_description area @
        '' '' @ em_dash @ '' files: '' @ join '', '' (map code (take 5 (ia_affected_files area))))
        (bi_areas (qr_impact report)))"

definition action_line :: "strategy_action \<Rightarrow> string" where
  "action_line a =
     ''- P'' @ show_int (sa_priority a) @ '' **'' @ sa_description a @ ''** ('' @
     code (action_type_value (sa_action_type a)) @ '' '' @ arrow @ '' '' @ code (sa_target a) @ '') '' @ em_dash @
     '' '' @ sa_rationale a"

definition action_lines :: "qa_report \<Rightarrow> string list" where
  "action_lines report =
     (let strategy = qr_strategy report in
      if sr_actions strategy = [] then [[], ''Evidence-backed actions: none.'']
      else
        [[], ''Evidence-backed actions:''] @
        map action_line (sort_key (\<lambda>a. (- sa_priority a, sa_description a)) (sr_actions strategy)) @
        (if sr_knowledge_refs strategy \<noteq> []
         then [[], ''Knowledge refs: '' @ join '', '' (map code (sr_knowledge_refs strategy))] else []))"

definition round_half_even :: "rat \<Rightarrow> int" where
  "round_half_even q =
     (let f = floor q; d = q - of_int f in
      if d < 1 / 2 then f else if d > 1 / 2 then f + 1 else if even f then f else f + 1)"

text \<open>\<open>f"{q:.3f}"\<close> of a positive number\<close>

definition fixed3 :: "rat \<Rightarrow> string" where
  "fixed3 q = (let m = round_half_even (q * 1000) in show_int (m div 1000) @ ''.'' @ pad 3 (nat (m mod 1000)))"

definition artifact_links :: "string list \<Rightarrow> string" where
  "artifact_links artifacts =
     join '', '' (map (\<lambda>(index, artifact). ''[artifact '' @ show_nat index @ '']('' @ artifact @ '')'')
       (enumerate 1 artifacts))"

definition validation_result_lines :: "validation_result \<Rightarrow> string list" where
  "validation_result_lines result =
     (let action = vr_action result;
          detail = (if vr_details result \<noteq> [] then vr_details result else sa_rationale action)
      in [''- **'' @ spaced_upper (action_type_value (sa_action_type action)) @ ''** '' @ em_dash @ '' '' @ sa_description action,
          ''  - Target: '' @ inline_code_span (sa_target action),
          ''  - Outcome: **'' @ markdown_text (upper (validation_outcome_value (vr_outcome result))) @ ''**''] @
         (if vr_duration_seconds result > 0
          then [''  - Duration: '' @ inline_code_span (fixed3 (vr_duration_seconds result) @ ''s'')] else []) @
         (if detail \<noteq> [] then [''  - Details: '' @ detail] else []) @
         (if vr_artifacts result \<noteq> [] then [''  - Artifacts: '' @ artifact_links (vr_artifacts result)] else []))"

definition validation_lines :: "qa_report \<Rightarrow> string list" where
  "validation_lines report =
     (if qr_validations report = []
      then [''Validation not executed in this step '' @ em_dash @ '' recommendations only.'']
      else concat (map validation_result_lines (qr_validations report)))"

definition render ::
  "qa_report \<Rightarrow> string \<Rightarrow> pr_workflow_triage option \<Rightarrow> ci_feedback_context option \<Rightarrow> pr_comment_payload res" where
  "render report correlation_id triage ci_feedback =
     (case qr_pr_number report of
        None \<Rightarrow> Inl (Exn ValueError ''PR comment renderer requires report.pr_number'')
      | Some pr \<Rightarrow>
          (let fb = (if ci_feedback \<noteq> None then ci_feedback else qr_ci_feedback report);
               body = join nl
                 ([''## Behaviour Impact Report'', [],
                   ''Repository: '' @ code (qr_repo_full_name report),
                   ''Pull request: '' @ code (''#'' @ show_int pr),
                   ''Event: '' @ code (qr_event_id report),
                   ''Overall risk: **'' @ overall_risk_label report @ ''**''] @
                  triage_lines triage @
                  [[], ''### Change Summary'',
                   (if qr_summary_markdown report \<noteq> [] then qr_summary_markdown report else bi_summary (qr_impact report)),
                   [], ''### Diff Stats''] @
                  diff_stat_lines report @
                  ci_feedback_section fb @
                  [[], ''### Impact Areas''] @
                  impact_lines report @
                  [[], ''### Strategy Evidence'',
                   (if sr_reasoning (qr_strategy report) \<noteq> [] then sr_reasoning (qr_strategy report)
                    else ''No strategy reasoning provided.'')] @
                  action_lines report @
                  [[], ''### Validation''] @
                  validation_lines report @
                  [[], correlation_marker correlation_id, [], attribution])
           in Inr \<lparr>cp_repo_full_name = qr_repo_full_name report, cp_pr_number = pr, cp_body = body\<rparr>))"

end
