(* ===== verification/Renderer_Facts.thy ===== *)
theory Renderer_Facts
  imports Renderer
begin

text \<open>
  What the renderer guarantees: prepared reviews are attributed, valid and lose no finding;
  preparing is idempotent, also after the correlation marker was added; code spans cannot be closed
  by their text.
\<close>

section \<open>Stripping\<close>

lemma contains_dropWhile:
  assumes "contains p s" and "p \<noteq> []" and "\<not> q (hd p)"
  shows "contains p (dropWhile q s)"
proof -
  obtain a b where s: "s = a @ p @ b" using assms(1) by (auto simp: contains_iff)
  obtain c cs where p: "p = c # cs" using assms(2) by (cases p) auto
  show ?thesis
  proof (cases "\<forall>x \<in> set a. q x")
    case True
    then have "dropWhile q s = p @ b" using assms(3) by (simp add: s p dropWhile_append)
    then show ?thesis using contains_middle [of p "[]" b] by simp
  next
    case False
    then have "dropWhile q s = dropWhile q a @ p @ b" by (auto simp: s dropWhile_append1)
    then show ?thesis by simp
  qed
qed

lemma contains_rev: "contains (rev p) (rev s) = contains p s"
proof -
  have "contains p s \<Longrightarrow> contains (rev p) (rev s)" for p s
    by (auto simp: contains_iff) (metis append.assoc rev_append)
  from this [of p s] this [of "rev p" "rev s"] show ?thesis by auto
qed

lemma contains_strip:
  assumes "contains p s" and "p \<noteq> []" and "\<not> is_space (hd p)" and "\<not> is_space (last p)"
  shows "contains p (strip s)"
proof -
  have "contains p (dropWhile is_space s)" using assms by (intro contains_dropWhile)
  then have "contains (rev p) (rev (dropWhile is_space s))" by (simp add: contains_rev)
  then have "contains (rev p) (dropWhile is_space (rev (dropWhile is_space s)))"
    using assms by (intro contains_dropWhile) (auto simp: hd_rev)
  then show ?thesis
    using contains_rev [of p "rev (dropWhile is_space (rev (dropWhile is_space s)))"]
    by (simp add: strip_def strip_by_def rstrip_by_def)
qed

lemma contains_join: "x \<in> set xs \<Longrightarrow> contains x (join sep xs)"
proof (induction sep xs rule: join.induct)
  case (3 sep y z zs)
  then show ?case by (auto intro: contains_appendI1 contains_appendI2)
qed auto

section \<open>Attribution\<close>

lemma attribution_ends [simp]:
  "attribution \<noteq> []" "\<not> is_space (hd attribution)" "\<not> is_space (last attribution)"
  by (simp_all add: attribution_def is_space_def)

lemma attribution_contains: "contains ''Generated by Qaestro'' attribution"
  using contains_middle [of "''Generated by Qaestro''"
    "''---'' @ nl @ [CHR 0xF0, CHR 0x9F, CHR 0xA4, CHR 0x96] @ '' *''" "''*''"]
  by (simp add: attribution_def)

definition attributed :: "string \<Rightarrow> bool" where
  "attributed s \<longleftrightarrow> strip s = s \<and> contains ''Generated by Qaestro'' s"

lemma attributed_text: "attributed (with_attribution_text body)"
proof -
  let ?b = "strip body"
  have "strip (?b @ nl @ nl @ attribution) = ?b @ nl @ nl @ attribution" if "?b \<noteq> []"
    using that strip_hd_last [OF that] by (intro strip_keep) auto
  moreover have "contains ''Generated by Qaestro'' (?b @ nl @ nl @ attribution)"
    using attribution_contains by (intro contains_appendI2)
  ultimately show ?thesis
    using attribution_contains
    by (auto simp: attributed_def with_attribution_text_def Let_def strip_keep)
qed

lemma attributed_fixed: "attributed s \<Longrightarrow> with_attribution_text s = s"
  by (simp add: attributed_def with_attribution_text_def)

lemma strip_in_attribution:
  assumes "contains p body" and "p \<noteq> []" and "\<not> is_space (hd p)" and "\<not> is_space (last p)"
  shows "contains p (with_attribution_text body)"
proof -
  have "contains p (strip body)" using assms by (rule contains_strip)
  moreover have "strip body \<noteq> []" using calculation assms(2) by (cases "strip body") auto
  ultimately show ?thesis
    by (auto simp: with_attribution_text_def Let_def intro: contains_appendI1)
qed

section \<open>Preparing a review\<close>

definition valid_location :: "pr_review_comment \<Rightarrow> bool" where
  "valid_location c \<longleftrightarrow>
     (case rv_line c of None \<Rightarrow> False | Some line \<Rightarrow>
        0 < line \<and> rv_side c = ''RIGHT'' \<and>
        (case rv_start_line c of None \<Rightarrow> True | Some start \<Rightarrow>
           0 < start \<and> start \<le> line \<and> rv_start_side c \<in> {[], ''RIGHT''}))"

lemma validated_Inr: "validated_review_comment c = Inr d \<longleftrightarrow> d = c \<and> valid_location c"
  by (auto simp: validated_review_comment_def valid_location_def split: option.splits)

lemma validated_Inl: "validated_review_comment c = Inl e \<Longrightarrow> exn_class e = ValueError \<and> \<not> valid_location c"
  by (auto simp: validated_review_comment_def valid_location_def split: option.splits if_splits)

lemma prepare_comments:
  "(case mapR (\<lambda>c. bindR (validated_review_comment c) (\<lambda>c. Inr (with_attribution c))) cs of
      Inl e \<Rightarrow> exn_class e = ValueError \<and> (\<exists>c \<in> set cs. \<not> valid_location c)
    | Inr ds \<Rightarrow> ds = map with_attribution cs \<and> (\<forall>c \<in> set cs. valid_location c))"
proof (induction cs)
  case (Cons c cs)
  show ?case
  proof (cases "validated_review_comment c")
    case (Inl e)
    then show ?thesis by (auto dest: validated_Inl)
  next
    case (Inr d)
    then have "d = c" "valid_location c" by (auto simp: validated_Inr)
    with Inr Cons show ?thesis
      by (cases "mapR (\<lambda>c. bindR (validated_review_comment c) (\<lambda>c. Inr (with_attribution c))) cs") auto
  qed
qed simp

definition prepared_body :: "pr_review_payload \<Rightarrow> string" where
  "prepared_body p =
     (let unmapped = filter (\<lambda>c. \<not> is_mapped c) (rp_comments p) in
      if unmapped \<noteq> [] then append_unmapped_findings (rp_body p) unmapped else rp_body p)"

lemma prepared_cases:
  "(case prepared_for_submission p of
      Inl e \<Rightarrow> exn_class e = ValueError \<and> (\<exists>c \<in> set (rp_comments p). is_mapped c \<and> \<not> valid_location c)
    | Inr q \<Rightarrow>
        q = p\<lparr>rp_body := with_attribution_text (prepared_body p), rp_event := ''COMMENT'',
              rp_comments := map with_attribution (filter is_mapped (rp_comments p))\<rparr> \<and>
        (\<forall>c \<in> set (rp_comments p). is_mapped c \<longrightarrow> valid_location c))"
  using prepare_comments [of "filter is_mapped (rp_comments p)"]
  by (auto simp: prepared_for_submission_def prepared_body_def Let_def split: sum.splits)

lemma prepared_Inr:
  "prepared_for_submission p = Inr q \<longleftrightarrow>
     q = p\<lparr>rp_body := with_attribution_text (prepared_body p), rp_event := ''COMMENT'',
           rp_comments := map with_attribution (filter is_mapped (rp_comments p))\<rparr> \<and>
     (\<forall>c \<in> set (rp_comments p). is_mapped c \<longrightarrow> valid_location c)"
  using prepared_cases [of p] by (auto split: sum.splits)

lemma unmapped_kept:
  assumes "c \<in> set (rp_comments p)" and "\<not> is_mapped c"
  shows "contains (strip (unmapped_line c)) (with_attribution_text (prepared_body p))"
proof -
  let ?u = "filter (\<lambda>c. \<not> is_mapped c) (rp_comments p)"
  have "c \<in> set ?u" using assms by simp
  then have "?u \<noteq> []" by (metis empty_iff list.set(1))
  then have body: "prepared_body p = append_unmapped_findings (rp_body p) ?u"
    by (simp add: prepared_body_def Let_def)
  have "contains (unmapped_line c) (prepared_body p)"
    unfolding body append_unmapped_findings_def using \<open>c \<in> set ?u\<close> by (intro contains_join) auto
  moreover have "contains (strip (unmapped_line c)) (unmapped_line c)"
    using contains_strip_by [of is_space "unmapped_line c"] by (simp add: strip_def)
  ultimately have "contains (strip (unmapped_line c)) (prepared_body p)"
    by (rule contains_trans [rotated])
  moreover have "strip (unmapped_line c) \<noteq> []"
  proof -
    have "contains ''-'' (unmapped_line c)" by (simp add: unmapped_line_def Let_def starts_with_def)
    then have "contains ''-'' (strip (unmapped_line c))" by (rule contains_strip) (simp_all add: is_space_def)
    then show ?thesis by auto
  qed
  ultimately show ?thesis using strip_hd_last by (intro strip_in_attribution) auto
qed


section \<open>Preparing again\<close>

lemma is_mapped_with_attribution [simp]: "is_mapped (with_attribution c) = is_mapped c"
  by (simp add: is_mapped_def with_attribution_def)

lemma valid_with_attribution [simp]: "valid_location (with_attribution c) = valid_location c"
  by (auto simp: valid_location_def with_attribution_def split: option.split)

lemma with_attribution_idem [simp]: "with_attribution (with_attribution c) = with_attribution c"
  by (simp add: with_attribution_def attributed_fixed [OF attributed_text])

lemma attributed_correlation:
  assumes "attributed (rp_body p)"
  shows "attributed (rp_body (with_correlation_id p cid))"
proof (cases "contains (correlation_marker cid) (rp_body p)")
  case False
  let ?m = "correlation_marker cid"
  have m: "?m \<noteq> []" "\<not> is_space (hd ?m)" "\<not> is_space (last ?m)"
    by (simp_all add: correlation_marker_def code_def is_space_def)
  from assms have b: "strip (rp_body p) = rp_body p" "contains ''Generated by Qaestro'' (rp_body p)"
    by (simp_all add: attributed_def)
  then have ne: "rp_body p \<noteq> []" by auto
  have "strip (rp_body p @ nl @ nl @ ?m) = rp_body p @ nl @ nl @ ?m"
    using strip_hd_last [of "rp_body p"] b(1) ne m by (intro strip_keep) auto
  with False b ne show ?thesis
    by (auto simp: with_correlation_id_def attributed_def Let_def intro: contains_appendI1)
qed (use assms in \<open>simp add: with_correlation_id_def Let_def\<close>)

lemma prepared_ready:
  assumes "prepared_for_submission p = Inr q"
  shows "attributed (rp_body q)" and "rp_event q = ''COMMENT''"
    and "\<And>c. c \<in> set (rp_comments q) \<Longrightarrow> is_mapped c \<and> valid_location c \<and> with_attribution c = c"
  using assms attributed_text by (auto simp: prepared_Inr)

lemma prepared_fixed:
  assumes "attributed (rp_body q)" and "rp_event q = ''COMMENT''"
    and c: "\<And>c. c \<in> set (rp_comments q) \<Longrightarrow> is_mapped c \<and> valid_location c \<and> with_attribution c = c"
  shows "prepared_for_submission q = Inr q"
proof -
  have f: "filter is_mapped (rp_comments q) = rp_comments q" "filter (\<lambda>c. \<not> is_mapped c) (rp_comments q) = []"
    using c by (auto simp: filter_id_conv filter_empty_conv)
  have "map with_attribution (rp_comments q) = rp_comments q"
    using c by (simp add: map_idI)
  with f assms show ?thesis
    by (simp add: prepared_Inr prepared_body_def attributed_fixed)
qed

lemma with_correlation_id_fields [simp]:
  "rp_comments (with_correlation_id q cid) = rp_comments q" "rp_event (with_correlation_id q cid) = rp_event q"
  "rp_head_sha (with_correlation_id q cid) = rp_head_sha q"
  "rp_repo_full_name (with_correlation_id q cid) = rp_repo_full_name q"
  "rp_pr_number (with_correlation_id q cid) = rp_pr_number q"
  by (simp_all add: with_correlation_id_def Let_def)

lemma prepared_again:
  assumes "prepared_for_submission p = Inr q"
  shows "prepared_for_submission (with_correlation_id q cid) = Inr (with_correlation_id q cid)"
  using prepared_ready [OF assms] by (intro prepared_fixed) (auto intro: attributed_correlation)

lemma correlation_marked: "contains (correlation_marker cid) (rp_body (with_correlation_id q cid))"
  by (auto simp: with_correlation_id_def Let_def intro: contains_appendI2)

section \<open>Code spans\<close>

lemma backtick_run_bounds:
  "longest \<le> backtick_run longest current s"
proof (induction longest current s rule: backtick_run.induct)
  case (2 longest current c s)
  then show ?case by (cases "c = CHR 0x60") auto
qed simp

lemma backtick_run_long:
  "s = replicate k (CHR 0x60) @ r \<Longrightarrow> 0 < k \<Longrightarrow> current + k \<le> backtick_run longest current s"
proof (induction longest current s arbitrary: k rule: backtick_run.induct)
  case (2 longest current c s)
  from 2(3,4) obtain j where k: "k = Suc j" by (cases k) auto
  with 2(3) have c: "c = CHR 0x60" and s: "s = replicate j (CHR 0x60) @ r" by auto
  show ?case
  proof (cases "j = 0")
    case True
    have "max longest (Suc current) \<le> backtick_run (max longest (Suc current)) (Suc current) s"
      by (rule backtick_run_bounds)
    with c k True show ?thesis by simp
  next
    case False
    with 2(1) [OF c s] c k show ?thesis by simp
  qed
qed simp

lemma backtick_run_contains:
  "contains (replicate k (CHR 0x60)) s \<Longrightarrow> k \<le> backtick_run longest current s \<or> k = 0"
proof (induction longest current s rule: backtick_run.induct)
  case (2 longest current c s)
  show ?case
  proof (cases "starts_with (replicate k (CHR 0x60)) (c # s)")
    case True
    then obtain r where "c # s = replicate k (CHR 0x60) @ r" by (auto dest: starts_withD)
    then show ?thesis using backtick_run_long [of "c # s" k r current longest] by fastforce
  next
    case False
    with 2(3) have "contains (replicate k (CHR 0x60)) s" by simp
    with 2(1,2) show ?thesis by (cases "c = CHR 0x60") auto
  qed
qed simp

text \<open>A code span cannot be closed from inside: the span of a text is the text between two equal
  delimiters of backticks, padded with a blank on both sides when the text begins or ends with a
  backtick, and the delimiter does not occur anywhere in the text.\<close>

lemma inline_code_span_closed:
  "(\<exists>delimiter pad.
      inline_code_span text = delimiter @ pad @ text @ pad @ delimiter \<and>
      set delimiter = {CHR 0x60} \<and> \<not> contains delimiter text \<and>
      pad = (if starts_with [CHR 0x60] text \<or> ends_with [CHR 0x60] text then '' '' else []))"
proof -
  let ?d = "replicate (longest_backtick_run text + 1) (CHR 0x60)"
  have "\<not> contains ?d text"
    using backtick_run_contains [of "longest_backtick_run text + 1" "text" 0 0]
    by (auto simp: longest_backtick_run_def)
  moreover have "inline_code_span text =
      ?d @ (if starts_with [CHR 0x60] text \<or> ends_with [CHR 0x60] text then '' '' else []) @ text @
      (if starts_with [CHR 0x60] text \<or> ends_with [CHR 0x60] text then '' '' else []) @ ?d"
    by (simp add: inline_code_span_def Let_def)
  moreover have "set ?d = {CHR 0x60}" by (simp only: set_replicate_conv_if) simp
  ultimately show ?thesis by blast
qed

end
