(* ===== verification/Github_Tools.thy ===== *)
theory Github_Tools
  imports Renderer_Facts
begin

text \<open>
  The pull request tools of \<open>src/runtime/tools/github.py\<close> over a GitHub client, a record of the
  operations of the protocol \<open>GitHubPRToolClient\<close> on a world \<open>'w\<close>; and the posters of
  \<open>src/runtime/orchestrator/tool_output.py\<close> over a tool runtime \<open>run\<close>.
\<close>

section \<open>Client\<close>

record 'w github_client =
  gc_get_pull_request :: "string \<Rightarrow> string \<Rightarrow> int \<Rightarrow> ('w, pr_meta) act"
  gc_list_pull_request_files :: "string \<Rightarrow> string \<Rightarrow> int \<Rightarrow> ('w, file_diff list) act"
  gc_get_pull_request_diff :: "string \<Rightarrow> string \<Rightarrow> int \<Rightarrow> ('w, string) act"
  gc_list_workflow_run_jobs :: "string \<Rightarrow> string \<Rightarrow> int \<Rightarrow> ('w, actions_job_result list) act"
  gc_list_check_runs_for_ref :: "string \<Rightarrow> string \<Rightarrow> string \<Rightarrow> ('w, check_run_result list) act"
  gc_create_issue_comment :: "string \<Rightarrow> string \<Rightarrow> int \<Rightarrow> string \<Rightarrow> ('w, comment_result) act"
  gc_list_issue_comments :: "string \<Rightarrow> string \<Rightarrow> int \<Rightarrow> ('w, comment_result list) act"
  gc_update_issue_comment :: "string \<Rightarrow> string \<Rightarrow> int \<Rightarrow> string \<Rightarrow> ('w, comment_result) act"
  gc_list_pull_request_reviews :: "string \<Rightarrow> string \<Rightarrow> int \<Rightarrow> ('w, review_result list) act"
  gc_create_pull_request_review ::
    "string \<Rightarrow> string \<Rightarrow> int \<Rightarrow> string \<Rightarrow> string \<Rightarrow> string \<Rightarrow> review_comment_input list \<Rightarrow> ('w, review_result) act"

section \<open>Input of a call\<close>

definition split_repo :: "string \<Rightarrow> (string \<times> string) res" where
  "split_repo repo_full_name =
     (let parts = split_char (CHR ''/'') repo_full_name in
      if length parts \<noteq> 2 \<or> parts ! 0 = [] \<or> parts ! 1 = []
      then Inl (Exn ValueError
        (''repo_full_name must be '' @ repr_str ''owner/repo'' @ '', got '' @ repr_str repo_full_name))
      else Inr (parts ! 0, parts ! 1))"

text \<open>The checks on \<open>pr_number\<close> and on \<open>run_id\<close>, which differ in the name only.\<close>

definition positive_int :: "string \<Rightarrow> json \<Rightarrow> int res" where
  "positive_int name raw =
     (if raw = JNull \<or> raw = JStr []
      then Inl (Exn ValueError (name @ '' is required and must be a positive integer''))
      else (case py_int raw of
              Inl e \<Rightarrow>
                if exn_class e = TypeError \<or> is_value_error e
                then Inl (Exn ValueError (name @ '' must be a positive integer'')) else Inl e
            | Inr n \<Rightarrow>
                if n \<le> 0 then Inl (Exn ValueError (name @ '' must be greater than 0'')) else Inr n))"

definition repo_input :: "tool_call \<Rightarrow> (string \<times> string) res" where
  "repo_input call = split_repo (py_str (dget (tc_input call) ''repo_full_name'' (JStr [])))"

definition repo_pr_input :: "tool_call \<Rightarrow> (string \<times> string \<times> int) res" where
  "repo_pr_input call =
     bindR (repo_input call) (\<lambda>(owner, repo).
     bindR (positive_int ''pr_number'' (dget (tc_input call) ''pr_number'' JNull)) (\<lambda>n.
     Inr (owner, repo, n)))"

section \<open>Handlers\<close>

definition get_pull_request :: "'w github_client \<Rightarrow> tool_call \<Rightarrow> ('w, py_object) act" where
  "get_pull_request client call =
     bindS (liftS (repo_pr_input call)) (\<lambda>(owner, repo, n).
     bindS (gc_get_pull_request client owner repo n) (\<lambda>meta. retS (ObjPRMeta meta)))"

definition list_pull_request_files :: "'w github_client \<Rightarrow> tool_call \<Rightarrow> ('w, py_object) act" where
  "list_pull_request_files client call =
     bindS (liftS (repo_pr_input call)) (\<lambda>(owner, repo, n).
     bindS (gc_list_pull_request_files client owner repo n) (\<lambda>fs. retS (ObjTuple (map ObjFileDiff fs))))"

definition get_pull_request_diff :: "'w github_client \<Rightarrow> tool_call \<Rightarrow> ('w, py_object) act" where
  "get_pull_request_diff client call =
     bindS (liftS (repo_pr_input call)) (\<lambda>(owner, repo, n).
     bindS (gc_get_pull_request_diff client owner repo n) (\<lambda>d. retS (ObjText d)))"

definition list_workflow_run_jobs :: "'w github_client \<Rightarrow> tool_call \<Rightarrow> ('w, py_object) act" where
  "list_workflow_run_jobs client call =
     bindS (liftS (repo_input call)) (\<lambda>(owner, repo).
     bindS (liftS (positive_int ''run_id'' (dget (tc_input call) ''run_id'' JNull))) (\<lambda>run_id.
     bindS (gc_list_workflow_run_jobs client owner repo run_id) (\<lambda>js.
     retS (ObjTuple (map ObjActionsJob js)))))"

definition list_check_runs_for_ref :: "'w github_client \<Rightarrow> tool_call \<Rightarrow> ('w, py_object) act" where
  "list_check_runs_for_ref client call =
     bindS (liftS (repo_input call)) (\<lambda>(owner, repo).
     (let ref = strip (py_str (dget (tc_input call) ''ref'' (JStr []))) in
      if ref = [] then raiseS (Exn ValueError ''ref is required'')
      else bindS (gc_list_check_runs_for_ref client owner repo ref) (\<lambda>cs.
             retS (ObjTuple (map ObjCheckRun cs)))))"

definition persisted_comment_body :: "string \<Rightarrow> string \<Rightarrow> string" where
  "persisted_comment_body body marker =
     (if marker = [] \<or> contains marker body then body
      else if body = [] then marker
      else marker @ nl @ nl @ body)"

definition create_or_update_comment :: "'w github_client \<Rightarrow> tool_call \<Rightarrow> ('w, py_object) act" where
  "create_or_update_comment client call =
     bindS (liftS (repo_pr_input call)) (\<lambda>(owner, repo, n).
     (let body = py_str (dget (tc_input call) ''body'' (JStr []));
          marker = strip (py_str (dget (tc_input call) ''marker'' (JStr [])));
          persisted = persisted_comment_body body marker
      in bindS (gc_list_issue_comments client owner repo n) (\<lambda>comments.
         bindS
           (case find (\<lambda>c. marker \<noteq> [] \<and> contains marker (cr_body c)) comments of
              Some c \<Rightarrow> gc_update_issue_comment client owner repo (cr_id c) persisted
            | None \<Rightarrow> gc_create_issue_comment client owner repo n persisted) (\<lambda>c.
         retS (ObjComment c)))))"

definition list_pull_request_reviews :: "'w github_client \<Rightarrow> tool_call \<Rightarrow> ('w, py_object) act" where
  "list_pull_request_reviews client call =
     bindS (liftS (repo_pr_input call)) (\<lambda>(owner, repo, n).
     bindS (gc_list_pull_request_reviews client owner repo n) (\<lambda>rs. retS (ObjTuple (map ObjReview rs))))"

definition create_pull_request_review :: "'w github_client \<Rightarrow> tool_call \<Rightarrow> ('w, py_object) act" where
  "create_pull_request_review client call =
     bindS (liftS (repo_pr_input call)) (\<lambda>(owner, repo, n).
     bindS (liftS (from_tool_input
        (AList.update ''pr_number'' (JInt n)
          (AList.update ''repo_full_name'' (JStr (owner @ ''/'' @ repo)) (tc_input call))))) (\<lambda>payload.
     bindS (liftS (prepared_for_submission payload)) (\<lambda>prepared.
     bindS (liftS (to_client_comments prepared)) (\<lambda>comments.
     bindS (gc_create_pull_request_review client owner repo n (rp_body prepared) (rp_head_sha prepared)
              (rp_event prepared) comments) (\<lambda>r.
     retS (ObjReview r))))))"

definition github_tool ::
  "string \<Rightarrow> tool_capability \<Rightarrow> (tool_call \<Rightarrow> ('w, py_object) act) \<Rightarrow> 'w tool_definition" where
  "github_tool name capability handler =
     \<lparr>td_name = name, td_capabilities = [capability], td_handler = handler, td_description = [],
      td_input_schema = None\<rparr>"

definition build_github_pr_tools :: "'w github_client \<Rightarrow> 'w tool_definition list" where
  "build_github_pr_tools client =
     [github_tool ''github.pr.view'' READ (get_pull_request client),
      github_tool ''github.pr.files'' READ (list_pull_request_files client),
      github_tool ''github.pr.diff'' READ (get_pull_request_diff client),
      github_tool ''github.actions.run.jobs'' READ (list_workflow_run_jobs client),
      github_tool ''github.checks.runs_for_ref'' READ (list_check_runs_for_ref client),
      github_tool ''github.pr.comment.create_or_update'' WRITE (create_or_update_comment client),
      github_tool ''github.pr.review.list'' READ (list_pull_request_reviews client),
      github_tool ''github.pr.review.create'' WRITE (create_pull_request_review client)]"

section \<open>Posting output\<close>

record pr_output_post_result =
  op_comment :: "comment_result option"
  op_review :: "review_result option"

definition output_call :: "string \<Rightarrow> json dict \<Rightarrow> string \<Rightarrow> tool_call" where
  "output_call name input cid =
     \<lparr>tc_stage = OUTPUT, tc_name = name, tc_input = input, tc_correlation_id = cid\<rparr>"

text \<open>The result of a call that must have succeeded: \<open>result.error or fallback\<close> otherwise.\<close>

definition require_ok :: "string \<Rightarrow> tool_result \<Rightarrow> py_object res" where
  "require_ok fallback r =
     (if tr_ok r then Inr (tr_output r)
      else Inl (Exn RuntimeError (if tr_error r \<noteq> [] then tr_error r else fallback)))"

definition unexpected_output :: "string \<Rightarrow> exn" where
  "unexpected_output name = Exn TypeError (name @ '' returned unexpected output type'')"

definition qaestro_comment_marker :: "string \<Rightarrow> int \<Rightarrow> string" where
  "qaestro_comment_marker repo pr = ''Repository: '' @ code repo @ nl @ ''Pull request: '' @ code (''#'' @ show_int pr)"

definition comment_call :: "pr_comment_payload \<Rightarrow> string \<Rightarrow> tool_call" where
  "comment_call payload cid = output_call ''github.pr.comment.create_or_update''
     [(''repo_full_name'', JStr (cp_repo_full_name payload)), (''pr_number'', JInt (cp_pr_number payload)),
      (''body'', JStr (cp_body payload)),
      (''marker'', JStr (qaestro_comment_marker (cp_repo_full_name payload) (cp_pr_number payload)))] cid"

definition post_comment ::
  "(tool_call \<Rightarrow> ('s, tool_result) act) \<Rightarrow> pr_comment_payload \<Rightarrow> string \<Rightarrow> ('s, comment_result) act" where
  "post_comment run payload cid =
     bindS (run (comment_call payload cid)) (\<lambda>result.
     bindS (liftS (require_ok ''github.pr.comment.create_or_update failed'' result)) (\<lambda>output.
     case output of ObjComment c \<Rightarrow> retS c
     | _ \<Rightarrow> raiseS (unexpected_output ''github.pr.comment.create_or_update'')))"

fun head_sha_from_output :: "py_object \<Rightarrow> string res" where
  "head_sha_from_output (ObjPRMeta m) = Inr (pm_head_sha m)"
| "head_sha_from_output (ObjDict d) = Inr (py_str (dget d ''head_sha'' (JStr [])))"
| "head_sha_from_output _ = Inl (unexpected_output ''github.pr.view'')"

definition pr_input :: "pr_review_payload \<Rightarrow> json dict" where
  "pr_input p = [(''repo_full_name'', JStr (rp_repo_full_name p)), (''pr_number'', JInt (rp_pr_number p))]"

definition view_call :: "pr_review_payload \<Rightarrow> string \<Rightarrow> tool_call" where
  "view_call p cid = output_call ''github.pr.view'' (pr_input p) cid"

definition ensure_current_head ::
  "(tool_call \<Rightarrow> ('s, tool_result) act) \<Rightarrow> pr_review_payload \<Rightarrow> string \<Rightarrow> ('s, unit) act" where
  "ensure_current_head run payload cid =
     bindS (run (view_call payload cid)) (\<lambda>result.
     bindS (liftS (require_ok ''github.pr.view failed'' result)) (\<lambda>output.
     bindS (liftS (head_sha_from_output output)) (\<lambda>current_head.
     if current_head \<noteq> rp_head_sha payload then
       raiseS (Exn RuntimeError (''stale head for PR review: expected '' @ current_head @ '', got '' @ rp_head_sha payload))
     else retS ())))"

text \<open>The loop over the listed reviews.\<close>

fun find_review :: "pr_review_payload \<Rightarrow> string \<Rightarrow> py_object list \<Rightarrow> review_result option res" where
  "find_review payload cid [] = Inr None"
| "find_review payload cid (x # xs) =
     (case x of
        ObjReview r \<Rightarrow>
          if rr_commit_id r = rp_head_sha payload \<and> contains cid (rr_body r) then Inr (Some r)
          else find_review payload cid xs
      | _ \<Rightarrow> Inl (unexpected_output ''github.pr.review.list''))"

definition find_existing_review ::
  "(tool_call \<Rightarrow> ('s, tool_result) act) \<Rightarrow> pr_review_payload \<Rightarrow> string \<Rightarrow> ('s, review_result option) act" where
  "find_existing_review run payload cid =
     bindS (run (output_call ''github.pr.review.list'' (pr_input payload) cid)) (\<lambda>result.
     bindS (liftS (require_ok ''github.pr.review.list failed'' result)) (\<lambda>output.
     case output of ObjTuple xs \<Rightarrow> liftS (find_review payload cid xs)
     | _ \<Rightarrow> raiseS (unexpected_output ''github.pr.review.list'')))"

definition preflight_review ::
  "(tool_call \<Rightarrow> ('s, tool_result) act) \<Rightarrow> pr_review_payload \<Rightarrow> string \<Rightarrow> ('s, review_result option) act" where
  "preflight_review run prepared cid =
     bindS (ensure_current_head run prepared cid) (\<lambda>_. find_existing_review run prepared cid)"

definition prepare_review :: "pr_review_payload \<Rightarrow> string \<Rightarrow> pr_review_payload res" where
  "prepare_review payload cid =
     bindR (prepared_for_submission payload) (\<lambda>prepared. Inr (with_correlation_id prepared cid))"

definition opt_json :: "int option \<Rightarrow> json" where
  "opt_json x = (case x of None \<Rightarrow> JNull | Some i \<Rightarrow> JInt i)"

definition comment_to_input :: "pr_review_comment \<Rightarrow> json" where
  "comment_to_input c = JObj
     ([(''path'', JStr (rv_path c)), (''body'', JStr (rv_body c)), (''line'', opt_json (rv_line c)),
       (''side'', JStr (rv_side c))] @
      (case rv_start_line c of None \<Rightarrow> []
       | Some l \<Rightarrow> [(''start_line'', JInt l), (''start_side'', JStr (rv_start_side c))]))"

definition review_call :: "pr_review_payload \<Rightarrow> string \<Rightarrow> tool_call" where
  "review_call prepared cid = output_call ''github.pr.review.create''
     [(''repo_full_name'', JStr (rp_repo_full_name prepared)), (''pr_number'', JInt (rp_pr_number prepared)),
      (''head_sha'', JStr (rp_head_sha prepared)), (''body'', JStr (rp_body prepared)),
      (''event'', JStr (rp_event prepared)), (''comments'', JList (map comment_to_input (rp_comments prepared)))] cid"

definition create_review ::
  "(tool_call \<Rightarrow> ('s, tool_result) act) \<Rightarrow> pr_review_payload \<Rightarrow> string \<Rightarrow> ('s, review_result) act" where
  "create_review run prepared cid =
     bindS (run (review_call prepared cid)) (\<lambda>result.
     bindS (liftS (require_ok ''github.pr.review.create failed'' result)) (\<lambda>output.
     case output of ObjReview r \<Rightarrow> retS r
     | _ \<Rightarrow> raiseS (unexpected_output ''github.pr.review.create'')))"

definition post_review ::
  "(tool_call \<Rightarrow> ('s, tool_result) act) \<Rightarrow> pr_review_payload \<Rightarrow> string \<Rightarrow> ('s, review_result) act" where
  "post_review run payload cid =
     bindS (liftS (prepare_review payload cid)) (\<lambda>prepared.
     bindS (preflight_review run prepared cid) (\<lambda>existing.
     case existing of Some r \<Rightarrow> retS r | None \<Rightarrow> create_review run prepared cid))"

definition post_outputs ::
  "(tool_call \<Rightarrow> ('s, tool_result) act) \<Rightarrow> pr_comment_payload \<Rightarrow> pr_review_payload option \<Rightarrow> string \<Rightarrow>
   ('s, pr_output_post_result) act" where
  "post_outputs run comment_payload review_payload cid =
     (case review_payload of
        None \<Rightarrow>
          bindS (post_comment run comment_payload cid) (\<lambda>c.
          retS \<lparr>op_comment = Some c, op_review = None\<rparr>)
      | Some p \<Rightarrow>
          bindS (liftS (prepare_review p cid)) (\<lambda>prepared.
          bindS (preflight_review run prepared cid) (\<lambda>existing.
          bindS (post_comment run comment_payload cid) (\<lambda>c.
          bindS (case existing of Some r \<Rightarrow> retS r | None \<Rightarrow> create_review run prepared cid) (\<lambda>r.
          retS \<lparr>op_comment = Some c, op_review = Some r\<rparr>)))))"

section \<open>Inputs read back\<close>

lemma split_char_append:
  "CHR ''/'' \<notin> set a \<Longrightarrow> split_char (CHR ''/'') (a @ CHR ''/'' # b) = a # split_char (CHR ''/'') b"
  by (induction a) auto

lemma split_char_single: "CHR ''/'' \<notin> set a \<Longrightarrow> split_char (CHR ''/'') a = [a]"
  by (induction a) auto

lemma split_repo_ok:
  assumes "owner \<noteq> []" "repo \<noteq> []" "CHR ''/'' \<notin> set owner" "CHR ''/'' \<notin> set repo"
  shows "split_repo (owner @ ''/'' @ repo) = Inr (owner, repo)"
  using assms by (simp add: split_repo_def Let_def split_char_append split_char_single)

lemma split_char_join: "join [c] (split_char c s) = s"
proof (induction s)
  case (Cons x s)
  have "split_char c s \<noteq> []" by (cases s) (auto split: list.split)
  with Cons show ?case by (cases "split_char c s"; cases "tl (split_char c s)") auto
qed simp

lemma split_repo_Inr:
  assumes "split_repo r = Inr (owner, repo)"
  shows "r = owner @ ''/'' @ repo \<and> owner \<noteq> [] \<and> repo \<noteq> []"
proof -
  have "length (split_char (CHR ''/'') r) = 2"
    using assms by (auto simp: split_repo_def Let_def split: if_splits)
  then obtain a b where ab: "split_char (CHR ''/'') r = [a, b]"
    by (auto simp: numeral_2_eq_2 length_Suc_conv)
  with assms have "a = owner" "b = repo" "a \<noteq> []" "b \<noteq> []"
    by (auto simp: split_repo_def Let_def split: if_splits)
  with ab split_char_join [of "CHR ''/''" r] show ?thesis by simp
qed

end
