(* ===== verification/Output_Facts.thy ===== *)
theory Output_Facts
  imports Github_Tools
begin

text \<open>
  What posting guarantees: the order of the tool calls of \<open>post_outputs\<close> and what each depends on
  (proved inside the locale \<open>tool_runtime\<close>), the review that reaches the client, the single managed
  summary comment, and the marker the renderer and the poster agree on.
\<close>

section \<open>Which calls ran\<close>

context tool_runtime
begin

text \<open>From \<open>s\<close> to \<open>t\<close> the tools named \<open>ns\<close> ran, in this order.\<close>

definition ran :: "'s \<Rightarrow> 's \<Rightarrow> string list \<Rightarrow> bool" where
  "ran s t ns \<longleftrightarrow> (\<exists>es. audit t = audit s @ es \<and> map ta_name es = ns)"

lemma ran_refl [simp]: "ran s s []"
  by (simp add: ran_def)

lemma ran_trans: "ran s t ms \<Longrightarrow> ran t u ns \<Longrightarrow> ran s u (ms @ ns)"
  by (auto simp: ran_def)

lemma run_outcome:
  "run c s = (x, t) \<Longrightarrow> (\<exists>e. x = Inl e \<and> t = s) \<or> (\<exists>r. x = Inr r \<and> ran s t [tc_name c])"
  by (cases x) (auto simp: ran_def audit_entry_def dest: refusal answers)

lemma after_run:
  assumes "bindS (run c) f s = (x, t)"
  shows "(\<exists>e. x = Inl e \<and> t = s) \<or> (\<exists>r u. run c s = (Inr r, u) \<and> ran s u [tc_name c] \<and> f r u = (x, t))"
  using assms run_outcome [of c s] by (cases "run c s") (fastforce simp: bindS_def)

lemma head_outcome:
  assumes "ensure_current_head run p cid s = (x, t)"
  shows "ran s t [] \<and> isl x \<or>
    ran s t [''github.pr.view''] \<and>
      (isl x \<or> (\<exists>r. run (view_call p cid) s = (Inr r, t) \<and> tr_ok r \<and> head_sha_from_output (tr_output r) = Inr (rp_head_sha p)))"
  using after_run [OF assms [unfolded ensure_current_head_def]]
proof (elim disjE exE conjE)
  fix r u
  assume r: "run (view_call p cid) s = (Inr r, u)" "ran s u [tc_name (view_call p cid)]"
    and x: "bindS (liftS (require_ok ''github.pr.view failed'' r)) (\<lambda>output.
      bindS (liftS (head_sha_from_output output)) (\<lambda>current_head.
      if current_head \<noteq> rp_head_sha p then
        raiseS (Exn RuntimeError (''stale head for PR review: expected '' @ current_head @ '', got '' @ rp_head_sha p))
      else retS ())) u = (x, t)"
  then have t: "t = u" and "isl x \<or> (tr_ok r \<and> head_sha_from_output (tr_output r) = Inr (rp_head_sha p))"
    by (auto simp: act_simps require_ok_def split: sum.splits if_splits)
  with r show ?thesis by (auto simp: view_call_def output_call_def)
qed auto

lemma existing_outcome:
  assumes "find_existing_review run p cid s = (x, t)"
  shows "ran s t [] \<and> isl x \<or>
    ran s t [''github.pr.review.list''] \<and>
      (isl x \<or> (\<exists>r xs existing. x = Inr existing \<and> run (output_call ''github.pr.review.list'' (pr_input p) cid) s = (Inr r, t) \<and>
         tr_ok r \<and> tr_output r = ObjTuple xs \<and> find_review p cid xs = Inr existing))"
  using after_run [OF assms [unfolded find_existing_review_def]]
proof (elim disjE exE conjE)
  fix r u
  assume r: "run (output_call ''github.pr.review.list'' (pr_input p) cid) s = (Inr r, u)"
      "ran s u [tc_name (output_call ''github.pr.review.list'' (pr_input p) cid)]"
    and x: "bindS (liftS (require_ok ''github.pr.review.list failed'' r)) (\<lambda>output.
     case output of ObjTuple xs \<Rightarrow> liftS (find_review p cid xs)
     | _ \<Rightarrow> raiseS (unexpected_output ''github.pr.review.list'')) u = (x, t)"
  then have "t = u \<and> (isl x \<or> (\<exists>xs existing. x = Inr existing \<and> tr_ok r \<and> tr_output r = ObjTuple xs \<and>
      find_review p cid xs = Inr existing))"
    by (cases "tr_output r"; cases x) (auto simp: act_simps require_ok_def split: if_splits)
  with r show ?thesis by (auto simp: output_call_def)
qed auto

lemma comment_outcome:
  assumes "post_comment run payload cid s = (x, t)"
  shows "ran s t [] \<and> isl x \<or> ran s t [''github.pr.comment.create_or_update'']"
  using after_run [OF assms [unfolded post_comment_def]]
proof (elim disjE exE conjE)
  fix r u
  assume "ran s u [tc_name (comment_call payload cid)]"
    and "bindS (liftS (require_ok ''github.pr.comment.create_or_update failed'' r)) (\<lambda>output.
     case output of ObjComment c \<Rightarrow> retS c
     | _ \<Rightarrow> raiseS (unexpected_output ''github.pr.comment.create_or_update'')) u = (x, t)"
  then show ?thesis
    by (cases "tr_output r") (auto simp: act_simps require_ok_def comment_call_def output_call_def split: if_splits)
qed auto

lemma create_outcome:
  assumes "create_review run p cid s = (x, t)"
  shows "ran s t [] \<and> isl x \<or> ran s t [''github.pr.review.create'']"
  using after_run [OF assms [unfolded create_review_def]]
proof (elim disjE exE conjE)
  fix r u
  assume "ran s u [tc_name (review_call p cid)]"
    and "bindS (liftS (require_ok ''github.pr.review.create failed'' r)) (\<lambda>output.
     case output of ObjReview r \<Rightarrow> retS r
     | _ \<Rightarrow> raiseS (unexpected_output ''github.pr.review.create'')) u = (x, t)"
  then show ?thesis
    by (cases "tr_output r") (auto simp: act_simps require_ok_def review_call_def output_call_def split: if_splits)
qed auto

abbreviation output_order :: "string list" where
  "output_order \<equiv> [''github.pr.view'', ''github.pr.review.list'', ''github.pr.comment.create_or_update'',
     ''github.pr.review.create'']"

lemma post_outputs_order:
  assumes "post_outputs run payload (Some p) cid s = (x, t)"
  shows "\<exists>k. ran s t (take k output_order) \<and>
    (k < 3 \<or> (\<exists>q r s1. prepare_review p cid = Inr q \<and> run (view_call q cid) s = (Inr r, s1) \<and> tr_ok r \<and>
        head_sha_from_output (tr_output r) = Inr (rp_head_sha q) \<and>
        (k < 4 \<or> (\<exists>r' s2 xs. run (output_call ''github.pr.review.list'' (pr_input q) cid) s1 = (Inr r', s2) \<and>
           tr_ok r' \<and> tr_output r' = ObjTuple xs \<and> find_review q cid xs = Inr None))))"
proof (cases "prepare_review p cid")
  case (Inl e)
  with assms have "t = s" by (simp add: post_outputs_def act_simps)
  then show ?thesis by (intro exI [of _ 0]) simp
next
  case (Inr q)
  obtain h s1 where h: "ensure_current_head run q cid s = (h, s1)" by fastforce
  note o1 = head_outcome [OF h]
  show ?thesis
  proof (cases h)
    case (Inl e)
    with assms \<open>prepare_review p cid = Inr q\<close> h have "t = s1"
      by (simp add: post_outputs_def preflight_review_def act_simps)
    with o1 show ?thesis by (auto intro: exI [of _ 0] exI [of _ 1])
  next
    case (Inr u)
    with o1 obtain r where r1: "ran s s1 [''github.pr.view'']" "run (view_call q cid) s = (Inr r, s1)" "tr_ok r"
      "head_sha_from_output (tr_output r) = Inr (rp_head_sha q)" by auto
    obtain l s2 where l: "find_existing_review run q cid s1 = (l, s2)" by fastforce
    note o2 = existing_outcome [OF l]
    show ?thesis
    proof (cases l)
      case (Inl e)
      with assms \<open>prepare_review p cid = Inr q\<close> h \<open>h = Inr u\<close> l have "t = s2"
        by (simp add: post_outputs_def preflight_review_def act_simps)
      moreover have "ran s s2 (take 1 output_order) \<or> ran s s2 (take 2 output_order)"
        using o2 ran_trans [OF r1(1), of s2] by auto
      ultimately show ?thesis by (auto intro: exI [of _ 1] exI [of _ 2])
    next
      case (Inr existing)
      with o2 obtain r' xs where r2: "ran s1 s2 [''github.pr.review.list'']"
        "run (output_call ''github.pr.review.list'' (pr_input q) cid) s1 = (Inr r', s2)" "tr_ok r'"
        "tr_output r' = ObjTuple xs" "find_review q cid xs = Inr existing" by auto
      have ran2: "ran s s2 (take 2 output_order)" using ran_trans [OF r1(1) r2(1)] by simp
      obtain c s3 where c: "post_comment run payload cid s2 = (c, s3)" by fastforce
      note o3 = comment_outcome [OF c]
      have ran3: "(isl c \<and> ran s s3 (take 2 output_order)) \<or> ran s s3 (take 3 output_order)"
        using o3 ran_trans [OF ran2, of s3] by auto
      show ?thesis
      proof (cases c)
        case (Inl e)
        with assms \<open>prepare_review p cid = Inr q\<close> h \<open>h = Inr u\<close> l \<open>l = Inr existing\<close> c have "t = s3"
          by (simp add: post_outputs_def preflight_review_def act_simps)
        with ran3 show ?thesis
          using r1 \<open>prepare_review p cid = Inr q\<close> by (auto intro: exI [of _ 2] exI [of _ 3])
      next
        case (Inr c')
        then have ran3': "ran s s3 (take 3 output_order)" using ran3 by auto
        show ?thesis
        proof (cases existing)
          case (Some old)
          with assms \<open>prepare_review p cid = Inr q\<close> h \<open>h = Inr u\<close> l \<open>l = Inr existing\<close> c \<open>c = Inr c'\<close>
          have "t = s3" by (simp add: post_outputs_def preflight_review_def act_simps)
          with ran3' r1 \<open>prepare_review p cid = Inr q\<close> show ?thesis by (auto intro!: exI [of _ 3])
        next
          case None
          obtain y s4 where y: "create_review run q cid s3 = (y, s4)" by fastforce
          have "t = s4"
            using assms \<open>prepare_review p cid = Inr q\<close> h \<open>h = Inr u\<close> l \<open>l = Inr existing\<close> c \<open>c = Inr c'\<close> None y
            by (auto simp: post_outputs_def preflight_review_def act_simps split: sum.splits)
          moreover have "ran s s4 (take 3 output_order) \<or> ran s s4 (take 4 output_order)"
            using create_outcome [OF y] ran_trans [OF ran3', of s4] by auto
          moreover have "find_review q cid xs = Inr None" using r2(5) None by simp
          ultimately show ?thesis using r1 r2 \<open>prepare_review p cid = Inr q\<close> by blast
        qed
      qed
    qed
  qed
qed

end

lemma prepare_head: "prepare_review p cid = Inr q \<Longrightarrow> rp_head_sha q = rp_head_sha p"
  by (auto simp: prepare_review_def prepared_Inr)

text \<open>C10. Nothing is written for a stale head: posting a summary comment with a review runs the view,
  list, comment and review tools in this order and possibly stops early; neither the comment nor the
  review tool runs unless the view tool had answered that the pull request's head is the head of the
  review; and the review tool runs only if no listed review carries that head and the correlation id.\<close>

theorem outputs_follow_current_head:
  "(let t = snd (post_outputs (execute rt) payload (Some p) cid s);
        ran = drop (length (rs_audit_log s)) (rs_audit_log t)
    in rs_audit_log t = rs_audit_log s @ ran \<and>
       (\<exists>k. map ta_name ran = take k [''github.pr.view'', ''github.pr.review.list'',
          ''github.pr.comment.create_or_update'', ''github.pr.review.create'']) \<and>
       (length ran < 3 \<or>
        (\<exists>q r s1. prepare_review p cid = Inr q \<and> execute rt (view_call q cid) s = (Inr r, s1) \<and> tr_ok r \<and>
           head_sha_from_output (tr_output r) = Inr (rp_head_sha p) \<and>
           (length ran < 4 \<or>
            (\<exists>r' s2 xs. execute rt (output_call ''github.pr.review.list'' (pr_input q) cid) s1 = (Inr r', s2) \<and>
               tr_ok r' \<and> tr_output r' = ObjTuple xs \<and> find_review q cid xs = Inr None)))))"
proof -
  obtain x t where xt: "post_outputs (execute rt) payload (Some p) cid s = (x, t)" by fastforce
  from registered.post_outputs_order [OF xt] obtain k es where
    es: "rs_audit_log t = rs_audit_log s @ es" "map ta_name es = take k registered.output_order"
    and k: "k < 3 \<or> (\<exists>q r s1. prepare_review p cid = Inr q \<and> execute rt (view_call q cid) s = (Inr r, s1) \<and> tr_ok r \<and>
        head_sha_from_output (tr_output r) = Inr (rp_head_sha q) \<and>
        (k < 4 \<or> (\<exists>r' s2 xs. execute rt (output_call ''github.pr.review.list'' (pr_input q) cid) s1 = (Inr r', s2) \<and>
           tr_ok r' \<and> tr_output r' = ObjTuple xs \<and> find_review q cid xs = Inr None)))"
    unfolding registered.ran_def by blast
  have "length es \<le> k" using arg_cong [OF es(2), of length] by simp
  then show ?thesis
    using es k prepare_head [of p cid] unfolding xt snd_conv Let_def
    by (auto simp: less_le_trans)
qed

section \<open>Retrying\<close>

lemma find_review_in:
  "\<exists>r \<in> set rs. rr_commit_id r = rp_head_sha q \<and> contains cid (rr_body r) \<Longrightarrow>
   find_review q cid (map ObjReview rs) =
     Inr (find (\<lambda>r. rr_commit_id r = rp_head_sha q \<and> contains cid (rr_body r)) rs)"
  by (induction rs) auto

lemma prepared_names_correlation: "prepare_review p cid = Inr q \<Longrightarrow> contains cid (rp_body q)"
proof -
  assume "prepare_review p cid = Inr q"
  then have "contains (correlation_marker cid) (rp_body q)"
    by (auto simp: prepare_review_def correlation_marked)
  moreover have "contains cid (correlation_marker cid)"
    using contains_middle [of cid "''Correlation ID: '' @ [CHR 0x60]" "[CHR 0x60]"]
    by (simp add: correlation_marker_def code_def)
  ultimately show ?thesis by (rule contains_trans [rotated])
qed

text \<open>C23. A retry posts no second review: if the head is still current and the listed reviews include
  the one a previous attempt submitted (its body and its commit), posting the same review again
  returns an existing review of that head and correlation id, after the two read calls only.\<close>

theorem review_retry:
  assumes "prepare_review p cid = Inr q"
    and "execute rt (view_call q cid) s = (Inr r1, s1)" and "tr_ok r1"
    and "head_sha_from_output (tr_output r1) = Inr (rp_head_sha p)"
    and "execute rt (output_call ''github.pr.review.list'' (pr_input q) cid) s1 = (Inr r2, s2)" and "tr_ok r2"
    and "tr_output r2 = ObjTuple (map ObjReview reviews)"
    and "submitted \<in> set reviews" and "rr_body submitted = rp_body q" and "rr_commit_id submitted = rp_head_sha p"
  shows "\<exists>r \<in> set reviews. rr_commit_id r = rp_head_sha p \<and> contains cid (rr_body r) \<and>
    post_review (execute rt) p cid s = (Inr r, s2)"
proof -
  have head: "rp_head_sha q = rp_head_sha p" using assms(1) by (rule prepare_head)
  let ?P = "\<lambda>r. rr_commit_id r = rp_head_sha q \<and> contains cid (rr_body r)"
  have ex: "\<exists>r \<in> set reviews. ?P r"
    using assms(8-10) prepared_names_correlation [OF assms(1)] head by auto
  then have "find ?P reviews \<noteq> None" by (auto simp: find_None_iff)
  then obtain r where r: "find ?P reviews = Some r" by blast
  from find_review_in [OF ex] r have "find_review q cid (map ObjReview reviews) = Inr (Some r)" by simp
  with assms head have "post_review (execute rt) p cid s = (Inr r, s2)"
    by (simp add: post_review_def preflight_review_def ensure_current_head_def find_existing_review_def
        act_simps require_ok_def)
  with find_SomeD [OF r] head show ?thesis by auto
qed

section \<open>A client for the witnesses\<close>

text \<open>The world of the sample client: the comments and the reviews of one pull request.\<close>

type_synonym pr_world = "comment_result list \<times> review_result list"

definition sample_meta_of :: "string \<Rightarrow> pr_meta" where
  "sample_meta_of sha = \<lparr>pm_number = 7, pm_title = ''Add login'', pm_state = ''open'', pm_head_sha = sha,
     pm_base_ref = ''main'', pm_head_ref = ''login'', pm_author = ''ann'', pm_draft = False,
     pm_html_url = [], pm_body = []\<rparr>"

definition set_body :: "int \<Rightarrow> string \<Rightarrow> comment_result \<Rightarrow> comment_result" where
  "set_body i b c = (if cr_id c = i then c\<lparr>cr_body := b\<rparr> else c)"

definition next_id :: "comment_result list \<Rightarrow> int" where
  "next_id cs = foldr (\<lambda>c n. max (cr_id c + 1) n) cs 0"

definition sample_client :: "pr_world github_client" where
  "sample_client =
     \<lparr>gc_get_pull_request = (\<lambda>owner repo n. retS (sample_meta_of ''aaa'')),
      gc_list_pull_request_files = (\<lambda>owner repo n. retS []),
      gc_get_pull_request_diff = (\<lambda>owner repo n. retS []),
      gc_list_workflow_run_jobs = (\<lambda>owner repo i. retS []),
      gc_list_check_runs_for_ref = (\<lambda>owner repo ref. retS []),
      gc_create_issue_comment = (\<lambda>owner repo n b (cs, rs).
        let c = \<lparr>cr_id = next_id cs, cr_html_url = [], cr_body = b\<rparr> in (Inr c, (cs @ [c], rs))),
      gc_list_issue_comments = (\<lambda>owner repo n (cs, rs). (Inr cs, (cs, rs))),
      gc_update_issue_comment = (\<lambda>owner repo i b (cs, rs).
        (Inr \<lparr>cr_id = i, cr_html_url = [], cr_body = b\<rparr>, (map (set_body i b) cs, rs))),
      gc_list_pull_request_reviews = (\<lambda>owner repo n (cs, rs). (Inr rs, (cs, rs))),
      gc_create_pull_request_review = (\<lambda>owner repo n b sha ev inputs (cs, rs).
        let r = \<lparr>rr_id = 1, rr_html_url = [], rr_state = ev, rr_body = b, rr_commit_id = sha\<rparr>
        in (Inr r, (cs, rs @ [r])))\<rparr>"

definition output_tools :: "string list" where
  "output_tools = [''github.pr.view'', ''github.pr.review.list'', ''github.pr.review.create'',
     ''github.pr.comment.create_or_update'']"

definition sample_runtime :: "pr_world registered_tool_runtime" where
  "sample_runtime = registered_runtime (build_github_pr_tools sample_client)
     \<lparr>sp_allowed_tools_by_stage = [(OUTPUT, output_tools)], sp_allow_destructive = False\<rparr>"

definition sample_review :: pr_review_payload where
  "sample_review = \<lparr>rp_repo_full_name = ''o/r'', rp_pr_number = 7, rp_head_sha = ''aaa'', rp_body = ''Checked'',
     rp_event = ''COMMENT'', rp_comments =
       [\<lparr>rv_path = ''src/app.py'', rv_body = ''fails'', rv_line = Some 3, rv_side = ''RIGHT'',
         rv_start_line = None, rv_start_side = []\<rparr>,
        \<lparr>rv_path = ''src/db.py'', rv_body = ''slow'', rv_line = None, rv_side = ''RIGHT'',
         rv_start_line = None, rv_start_side = []\<rparr>]\<rparr>"

definition sample_prepared :: pr_review_payload where
  "sample_prepared = (case prepare_review sample_review ''corr'' of Inr q \<Rightarrow> q | Inl _ \<Rightarrow> sample_review)"

definition sample_submitted :: review_result where
  "sample_submitted = \<lparr>rr_id = 1, rr_html_url = [], rr_state = ''COMMENT'', rr_body = rp_body sample_prepared,
     rr_commit_id = ''aaa''\<rparr>"

definition submitted_state :: "pr_world runtime_state" where
  "submitted_state = \<lparr>rs_audit_log = [], rs_world = ([], [sample_submitted])\<rparr>"

lemma sample_prepared: "prepare_review sample_review ''corr'' = Inr sample_prepared"
proof -
  have "\<not> isl (prepare_review sample_review ''corr'')" by code_simp
  then show ?thesis by (auto simp: sample_prepared_def split: sum.split)
qed

lemma sample_prepared_fields [simp]:
  "rp_repo_full_name sample_prepared = ''o/r''" "rp_pr_number sample_prepared = 7" "rp_head_sha sample_prepared = ''aaa''"
  by code_simp+

lemma sample_tool [simp]:
  "map_of (rt_tools sample_runtime) ''github.pr.view'' =
     Some (github_tool ''github.pr.view'' READ (get_pull_request sample_client))"
  "map_of (rt_tools sample_runtime) ''github.pr.review.list'' =
     Some (github_tool ''github.pr.review.list'' READ (list_pull_request_reviews sample_client))"
  by (simp_all add: sample_runtime_def registered_runtime_def tool_table_def build_github_pr_tools_def
      github_tool_def)

lemma sample_policy [simp]:
  "check_policy (rt_policy sample_runtime) (output_call ''github.pr.view'' input cid)
     (github_tool ''github.pr.view'' READ h) = Inr ()"
  "check_policy (rt_policy sample_runtime) (output_call ''github.pr.review.list'' input cid)
     (github_tool ''github.pr.review.list'' READ h) = Inr ()"
  by (simp_all add: check_policy_def denial_reason_def allowed_tools_def sample_runtime_def
      registered_runtime_def output_call_def github_tool_def output_tools_def)

lemma sample_repo_pr [simp]: "repo_pr_input (output_call name (pr_input sample_prepared) cid) = Inr (''o'', ''r'', 7)"
  by (simp add: repo_pr_input_def repo_input_def output_call_def pr_input_def dget_def split_repo_def
      positive_int_def)

lemma output_call_fields [simp]:
  "tc_name (output_call n i c) = n" "tc_stage (output_call n i c) = OUTPUT"
  by (simp_all add: output_call_def)

lemma github_tool_handler [simp]: "td_handler (github_tool n c h) = h"
  by (simp add: github_tool_def)

theorem review_retry_witness:
  "fst (post_review (execute sample_runtime) sample_review ''corr'' submitted_state) = Inr sample_submitted"
proof -
  let ?list = "output_call ''github.pr.review.list'' (pr_input sample_prepared) ''corr''"
  obtain r1 s1 where v: "execute sample_runtime (view_call sample_prepared ''corr'') submitted_state = (Inr r1, s1)"
    "tr_ok r1" "head_sha_from_output (tr_output r1) = Inr ''aaa''" "rs_world s1 = ([], [sample_submitted])"
    by (simp add: execute_def view_call_def get_pull_request_def sample_client_def sample_meta_of_def
        submitted_state_def act_simps)
  obtain r2 s2 where l: "execute sample_runtime ?list s1 = (Inr r2, s2)" "tr_ok r2"
    "tr_output r2 = ObjTuple (map ObjReview [sample_submitted])"
    using v(4) by (simp add: execute_def list_pull_request_reviews_def sample_client_def act_simps)
  have h: "rp_head_sha sample_review = ''aaa''" by (simp add: sample_review_def)
  have "\<exists>r \<in> set [sample_submitted]. rr_commit_id r = rp_head_sha sample_review \<and> contains ''corr'' (rr_body r) \<and>
      post_review (execute sample_runtime) sample_review ''corr'' submitted_state = (Inr r, s2)"
    by (rule review_retry [OF sample_prepared v(1,2) v(3) [folded h] l, of sample_submitted])
      (simp_all add: sample_submitted_def h)
  then show ?thesis by auto
qed

section \<open>The review that reaches the client\<close>

text \<open>What the client is given for one prepared comment.\<close>

definition submitted_comment :: "pr_review_comment \<Rightarrow> review_comment_input" where
  "submitted_comment c =
     \<lparr>rc_path = rv_path c, rc_body = rv_body c, rc_line = rv_line c, rc_side = ''RIGHT'',
      rc_start_line = rv_start_line c, rc_start_side = ''RIGHT''\<rparr>"

text \<open>A comment as the tool reads it back: the start side is sent with a start line only.\<close>

definition as_sent :: "pr_review_comment \<Rightarrow> pr_review_comment" where
  "as_sent c = (if rv_start_line c = None then c\<lparr>rv_start_side := []\<rparr> else c)"

lemma as_sent_fields [simp]:
  "rv_path (as_sent c) = rv_path c" "rv_body (as_sent c) = rv_body c" "rv_line (as_sent c) = rv_line c"
  "rv_side (as_sent c) = rv_side c" "rv_start_line (as_sent c) = rv_start_line c"
  by (simp_all add: as_sent_def)

lemma dget_Cons: "dget ((k, v) # d) k' x = (if k' = k then v else dget d k' x)"
  by (simp add: dget_def)

lemma dget_Nil: "dget [] k x = x"
  by (simp add: dget_def)

lemma optional_int_opt: "optional_int (opt_json x) = Inr x"
  by (cases x) (simp_all add: optional_int_def opt_json_def py_str_def)

lemma comment_input_back:
  assumes "rv_side c = ''RIGHT''"
  shows "review_comment_from_raw (comment_to_input c) = Inr (as_sent c)"
proof (cases c)
  case (fields path body line side start_line start_side)
  have none: "optional_int JNull = Inr None" and some: "optional_int (JInt x) = Inr (Some x)" for x
    using optional_int_opt [of None] optional_int_opt [of "Some x"] by (simp_all add: opt_json_def)
  show ?thesis using assms
    by (cases start_line; cases line)
      (simp_all add: fields comment_to_input_def dget_Cons dget_Nil as_sent_def opt_json_def none some)
qed

lemma with_attribution_same: "with_attribution c = c \<longleftrightarrow> with_attribution_text (rv_body c) = rv_body c"
  by (cases c) (simp add: with_attribution_def)

lemma mapR_map: "(\<And>x. x \<in> set xs \<Longrightarrow> f (g x) = Inr (h x)) \<Longrightarrow> mapR f (map g xs) = Inr (map h xs)"
  by (induction xs) auto

lemma valid_as_sent:
  "is_mapped c \<and> valid_location c \<and> with_attribution c = c \<Longrightarrow>
   is_mapped (as_sent c) \<and> valid_location (as_sent c) \<and> with_attribution (as_sent c) = as_sent c \<and>
   to_client_input (as_sent c) = Inr (submitted_comment c)"
  by (cases "rv_start_line c")
    (auto simp: is_mapped_def valid_location_def with_attribution_same as_sent_def to_client_input_def
      submitted_comment_def split: option.splits)

lemma prepare_review_ready:
  assumes "prepare_review p cid = Inr q"
  shows "attributed (rp_body q)" "rp_event q = ''COMMENT''" "rp_head_sha q = rp_head_sha p"
    "rp_repo_full_name q = rp_repo_full_name p" "rp_pr_number q = rp_pr_number p"
    "\<And>c. c \<in> set (rp_comments q) \<Longrightarrow> is_mapped c \<and> valid_location c \<and> with_attribution c = c"
proof -
  from assms obtain q0 where q0: "prepared_for_submission p = Inr q0" and q: "q = with_correlation_id q0 cid"
    by (auto simp: prepare_review_def)
  note r = prepared_ready [OF q0]
  show "attributed (rp_body q)" unfolding q by (rule attributed_correlation [OF r(1)])
  show "rp_event q = ''COMMENT''" using r(2) by (simp add: q)
  show "rp_head_sha q = rp_head_sha p" "rp_repo_full_name q = rp_repo_full_name p"
    "rp_pr_number q = rp_pr_number p" using q0 by (auto simp: q prepared_Inr)
  show "is_mapped c \<and> valid_location c \<and> with_attribution c = c" if "c \<in> set (rp_comments q)" for c
    using r(3) that by (simp add: q)
qed

lemma review_call_read_back:
  assumes q: "prepare_review p cid = Inr q" and repo: "rp_repo_full_name p = owner @ ''/'' @ repo"
  shows "from_tool_input (AList.update ''pr_number'' (JInt (rp_pr_number p))
      (AList.update ''repo_full_name'' (JStr (owner @ ''/'' @ repo)) (tc_input (review_call q cid)))) =
    Inr (q\<lparr>rp_comments := map as_sent (rp_comments q)\<rparr>)"
proof -
  note r = prepare_review_ready [OF q]
  have "rv_side c = ''RIGHT''" if "c \<in> set (rp_comments q)" for c
    using r(6) [OF that] by (auto simp: valid_location_def split: option.splits)
  then have "mapR review_comment_from_raw (map comment_to_input (rp_comments q)) = Inr (map as_sent (rp_comments q))"
    by (intro mapR_map comment_input_back)
  then show ?thesis
    using r(2-5) repo
    by (simp add: from_tool_input_def review_call_def output_call_def dget_Cons dget_Nil)
qed

text \<open>C24. The review that reaches GitHub is the prepared one: for a review whose repository is
  \<open>owner/repo\<close> and whose number is positive, running the review tool on the input the poster
  builds calls the client once, with that owner, repository and number, the prepared body (which
  carries the attribution and the correlation marker), the head the review was made for, the event
  COMMENT, and the prepared comments, all on the right side.\<close>

theorem submitted_review:
  assumes "prepare_review p cid = Inr q"
    and "rp_repo_full_name p = owner @ ''/'' @ repo"
    and "owner \<noteq> [] \<and> repo \<noteq> [] \<and> CHR ''/'' \<notin> set owner \<and> CHR ''/'' \<notin> set repo"
    and "0 < rp_pr_number p"
  shows "contains (correlation_marker cid) (rp_body q) \<and> contains ''Generated by Qaestro'' (rp_body q) \<and>
    create_pull_request_review client (review_call q cid) w =
      bindS (gc_create_pull_request_review client owner repo (rp_pr_number p) (rp_body q) (rp_head_sha p)
               ''COMMENT'' (map submitted_comment (rp_comments q)))
            (\<lambda>r. retS (ObjReview r)) w"
proof -
  note r = prepare_review_ready [OF assms(1)]
  let ?q = "q\<lparr>rp_comments := map as_sent (rp_comments q)\<rparr>"
  have input: "repo_pr_input (review_call q cid) = Inr (owner, repo, rp_pr_number p)"
    using assms(3,4) r(4,5) assms(2) split_repo_ok [of owner repo]
    by (simp add: repo_pr_input_def repo_input_def review_call_def output_call_def dget_Cons positive_int_def)
  have readback: "from_tool_input (AList.update ''pr_number'' (JInt (rp_pr_number p))
      (AList.update ''repo_full_name'' (JStr (owner @ ''/'' @ repo)) (tc_input (review_call q cid)))) = Inr ?q"
    by (rule review_call_read_back [OF assms(1,2)])
  have prepared: "prepared_for_submission ?q = Inr ?q"
    using r valid_as_sent by (intro prepared_fixed) auto
  have comments: "to_client_comments ?q = Inr (map submitted_comment (rp_comments q))"
    unfolding to_client_comments_def using r(6) valid_as_sent by (simp, intro mapR_map) blast
  have "contains (correlation_marker cid) (rp_body q)"
    using assms(1) by (auto simp: prepare_review_def correlation_marked)
  with r(1) show ?thesis
    by (simp add: create_pull_request_review_def act_simps input readback [unfolded append_Cons append_Nil] prepared comments r(2,3) attributed_def)
qed

theorem submitted_review_witness:
  "rr_body (hd (snd (snd (create_pull_request_review sample_client (review_call sample_prepared ''corr'') ([], [])))))
     = rp_body sample_prepared"
proof -
  have "rp_repo_full_name sample_review = ''o'' @ ''/'' @ ''r''" "0 < rp_pr_number sample_review"
    by (simp_all add: sample_review_def)
  then have eq: "create_pull_request_review sample_client (review_call sample_prepared ''corr'') ([], []) =
      bindS (gc_create_pull_request_review sample_client ''o'' ''r'' (rp_pr_number sample_review)
               (rp_body sample_prepared) (rp_head_sha sample_review)
               ''COMMENT'' (map submitted_comment (rp_comments sample_prepared)))
            (\<lambda>r. retS (ObjReview r)) ([], [])"
    using submitted_review [OF sample_prepared, of "''o''" "''r''" sample_client "([], [])"] by simp
  show ?thesis unfolding eq by (simp add: sample_client_def act_simps Let_def)
qed

section \<open>One managed comment\<close>

text \<open>
  What GitHub documents of the issue comments of one pull request, for a client that did not fail:
  \<open>view\<close> is the list of comments; listing returns it, creating appends a comment with a fresh id,
  updating replaces the body of the comment with that id.
\<close>

definition comment_service ::
  "'w github_client \<Rightarrow> string \<Rightarrow> string \<Rightarrow> int \<Rightarrow> ('w \<Rightarrow> comment_result list) \<Rightarrow> bool" where
  "comment_service client owner repo n view \<longleftrightarrow>
     (\<forall>w. gc_list_issue_comments client owner repo n w = (Inr (view w), w)) \<and>
     (\<forall>w b. \<exists>c w'. gc_create_issue_comment client owner repo n b w = (Inr c, w') \<and>
        view w' = view w @ [c] \<and> cr_body c = b \<and> cr_id c \<notin> cr_id ` set (view w)) \<and>
     (\<forall>w i b. i \<in> cr_id ` set (view w) \<longrightarrow>
        (\<exists>c w'. gc_update_issue_comment client owner repo i b w = (Inr c, w') \<and>
           view w' = map (set_body i b) (view w) \<and> cr_id c = i \<and> cr_body c = b))"

lemma persisted_contains: "marker \<noteq> [] \<Longrightarrow> contains marker (persisted_comment_body body marker)"
  by (auto simp: persisted_comment_body_def intro: contains_appendI1)

lemma filter_set_body:
  assumes "distinct (map cr_id cs)" and "find (\<lambda>c. P (cr_body c)) cs = Some c" and "P b"
  shows "length (filter (\<lambda>c. P (cr_body c)) (map (set_body (cr_id c) b) cs)) =
           length (filter (\<lambda>c. P (cr_body c)) cs)"
    and "filter (\<lambda>c. \<not> P (cr_body c)) (map (set_body (cr_id c) b) cs) = filter (\<lambda>c. \<not> P (cr_body c)) cs"
    and "map cr_id (map (set_body (cr_id c) b) cs) = map cr_id cs"
proof -
  from find_SomeD [OF assms(2)] have c: "c \<in> set cs" "P (cr_body c)" by auto
  have "P (cr_body (set_body (cr_id c) b x)) = P (cr_body x)" if "x \<in> set cs" for x
    using assms(1,3) c that by (auto simp: set_body_def distinct_map inj_on_def)
  moreover have "set_body (cr_id c) b x = x" if "x \<in> set cs" "\<not> P (cr_body x)" for x
    using assms(1) c that by (auto simp: set_body_def distinct_map inj_on_def)
  ultimately show "length (filter (\<lambda>c. P (cr_body c)) (map (set_body (cr_id c) b) cs)) =
           length (filter (\<lambda>c. P (cr_body c)) cs)"
    and "filter (\<lambda>c. \<not> P (cr_body c)) (map (set_body (cr_id c) b) cs) = filter (\<lambda>c. \<not> P (cr_body c)) cs"
    by (simp_all add: filter_map comp_def cong: filter_cong) (rule map_idI, simp)
  show "map cr_id (map (set_body (cr_id c) b) cs) = map cr_id cs"
    by (simp add: set_body_def)
qed

text \<open>There is one managed summary comment: posting a comment with a marker to a service that
  behaves as documented, whose comments have distinct ids, returns a comment holding the persisted
  body, which contains the marker; afterwards the comments with the marker are as many as before, or
  one if there was none; the other comments are untouched; and ids stay distinct.\<close>

lemma comment_upsert:
  assumes "comment_service client owner repo n view" and "distinct (map cr_id (view w))"
    and "repo_pr_input call = Inr (owner, repo, n)"
    and "marker = strip (py_str (dget (tc_input call) ''marker'' (JStr [])))" and "marker \<noteq> []"
  shows "(let body = persisted_comment_body (py_str (dget (tc_input call) ''body'' (JStr []))) marker;
        managed = (\<lambda>c. contains marker (cr_body c))
    in \<exists>c w'. create_or_update_comment client call w = (Inr (ObjComment c), w') \<and>
         cr_body c = body \<and> contains marker body \<and>
         length (filter managed (view w')) = max 1 (length (filter managed (view w))) \<and>
         filter (\<lambda>c. \<not> managed c) (view w') = filter (\<lambda>c. \<not> managed c) (view w) \<and>
         distinct (map cr_id (view w')))"
proof -
  let ?body = "persisted_comment_body (py_str (dget (tc_input call) ''body'' (JStr []))) marker"
  have m: "contains marker ?body" using assms(5) by (rule persisted_contains)
  have mk: "strip (py_str (dget (tc_input call) ''marker'' (JStr []))) = marker" using assms(4) by simp
  have listing: "gc_list_issue_comments client owner repo n w = (Inr (view w), w)"
    using assms(1) by (simp add: comment_service_def)
  show ?thesis
  proof (cases "find (\<lambda>c. contains marker (cr_body c)) (view w)")
    case None
    from assms(1) obtain c w' where c: "gc_create_issue_comment client owner repo n ?body w = (Inr c, w')"
      "view w' = view w @ [c]" "cr_body c = ?body" "cr_id c \<notin> cr_id ` set (view w)"
      unfolding comment_service_def by blast
    have "filter (\<lambda>c. contains marker (cr_body c)) (view w) = []"
      using None by (auto simp: find_None_iff filter_empty_conv)
    with None c m listing assms(2,3,5) show ?thesis
      by (simp add: create_or_update_comment_def act_simps Let_def mk)
  next
    case (Some old)
    from find_SomeD [OF this] have old: "old \<in> set (view w)" "contains marker (cr_body old)" by auto
    then have "cr_id old \<in> cr_id ` set (view w)" by simp
    with assms(1) obtain c w' where c: "gc_update_issue_comment client owner repo (cr_id old) ?body w = (Inr c, w')"
      "view w' = map (set_body (cr_id old) ?body) (view w)" "cr_body c = ?body"
      unfolding comment_service_def by blast
    have "filter (\<lambda>c. contains marker (cr_body c)) (view w) \<noteq> []"
      using old by (auto simp: filter_empty_conv)
    then have "1 \<le> length (filter (\<lambda>c. contains marker (cr_body c)) (view w))"
      by (cases "filter (\<lambda>c. contains marker (cr_body c)) (view w)") auto
    moreover have "create_or_update_comment client call w = (Inr (ObjComment c), w')"
      using Some c listing assms(3,5) by (simp add: create_or_update_comment_def act_simps Let_def mk)
    moreover note f = filter_set_body(1,2) [OF assms(2), of "contains marker", OF Some m]
    moreover have "distinct (map cr_id (view w'))"
      using filter_set_body(3) [OF assms(2), of "contains marker", OF Some m] assms(2) by (simp only: c(2))
    ultimately show ?thesis using c m by (simp add: Let_def max_def)
  qed
qed

lemma next_id_fresh: "c \<in> set cs \<Longrightarrow> cr_id c < next_id cs"
  by (induction cs) (auto simp: next_id_def)

lemma sample_comment_service: "comment_service sample_client owner repo n fst"
  using next_id_fresh by (fastforce simp: comment_service_def sample_client_def Let_def)

definition sample_comment :: pr_comment_payload where
  "sample_comment = \<lparr>cp_repo_full_name = ''o/r'', cp_pr_number = 7, cp_body = ''Report''\<rparr>"

lemma comment_upsert_witness:
  "\<exists>c w'. create_or_update_comment sample_client (comment_call sample_comment ''corr'') ([], []) = (Inr (ObjComment c), w') \<and>
     length (fst w') = 1"
proof -
  let ?call = "comment_call sample_comment ''corr''"
  let ?marker = "strip (py_str (dget (tc_input ?call) ''marker'' (JStr [])))"
  have "repo_pr_input ?call = Inr (''o'', ''r'', 7)" "?marker \<noteq> []" by code_simp+
  from comment_upsert [OF sample_comment_service _ this(1) refl this(2), of "([], [])"]
  obtain c w' where u: "create_or_update_comment sample_client ?call ([], []) = (Inr (ObjComment c), w')"
    "length (filter (\<lambda>c. contains ?marker (cr_body c)) (fst w')) = 1"
    "filter (\<lambda>c. \<not> contains ?marker (cr_body c)) (fst w') = []"
    by (auto simp: Let_def)
  then have "length (fst w') = 1"
    using sum_length_filter_compl [of "\<lambda>c. contains ?marker (cr_body c)" "fst w'"] by simp
  with u show ?thesis by blast
qed

section \<open>The renderer and the poster agree on the marker\<close>

lemma join_append:
  "xs \<noteq> [] \<Longrightarrow> ys \<noteq> [] \<Longrightarrow> join sep (xs @ ys) = join sep xs @ sep @ join sep ys"
  by (induction sep xs rule: join.induct) (auto simp: neq_Nil_conv)

text \<open>The renderer and the poster agree on what identifies the managed comment: a rendered report
  contains the marker the poster looks for, so its body is persisted as it was rendered and the next
  report of the same pull request replaces it; rendering fails only without a pull request number.\<close>

lemma rendered_report_marked:
  "(case render report cid triage feedback of
      Inl e \<Rightarrow> qr_pr_number report = None \<and> exn_class e = ValueError
    | Inr payload \<Rightarrow>
        (let marker = strip (qaestro_comment_marker (cp_repo_full_name payload) (cp_pr_number payload))
         in qr_pr_number report = Some (cp_pr_number payload) \<and> contains marker (cp_body payload) \<and>
            persisted_comment_body (cp_body payload) marker = cp_body payload))"
proof (cases "qr_pr_number report")
  case (Some pr)
  let ?m = "qaestro_comment_marker (qr_repo_full_name report) pr"
  have strip: "strip ?m = ?m"
    by (rule strip_keep) (simp_all add: qaestro_comment_marker_def code_def is_space_def)
  obtain payload rest where p: "render report cid triage feedback = Inr payload"
    "cp_repo_full_name payload = qr_repo_full_name report" "cp_pr_number payload = pr"
    "cp_body payload = join nl ([''## Behaviour Impact Report'', []] @
       [''Repository: '' @ code (qr_repo_full_name report), ''Pull request: '' @ code (''#'' @ show_int pr)] @
       (''Event: '' @ code (qr_event_id report)) # rest)"
    unfolding render_def Some by (simp del: join.simps)
  have j: "join nl (xs @ [x, y] @ z # zs) = (join nl xs @ nl) @ (x @ nl @ y) @ (nl @ join nl (z # zs))"
    if "xs \<noteq> []" for xs x y z zs
    using that by (simp add: join_append)
  have jm: "contains (x @ nl @ y) (join nl (xs @ [x, y] @ z # zs))" if "xs \<noteq> []" for xs x y z zs
    unfolding j [OF that] by (rule contains_middle)
  have m: "?m = (''Repository: '' @ code (qr_repo_full_name report)) @ nl @ ''Pull request: '' @ code (''#'' @ show_int pr)"
    by (simp add: qaestro_comment_marker_def)
  have "contains ?m (cp_body payload)"
    unfolding p(4) m by (rule jm) simp
  with Some p strip show ?thesis by (simp add: persisted_comment_body_def)
qed (simp add: render_def)

end
