(* ===== verification/Context_Tools.thy ===== *)
theory Context_Tools
  imports Aggregate_Facts Analyzer Output_Facts
begin

text \<open>
  Collecting context: the providers of \<open>src/runtime/orchestrator/tool_context.py\<close>, which read the
  pull request, its checks and the jobs of a workflow run through a tool runtime \<open>run\<close>, and the
  fallback provider of \<open>pr_context.py\<close>, which reads the event only.
\<close>

section \<open>Results of a tool\<close>

fun as_pr_meta :: "py_object \<Rightarrow> pr_meta option" where
  "as_pr_meta (ObjPRMeta m) = Some m"
| "as_pr_meta _ = None"

fun as_str :: "py_object \<Rightarrow> string option" where
  "as_str (ObjText t) = Some t"
| "as_str _ = None"

fun as_tuple :: "py_object \<Rightarrow> py_object list option" where
  "as_tuple (ObjTuple xs) = Some xs"
| "as_tuple _ = None"

fun as_file_diff :: "py_object \<Rightarrow> file_diff option" where
  "as_file_diff (ObjFileDiff f) = Some f"
| "as_file_diff _ = None"

fun as_actions_job :: "py_object \<Rightarrow> actions_job_result option" where
  "as_actions_job (ObjActionsJob j) = Some j"
| "as_actions_job _ = None"

fun as_check_run :: "py_object \<Rightarrow> check_run_result option" where
  "as_check_run (ObjCheckRun c) = Some c"
| "as_check_run _ = None"

text \<open>\<open>_expect_output\<close>; \<open>isinstance\<close> against the expected type is the function \<open>as\<close>.\<close>

definition expect_output :: "(py_object \<Rightarrow> 'a option) \<Rightarrow> tool_result \<Rightarrow> 'a res" where
  "expect_output as result =
     (if \<not> tr_ok result then
        Inl (Exn RuntimeError
          (if tr_error result \<noteq> [] then tr_error result
           else ''tool '' @ repr_str (tc_name (tr_call result)) @ '' failed''))
      else (case as (tr_output result) of
              None \<Rightarrow> Inl (Exn TypeError
                (''tool '' @ repr_str (tc_name (tr_call result)) @ '' returned unexpected output type''))
            | Some x \<Rightarrow> Inr x))"

text \<open>A tuple all of whose items have the expected type.\<close>

definition expect_tuple_of :: "string \<Rightarrow> (py_object \<Rightarrow> 'a option) \<Rightarrow> py_object \<Rightarrow> 'a list res" where
  "expect_tuple_of name as output =
     (case as_tuple output of
        None \<Rightarrow> Inl (unexpected_output name)
      | Some items \<Rightarrow>
          if list_all (\<lambda>item. as item \<noteq> None) items then Inr (map (\<lambda>item. the (as item)) items)
          else Inl (unexpected_output name))"

definition expect_file_tuple :: "py_object \<Rightarrow> file_diff list res" where
  "expect_file_tuple = expect_tuple_of ''github.pr.files'' as_file_diff"

definition expect_actions_job_tuple :: "py_object \<Rightarrow> actions_job_result list res" where
  "expect_actions_job_tuple = expect_tuple_of ''github.actions.run.jobs'' as_actions_job"

definition expect_check_run_tuple :: "py_object \<Rightarrow> check_run_result list res" where
  "expect_check_run_tuple = expect_tuple_of ''github.checks.runs_for_ref'' as_check_run"

definition context_call :: "string \<Rightarrow> json dict \<Rightarrow> string \<Rightarrow> tool_call" where
  "context_call name input cid =
     \<lparr>tc_stage = CONTEXT, tc_name = name, tc_input = input, tc_correlation_id = cid\<rparr>"

section \<open>Checks\<close>

definition load_checks ::
  "(tool_call \<Rightarrow> ('s, tool_result) act) \<Rightarrow> string \<Rightarrow> string \<Rightarrow> string \<Rightarrow> ('s, check_run_snapshot list) act" where
  "load_checks run repo_full_name head_sha correlation_id =
     bindS (run (context_call ''github.checks.runs_for_ref''
        [(''repo_full_name'', JStr repo_full_name), (''ref'', JStr head_sha)] correlation_id)) (\<lambda>result.
     bindS (liftS (require_ok ''github.checks.runs_for_ref failed'' result)) (\<lambda>output.
     bindS (liftS (expect_check_run_tuple output)) (\<lambda>checks.
     retS (map snapshot_from_result checks))))"

section \<open>Pull request\<close>

text \<open>
  \<open>_first_added_line_from_patch\<close>; its loop and its reading of hunk headers repeat those of the
  analyzer (\<open>scan_patch\<close>).
\<close>

definition first_added_line_of :: "string option \<Rightarrow> int option" where
  "first_added_line_of patch =
     (case patch of None \<Rightarrow> None
      | Some p \<Rightarrow> if p = [] then None else scan_patch None (splitlines p))"

definition normalize_file :: "file_diff \<Rightarrow> pr_file_diff" where
  "normalize_file f =
     \<lparr>fd_path = gf_filename f, fd_status = normalize_file_status (gf_status f),
      fd_additions = gf_additions f, fd_deletions = gf_deletions f, fd_patch = gf_patch f,
      fd_previous_filename = gf_previous_filename f, fd_first_added_line = first_added_line_of (gf_patch f)\<rparr>"

definition event_input :: "string pr_event \<Rightarrow> json dict" where
  "event_input event =
     [(''repo_full_name'', JStr (pe_repo_full_name event)), (''pr_number'', JInt (pe_pr_number event))]"

definition event_call :: "string \<Rightarrow> string pr_event \<Rightarrow> tool_call" where
  "event_call name event = context_call name (event_input event) (em_correlation_id (pe_meta event))"

definition analysis_context ::
  "string pr_event \<Rightarrow> pr_meta \<Rightarrow> file_diff list \<Rightarrow> string \<Rightarrow> pr_analysis_context" where
  "analysis_context event meta files unified_diff =
     \<lparr>ax_repo_full_name = pe_repo_full_name event, ax_pr_number = pe_pr_number event,
      ax_title = or_text (pm_title meta) (pe_title event),
      ax_body = or_text (pm_body meta) (pe_body event),
      ax_base_branch = or_text (pm_base_ref meta) (pe_base_branch event),
      ax_head_branch = or_text (pm_head_ref meta) (pe_head_branch event),
      ax_files = map normalize_file files, ax_unified_diff = unified_diff\<rparr>"

definition load_pr_context ::
  "(tool_call \<Rightarrow> ('s, tool_result) act) \<Rightarrow> string pr_event \<Rightarrow> ('s, pr_analysis_context) act" where
  "load_pr_context run event =
     bindS (run (event_call ''github.pr.view'' event)) (\<lambda>view.
     bindS (liftS (expect_output as_pr_meta view)) (\<lambda>meta.
     bindS (run (event_call ''github.pr.files'' event)) (\<lambda>listed.
     bindS (liftS (expect_output (\<lambda>x. map_option ObjTuple (as_tuple x)) listed)) (\<lambda>items.
     bindS (liftS (expect_file_tuple items)) (\<lambda>files.
     bindS (run (event_call ''github.pr.diff'' event)) (\<lambda>diff.
     bindS (liftS (expect_output as_str diff)) (\<lambda>unified_diff.
     retS (analysis_context event meta files unified_diff))))))))"

text \<open>The fallback: no patch, no line, no diff.\<close>

definition normalize_event_file :: "string file_change \<Rightarrow> pr_file_diff" where
  "normalize_event_file f =
     \<lparr>fd_path = fc_path f, fd_status = normalize_file_status (fc_status f),
      fd_additions = fc_additions f, fd_deletions = fc_deletions f, fd_patch = None,
      fd_previous_filename = fc_previous_filename f, fd_first_added_line = None\<rparr>"

definition load_event_context :: "string pr_event \<Rightarrow> pr_analysis_context" where
  "load_event_context event =
     \<lparr>ax_repo_full_name = pe_repo_full_name event, ax_pr_number = pe_pr_number event,
      ax_title = pe_title event, ax_body = pe_body event, ax_base_branch = pe_base_branch event,
      ax_head_branch = pe_head_branch event, ax_files = map normalize_event_file (pe_files_changed event),
      ax_unified_diff = []\<rparr>"

section \<open>Workflow run\<close>

definition failed_job_names :: "actions_job_result list \<Rightarrow> string list" where
  "failed_job_names jobs =
     map aj_name (filter (\<lambda>j. aj_name j \<noteq> [] \<and>
       lower (aj_conclusion j) \<in> {''failure'', ''timed_out'', ''startup_failure''}) jobs)"

text \<open>The output is read without a look at \<open>ok\<close>: a failed call, whose output is \<open>None\<close>, raises
  \<open>TypeError\<close>.\<close>

definition jobs_call :: "string ci_completed \<Rightarrow> int \<Rightarrow> tool_call" where
  "jobs_call event run_id = context_call ''github.actions.run.jobs''
     [(''repo_full_name'', JStr (ci_repo_full_name event)), (''run_id'', JInt run_id)]
     (em_correlation_id (ci_meta event))"

definition load_ci_context ::
  "(tool_call \<Rightarrow> ('s, tool_result) act) \<Rightarrow> string ci_completed \<Rightarrow> ('s, string ci_completed) act" where
  "load_ci_context run event =
     (case (ci_pr_number event, ci_failed_jobs event, ci_run_id event) of
        (Some _, [], Some run_id) \<Rightarrow>
          bindS (run (jobs_call event run_id)) (\<lambda>result.
          bindS (liftS (expect_actions_job_tuple (tr_output result))) (\<lambda>jobs.
          (let failed_jobs = failed_job_names jobs
           in if failed_jobs = [] then retS event else retS (event\<lparr>ci_failed_jobs := failed_jobs\<rparr>))))
      | _ \<Rightarrow> retS event)"

end
