(* ===== verification/Wiring.thy ===== *)
theory Wiring
  imports Context_Tools
begin

text \<open>
  The tool runtime of a durable worker, \<open>_build_github_tool_runtime\<close> and
  \<open>_build_github_client\<close> of \<open>src/app/worker/factory.py\<close>, and what the context providers do
  over it: each is a plain sequence of client calls (\<open>simulates\<close>).
\<close>

section \<open>The worker's tools\<close>

definition context_tools :: "string list" where
  "context_tools = [''github.pr.view'', ''github.pr.files'', ''github.pr.diff'', ''github.actions.run.jobs'',
     ''github.checks.runs_for_ref'']"

definition output_tools_allowed :: "string list" where
  "output_tools_allowed = [''github.pr.view'', ''github.pr.comment.create_or_update'', ''github.pr.review.list'',
     ''github.pr.review.create'']"

definition worker_tool_policy :: stage_tool_policy where
  "worker_tool_policy =
     \<lparr>sp_allowed_tools_by_stage = [(CONTEXT, context_tools), (OUTPUT, output_tools_allowed)],
      sp_allow_destructive = False\<rparr>"

definition build_github_tool_runtime :: "'w github_client \<Rightarrow> 'w registered_tool_runtime" where
  "build_github_tool_runtime client = registered_runtime (build_github_pr_tools client) worker_tool_policy"

text \<open>
  The checks of \<open>_build_github_client\<close>, in their order; \<open>read_text\<close> reads the key file and
  \<open>build\<close> constructs the client.
\<close>

record github_app_settings =
  gs_app_id :: int
  gs_installation_id :: int
  gs_private_key_path :: string

definition required_setting :: "string \<Rightarrow> exn" where
  "required_setting name = Exn ValueError (name @ '' must be set for durable worker queues'')"

definition build_github_client ::
  "(string \<Rightarrow> string res) \<Rightarrow> (int \<Rightarrow> int \<Rightarrow> string \<Rightarrow> 'c) \<Rightarrow> github_app_settings \<Rightarrow> 'c res" where
  "build_github_client read_text build cfg =
     (if gs_app_id cfg \<le> 0 then Inl (required_setting ''QAESTRO_GITHUB_APP_ID'')
      else if gs_installation_id cfg \<le> 0 then Inl (required_setting ''QAESTRO_GITHUB_APP_INSTALLATION_ID'')
      else if gs_private_key_path cfg = [] then Inl (required_setting ''QAESTRO_GITHUB_APP_PRIVATE_KEY_PATH'')
      else bindR (read_text (gs_private_key_path cfg)) (\<lambda>private_key.
             Inr (build (gs_app_id cfg) (gs_installation_id cfg) private_key)))"

section \<open>What a wired call does\<close>

lemma wired_tool:
  "map_of (rt_tools (build_github_tool_runtime client)) name =
     map_of (map (\<lambda>t. (td_name t, t)) (build_github_pr_tools client)) name"
  by (simp add: build_github_tool_runtime_def registered_runtime_def tool_table_def build_github_pr_tools_def
      github_tool_def)

lemma wired_allowed:
  "allowed_tools (rt_policy (build_github_tool_runtime client)) stage =
     (if stage = CONTEXT then context_tools else if stage = OUTPUT then output_tools_allowed else [])"
  by (simp add: build_github_tool_runtime_def registered_runtime_def worker_tool_policy_def allowed_tools_def)

text \<open>What a call to an allowed tool makes of its handler.\<close>

definition tool_step ::
  "(tool_call \<Rightarrow> ('w, py_object) act) \<Rightarrow> tool_call \<Rightarrow> ('w runtime_state, tool_result) act" where
  "tool_step handler call s =
     (case handler call (rs_world s) of
        (Inl exc, w) \<Rightarrow>
          (Inr \<lparr>tr_call = call, tr_ok = False, tr_output = ObjNone, tr_error = exn_msg exc\<rparr>,
           \<lparr>rs_audit_log = rs_audit_log s @ [audit_entry call False (exn_msg exc)], rs_world = w\<rparr>)
      | (Inr output, w) \<Rightarrow>
          (Inr \<lparr>tr_call = call, tr_ok = True, tr_output = output, tr_error = []\<rparr>,
           \<lparr>rs_audit_log = rs_audit_log s @ [audit_entry call True []], rs_world = w\<rparr>))"

lemma wired_execute:
  assumes "map_of (map (\<lambda>t. (td_name t, t)) (build_github_pr_tools client)) (tc_name call) =
      Some (github_tool name capability handler)"
    and "capability = READ \<or> capability = WRITE"
    and "tc_stage call = CONTEXT \<and> tc_name call \<in> set context_tools \<or>
      tc_stage call = OUTPUT \<and> tc_name call \<in> set output_tools_allowed"
  shows "execute (build_github_tool_runtime client) call s = tool_step handler call s"
proof -
  let ?def = "github_tool name capability handler"
  have "check_policy (rt_policy (build_github_tool_runtime client)) call ?def = Inr ()"
    using assms(2,3) by (auto simp: check_policy_Inr denial_reason_Nil wired_allowed github_tool_def)
  then show ?thesis
    using assms(1) by (simp add: execute_def wired_tool tool_step_def)
qed

lemma wired_call:
  "execute (build_github_tool_runtime client) (context_call ''github.pr.view'' i c) =
     tool_step (get_pull_request client) (context_call ''github.pr.view'' i c)"
  "execute (build_github_tool_runtime client) (context_call ''github.pr.files'' i c) =
     tool_step (list_pull_request_files client) (context_call ''github.pr.files'' i c)"
  "execute (build_github_tool_runtime client) (context_call ''github.pr.diff'' i c) =
     tool_step (get_pull_request_diff client) (context_call ''github.pr.diff'' i c)"
  "execute (build_github_tool_runtime client) (context_call ''github.actions.run.jobs'' i c) =
     tool_step (list_workflow_run_jobs client) (context_call ''github.actions.run.jobs'' i c)"
  "execute (build_github_tool_runtime client) (context_call ''github.checks.runs_for_ref'' i c) =
     tool_step (list_check_runs_for_ref client) (context_call ''github.checks.runs_for_ref'' i c)"
  by (rule ext, rule wired_execute,
      simp add: build_github_pr_tools_def context_call_def github_tool_def,
      simp, simp add: context_call_def context_tools_def)+

section \<open>Refinement to client calls\<close>

text \<open>
  \<open>simulates m m'\<close>: over the runtime's state \<open>m\<close> has the outcome, and the effect on the world,
  that \<open>m'\<close> has on the world alone; the audit log is left out.
\<close>

definition simulates :: "('w runtime_state, 'a) act \<Rightarrow> ('w, 'a) act \<Rightarrow> bool" where
  "simulates m m' \<longleftrightarrow> (\<forall>s. map_prod id rs_world (m s) = m' (rs_world s))"

lemma simulates_ret: "simulates (retS x) (retS x)"
  by (simp add: simulates_def act_simps)

lemma simulates_lift:
  assumes "\<And>x. r = Inr x \<Longrightarrow> simulates (k x) (k' x)"
  shows "simulates (bindS (liftS r) k) (bindS (liftS r) k')"
  using assms by (cases r) (auto simp: simulates_def act_simps)

lemma simulatesD: "simulates m m' \<Longrightarrow> m s = (x, t) \<Longrightarrow> m' (rs_world s) = (x, rs_world t)"
  by (auto simp: simulates_def dest: spec [of _ s])

text \<open>A client call made through a tool: what it raises becomes \<open>RuntimeError\<close> with its message.\<close>

definition reading :: "string \<Rightarrow> ('w, 'a) act \<Rightarrow> ('w, 'a) act" where
  "reading fallback m = tryS m (\<lambda>e. raiseS (Exn RuntimeError (or_text (exn_msg e) fallback)))"

lemma simulates_tool:
  fixes m :: "('w, 'b) act"
  assumes "\<And>s. run call s = tool_step handler call s"
    and "handler call = bindS m (\<lambda>x. retS (obj x))"
    and "\<And>r. \<not> tr_ok r \<Longrightarrow> tr_call r = call \<Longrightarrow>
      accept r = Inl (Exn RuntimeError (or_text (tr_error r) fallback))"
    and "\<And>r x. tr_ok r \<Longrightarrow> tr_output r = obj x \<Longrightarrow> accept r = Inr (g x)"
    and "\<And>x. simulates (k (g x)) (k' x)"
  shows "simulates (bindS (run call) (\<lambda>r. bindS (liftS (accept r)) k)) (bindS (reading fallback m) k')"
  unfolding simulates_def
proof
  fix s :: "'w runtime_state"
  obtain x w where m: "m (rs_world s) = (x, w)" by fastforce
  show "map_prod id rs_world (bindS (run call) (\<lambda>r. bindS (liftS (accept r)) k) s) =
      bindS (reading fallback m) k' (rs_world s)"
  proof (cases x)
    case (Inl e)
    then show ?thesis
      by (simp add: assms(1,2) tool_step_def m act_simps reading_def assms(3))
  next
    case (Inr y)
    have "map_prod id rs_world (k (g y) t) = k' y (rs_world t)" for t
      using assms(5) [of y] by (simp add: simulates_def)
    with Inr show ?thesis
      by (simp add: assms(1,2) tool_step_def m act_simps reading_def assms(4))
  qed
qed

lemma expect_output_failed:
  "\<not> tr_ok r \<Longrightarrow> tr_call r = call \<Longrightarrow>
     expect_output as r = Inl (Exn RuntimeError (or_text (tr_error r) (''tool '' @ repr_str (tc_name call) @ '' failed'')))"
  by (simp add: expect_output_def or_text_def)

lemma expect_output_ok:
  "tr_ok r \<Longrightarrow> tr_output r = y \<Longrightarrow> as y = Some z \<Longrightarrow> expect_output as r = Inr z"
  by (simp add: expect_output_def)

lemma require_ok_failed:
  "\<not> tr_ok r \<Longrightarrow> require_ok fallback r = Inl (Exn RuntimeError (or_text (tr_error r) fallback))"
  by (simp add: require_ok_def or_text_def)

lemma expect_tuple_map:
  "(\<And>x. as (f x) = Some x) \<Longrightarrow> expect_tuple_of name as (ObjTuple (map f xs)) = Inr xs"
  by (simp add: expect_tuple_of_def list_all_iff comp_def)

lemma bindS_assoc: "bindS (bindS m f) g = bindS m (\<lambda>x. bindS (f x) g)"
  by (rule ext) (simp add: act_simps split: sum.split prod.split)

lemma bindS_ret: "bindS (retS x) f = f x"
  by (rule ext) (simp add: act_simps)

lemma liftS_bindR: "bindS (liftS a) (\<lambda>x. bindS (liftS (f x)) k) = bindS (liftS (bindR a f)) k"
  by (rule ext, cases a) (simp_all add: act_simps)

definition tool_failed :: "string \<Rightarrow> string" where
  "tool_failed name = ''tool '' @ repr_str name @ '' failed''"

definition event_repo :: "string pr_event \<Rightarrow> (string \<times> string \<times> int) res" where
  "event_repo event =
     bindR (split_repo (pe_repo_full_name event)) (\<lambda>(owner, repo).
       if pe_pr_number event \<le> 0 then Inl (Exn ValueError ''pr_number must be greater than 0'')
       else Inr (owner, repo, pe_pr_number event))"

lemma event_repo: "repo_pr_input (event_call name event) = event_repo event"
  by (simp add: repo_pr_input_def repo_input_def event_call_def context_call_def event_input_def dget_Cons
      positive_int_def event_repo_def case_prod_beta if_distrib [where f = "\<lambda>r. bindR r f" for f] cong: if_cong)

text \<open>What collecting the context of a pull request means in terms of the client.\<close>

definition of_pull_request :: "string pr_event \<Rightarrow> (string \<Rightarrow> string \<Rightarrow> int \<Rightarrow> ('w, 'a) act) \<Rightarrow> ('w, 'a) act" where
  "of_pull_request event f = bindS (liftS (event_repo event)) (\<lambda>(owner, repo, n). f owner repo n)"

definition fetch_pr_context :: "'w github_client \<Rightarrow> string pr_event \<Rightarrow> ('w, pr_analysis_context) act" where
  "fetch_pr_context client event =
     bindS (reading (tool_failed ''github.pr.view'') (of_pull_request event (gc_get_pull_request client))) (\<lambda>meta.
     bindS (reading (tool_failed ''github.pr.files'') (of_pull_request event (gc_list_pull_request_files client))) (\<lambda>files.
     bindS (reading (tool_failed ''github.pr.diff'') (of_pull_request event (gc_get_pull_request_diff client))) (\<lambda>d.
     retS (analysis_context event meta files d))))"

lemma event_handler:
  "get_pull_request client (event_call name event) =
     bindS (of_pull_request event (gc_get_pull_request client)) (\<lambda>x. retS (ObjPRMeta x))"
  "list_pull_request_files client (event_call name event) =
     bindS (of_pull_request event (gc_list_pull_request_files client)) (\<lambda>x. retS (ObjTuple (map ObjFileDiff x)))"
  "get_pull_request_diff client (event_call name event) =
     bindS (of_pull_request event (gc_get_pull_request_diff client)) (\<lambda>x. retS (ObjText x))"
  by (simp_all add: get_pull_request_def list_pull_request_files_def get_pull_request_diff_def event_repo
      of_pull_request_def bindS_assoc split_def)

lemma event_call_name [simp]: "tc_name (event_call name event) = name"
  by (simp add: event_call_def context_call_def)

lemmas event_tools =
  wired_call(1-3) [where i = "event_input event" and c = "em_correlation_id (pe_meta event)" for event,
    folded event_call_def]
  event_handler expect_output_failed expect_output_ok tool_failed_def expect_file_tuple_def expect_tuple_map

lemma pr_context_simulates:
  "simulates (load_pr_context (execute (build_github_tool_runtime client)) event) (fetch_pr_context client event)"
  unfolding load_pr_context_def fetch_pr_context_def liftS_bindR
proof (rule simulates_tool [where handler = "get_pull_request client" and obj = ObjPRMeta and g = id, unfolded id_apply], goal_cases)
  case (5 meta)
  show ?case
  proof (rule simulates_tool [where handler = "list_pull_request_files client" and obj = "\<lambda>fs. ObjTuple (map ObjFileDiff fs)" and g = id, unfolded id_apply], goal_cases)
    case (5 files)
    show ?case
    proof (rule simulates_tool [where handler = "get_pull_request_diff client" and obj = ObjText and g = id, unfolded id_apply], goal_cases)
      case (5 d)
      show ?case by (rule simulates_ret)
    qed (simp_all add: event_tools)
  qed (simp_all add: event_tools)
qed (simp_all add: event_tools)

text \<open>The check runs of a commit and the jobs of a workflow run, in terms of the client.\<close>

definition of_ref :: "string \<Rightarrow> string \<Rightarrow> (string \<Rightarrow> string \<Rightarrow> string \<Rightarrow> ('w, 'a) act) \<Rightarrow> ('w, 'a) act" where
  "of_ref repo_full_name ref f =
     bindS (liftS (split_repo repo_full_name)) (\<lambda>(owner, repo).
       if strip ref = [] then raiseS (Exn ValueError ''ref is required'') else f owner repo (strip ref))"

definition fetch_checks :: "'w github_client \<Rightarrow> string \<Rightarrow> string \<Rightarrow> ('w, check_run_snapshot list) act" where
  "fetch_checks client repo_full_name ref =
     bindS (reading ''github.checks.runs_for_ref failed'' (of_ref repo_full_name ref (gc_list_check_runs_for_ref client)))
       (\<lambda>checks. retS (map snapshot_from_result checks))"

definition checks_call :: "string \<Rightarrow> string \<Rightarrow> string \<Rightarrow> tool_call" where
  "checks_call repo_full_name ref cid = context_call ''github.checks.runs_for_ref''
     [(''repo_full_name'', JStr repo_full_name), (''ref'', JStr ref)] cid"

lemma checks_handler:
  "list_check_runs_for_ref client (checks_call repo_full_name ref cid) =
     bindS (of_ref repo_full_name ref (gc_list_check_runs_for_ref client)) (\<lambda>cs. retS (ObjTuple (map ObjCheckRun cs)))"
proof -
  have "py_str (JStr r) = r" for r by (simp add: py_str_def)
  then show ?thesis
    by (intro ext, cases "split_repo repo_full_name")
      (simp_all add: list_check_runs_for_ref_def checks_call_def context_call_def of_ref_def repo_input_def
        dget_Cons act_simps split: prod.split)
qed

lemma checks_simulates:
  "simulates (load_checks (execute (build_github_tool_runtime client)) repo_full_name ref cid)
     (fetch_checks client repo_full_name ref)"
  unfolding load_checks_def fetch_checks_def liftS_bindR checks_call_def [symmetric]
proof (rule simulates_tool [where handler = "list_check_runs_for_ref client" and
      obj = "\<lambda>cs. ObjTuple (map ObjCheckRun cs)" and g = id, unfolded id_apply], goal_cases)
  case (5 checks)
  show ?case by (rule simulates_ret)
qed (simp_all add: checks_handler wired_call checks_call_def [symmetric] require_ok_def or_text_def
    expect_check_run_tuple_def expect_tuple_map, simp_all add: checks_call_def wired_call)

definition of_run :: "string ci_completed \<Rightarrow> int \<Rightarrow> (string \<Rightarrow> string \<Rightarrow> int \<Rightarrow> ('w, 'a) act) \<Rightarrow> ('w, 'a) act" where
  "of_run event run_id f =
     bindS (liftS (split_repo (ci_repo_full_name event))) (\<lambda>(owner, repo).
       if run_id \<le> 0 then raiseS (Exn ValueError ''run_id must be greater than 0'') else f owner repo run_id)"

lemma jobs_handler:
  "list_workflow_run_jobs client (jobs_call event run_id) =
     bindS (of_run event run_id (gc_list_workflow_run_jobs client)) (\<lambda>js. retS (ObjTuple (map ObjActionsJob js)))"
  by (intro ext, cases "split_repo (ci_repo_full_name event)")
    (simp_all add: list_workflow_run_jobs_def jobs_call_def context_call_def of_run_def repo_input_def
      positive_int_def dget_Cons act_simps py_str_def split: prod.split)

lemma wired_jobs:
  "execute (build_github_tool_runtime client) (jobs_call event run_id) =
     tool_step (list_workflow_run_jobs client) (jobs_call event run_id)"
  by (simp add: jobs_call_def wired_call)

section \<open>Properties\<close>

text \<open>C25. Collecting the context of a pull request through the worker's tool runtime is three client
  calls in a row (the pull request, its files, its diff), each made only when the one before it
  succeeded and each guarded by the checks on repository and number: outcome and effect on the world
  are those of that sequence, where whatever the client raises has become a \<open>RuntimeError\<close> with its
  message.\<close>

theorem pr_context_refines:
  "(case load_pr_context (execute (build_github_tool_runtime client)) event s of
      (x, t) \<Rightarrow> fetch_pr_context client event (rs_world s) = (x, rs_world t))"
  using simulatesD [OF pr_context_simulates [of client event], of s]
  by (auto split: prod.split)

text \<open>Enriching a CI event: an event without pull request, with failed jobs already, or without run
  id is returned as it is and nothing is called; otherwise, if the client lists the jobs of the run,
  the event gets the names of the jobs that failed, timed out or did not start, and nothing else of
  it changes; and if the checks on the input or the client raise, whatever the reason, the load raises
  the one \<open>TypeError\<close> about an unexpected output type, the reason is lost.\<close>

lemma ci_enrichment:
  "(case load_ci_context (execute (build_github_tool_runtime client)) event s of
      (x, t) \<Rightarrow>
        (case (ci_pr_number event, ci_failed_jobs event, ci_run_id event) of
           (Some n, [], Some run_id) \<Rightarrow>
             (case of_run event run_id (gc_list_workflow_run_jobs client) (rs_world s) of
                (Inr jobs, w) \<Rightarrow> rs_world t = w \<and>
                  x = Inr (event\<lparr>ci_failed_jobs := failed_job_names jobs\<rparr>)
              | (Inl e, w) \<Rightarrow> rs_world t = w \<and> x = Inl (unexpected_output ''github.actions.run.jobs''))
         | _ \<Rightarrow> x = Inr event \<and> t = s))"
proof (cases "(\<exists>n. ci_pr_number event = Some n) \<and> ci_failed_jobs event = [] \<and> (\<exists>i. ci_run_id event = Some i)")
  case True
  then obtain n i where e: "ci_pr_number event = Some n" "ci_failed_jobs event = []" "ci_run_id event = Some i" by blast
  have none: "expect_actions_job_tuple ObjNone = Inl (unexpected_output ''github.actions.run.jobs'')"
    by (simp add: expect_actions_job_tuple_def expect_tuple_of_def)
  have some: "expect_actions_job_tuple (ObjTuple (map ObjActionsJob js)) = Inr js" for js
    by (simp add: expect_actions_job_tuple_def expect_tuple_map)
  have same: "failed_job_names js = [] \<Longrightarrow> event\<lparr>ci_failed_jobs := failed_job_names js\<rparr> = event" for js
    using e(2) by (cases event) simp
  obtain o' w where o: "of_run event i (gc_list_workflow_run_jobs client) (rs_world s) = (o', w)" by fastforce
  show ?thesis
    using o same by (cases o')
      (auto simp: load_ci_context_def e wired_jobs tool_step_def jobs_handler act_simps none some Let_def)
next
  case False
  then show ?thesis
    by (auto simp: load_ci_context_def retS_def split: option.split list.split)
qed

definition named_tools :: "'w github_client \<Rightarrow> 'w tool_definition dict" where
  "named_tools c = map (\<lambda>t. (td_name t, t)) (build_github_pr_tools c)"

lemma named_tools_list: "named_tools c = [
    (''github.pr.view'', github_tool ''github.pr.view'' READ (get_pull_request c)),
    (''github.pr.files'', github_tool ''github.pr.files'' READ (list_pull_request_files c)),
    (''github.pr.diff'', github_tool ''github.pr.diff'' READ (get_pull_request_diff c)),
    (''github.actions.run.jobs'', github_tool ''github.actions.run.jobs'' READ (list_workflow_run_jobs c)),
    (''github.checks.runs_for_ref'', github_tool ''github.checks.runs_for_ref'' READ (list_check_runs_for_ref c)),
    (''github.pr.comment.create_or_update'', github_tool ''github.pr.comment.create_or_update'' WRITE (create_or_update_comment c)),
    (''github.pr.review.list'', github_tool ''github.pr.review.list'' READ (list_pull_request_reviews c)),
    (''github.pr.review.create'', github_tool ''github.pr.review.create'' WRITE (create_pull_request_review c))]"
  by (simp add: named_tools_def build_github_pr_tools_def) (simp add: github_tool_def)

lemma wired_named: "map_of (rt_tools (build_github_tool_runtime c)) n = map_of (named_tools c) n"
  by (simp add: wired_tool named_tools_def)

lemma wired_policy [simp]: "rt_policy (build_github_tool_runtime c) = worker_tool_policy"
  by (simp add: build_github_tool_runtime_def registered_runtime_def)

text \<open>The reading tools of two clients that read alike are the same.\<close>

lemma context_tools_same:
  assumes "gc_get_pull_request c = gc_get_pull_request d"
    and "gc_list_pull_request_files c = gc_list_pull_request_files d"
    and "gc_get_pull_request_diff c = gc_get_pull_request_diff d"
    and "gc_list_workflow_run_jobs c = gc_list_workflow_run_jobs d"
    and "gc_list_check_runs_for_ref c = gc_list_check_runs_for_ref d"
    and "n \<in> set context_tools"
  shows "map_of (named_tools c) n = map_of (named_tools d) n"
proof -
  have handlers: "get_pull_request c = get_pull_request d"
    "list_pull_request_files c = list_pull_request_files d"
    "get_pull_request_diff c = get_pull_request_diff d"
    "list_workflow_run_jobs c = list_workflow_run_jobs d"
    "list_check_runs_for_ref c = list_check_runs_for_ref d"
    by (simp_all only: fun_eq_iff get_pull_request_def list_pull_request_files_def get_pull_request_diff_def
        list_workflow_run_jobs_def list_check_runs_for_ref_def assms simp_thms)
  from assms(6) show ?thesis
    unfolding named_tools_list handlers context_tools_def by (elim set_ConsD [elim_format] disjE) simp_all
qed

lemma same_names: "map_of (named_tools c) n = None \<longleftrightarrow> map_of (named_tools d) n = None"
  by (simp add: named_tools_list)

lemma not_allowed_denied:
  "tc_name call \<notin> set (allowed_tools policy (tc_stage call)) \<Longrightarrow>
     check_policy policy call def = Inl (Exn ToolPolicyError
       (''tool '' @ repr_str (tc_name call) @ '' is not allowed during '' @ stage_repr (tc_stage call) @ '' stage''))"
  by (simp add: check_policy_def denial_reason_def)

text \<open>C13. Only the output stage can write: whatever tool an agent or a stage other than the output
  stage names, with whatever input, the call through the worker's tool runtime behaves the same if
  the three writing operations of the client (create a comment, update a comment, create a review)
  are replaced by anything else.\<close>

theorem writes_only_in_output:
  assumes "tc_stage call \<noteq> OUTPUT"
  shows "execute (build_github_tool_runtime (client\<lparr>gc_create_issue_comment := f,
           gc_update_issue_comment := g, gc_create_pull_request_review := h\<rparr>)) call s =
         execute (build_github_tool_runtime client) call s"
proof -
  let ?client = "client\<lparr>gc_create_issue_comment := f, gc_update_issue_comment := g, gc_create_pull_request_review := h\<rparr>"
  show ?thesis
  proof (cases "tc_name call \<in> set (allowed_tools worker_tool_policy (tc_stage call))")
    case True
    with assms have "tc_name call \<in> set context_tools"
      by (auto simp: allowed_tools_def worker_tool_policy_def split: if_splits)
    then have "map_of (named_tools ?client) (tc_name call) = map_of (named_tools client) (tc_name call)"
      by (intro context_tools_same) simp_all
    then show ?thesis by (simp only: execute_def wired_named wired_policy)
  next
    case False
    show ?thesis
      using same_names [of ?client "tc_name call" client]
      by (cases "map_of (named_tools client) (tc_name call)"; cases "map_of (named_tools ?client) (tc_name call)")
        (simp_all add: execute_def wired_named not_allowed_denied [OF False])
  qed
qed

theorem writes_only_in_output_witness:
  "(let call = context_call ''github.pr.review.create'' [] ''corr'';
        crash = raiseS (Exn RuntimeError ''written'')
    in execute (build_github_tool_runtime (sample_client\<lparr>gc_create_issue_comment := (\<lambda>_ _ _ _. crash),
         gc_update_issue_comment := (\<lambda>_ _ _ _. crash),
         gc_create_pull_request_review := (\<lambda>_ _ _ _ _ _ _. raiseS (Exn RuntimeError ''written''))\<rparr>)) call submitted_state =
       execute (build_github_tool_runtime sample_client) call submitted_state)"
  unfolding Let_def by (rule writes_only_in_output) (simp add: context_call_def)

end
