(* ===== verification/Workflow.thy ===== *)
theory Workflow
  imports Strategy Wiring
begin

text \<open>
  The workflows of \<open>src/runtime/orchestrator\<close>: the pull request workflow (\<open>pr_workflow.py\<close>,
  \<open>types.py\<close>) over the components it is built with, the CI workflow (\<open>ci_workflow.py\<close>), the
  stubs (\<open>pr_event_stubs.py\<close>, \<open>chat_workflow.py\<close>) and the dispatcher (\<open>dispatcher.py\<close>).
  The components act on a state \<open>'w\<close> of their own.
\<close>

section \<open>Drafts and results\<close>

record pr_workflow_draft =
  dr_event :: "string pr_event"
  dr_report :: qa_report
  dr_triage :: pr_workflow_triage
  dr_stage_order :: "workflow_stage list"

record pr_workflow_result =
  wf_event :: "string pr_event"
  wf_report :: qa_report
  wf_triage :: pr_workflow_triage
  wf_comment_payload :: "pr_comment_payload option"
  wf_review_payload :: "pr_review_payload option"
  wf_stage_order :: "workflow_stage list"

definition draft_correlation_id :: "pr_workflow_draft \<Rightarrow> string" where
  "draft_correlation_id d = em_correlation_id (pe_meta (dr_event d))"

section \<open>Components\<close>

text \<open>A validator that has \<open>validate_for_event\<close> is called with the event, any other without.\<close>

datatype 'w pr_validator =
    ForEvent "string pr_event \<Rightarrow> strategy_result \<Rightarrow> ('w, validation_result list) act"
  | ForStrategy "strategy_result \<Rightarrow> ('w, validation_result list) act"

record 'w pr_components =
  pw_context :: "string pr_event \<Rightarrow> ('w, pr_analysis_context) act"
  pw_triage :: "pr_analysis_context \<Rightarrow> ('w, pr_workflow_triage) act"
  pw_analyzer :: "pr_analysis_context \<Rightarrow> ('w, behaviour_impact) act"
  pw_strategy :: "string \<Rightarrow> int \<Rightarrow> string \<Rightarrow> behaviour_impact \<Rightarrow> ci_feedback_context option \<Rightarrow>
    ('w, strategy_result) act"
  pw_validator :: "'w pr_validator"
  pw_renderer :: "pr_workflow_draft \<Rightarrow> ('w, pr_comment_payload) act"
  pw_should_validate :: "string pr_event \<Rightarrow> behaviour_impact \<Rightarrow> strategy_result \<Rightarrow> ('w, bool) act"
  pw_ci_feedback :: "(string pr_event \<Rightarrow> ('w, ci_feedback_context option) act) option"

section \<open>Reports without analysis\<close>

definition empty_strategy :: "pr_workflow_triage \<Rightarrow> strategy_result" where
  "empty_strategy triage =
     \<lparr>sr_actions = [], sr_reasoning = tg_rationale triage, sr_confidence = 0, sr_knowledge_refs = []\<rparr>"

definition triage_summary :: "pr_analysis_context \<Rightarrow> pr_workflow_triage \<Rightarrow> string" where
  "triage_summary ctx triage =
     ''Workflow depth '' @ code (depth_value (tg_depth triage)) @ '' selected after context triage; '' @
     tg_rationale triage @ '' Changed files: '' @
     or_text (join '', '' (map (\<lambda>f. code (fd_path f)) (take 5 (ax_files ctx)))) ''no files'' @ ''.''"

definition triage_only_report :: "string pr_event \<Rightarrow> pr_analysis_context \<Rightarrow> pr_workflow_triage \<Rightarrow> qa_report" where
  "triage_only_report event ctx triage =
     \<lparr>qr_event_id = em_event_id (pe_meta event), qr_repo_full_name = ax_repo_full_name ctx,
      qr_pr_number = Some (ax_pr_number ctx),
      qr_impact = \<lparr>bi_summary = tg_rationale triage, bi_areas = [], bi_overall_risk = NOT_ASSESSED,
        bi_raw_diff_stats =
          [(''files_changed'', StatInt (int (length (ax_files ctx)))),
           (''additions'', StatInt (sum_list (map fd_additions (ax_files ctx)))),
           (''deletions'', StatInt (sum_list (map fd_deletions (ax_files ctx))))]\<rparr>,
      qr_strategy = empty_strategy triage, qr_validations = [],
      qr_summary_markdown = triage_summary ctx triage, qr_ci_feedback = None\<rparr>"

section \<open>The official review\<close>

definition can_publish_official_review :: "ci_feedback_context option \<Rightarrow> bool" where
  "can_publish_official_review feedback =
     (case feedback of None \<Rightarrow> True | Some fb \<Rightarrow> fb_readiness fb \<noteq> CI_WAITING_FOR_CHECKS)"

text \<open>\<open>result.action.target or result.action.description\<close> and the detail behind it\<close>

definition finding_target :: "validation_result \<Rightarrow> string" where
  "finding_target r = or_text (sa_target (vr_action r)) (sa_description (vr_action r))"

definition finding_suffix :: "validation_result \<Rightarrow> string" where
  "finding_suffix r =
     (let detail = or_text (vr_details r) (sa_rationale (vr_action r))
      in if detail \<noteq> [] then '': '' @ detail else [])"

definition review_validation_line :: "validation_result \<Rightarrow> string" where
  "review_validation_line r =
     ''- **'' @ upper (validation_outcome_value (vr_outcome r)) @ ''** '' @ code (finding_target r) @ finding_suffix r"

definition review_validation_lines :: "validation_result list \<Rightarrow> string list" where
  "review_validation_lines validations = map review_validation_line validations"

definition inline_comment :: "validation_result \<Rightarrow> validation_location \<Rightarrow> pr_review_comment" where
  "inline_comment r loc =
     \<lparr>rv_path = vl_path loc,
      rv_body = ''Runtime validation failed for '' @ code (finding_target r) @ finding_suffix r,
      rv_line = Some (vl_line loc), rv_side = ''RIGHT'', rv_start_line = vl_start_line loc, rv_start_side = []\<rparr>"

definition result_comments :: "validation_result \<Rightarrow> pr_review_comment list" where
  "result_comments r =
     (if vr_outcome r \<noteq> FAIL then []
      else map (inline_comment r)
        (filter (\<lambda>loc. \<not> (strip (vl_path loc) = [] \<or> vl_line loc \<le> 0)) (vr_locations r)))"

definition review_inline_comments :: "pr_workflow_draft \<Rightarrow> pr_review_comment list" where
  "review_inline_comments d = concat (map result_comments (qr_validations (dr_report d)))"

definition review_payload_for_draft :: "pr_workflow_draft \<Rightarrow> pr_review_payload option" where
  "review_payload_for_draft d =
     (if pe_head_sha (dr_event d) = [] then None
      else
        (let report = dr_report d;
             found = review_validation_lines (qr_validations report);
             validation_lines =
               (if found = [] then [''- No runtime validation evidence was produced for this run.''] else found);
             body = join nl
               ([''## Runtime Validation Review'', [],
                 or_text (qr_summary_markdown report) (bi_summary (qr_impact report)), [],
                 ''### Validation Evidence''] @
                validation_lines @
                [[], correlation_marker (draft_correlation_id d)])
         in Some
           \<lparr>rp_repo_full_name = qr_repo_full_name report,
            rp_pr_number = (case qr_pr_number report of
               None \<Rightarrow> pe_pr_number (dr_event d)
             | Some n \<Rightarrow> if n = 0 then pe_pr_number (dr_event d) else n),
            rp_head_sha = pe_head_sha (dr_event d), rp_body = body, rp_event = ''COMMENT'',
            rp_comments = review_inline_comments d\<rparr>))"

section \<open>The pull request workflow\<close>

definition run_validator ::
  "'w pr_validator \<Rightarrow> string pr_event \<Rightarrow> strategy_result \<Rightarrow> ('w, validation_result list) act" where
  "run_validator v event strategy =
     (case v of ForEvent f \<Rightarrow> f event strategy | ForStrategy f \<Rightarrow> f strategy)"

text \<open>The strategy stage: feedback is asked for only when it runs.\<close>

definition run_strategy ::
  "'w pr_components \<Rightarrow> string pr_event \<Rightarrow> pr_analysis_context \<Rightarrow> pr_workflow_triage \<Rightarrow> behaviour_impact \<Rightarrow>
   ('w, ci_feedback_context option \<times> strategy_result \<times> workflow_stage list) act" where
  "run_strategy pw event ctx triage impact =
     (if runs_strategy triage then
        bindS (case pw_ci_feedback pw of None \<Rightarrow> retS None | Some f \<Rightarrow> f event) (\<lambda>feedback.
        bindS (pw_strategy pw (ax_repo_full_name ctx) (ax_pr_number ctx) (ax_title ctx) impact feedback) (\<lambda>strategy.
        retS (feedback, strategy, [STRATEGY])))
      else retS (None, empty_strategy triage, []))"

text \<open>The validation stage: \<open>should_validate\<close> is asked unless the depth is deep.\<close>

definition run_validation ::
  "'w pr_components \<Rightarrow> string pr_event \<Rightarrow> pr_workflow_triage \<Rightarrow> behaviour_impact \<Rightarrow> strategy_result \<Rightarrow>
   ('w, validation_result list \<times> workflow_stage list) act" where
  "run_validation pw event triage impact strategy =
     bindS (if \<not> allows_validation triage then retS False
            else if tg_depth triage = DEEP then retS True
            else pw_should_validate pw event impact strategy) (\<lambda>wanted.
     if wanted then
       bindS (run_validator (pw_validator pw) event strategy) (\<lambda>validations. retS (validations, [VALIDATOR]))
     else retS ([], []))"

definition pr_run :: "'w pr_components \<Rightarrow> string pr_event \<Rightarrow> ('w, pr_workflow_result) act" where
  "pr_run pw event =
     bindS (pw_context pw event) (\<lambda>ctx.
     bindS (pw_triage pw ctx) (\<lambda>triage.
     if \<not> renders_output triage then
       retS \<lparr>wf_event = event, wf_report = triage_only_report event ctx triage, wf_triage = triage,
             wf_comment_payload = None, wf_review_payload = None, wf_stage_order = [CONTEXT, TRIAGE]\<rparr>
     else if \<not> runs_analysis triage then
       (let report = triage_only_report event ctx triage;
            stage_order = [CONTEXT, TRIAGE, RENDERER]
        in bindS (pw_renderer pw
             \<lparr>dr_event = event, dr_report = report, dr_triage = triage, dr_stage_order = stage_order\<rparr>) (\<lambda>comment.
           retS \<lparr>wf_event = event, wf_report = report, wf_triage = triage, wf_comment_payload = Some comment,
                 wf_review_payload = None, wf_stage_order = stage_order\<rparr>))
     else
       bindS (pw_analyzer pw ctx) (\<lambda>impact.
       bindS (run_strategy pw event ctx triage impact) (\<lambda>(feedback, strategy, planned).
       bindS (run_validation pw event triage impact strategy) (\<lambda>(validations, validated).
       (let report =
              \<lparr>qr_event_id = em_event_id (pe_meta event), qr_repo_full_name = ax_repo_full_name ctx,
               qr_pr_number = Some (ax_pr_number ctx), qr_impact = impact, qr_strategy = strategy,
               qr_validations = validations, qr_summary_markdown = bi_summary impact, qr_ci_feedback = feedback\<rparr>;
            stage_order = [CONTEXT, TRIAGE, ANALYZER] @ planned @ validated @ [RENDERER];
            draft = \<lparr>dr_event = event, dr_report = report, dr_triage = triage, dr_stage_order = stage_order\<rparr>
        in bindS (pw_renderer pw draft) (\<lambda>comment.
           retS \<lparr>wf_event = event, wf_report = report, wf_triage = triage, wf_comment_payload = Some comment,
                 wf_review_payload =
                   (if can_publish_official_review feedback then review_payload_for_draft draft else None),
                 wf_stage_order = stage_order\<rparr>)))))))"

text \<open>The components the workflow has by default.\<close>

definition default_render :: "pr_workflow_draft \<Rightarrow> pr_comment_payload res" where
  "default_render d =
     render (dr_report d) (draft_correlation_id d) (Some (dr_triage d)) (qr_ci_feedback (dr_report d))"

definition stub_validate :: "strategy_result \<Rightarrow> validation_result list" where
  "stub_validate strategy =
     map (\<lambda>action. \<lparr>vr_action = action, vr_outcome = SKIPPED,
       vr_details = ''Runtime validation is not executed in Step 3.'', vr_duration_seconds = 0,
       vr_artifacts = [], vr_locations = []\<rparr>) (sr_actions strategy)"

definition default_components :: "(knowledge_query \<Rightarrow> knowledge_entry list) \<Rightarrow> 'w pr_components" where
  "default_components find_entries =
     \<lparr>pw_context = (\<lambda>event. retS (load_event_context event)),
      pw_triage = (\<lambda>ctx. retS (rule_based_classify ctx)),
      pw_analyzer = (\<lambda>ctx. liftS (analyze ctx)),
      pw_strategy = (\<lambda>repo n title impact feedback. retS (plan find_entries repo title impact feedback)),
      pw_validator = ForStrategy (\<lambda>strategy. retS (stub_validate strategy)),
      pw_renderer = (\<lambda>draft. liftS (default_render draft)),
      pw_should_validate = (\<lambda>event impact strategy. retS True),
      pw_ci_feedback = None\<rparr>"

section \<open>The CI workflow\<close>

datatype ci_workflow_depth = CI_ORPHAN | CI_LIGHTWEIGHT | CI_NORMAL | CI_DEEP

fun ci_depth_value :: "ci_workflow_depth \<Rightarrow> string" where
  "ci_depth_value CI_ORPHAN = ''orphan''"
| "ci_depth_value CI_LIGHTWEIGHT = ''lightweight''"
| "ci_depth_value CI_NORMAL = ''normal''"
| "ci_depth_value CI_DEEP = ''deep''"

record ci_workflow_result =
  cw_event :: "string ci_completed"
  cw_depth :: ci_workflow_depth
  cw_summary :: string
  cw_stage_order :: "workflow_stage list"
  cw_comment_payload :: "pr_comment_payload option"

record 'w ci_components =
  cc_context :: "(string ci_completed \<Rightarrow> ('w, string ci_completed) act) option"
  cc_record :: "(string ci_completed \<Rightarrow> ('w, unit) act) option"

definition depth_for :: "string ci_completed \<Rightarrow> ci_workflow_depth" where
  "depth_for event =
     (let conclusion = lower (ci_conclusion event) in
      if conclusion \<in> {''failure'', ''timed_out''} \<or> ci_failed_jobs event \<noteq> [] then CI_DEEP
      else if conclusion = ''success'' then CI_LIGHTWEIGHT
      else CI_NORMAL)"

definition orphan_summary :: "string ci_completed \<Rightarrow> string" where
  "orphan_summary event =
     ''No pull request context is linked to this CI run; workflow '' @ repr_str (ci_workflow_name event) @
     '' completed with '' @ ci_conclusion event @ ''.''"

definition ci_summary :: "string ci_completed \<Rightarrow> int option \<Rightarrow> string" where
  "ci_summary event n =
     ''CI completed with '' @ ci_conclusion event @ '' for PR #'' @
     (case n of None \<Rightarrow> ''None'' | Some i \<Rightarrow> show_int i) @
     '' at '' @ ci_commit_sha event @ ''; failed jobs: '' @
     (if ci_failed_jobs event \<noteq> [] then join '', '' (ci_failed_jobs event) else ''no failed jobs reported'') @ ''.''"

definition ci_result :: "string ci_completed \<Rightarrow> ci_workflow_depth \<Rightarrow> string \<Rightarrow> ci_workflow_result" where
  "ci_result event depth summary =
     \<lparr>cw_event = event, cw_depth = depth, cw_summary = summary, cw_stage_order = [CONTEXT, TRIAGE],
      cw_comment_payload = None\<rparr>"

definition ci_run :: "'w ci_components \<Rightarrow> string ci_completed \<Rightarrow> ('w, ci_workflow_result) act" where
  "ci_run cc event =
     (if ci_pr_number event = None then retS (ci_result event CI_ORPHAN (orphan_summary event))
      else
        bindS (case cc_context cc of None \<Rightarrow> retS event | Some load \<Rightarrow> load event) (\<lambda>event.
        bindS (case cc_record cc of None \<Rightarrow> retS () | Some rec \<Rightarrow> rec event) (\<lambda>_.
        retS (ci_result event (depth_for event) (ci_summary event (ci_pr_number event))))))"

section \<open>Dispatch\<close>

datatype workflow_result = PRResult pr_workflow_result | CIResult ci_workflow_result

definition comment_run :: "string pr_commented \<Rightarrow> ('w, workflow_result) act" where
  "comment_run e = raiseS (Exn UnsupportedEventError
     (''PR comment workflow orchestration is planned for a later milestone and is not implemented yet: '' @
      pc_repo_full_name e @ ''#'' @ show_int (pc_pr_number e) @ '' comment '' @ show_int (pc_comment_id e)))"

definition review_run_stub :: "string pr_reviewed \<Rightarrow> ('w, workflow_result) act" where
  "review_run_stub e = raiseS (Exn UnsupportedEventError
     (''PR review workflow orchestration is planned for a later milestone and is not implemented yet: '' @
      pv_repo_full_name e @ ''#'' @ show_int (pv_pr_number e) @ '' review '' @ pv_state e))"

definition chat_run :: "string chat_mention \<Rightarrow> ('w, workflow_result) act" where
  "chat_run e = raiseS (Exn UnsupportedEventError
     (''Chat workflow orchestration is planned for a later milestone and is not implemented yet: '' @
      cm_platform e @ '':'' @ cm_channel_id e))"

fun dispatch :: "'w pr_components \<Rightarrow> 'w ci_components \<Rightarrow> string event \<Rightarrow> ('w, workflow_result) act" where
  "dispatch pw cc (PROpened e) = bindS (pr_run pw e) (\<lambda>r. retS (PRResult r))"
| "dispatch pw cc (PRUpdated e) = bindS (pr_run pw e) (\<lambda>r. retS (PRResult r))"
| "dispatch pw cc (PRCommented e) = comment_run e"
| "dispatch pw cc (PRReviewed e) = review_run_stub e"
| "dispatch pw cc (CICompleted e) = bindS (ci_run cc e) (\<lambda>r. retS (CIResult r))"
| "dispatch pw cc (ChatMention e) = chat_run e"

end
