(* ===== verification/Workflow_Facts.thy ===== *)
theory Workflow_Facts
  imports Workflow
begin

text \<open>
  What the workflows guarantee: stages the triage does not allow are not run, the stages reported
  are those that were run, the official review waits for the checks of the head and names only
  failures with a location, and the routes of the dispatcher.
\<close>

section \<open>Stages\<close>

text \<open>The components with everything the triage rules out replaced by a crash.\<close>

definition crash :: "('w, 'a) act" where
  "crash = raiseS (Exn RuntimeError ''the triage does not allow this stage'')"

definition only_allowed :: "pr_workflow_triage \<Rightarrow> 'w pr_components \<Rightarrow> 'w pr_components" where
  "only_allowed triage pw =
     (let analysed = renders_output triage \<and> runs_analysis triage;
          planned = analysed \<and> runs_strategy triage;
          validated = analysed \<and> allows_validation triage
      in pw\<lparr>pw_renderer := (if renders_output triage then pw_renderer pw else (\<lambda>_. crash)),
            pw_analyzer := (if analysed then pw_analyzer pw else (\<lambda>_. crash)),
            pw_ci_feedback := (if planned then pw_ci_feedback pw else Some (\<lambda>_. crash)),
            pw_strategy := (if planned then pw_strategy pw else (\<lambda>_ _ _ _ _. crash)),
            pw_should_validate := (if validated \<and> tg_depth triage \<noteq> DEEP then pw_should_validate pw else (\<lambda>_ _ _. crash)),
            pw_validator := (if validated then pw_validator pw else ForEvent (\<lambda>_ _. crash))\<rparr>)"

text \<open>The workflow after triage.\<close>

lemma pr_run_split:
  "pr_run pw event s =
     (case bindS (pw_context pw event) (\<lambda>ctx. bindS (pw_triage pw ctx) (\<lambda>triage. retS (ctx, triage))) s of
        (Inl e, t) \<Rightarrow> (Inl e, t)
      | (Inr (ctx, triage), t) \<Rightarrow>
          pr_run (pw\<lparr>pw_context := (\<lambda>_. retS ctx), pw_triage := (\<lambda>_. retS triage)\<rparr>) event t)"
  by (simp add: pr_run_def run_strategy_def run_validation_def act_simps cong: if_cong
      split: prod.split sum.split)

lemma only_allowed_same:
  "pr_run (pw\<lparr>pw_context := (\<lambda>_. retS ctx), pw_triage := (\<lambda>_. retS triage)\<rparr>) event t =
     pr_run ((only_allowed triage pw)\<lparr>pw_context := (\<lambda>_. retS ctx), pw_triage := (\<lambda>_. retS triage)\<rparr>) event t"
  by (cases "renders_output triage"; cases "runs_analysis triage"; cases "runs_strategy triage";
      cases "allows_validation triage"; cases "tg_depth triage = DEEP")
    (simp_all add: pr_run_def only_allowed_def run_strategy_def run_validation_def Let_def bindS_ret cong: if_cong)

lemma only_allowed_front [simp]:
  "pw_context (only_allowed triage pw) = pw_context pw" "pw_triage (only_allowed triage pw) = pw_triage pw"
  by (simp_all add: only_allowed_def Let_def)

text \<open>C26. A stage the triage does not allow is not run: once context and triage are done, the workflow
  behaves the same when every component that the triage rules out (the renderer and all later
  stages for a no-op, analysis, strategy and the CI feedback behind it, validation, and the question
  whether to validate when the depth is deep) is replaced by one that raises; and if collecting the
  context or the triage raises, so does the workflow, with that exception and nothing else done.\<close>

theorem skipped_stages_not_run:
  "(case bindS (pw_context pw event) (pw_triage pw) s of
      (Inl e, t) \<Rightarrow> pr_run pw event s = (Inl e, t)
    | (Inr triage, t) \<Rightarrow> pr_run pw event s = pr_run (only_allowed triage pw) event s)"
proof (cases "bindS (pw_context pw event) (\<lambda>ctx. bindS (pw_triage pw ctx) (\<lambda>triage. retS (ctx, triage))) s")
  case (Pair x t)
  have p: "pr_run pw' event s = (case x of Inl e \<Rightarrow> (Inl e, t) | Inr (ctx, triage) \<Rightarrow>
      pr_run (pw'\<lparr>pw_context := (\<lambda>_. retS ctx), pw_triage := (\<lambda>_. retS triage)\<rparr>) event t)"
    if "pw_context pw' = pw_context pw" "pw_triage pw' = pw_triage pw" for pw'
    using pr_run_split [of pw' event s] Pair that by (simp split: sum.split prod.split)
  have "bindS (pw_context pw event) (pw_triage pw) s =
      (case x of Inl e \<Rightarrow> (Inl e, t) | Inr (ctx, triage) \<Rightarrow> (Inr triage, t))"
    using Pair by (auto simp: act_simps split: prod.splits sum.splits)
  then show ?thesis
    using p [of pw] p [of "only_allowed triage pw" for triage]
    by (cases x) (auto simp flip: only_allowed_same)
qed

section \<open>Results\<close>

lemma retS_Inr [simp]: "retS x s = (Inr y, t) \<longleftrightarrow> y = x \<and> t = s"
  by (auto simp: retS_def)

lemma run_strategy_Inr:
  "run_strategy pw event ctx triage impact s = (Inr (feedback, strategy, planned), t) \<Longrightarrow>
     planned = (if runs_strategy triage then [STRATEGY] else [])"
  by (auto simp: run_strategy_def bindS_Inr split: if_splits)

lemma run_validation_Inr:
  "run_validation pw event triage impact strategy s = (Inr (validations, validated), t) \<Longrightarrow>
     validated = [VALIDATOR] \<and> allows_validation triage \<or>
     validated = [] \<and> validations = [] \<and> \<not> (allows_validation triage \<and> tg_depth triage = DEEP)"
  by (auto simp: run_validation_def bindS_Inr split: if_splits)

definition draft_of :: "pr_workflow_result \<Rightarrow> pr_workflow_draft" where
  "draft_of r = \<lparr>dr_event = wf_event r, dr_report = wf_report r, dr_triage = wf_triage r,
     dr_stage_order = wf_stage_order r\<rparr>"

lemma pr_run_Inr:
  assumes "pr_run pw event s = (Inr r, t)"
  shows "wf_event r = event \<and>
    (if \<not> renders_output (wf_triage r) then
       wf_stage_order r = [CONTEXT, TRIAGE] \<and> wf_comment_payload r = None \<and> wf_review_payload r = None \<and>
       qr_validations (wf_report r) = []
     else if \<not> runs_analysis (wf_triage r) then
       wf_stage_order r = [CONTEXT, TRIAGE, RENDERER] \<and> (\<exists>c. wf_comment_payload r = Some c) \<and>
       wf_review_payload r = None \<and> qr_validations (wf_report r) = []
     else
       (\<exists>c. wf_comment_payload r = Some c) \<and>
       wf_review_payload r = (if can_publish_official_review (qr_ci_feedback (wf_report r))
         then review_payload_for_draft (draft_of r) else None) \<and>
       (\<exists>validated. wf_stage_order r = [CONTEXT, TRIAGE, ANALYZER] @
            (if runs_strategy (wf_triage r) then [STRATEGY] else []) @ validated @ [RENDERER] \<and>
          (validated = [VALIDATOR] \<and> allows_validation (wf_triage r) \<or>
           validated = [] \<and> qr_validations (wf_report r) = [] \<and>
             \<not> (allows_validation (wf_triage r) \<and> tg_depth (wf_triage r) = DEEP))))"
proof -
  from assms obtain ctx s1 triage s2 where
    "pw_context pw event s = (Inr ctx, s1)" "pw_triage pw ctx s1 = (Inr triage, s2)"
    and run: "pr_run (pw\<lparr>pw_context := (\<lambda>_. retS ctx), pw_triage := (\<lambda>_. retS triage)\<rparr>) event s2 = (Inr r, t)"
    unfolding pr_run_split [of pw event s] by (auto simp: bindS_Inr split: prod.splits sum.splits)
  consider (noop) "\<not> renders_output triage" | (light) "renders_output triage" "\<not> runs_analysis triage"
    | (full) "renders_output triage" "runs_analysis triage" by blast
  then show ?thesis
  proof cases
    case noop
    with run show ?thesis by (auto simp: pr_run_def bindS_ret triage_only_report_def)
  next
    case light
    with run show ?thesis by (auto simp: pr_run_def bindS_ret bindS_Inr Let_def triage_only_report_def)
  next
    case full
    with run obtain impact feedback strategy planned validations validated comment report order s3 s4 s5 s6 where
      "run_strategy (pw\<lparr>pw_context := (\<lambda>_. retS ctx), pw_triage := (\<lambda>_. retS triage)\<rparr>) event ctx triage impact s3 =
         (Inr (feedback, strategy, planned), s4)"
      and v: "run_validation (pw\<lparr>pw_context := (\<lambda>_. retS ctx), pw_triage := (\<lambda>_. retS triage)\<rparr>) event triage
         impact strategy s4 = (Inr (validations, validated), s5)"
      and r: "report = \<lparr>qr_event_id = em_event_id (pe_meta event), qr_repo_full_name = ax_repo_full_name ctx,
         qr_pr_number = Some (ax_pr_number ctx), qr_impact = impact, qr_strategy = strategy,
         qr_validations = validations, qr_summary_markdown = bi_summary impact, qr_ci_feedback = feedback\<rparr>"
        "order = [CONTEXT, TRIAGE, ANALYZER] @ planned @ validated @ [RENDERER]"
        "r = \<lparr>wf_event = event, wf_report = report, wf_triage = triage, wf_comment_payload = Some comment,
           wf_review_payload = (if can_publish_official_review feedback then review_payload_for_draft
             \<lparr>dr_event = event, dr_report = report, dr_triage = triage, dr_stage_order = order\<rparr> else None),
           wf_stage_order = order\<rparr>"
      by (auto simp: pr_run_def bindS_ret bindS_Inr Let_def)
    moreover have "planned = (if runs_strategy triage then [STRATEGY] else [])"
      using calculation(1) by (rule run_strategy_Inr)
    ultimately show ?thesis
      using full run_validation_Inr [OF v] by (auto simp: draft_of_def)
  qed
qed

text \<open>A workflow that returns reports its stages truthfully: context and triage always; nothing
  else, and no output at all, for a no-op; only the renderer when analysis is not allowed; otherwise
  analysis, strategy exactly when the triage allows it, validation only when it is allowed (always
  when the depth is deep as well) and with no validation results without it, and the renderer last.\<close>

lemma stage_order_reported:
  "(case pr_run pw event s of
      (Inl e, t) \<Rightarrow> True
    | (Inr r, t) \<Rightarrow>
        (let triage = wf_triage r; validated = VALIDATOR \<in> set (wf_stage_order r) in
         wf_event r = event \<and>
         wf_stage_order r =
           [CONTEXT, TRIAGE] @
           (if \<not> renders_output triage then []
            else if \<not> runs_analysis triage then [RENDERER]
            else [ANALYZER] @ (if runs_strategy triage then [STRATEGY] else []) @
                 (if validated then [VALIDATOR] else []) @ [RENDERER]) \<and>
         (wf_comment_payload r = None) = (tg_depth triage = NOOP) \<and>
         (if validated then allows_validation triage \<and> runs_analysis triage
          else qr_validations (wf_report r) = [] \<and>
            \<not> (runs_analysis triage \<and> allows_validation triage \<and> tg_depth triage = DEEP))))"
proof (cases "pr_run pw event s")
  case (Pair x t)
  show ?thesis
  proof (cases x)
    case (Inr r)
    with Pair have "pr_run pw event s = (Inr r, t)" by simp
    from pr_run_Inr [OF this] Pair Inr show ?thesis
      by (auto simp: Let_def renders_output_def split: if_splits)
  qed (simp add: Pair)
qed

definition submittable_line :: "validation_location \<Rightarrow> bool" where
  "submittable_line l \<longleftrightarrow> strip (vl_path l) \<noteq> [] \<and> vl_line l > 0"

lemma set_result_comments:
  "set (result_comments r) =
     {inline_comment r l | l. vr_outcome r = FAIL \<and> l \<in> set (vr_locations r) \<and> submittable_line l}"
  by (auto simp: result_comments_def submittable_line_def)

lemma set_inline_comments:
  "set (review_inline_comments d) =
     {inline_comment v l | v l. v \<in> set (qr_validations (dr_report d)) \<and> vr_outcome v = FAIL \<and>
        l \<in> set (vr_locations v) \<and> submittable_line l}"
  by (auto simp: review_inline_comments_def set_result_comments)

text \<open>C9. The official review is gated: a workflow that returns asks for one exactly when the analysis
  ran, the event names a head commit and its report has no CI feedback or one whose readiness is not
  waiting for checks; it is a comment review of that head, and its inline comments are exactly those
  of the validations that failed at a location with a path and a positive line, at that path and
  line.\<close>

theorem official_review_gate:
  "(case pr_run pw event s of
      (Inl e, t) \<Rightarrow> True
    | (Inr r, t) \<Rightarrow>
        (let wanted = ANALYZER \<in> set (wf_stage_order r) \<and> pe_head_sha event \<noteq> [] \<and>
           (case qr_ci_feedback (wf_report r) of None \<Rightarrow> True | Some fb \<Rightarrow> fb_readiness fb \<noteq> CI_WAITING_FOR_CHECKS)
         in case wf_review_payload r of
           None \<Rightarrow> \<not> wanted
         | Some p \<Rightarrow> wanted \<and> rp_head_sha p = pe_head_sha event \<and> rp_event p = ''COMMENT'' \<and>
             {(rv_path c, rv_line c, rv_start_line c) | c. c \<in> set (rp_comments p)} =
               {(vl_path l, Some (vl_line l), vl_start_line l) | v l.
                  v \<in> set (qr_validations (wf_report r)) \<and> vr_outcome v = FAIL \<and>
                  l \<in> set (vr_locations v) \<and> strip (vl_path l) \<noteq> [] \<and> 0 < vl_line l}))"
proof (cases "pr_run pw event s")
  case (Pair x t)
  show ?thesis
  proof (cases x)
    case (Inr r)
    have fields: "{(rv_path c, rv_line c, rv_start_line c) | c. c \<in> set (review_inline_comments (draft_of r))} =
        {(vl_path l, Some (vl_line l), vl_start_line l) | v l.
           v \<in> set (qr_validations (wf_report r)) \<and> vr_outcome v = FAIL \<and>
           l \<in> set (vr_locations v) \<and> strip (vl_path l) \<noteq> [] \<and> 0 < vl_line l}"
      unfolding set_inline_comments by (force simp: draft_of_def inline_comment_def submittable_line_def)
    have gate: "(case fb of None \<Rightarrow> True | Some fb \<Rightarrow> fb_readiness fb \<noteq> CI_WAITING_FOR_CHECKS) = can_publish_official_review fb"
      for fb by (simp add: can_publish_official_review_def)
    from Pair Inr have "pr_run pw event s = (Inr r, t)" by simp
    from pr_run_Inr [OF this] fields Pair Inr show ?thesis
      unfolding gate by (auto simp: draft_of_def review_payload_for_draft_def Let_def split: if_splits)
  qed (simp add: Pair)
qed

section \<open>From the draft to the submission\<close>

definition bad_start_line :: "validation_location \<Rightarrow> bool" where
  "bad_start_line l = (case vl_start_line l of None \<Rightarrow> False | Some start \<Rightarrow> \<not> (0 < start \<and> start \<le> vl_line l))"

lemma inline_comment_valid:
  "submittable_line l \<Longrightarrow> is_mapped (inline_comment v l) \<and>
     (\<not> valid_location (inline_comment v l) \<longleftrightarrow> bad_start_line l)"
  by (auto simp: is_mapped_def inline_comment_def valid_location_def submittable_line_def
      bad_start_line_def split: option.splits)

lemma prepared_isl:
  "isl (prepared_for_submission p) = (\<exists>c \<in> set (rp_comments p). is_mapped c \<and> \<not> valid_location c)"
  using prepared_cases [of p] by (auto split: sum.splits)

lemma prepare_review_isl: "isl (prepare_review p cid) = isl (prepared_for_submission p)"
  by (cases "prepared_for_submission p") (simp_all add: prepare_review_def)

text \<open>C27. One location can block the whole output: preparing the review of a workflow's draft raises
  exactly when some failed validation has a location with a path and a positive line whose start
  line is not between 1 and that line, for path and line are checked when the inline comments are
  made, the start line is not.\<close>

theorem review_submittable:
  "(case review_payload_for_draft d of
      None \<Rightarrow> pe_head_sha (dr_event d) = []
    | Some p \<Rightarrow>
        isl (prepare_review p cid) =
          (\<exists>v \<in> set (qr_validations (dr_report d)). vr_outcome v = FAIL \<and>
             (\<exists>l \<in> set (vr_locations v). submittable_line l \<and> bad_start_line l)))"
proof (cases "pe_head_sha (dr_event d) = []")
  case True
  then show ?thesis by (simp add: review_payload_for_draft_def)
next
  case False
  then obtain p where p: "review_payload_for_draft d = Some p" "rp_comments p = review_inline_comments d"
    by (simp add: review_payload_for_draft_def Let_def)
  have "isl (prepare_review p cid) = (\<exists>c \<in> set (review_inline_comments d). is_mapped c \<and> \<not> valid_location c)"
    by (simp add: prepare_review_isl prepared_isl p)
  also have "\<dots> = (\<exists>v \<in> set (qr_validations (dr_report d)). vr_outcome v = FAIL \<and>
             (\<exists>l \<in> set (vr_locations v). submittable_line l \<and> bad_start_line l))"
    unfolding set_inline_comments using inline_comment_valid by blast
  finally show ?thesis by (simp add: p)
qed

section \<open>CI workflow and dispatch\<close>

text \<open>The CI workflow of a worker records in the aggregate store; the other half of the state is
  left to the context provider.\<close>

definition store_recorder :: "string ci_completed \<Rightarrow> (aggregate_store \<times> 'w, unit) act" where
  "store_recorder event sw = (Inr (), snd (store_record_ci_completed event (fst sw)), snd sw)"

definition on_second :: "('w, 'a) act \<Rightarrow> ('s \<times> 'w, 'a) act" where
  "on_second m sw = (case m (snd sw) of (x, w) \<Rightarrow> (x, fst sw, w))"

definition worker_ci_components ::
  "(tool_call \<Rightarrow> ('w, tool_result) act) \<Rightarrow> (aggregate_store \<times> 'w) ci_components" where
  "worker_ci_components run =
     \<lparr>cc_context = Some (\<lambda>event. on_second (load_ci_context run event)), cc_record = Some store_recorder\<rparr>"

text \<open>The CI workflow of a worker: a run without pull request is an orphan and nothing is called or
  recorded; otherwise the enriched event (and no other) is recorded in the aggregate store and
  classified, deep when it failed, timed out or has failed jobs, lightweight when it succeeded
  without failed jobs, normal otherwise; if enriching raises, nothing is recorded.\<close>

lemma ci_workflow:
  "(case ci_run (worker_ci_components run) event (store, w) of (x, store', w') \<Rightarrow>
      (case ci_pr_number event of
         None \<Rightarrow> x = Inr (ci_result event CI_ORPHAN (orphan_summary event)) \<and> store' = store \<and> w' = w
       | Some n \<Rightarrow>
           (case load_ci_context run event w of
              (Inl e, u) \<Rightarrow> x = Inl e \<and> store' = store \<and> w' = u
            | (Inr loaded, u) \<Rightarrow>
                store' = snd (store_record_ci_completed loaded store) \<and> w' = u \<and>
                (\<exists>r. x = Inr r \<and> cw_event r = loaded \<and> cw_comment_payload r = None \<and>
                   cw_depth r =
                     (if lower (ci_conclusion loaded) \<in> {''failure'', ''timed_out''} \<or> 0 < length (ci_failed_jobs loaded)
                      then CI_DEEP
                      else if lower (ci_conclusion loaded) = ''success'' then CI_LIGHTWEIGHT else CI_NORMAL)))))"
  by (simp add: ci_run_def worker_ci_components_def on_second_def store_recorder_def act_simps ci_result_def
      depth_for_def Let_def split: option.split prod.split sum.split)

text \<open>The dispatcher routes by the class of the event: pull request events run the pull request
  workflow and CI events the CI workflow, with that workflow's outcome; comments, reviews and chat
  mentions raise \<open>UnsupportedEventError\<close> and change nothing.\<close>

lemma dispatch_routes:
  "(case (event_kind event, dispatch pw cc event s) of
      (PR_OPENED, x, t) \<Rightarrow> (\<exists>e. event = PROpened e \<and> (map_sum id PRResult (fst (pr_run pw e s)), snd (pr_run pw e s)) = (x, t))
    | (PR_UPDATED, x, t) \<Rightarrow> (\<exists>e. event = PRUpdated e \<and> (map_sum id PRResult (fst (pr_run pw e s)), snd (pr_run pw e s)) = (x, t))
    | (CI_COMPLETED, x, t) \<Rightarrow> (\<exists>e. event = CICompleted e \<and> (map_sum id CIResult (fst (ci_run cc e s)), snd (ci_run cc e s)) = (x, t))
    | (kind, x, t) \<Rightarrow> t = s \<and> (\<exists>m. x = Inl (Exn UnsupportedEventError m)))"
  by (cases event) (simp_all add: act_simps comment_run_def review_run_stub_def chat_run_def split: prod.split sum.split)

end
