(* ===== verification/Validator.thy ===== *)
theory Validator
  imports Workflow
begin

text \<open>
  Runtime validation of \<open>src/runtime/validator/agent_runtime.py\<close>: the policy gates before an API
  contract probe, the agent's turn, the probe executor and the cleaning of what it reports; and
  \<open>render_prompt\<close> of \<open>src/runtime/prompts\<close>. The probe executor and the runner act on the world of
  the session manager; \<open>clock\<close> reads \<open>time.monotonic()\<close> off that world.
\<close>

section \<open>Prompts\<close>

text \<open>
  \<open>str.format\<close> with keyword arguments, over templates whose replacement fields are plain names. A
  field of another form (attribute, index, conversion, format specification) is not modelled and
  stops with an error of its own.
\<close>

definition plain_name :: "string \<Rightarrow> bool" where
  "plain_name s \<longleftrightarrow> list_all (\<lambda>c. c \<notin> set (CHR 0x7B # ''.[!:'')) s"

definition field_text :: "string dict \<Rightarrow> string \<Rightarrow> string res" where
  "field_text variables name =
     (if \<not> plain_name name then Inl (Exn (OtherError ''UnmodelledFormat'') name)
      else if list_all is_digit name then
        Inl (Exn IndexError (''Replacement index '' @ (if name = [] then ''0'' else name) @
          '' out of range for positional args tuple''))
      else (case map_of variables name of
              None \<Rightarrow> Inl (Exn KeyError (repr_str name)) | Some v \<Rightarrow> Inr v))"

function format_text :: "string dict \<Rightarrow> string \<Rightarrow> string res" where
  "format_text variables [] = Inr []"
| "format_text variables (c # s) =
     (if c = CHR 0x7B then
        (if s = [] then Inl (Exn ValueError ''Single '{' encountered in format string'')
         else if hd s = CHR 0x7B then bindR (format_text variables (tl s)) (\<lambda>r. Inr (c # r))
         else if CHR 0x7D \<notin> set s then Inl (Exn ValueError ''expected '}' before end of string'')
         else
           bindR (field_text variables (takeWhile (\<lambda>c. c \<noteq> CHR 0x7D) s)) (\<lambda>v.
           bindR (format_text variables (tl (dropWhile (\<lambda>c. c \<noteq> CHR 0x7D) s))) (\<lambda>r. Inr (v @ r))))
      else if c = CHR 0x7D then
        (if s \<noteq> [] \<and> hd s = CHR 0x7D then bindR (format_text variables (tl s)) (\<lambda>r. Inr (c # r))
         else Inl (Exn ValueError ''Single '}' encountered in format string''))
      else bindR (format_text variables s) (\<lambda>r. Inr (c # r)))"
  by pat_completeness auto
termination
  by (relation "measure (\<lambda>(variables, s). length s)")
    (auto simp: less_Suc_eq_le intro: le_trans [OF diff_le_self length_dropWhile_le])

definition render_prompt ::
  "string \<Rightarrow> (string \<Rightarrow> string option) \<Rightarrow> prompt_id \<Rightarrow> string dict \<Rightarrow> string res" where
  "render_prompt prompt_dir read_text identifier variables =
     bindR (load_prompt prompt_dir read_text identifier) (\<lambda>template.
       (case format_text variables (pt_text template) of
          Inr t \<Rightarrow> Inr t
        | Inl e \<Rightarrow>
            if exn_class e = KeyError then
              Inl (Exn PromptCatalogError (''missing template variable '' @ repr_str (strip_chars [CHR 0x27] (exn_msg e)) @
                '' for '' @ prompt_id_value (pt_identifier template)))
            else Inl e))"

section \<open>Requests, results, budget\<close>

record runtime_validation_budget =
  vb_max_turns :: int
  vb_max_tool_calls :: int
  vb_timeout_seconds :: rat

definition budget_init :: "int \<Rightarrow> int \<Rightarrow> rat \<Rightarrow> runtime_validation_budget res" where
  "budget_init max_turns max_tool_calls timeout_seconds =
     (if max_turns < 1 then Inl (Exn ValueError ''max_turns must be >= 1'')
      else if max_tool_calls < 0 then Inl (Exn ValueError ''max_tool_calls must be >= 0'')
      else if timeout_seconds \<le> 0 then Inl (Exn ValueError ''timeout_seconds must be > 0'')
      else Inr \<lparr>vb_max_turns = max_turns, vb_max_tool_calls = max_tool_calls, vb_timeout_seconds = timeout_seconds\<rparr>)"

record probe_request =
  ap_action :: strategy_action
  ap_target :: string
  ap_method :: string
  ap_path :: string
  ap_repo_full_name :: string
  ap_pr_number :: int
  ap_head_sha :: string
  ap_correlation_id :: string
  ap_timeout_seconds :: rat

record probe_result =
  pb_outcome :: validation_outcome
  pb_details :: string
  pb_duration_seconds :: rat
  pb_artifacts :: "string list"

definition probe_result_init :: "validation_outcome \<Rightarrow> string \<Rightarrow> rat \<Rightarrow> string list \<Rightarrow> probe_result res" where
  "probe_result_init outcome details duration artifacts =
     (if duration < 0 then Inl (Exn ValueError ''duration_seconds must be >= 0'')
      else Inr \<lparr>pb_outcome = outcome, pb_details = details, pb_duration_seconds = duration,
                pb_artifacts = artifacts\<rparr>)"

definition skipping_execute :: "probe_request \<Rightarrow> ('w, probe_result) act" where
  "skipping_execute request = liftS (probe_result_init SKIPPED
     (''api_contract_probe_skipped: no non-live executor configured for '' @ ap_method request @ '' '' @
      ap_path request @ ''.'') 0 [])"

section \<open>Targets\<close>

definition supported_api_methods :: "string list" where
  "supported_api_methods = [''GET'', ''POST'', ''PUT'', ''PATCH'', ''DELETE'', ''HEAD'', ''OPTIONS'']"

definition auto_run_api_methods :: "string list" where
  "auto_run_api_methods = [''GET'', ''HEAD'', ''OPTIONS'']"

definition parse_api_contract_target :: "string \<Rightarrow> (string \<times> string) option" where
  "parse_api_contract_target target =
     (let s = strip target;
          first = takeWhile (\<lambda>c. \<not> is_space c) s;
          rest = dropWhile is_space (dropWhile (\<lambda>c. \<not> is_space c) s);
          method = upper first;
          path = strip rest
      in if first = [] \<or> rest = [] then None
         else if method \<notin> set supported_api_methods then None
         else if \<not> starts_with ''/'' path then None
         else Some (method, path))"

definition api_contract_probe_request :: "string pr_event \<Rightarrow> strategy_action \<Rightarrow> rat \<Rightarrow> probe_request option" where
  "api_contract_probe_request event action timeout_seconds =
     (case parse_api_contract_target (sa_target action) of
        None \<Rightarrow> None
      | Some (method, path) \<Rightarrow> Some
          \<lparr>ap_action = action, ap_target = sa_target action, ap_method = method, ap_path = path,
           ap_repo_full_name = pe_repo_full_name event, ap_pr_number = pe_pr_number event,
           ap_head_sha = pe_head_sha event, ap_correlation_id = em_correlation_id (pe_meta event),
           ap_timeout_seconds = timeout_seconds\<rparr>)"

definition target_policy_denial :: "probe_request \<Rightarrow> string" where
  "target_policy_denial request =
     (if ap_method request \<in> set auto_run_api_methods then []
      else ''needs_approval: write-like API contract probe is not auto-run in Step 6 MVP; method '' @
        ap_method request @ '' for '' @ ap_path request @
        '' requires explicit approval or a later safe executor policy. Auto-run methods: '' @
        join '', '' auto_run_api_methods @ ''.'')"

section \<open>The probe tool\<close>

definition probe_tool_name :: string where
  "probe_tool_name = ''validation.api_contract.probe''"

definition probe_not_configured :: "tool_call \<Rightarrow> ('w, py_object) act" where
  "probe_not_configured call = retS (ObjDict
     [(''status'', JStr ''skipped''), (''reason'', JStr ''api_contract_probe_executor_not_configured''),
      (''target'', dget (tc_input call) ''target'' (JStr []))])"

definition string_schema :: json where
  "string_schema = JObj [(''type'', JStr ''string'')]"

definition validation_tool :: "'w tool_definition" where
  "validation_tool =
     \<lparr>td_name = probe_tool_name, td_capabilities = [EXECUTE], td_handler = probe_not_configured,
      td_description = ''Run a deterministic API contract probe'',
      td_input_schema = Some
        [(''type'', JStr ''object''),
         (''properties'', JObj [(''target'', string_schema), (''method'', string_schema), (''path'', string_schema)])]\<rparr>"

definition validation_policy :: stage_tool_policy where
  "validation_policy =
     \<lparr>sp_allowed_tools_by_stage = [(VALIDATOR, [probe_tool_name])], sp_allow_destructive = False\<rparr>"

definition validation_tools :: "'w tool_definition dict" where
  "validation_tools = tool_table [validation_tool]"

fun capability_value :: "tool_capability \<Rightarrow> string" where
  "capability_value READ = ''read''"
| "capability_value WRITE = ''write''"
| "capability_value EXECUTE = ''execute''"
| "capability_value DESTRUCTIVE = ''destructive''"

definition find_tool_exposure ::
  "(agent_framework_tool_spec \<times> string) list \<Rightarrow> string \<Rightarrow> (agent_framework_tool_spec \<times> string) option" where
  "find_tool_exposure exposures name = find (\<lambda>(spec, reason). ts_name spec = name) exposures"

definition probe_policy_denial :: "agent_framework_tool_spec \<Rightarrow> string \<Rightarrow> string" where
  "probe_policy_denial spec reason =
     (if reason \<noteq> [] then ''policy_denied: '' @ reason @ ''.''
      else
        (let denied = sort (map capability_value (filter (\<lambda>c. c \<in> {WRITE, DESTRUCTIVE}) (ts_capabilities spec)))
         in if denied = [] then []
            else ''policy_denied: validation probe definition includes '' @ join '', '' denied @
              '' capability; Step 6 MVP only auto-runs read-only execution probes.''))"

section \<open>Cleaning of details\<close>

text \<open>
  \<open>\s*=\s*[^\s,;]+\<close> from the front of a string: what follows the match. The two \<open>\s*\<close> need no
  backtracking, for white space is neither the equals sign nor part of the value.
\<close>

definition value_char :: "char \<Rightarrow> bool" where
  "value_char c \<longleftrightarrow> \<not> is_space c \<and> c \<noteq> CHR '','' \<and> c \<noteq> CHR '';''"

definition assigned_value :: "string \<Rightarrow> string option" where
  "assigned_value s =
     (let s1 = dropWhile is_space s in
      if s1 = [] \<or> hd s1 \<noteq> CHR ''='' then None
      else
        (let v = dropWhile is_space (tl s1) in
         if v = [] \<or> \<not> value_char (hd v) then None else Some (dropWhile value_char v)))"

definition secret_words :: "string list" where
  "secret_words = [''token'', ''password'', ''secret'', ''api_key'', ''api-key'', ''apikey'', ''credential'']"

text \<open>A match of the pattern at the front: the word as written, and what follows the match.\<close>

definition secret_match :: "string \<Rightarrow> (string \<times> string) option" where
  "secret_match s =
     (case find (\<lambda>w. lower (take (length w) s) = w) secret_words of
        None \<Rightarrow> None
      | Some w \<Rightarrow>
          (case assigned_value (drop (length w) s) of
             None \<Rightarrow> None
           | Some r \<Rightarrow> Some (take (length w) s, r)))"

text \<open>A word character in ASCII; the pattern's \<open>\b\<close> and its case folding know the letters of Unicode, too.\<close>

definition word_char :: "char \<Rightarrow> bool" where
  "word_char c \<longleftrightarrow>
     (let n = (of_char c :: nat) in
      (48 \<le> n \<and> n \<le> 57) \<or> (65 \<le> n \<and> n \<le> 90) \<or> (97 \<le> n \<and> n \<le> 122) \<or> n = 95)"

lemma assigned_value_shorter: "assigned_value s = Some r \<Longrightarrow> length r < length s"
proof -
  assume a: "assigned_value s = Some r"
  let ?s1 = "dropWhile is_space s" and ?v = "dropWhile is_space (tl (dropWhile is_space s))"
  from a have "?s1 \<noteq> []" and r: "r = dropWhile value_char ?v"
    by (auto simp: assigned_value_def Let_def split: if_splits)
  then have "length (tl ?s1) < length ?s1" by simp
  moreover have "length r \<le> length (tl ?s1)"
    unfolding r by (rule le_trans [OF length_dropWhile_le length_dropWhile_le])
  ultimately show "length r < length s" using length_dropWhile_le [of is_space s] by simp
qed

lemma secret_match_shorter: "secret_match s = Some (w, r) \<Longrightarrow> length r < length s"
  by (auto simp: secret_match_def split: option.splits dest!: assigned_value_shorter)

text \<open>\<open>boundary\<close>: the character before is not a word character (\<open>\b\<close>, for the word starts with one).\<close>

function redact_assignments :: "bool \<Rightarrow> string \<Rightarrow> string" where
  "redact_assignments boundary [] = []"
| "redact_assignments boundary (c # s) =
     (case (if boundary then secret_match (c # s) else None) of
        Some (w, r) \<Rightarrow> w @ ''=<redacted>'' @
          redact_assignments (\<not> word_char (last (take (length (c # s) - length r) (c # s)))) r
      | None \<Rightarrow> c # redact_assignments (\<not> word_char c) s)"
  by pat_completeness auto
termination
  by (relation "measure (\<lambda>(b, s). length s)") (auto split: if_splits dest!: secret_match_shorter)

text \<open>\<open>https?://[^\s,;)]+\<close>\<close>

definition url_char :: "char \<Rightarrow> bool" where
  "url_char c \<longleftrightarrow> value_char c \<and> c \<noteq> CHR '')''"

definition url_schemes :: "string list" where
  "url_schemes = [''https://'', ''http://'']"

definition url_match :: "string \<Rightarrow> string option" where
  "url_match s =
     (case find (\<lambda>p. starts_with p s) url_schemes of
        None \<Rightarrow> None
      | Some p \<Rightarrow>
          (let v = drop (length p) s in
           if v = [] \<or> \<not> url_char (hd v) then None else Some (dropWhile url_char v)))"

lemma url_match_shorter: "url_match s = Some r \<Longrightarrow> length r < length s"
proof -
  assume "url_match s = Some r"
  then obtain p where p: "find (\<lambda>p. starts_with p s) url_schemes = Some p"
    and r: "drop (length p) s \<noteq> []" "r = dropWhile url_char (drop (length p) s)"
    by (auto simp: url_match_def Let_def split: option.splits if_splits)
  then have "0 < length p" by (auto simp: url_schemes_def split: if_splits)
  with r(1) have "length (drop (length p) s) < length s" by (auto simp: neq_Nil_conv)
  then show "length r < length s" unfolding r(2) by (rule le_less_trans [OF length_dropWhile_le])
qed

function redact_urls :: "string \<Rightarrow> string" where
  "redact_urls [] = []"
| "redact_urls (c # s) =
     (case url_match (c # s) of
        Some r \<Rightarrow> ''<redacted-url>'' @ redact_urls r
      | None \<Rightarrow> c # redact_urls s)"
  by pat_completeness auto
termination
  by (relation "measure length") (auto dest: url_match_shorter)

definition sanitize_details :: "string \<Rightarrow> string" where
  "sanitize_details details = redact_urls (redact_assignments True details)"

section \<open>Validation\<close>

definition no_evidence :: "strategy_action \<Rightarrow> validation_outcome \<Rightarrow> string \<Rightarrow> validation_result" where
  "no_evidence action outcome details =
     \<lparr>vr_action = action, vr_outcome = outcome, vr_details = details, vr_duration_seconds = 0,
      vr_artifacts = [], vr_locations = []\<rparr>"

fun agent_run_status_name :: "agent_run_status \<Rightarrow> string" where
  "agent_run_status_name SUCCEEDED = ''SUCCEEDED''"
| "agent_run_status_name FAILED = ''FAILED''"
| "agent_run_status_name TIMEOUT = ''TIMEOUT''"
| "agent_run_status_name CANCELLED = ''CANCELLED''"

text \<open>What a validator is built with; \<open>vd_prompt\<close> renders the prompt for an action.\<close>

record 'w validator_settings =
  vd_runner :: "'w agent_runner"
  vd_tools :: "'w tool_definition dict"
  vd_policy :: stage_tool_policy
  vd_executor :: "probe_request \<Rightarrow> ('w, probe_result) act"
  vd_budget :: runtime_validation_budget
  vd_prompt :: "strategy_action \<Rightarrow> string res"
  vd_clock :: "'w \<Rightarrow> rat"

definition validation_prompt ::
  "string \<Rightarrow> (string \<Rightarrow> string option) \<Rightarrow> strategy_action \<Rightarrow> string res" where
  "validation_prompt prompt_dir read_text action =
     render_prompt prompt_dir read_text VALIDATION_API_CONTRACT_PROBE_SELECTION
       [(''action_type'', action_type_value (sa_action_type action)), (''target'', sa_target action),
        (''description'', sa_description action), (''rationale'', sa_rationale action)]"

definition validation_run_input ::
  "'w validator_settings \<Rightarrow> string pr_event \<Rightarrow> strategy_action \<Rightarrow> string \<Rightarrow> agent_run_input" where
  "validation_run_input cfg event action prompt =
     \<lparr>ai_stage = VALIDATOR, ai_prompt = prompt, ai_correlation_id = em_correlation_id (pe_meta event),
      ai_allowed_tools = tool_specs_for_stage (vd_tools cfg) (vd_policy cfg) VALIDATOR,
      ai_context = Some
        [(''repo_full_name'', JStr (pe_repo_full_name event)), (''pr_number'', JInt (pe_pr_number event)),
         (''head_sha'', JStr (pe_head_sha event)),
         (''action_type'', JStr (action_type_value (sa_action_type action))), (''target'', JStr (sa_target action))],
      ai_max_turns = Some (vb_max_turns (vd_budget cfg)), ai_max_tool_calls = Some (vb_max_tool_calls (vd_budget cfg)),
      ai_timeout_seconds = Some (vb_timeout_seconds (vd_budget cfg))\<rparr>"

text \<open>\<open>None\<close> when the run succeeded. The prompt is rendered outside the \<open>try\<close>.\<close>

definition run_agent_selection ::
  "'w validator_settings \<Rightarrow> string pr_event \<Rightarrow> strategy_action \<Rightarrow> agent_session_handle \<Rightarrow>
   ('w manager_state, validation_result option) act" where
  "run_agent_selection cfg event action session =
     bindS (liftS (vd_prompt cfg action)) (\<lambda>prompt.
     tryS
       (bindS (run_stage (vd_runner cfg) session (validation_run_input cfg event action prompt)) (\<lambda>result.
        retS (if ar_status result = SUCCEEDED then None
              else Some (no_evidence action ERROR
                (''agent_runner: Agent Runtime validation ended with status '' @
                 agent_run_status_name (ar_status result) @ ''.'')))))
       (\<lambda>exc. retS (Some (no_evidence action ERROR
          (''agent_runner_exception: '' @ class_name (exn_class exc) @ '' raised during Agent Runtime validation.'')))))"

definition run_api_contract_probe ::
  "'w validator_settings \<Rightarrow> strategy_action \<Rightarrow> probe_request \<Rightarrow> ('w manager_state, validation_result) act" where
  "run_api_contract_probe cfg action request s =
     (let start = vd_clock cfg (ms_world s) in
      case on_runner (vd_executor cfg request) s of
        (Inl exc, t) \<Rightarrow>
          (Inr ((no_evidence action ERROR
             ((if exn_class exc = TimeoutError then ''timeout'' else ''exception'') @ '': '' @
              class_name (exn_class exc) @ '' raised by API contract probe executor.''))
             \<lparr>vr_duration_seconds := vd_clock cfg (ms_world t) - start\<rparr>), t)
      | (Inr result, t) \<Rightarrow>
          (Inr \<lparr>vr_action = action, vr_outcome = pb_outcome result, vr_details = sanitize_details (pb_details result),
             vr_duration_seconds =
               (if pb_duration_seconds result \<noteq> 0 then pb_duration_seconds result
                else vd_clock cfg (ms_world t) - start),
             vr_artifacts = pb_artifacts result, vr_locations = []\<rparr>, t))"

text \<open>The gates in front of the agent's turn: the request to run, or the reason not to.\<close>

definition probe_gate ::
  "'w validator_settings \<Rightarrow> string pr_event \<Rightarrow> strategy_action \<Rightarrow> validation_result + probe_request" where
  "probe_gate cfg event action =
     (if sa_action_type action \<noteq> VERIFY_API_CONTRACT then
        Inl (no_evidence action SKIPPED (''unsupported validation action: '' @ action_type_value (sa_action_type action)))
      else (case api_contract_probe_request event action (vb_timeout_seconds (vd_budget cfg)) of
        None \<Rightarrow> Inl (no_evidence action SKIPPED
          (''invalid_target: API contract target must be '' @ [CHR 0x27] @ ''<METHOD> /path'' @ [CHR 0x27] @ ''; got '' @
           repr_str (sa_target action) @ ''.''))
      | Some request \<Rightarrow>
          if target_policy_denial request \<noteq> [] then Inl (no_evidence action SKIPPED (target_policy_denial request))
          else (case find_tool_exposure (tool_exposure_for_stage (vd_tools cfg) (vd_policy cfg) VALIDATOR) probe_tool_name of
            None \<Rightarrow> Inl (no_evidence action ERROR (probe_tool_name @ '' is not allowed during validator stage.''))
          | Some (spec, reason) \<Rightarrow>
              if probe_policy_denial spec reason \<noteq> [] then
                Inl (no_evidence action SKIPPED (probe_policy_denial spec reason))
              else Inr request)))"

definition run_action ::
  "'w validator_settings \<Rightarrow> string pr_event \<Rightarrow> agent_session_handle \<Rightarrow> strategy_action \<Rightarrow>
   ('w manager_state, validation_result) act" where
  "run_action cfg event session action =
     (case probe_gate cfg event action of
        Inl result \<Rightarrow> retS result
      | Inr request \<Rightarrow>
          bindS (run_agent_selection cfg event action session) (\<lambda>run_result.
          case run_result of
            Some result \<Rightarrow> retS result
          | None \<Rightarrow> run_api_contract_probe cfg action request))"

text \<open>\<open>try: m  finally: f\<close>\<close>

definition finallyS :: "('s, 'a) act \<Rightarrow> ('s, 'b) act \<Rightarrow> ('s, 'a) act" where
  "finallyS m f s =
     (case m s of (x, t) \<Rightarrow> (case f t of (Inl e, u) \<Rightarrow> (Inl e, u) | (Inr _, u) \<Rightarrow> (x, u)))"

definition complete_pr_event_context :: "string pr_event \<Rightarrow> bool" where
  "complete_pr_event_context event \<longleftrightarrow>
     strip (pe_repo_full_name event) \<noteq> [] \<and> pe_pr_number event > 0 \<and> strip (pe_head_sha event) \<noteq> [] \<and>
     strip (em_correlation_id (pe_meta event)) \<noteq> []"

definition validate_without_event :: "strategy_result \<Rightarrow> validation_result list" where
  "validate_without_event strategy =
     map (\<lambda>action. no_evidence action ERROR
       ''PR event context is required before Agent Runtime validation can run.'') (sr_actions strategy)"

definition validate_for_event ::
  "'w validator_settings \<Rightarrow> string pr_event \<Rightarrow> strategy_result \<Rightarrow>
   ('w manager_state, validation_result list) act" where
  "validate_for_event cfg event strategy =
     (if \<not> complete_pr_event_context event then
        retS (map (\<lambda>action. no_evidence action ERROR
          ''complete PR event context is required before API contract probes can run.'') (sr_actions strategy))
      else
        bindS (start_workflow_session (vd_runner cfg) (pe_repo_full_name event) (pe_pr_number event)
                 (pe_head_sha event) (event_type_value (em_event_type (pe_meta event)))
                 (em_correlation_id (pe_meta event))) (\<lambda>session.
        finallyS
          (mapS (run_action cfg event (ac_handle session)) (sr_actions strategy))
          (close_pr_sessions (vd_runner cfg) (pe_repo_full_name event) (pe_pr_number event)
             ''validation stage complete'')))"

text \<open>\<open>build_agent_runtime_pr_validator\<close> with the executor it is given, or the skipping one.\<close>

definition default_validator ::
  "'w agent_runner \<Rightarrow> (probe_request \<Rightarrow> ('w, probe_result) act) option \<Rightarrow> (strategy_action \<Rightarrow> string res) \<Rightarrow>
   ('w \<Rightarrow> rat) \<Rightarrow> 'w validator_settings" where
  "default_validator runner executor prompt clock =
     \<lparr>vd_runner = runner, vd_tools = validation_tools, vd_policy = validation_policy,
      vd_executor = (case executor of None \<Rightarrow> skipping_execute | Some x \<Rightarrow> x),
      vd_budget = \<lparr>vb_max_turns = 2, vb_max_tool_calls = 1, vb_timeout_seconds = 30\<rparr>,
      vd_prompt = prompt, vd_clock = clock\<rparr>"

end
