(* ===== verification/Validator_Facts.thy ===== *)
theory Validator_Facts
  imports Validator
begin

text \<open>
  What validation guarantees: nothing runs for an action that a gate stops, the probe runs only after
  a successful turn of the agent on a read-only method, and the details shown hold no URL.
\<close>

section \<open>Gates\<close>

lemma find_exposure_allowed:
  assumes "find_tool_exposure (tool_exposure_for_stage tools pol stage) name = Some (spec, reason)"
  shows "ts_name spec = name \<and> (\<exists>n def. n \<in> set (allowed_tools pol stage) \<and> map_of tools n = Some def \<and>
    spec = tool_spec stage def \<and> reason = denial_reason pol stage n def)"
  using find_SomeD [OF assms [unfolded find_tool_exposure_def]] by (auto simp: in_exposure)

lemma sort_Nil [simp]: "sort xs = [] \<longleftrightarrow> xs = []"
  by (metis length_0_conv length_sort)

lemma probe_policy_open:
  "probe_policy_denial spec reason = [] \<Longrightarrow> reason = [] \<and> WRITE \<notin> set (ts_capabilities spec) \<and>
     DESTRUCTIVE \<notin> set (ts_capabilities spec)"
  by (auto simp: probe_policy_denial_def Let_def filter_empty_conv split: if_splits)

lemma target_open: "target_policy_denial request = [] \<longleftrightarrow> ap_method request \<in> set auto_run_api_methods"
  by (simp add: target_policy_denial_def)

lemma parsed_target:
  "parse_api_contract_target target = Some (method, path) \<Longrightarrow> starts_with ''/'' path \<and> method \<in> set supported_api_methods"
  by (auto simp: parse_api_contract_target_def Let_def split: if_splits)

lemma probe_gate_Inr:
  assumes "probe_gate cfg event action = Inr request"
  shows "sa_action_type action = VERIFY_API_CONTRACT \<and> ap_method request \<in> {''GET'', ''HEAD'', ''OPTIONS''} \<and>
    starts_with ''/'' (ap_path request) \<and> ap_action request = action \<and>
    ap_head_sha request = pe_head_sha event \<and>
    (\<exists>n def. n \<in> set (allowed_tools (vd_policy cfg) VALIDATOR) \<and> map_of (vd_tools cfg) n = Some def \<and>
       td_name def = probe_tool_name \<and> denial_reason (vd_policy cfg) VALIDATOR n def = [] \<and>
       WRITE \<notin> set (td_capabilities def) \<and> DESTRUCTIVE \<notin> set (td_capabilities def))"
proof -
  from assms obtain spec reason where
    t: "sa_action_type action = VERIFY_API_CONTRACT"
    and r: "api_contract_probe_request event action (vb_timeout_seconds (vd_budget cfg)) = Some request"
    and d: "target_policy_denial request = []"
    and e: "find_tool_exposure (tool_exposure_for_stage (vd_tools cfg) (vd_policy cfg) VALIDATOR) probe_tool_name = Some (spec, reason)"
    and p: "probe_policy_denial spec reason = []"
    by (auto simp: probe_gate_def split: if_splits option.splits prod.splits)
  from r obtain verb path where "parse_api_contract_target (sa_target action) = Some (verb, path)"
    "ap_method request = verb" "ap_path request = path" "ap_action request = action" "ap_head_sha request = pe_head_sha event"
    by (auto simp: api_contract_probe_request_def split: option.splits)
  with parsed_target t d have "sa_action_type action = VERIFY_API_CONTRACT \<and>
      ap_method request \<in> {''GET'', ''HEAD'', ''OPTIONS''} \<and> starts_with ''/'' (ap_path request) \<and>
      ap_action request = action \<and> ap_head_sha request = pe_head_sha event"
    by (auto simp: target_open auto_run_api_methods_def)
  moreover from find_exposure_allowed [OF e] probe_policy_open [OF p] have
    "\<exists>n def. n \<in> set (allowed_tools (vd_policy cfg) VALIDATOR) \<and> map_of (vd_tools cfg) n = Some def \<and>
       td_name def = probe_tool_name \<and> denial_reason (vd_policy cfg) VALIDATOR n def = [] \<and>
       WRITE \<notin> set (td_capabilities def) \<and> DESTRUCTIVE \<notin> set (td_capabilities def)"
    by (auto simp: tool_spec_def)
  ultimately show ?thesis by blast
qed

lemma probe_gate_Inl: "probe_gate cfg event action = Inl r \<Longrightarrow> vr_outcome r \<in> {SKIPPED, ERROR} \<and> vr_action r = action"
  by (auto simp: probe_gate_def no_evidence_def split: if_splits option.splits prod.splits)

text \<open>C29. A probe runs behind all its gates. For an action that a gate stops nothing runs, neither the
  agent nor the executor, and the result is skipped or an error; an action that passes verifies an
  API contract with a GET, HEAD or OPTIONS on an absolute path, its probe tool is allowed at the
  validator stage and can neither write nor destroy; then the executor runs exactly when the
  agent's turn succeeded, and otherwise the result is an error.\<close>

theorem probe_gated:
  "(case probe_gate cfg event action of
      Inl r \<Rightarrow> run_action cfg event session action s = (Inr r, s) \<and> vr_outcome r \<in> {SKIPPED, ERROR}
    | Inr request \<Rightarrow>
        sa_action_type action = VERIFY_API_CONTRACT \<and> ap_method request \<in> {''GET'', ''HEAD'', ''OPTIONS''} \<and>
        starts_with ''/'' (ap_path request) \<and>
        (\<exists>n def. n \<in> set (allowed_tools (vd_policy cfg) VALIDATOR) \<and> map_of (vd_tools cfg) n = Some def \<and>
           td_name def = probe_tool_name \<and> WRITE \<notin> set (td_capabilities def) \<and>
           DESTRUCTIVE \<notin> set (td_capabilities def)) \<and>
        run_action cfg event session action s =
          (case vd_prompt cfg action of
             Inl e \<Rightarrow> (Inl e, s)
           | Inr prompt \<Rightarrow>
               (case run_stage (vd_runner cfg) session (validation_run_input cfg event action prompt) s of
                  (Inr result, t) \<Rightarrow>
                    if ar_status result = SUCCEEDED then run_api_contract_probe cfg action request t
                    else (Inr (no_evidence action ERROR
                      (''agent_runner: Agent Runtime validation ended with status '' @
                       agent_run_status_name (ar_status result) @ ''.'')), t)
                | (Inl e, t) \<Rightarrow> (Inr (no_evidence action ERROR
                    (''agent_runner_exception: '' @ class_name (exn_class e) @
                     '' raised during Agent Runtime validation.'')), t))))"
proof (cases "probe_gate cfg event action")
  case (Inl r)
  with probe_gate_Inl [OF Inl] show ?thesis by (simp add: run_action_def retS_def)
next
  case (Inr request)
  have "run_action cfg event session action s =
      (case vd_prompt cfg action of
         Inl e \<Rightarrow> (Inl e, s)
       | Inr prompt \<Rightarrow>
           (case run_stage (vd_runner cfg) session (validation_run_input cfg event action prompt) s of
              (Inr result, t) \<Rightarrow>
                if ar_status result = SUCCEEDED then run_api_contract_probe cfg action request t
                else (Inr (no_evidence action ERROR
                  (''agent_runner: Agent Runtime validation ended with status '' @
                   agent_run_status_name (ar_status result) @ ''.'')), t)
            | (Inl e, t) \<Rightarrow> (Inr (no_evidence action ERROR
                (''agent_runner_exception: '' @ class_name (exn_class e) @
                 '' raised during Agent Runtime validation.'')), t)))"
    by (simp add: run_action_def Inr run_agent_selection_def act_simps split: sum.split prod.split)
  with probe_gate_Inr [OF Inr] Inr show ?thesis by auto
qed

section \<open>Details\<close>

lemma scheme: "p \<in> set url_schemes \<Longrightarrow> (\<exists>t. p = CHR ''h'' # t) \<and> CHR ''<'' \<notin> set p"
  by (auto simp: url_schemes_def)

lemma one_scheme:
  "p \<in> set url_schemes \<Longrightarrow> q \<in> set url_schemes \<Longrightarrow> starts_with p s \<Longrightarrow> starts_with q s \<Longrightarrow> p = q"
  by (auto simp: url_schemes_def starts_with_iff)

lemma url_match_iff:
  "(\<exists>r. url_match s = Some r) \<longleftrightarrow> (\<exists>p \<in> set url_schemes. \<exists>c t. s = p @ c # t \<and> url_char c)"
proof
  assume "\<exists>r. url_match s = Some r"
  then obtain p where p: "find (\<lambda>p. starts_with p s) url_schemes = Some p"
    and v: "drop (length p) s \<noteq> []" "url_char (hd (drop (length p) s))"
    by (auto simp: url_match_def Let_def split: option.splits if_splits)
  from find_SomeD [OF p] have "p \<in> set url_schemes" "s = p @ drop (length p) s"
    by (auto simp: starts_with_iff)
  with v show "\<exists>p \<in> set url_schemes. \<exists>c t. s = p @ c # t \<and> url_char c" by (metis list.collapse)
next
  assume "\<exists>p \<in> set url_schemes. \<exists>c t. s = p @ c # t \<and> url_char c"
  then obtain p c t where p: "p \<in> set url_schemes" "s = p @ c # t" "url_char c" by blast
  then have "find (\<lambda>p. starts_with p s) url_schemes \<noteq> None" by (auto simp: find_None_iff)
  then obtain q where q: "find (\<lambda>p. starts_with p s) url_schemes = Some q" by blast
  with find_SomeD [OF q] one_scheme [of q p s] p have "q = p" by simp
  with p q show "\<exists>r. url_match s = Some r" by (simp add: url_match_def)
qed

lemma url_match_hd: "url_match s = Some r \<Longrightarrow> \<exists>t. s = CHR ''h'' # t"
  using url_match_iff [of s] scheme by fastforce

text \<open>A prefix without the opening bracket was there before.\<close>

lemma redact_urls_prefix:
  "redact_urls s = p @ q \<Longrightarrow> CHR ''<'' \<notin> set p \<Longrightarrow> \<exists>u. s = p @ u \<and> q = redact_urls u"
proof (induction p arbitrary: s)
  case (Cons a p)
  then obtain c s1 where s: "s = c # s1" by (cases s) auto
  with Cons.prems have "url_match s = None" by (auto split: option.splits)
  with Cons.prems s have "c = a" "redact_urls s1 = p @ q" "CHR ''<'' \<notin> set p" by auto
  with Cons.IH [of s1] s show ?case by auto
qed simp

lemma url_char_first: "redact_urls u = c # t \<Longrightarrow> url_char c \<Longrightarrow> \<exists>d v. u = d # v \<and> url_char d"
proof (cases u)
  case (Cons d v)
  assume "redact_urls u = c # t" "url_char c"
  with Cons have "url_char d"
    by (cases "url_match u") (auto dest!: url_match_hd simp: url_char_def value_char_def is_space_def)
  with Cons show ?thesis by simp
qed simp

lemma redacted_head: "url_match (redact_urls s) = None"
proof (rule ccontr)
  assume "url_match (redact_urls s) \<noteq> None"
  then obtain p c t where p: "p \<in> set url_schemes" "redact_urls s = p @ c # t" "url_char c"
    using url_match_iff [of "redact_urls s"] by blast
  then obtain u where u: "s = p @ u" "c # t = redact_urls u"
    using redact_urls_prefix [of s p "c # t"] scheme by blast
  then obtain d v where "u = d # v" "url_char d" using url_char_first [of u c t] p(3) by metis
  with p(1) u have "\<exists>r. url_match s = Some r" unfolding url_match_iff by blast
  then obtain r where "url_match s = Some r" by blast
  then have "\<exists>x. redact_urls s = CHR ''<'' # x" using url_match_hd [of s r] by auto
  with p(1,2) scheme show False by fastforce
qed

lemma no_url_in_redacted: "redact_urls s = a @ b \<Longrightarrow> url_match b = None"
proof (induction s arbitrary: a b rule: redact_urls.induct)
  case (2 c s)
  show ?case
  proof (cases "a = []")
    case True
    with 2(3) redacted_head [of "c # s"] show ?thesis by simp
  next
    case False
    show ?thesis
    proof (cases "url_match (c # s)")
      case None
      with False 2(3) obtain a' where "redact_urls s = a' @ b" by (cases a) auto
      with 2(1) [OF None] show ?thesis by simp
    next
      case (Some r)
      with 2(3) have "''<redacted-url>'' @ redact_urls r = a @ b" by simp
      then consider (inside) l where "''<redacted-url>'' = a @ l" "l @ redact_urls r = b"
        | (behind) l where "redact_urls r = l @ b"
        using append_eq_append_conv2 [THEN iffD1] by blast
      then show ?thesis
      proof cases
        case behind
        with 2(2) [OF Some] show ?thesis by simp
      next
        case inside
        show ?thesis
        proof (cases l)
          case Nil
          with inside redacted_head [of r] show ?thesis by simp
        next
          case (Cons x l')
          with inside have "x \<in> set ''<redacted-url>''" by (metis in_set_conv_decomp)
          then have "x \<noteq> CHR ''h''" by auto
          with Cons inside url_match_hd [of b] show ?thesis by (cases "url_match b") auto
        qed
      qed
    qed
  qed
next
  case 1
  then show ?case using url_match_hd [of "[]"] by (cases "url_match []") auto
qed

lemma untouched_assignments: "CHR ''='' \<notin> set s \<Longrightarrow> redact_assignments boundary s = s"
proof (induction boundary s rule: redact_assignments.induct)
  case (2 boundary c s)
  have "assigned_value t = None" if "CHR ''='' \<notin> set t" for t
  proof -
    have "hd (dropWhile is_space t) \<noteq> CHR ''=''" if "dropWhile is_space t \<noteq> []"
      using hd_in_set [OF that] set_dropWhileD [of _ is_space t] \<open>CHR ''='' \<notin> set t\<close> by metis
    then show ?thesis by (auto simp: assigned_value_def Let_def)
  qed
  moreover have "CHR ''='' \<notin> set (drop n (c # s))" for n using 2(3) in_set_dropD by metis
  ultimately have "secret_match (c # s) = None" by (simp add: secret_match_def split: option.split)
  with 2 show ?case by simp
qed simp

lemma untouched_urls: "\<not> contains ''http'' s \<Longrightarrow> redact_urls s = s"
proof (induction s rule: redact_urls.induct)
  case (2 c s)
  have "url_match (c # s) = None"
  proof (rule ccontr)
    assume "url_match (c # s) \<noteq> None"
    then obtain p v where "p \<in> set url_schemes" "c # s = p @ v" using url_match_iff [of "c # s"] by blast
    then have "starts_with ''http'' (c # s)" by (auto simp: url_schemes_def starts_with_def)
    with 2(3) show False by (simp only: contains.simps simp_thms)
  qed
  moreover from 2(3) have "\<not> contains ''http'' s" by (auto dest: contains_appendI2 [of _ s "[c]"])
  ultimately show ?case using 2(1) by simp
qed simp

lemma urls_gone:
  "{(a, b). sanitize_details details = a @ b \<and>
      (\<exists>c t. (b = ''http://'' @ c # t \<or> b = ''https://'' @ c # t) \<and> \<not> is_space c \<and> c \<notin> set '',;)'')} = {}"
proof -
  have "url_match b = None" if "sanitize_details details = a @ b" for a b
    using that by (intro no_url_in_redacted) (simp add: sanitize_details_def)
  moreover have "url_match (''http://'' @ c # t) \<noteq> None \<and> url_match (''https://'' @ c # t) \<noteq> None"
    if "\<not> is_space c" "c \<notin> set '',;)''" for c t
    using that by (simp add: url_match_def url_schemes_def starts_with_def url_char_def value_char_def)
  ultimately show ?thesis by blast
qed

text \<open>C30. No URL and no message of an exception comes from a probe executor into the details of a
  validation result: what the executor returns is reported with its outcome, and wherever one looks
  in the details of the result, no \<open>http://\<close> or \<open>https://\<close> is followed by a character other than white
  space, comma, semicolon and closing bracket, while details with neither \<open>http\<close> nor an equals sign
  are reported as they are; when the executor raises, the result is an error that names the class of
  the exception only, in words that tell a time-out from another failure. This is about the details
  of a probe that ran: artifacts are passed on uncleaned, and the details of an action that is
  skipped repeat its target.\<close>

theorem details_without_urls:
  "(case vd_executor cfg request (ms_world s) of
      (Inr result, w) \<Rightarrow>
        \<exists>r t. run_api_contract_probe cfg action request s = (Inr r, t) \<and> vr_outcome r = pb_outcome result \<and>
          {(a, b). vr_details r = a @ b \<and>
             (\<exists>c t. (b = ''http://'' @ c # t \<or> b = ''https://'' @ c # t) \<and> \<not> is_space c \<and> c \<notin> set '',;)'')} = {} \<and>
          (if contains ''http'' (pb_details result) \<or> CHR ''='' \<in> set (pb_details result) then True
           else vr_details r = pb_details result)
    | (Inl exc, w) \<Rightarrow>
        \<exists>r t. run_api_contract_probe cfg action request s = (Inr r, t) \<and> vr_outcome r = ERROR \<and>
          vr_details r = (if exn_class exc = TimeoutError then ''timeout'' else ''exception'') @ '': '' @
            class_name (exn_class exc) @ '' raised by API contract probe executor.'')"
proof (cases "vd_executor cfg request (ms_world s)")
  case (Pair x w)
  show ?thesis
  proof (cases x)
    case (Inr result)
    have "sanitize_details (pb_details result) = pb_details result"
      if "\<not> contains ''http'' (pb_details result)" "CHR ''='' \<notin> set (pb_details result)"
      using that by (simp only: sanitize_details_def untouched_assignments untouched_urls not_False_eq_True)
    with Pair Inr urls_gone show ?thesis
      by (simp add: run_api_contract_probe_def on_runner_def Let_def)
  next
    case (Inl exc)
    with Pair show ?thesis
      by (simp add: run_api_contract_probe_def on_runner_def Let_def no_evidence_def)
  qed
qed

end
