(* ===== verification/Worker.thy ===== *)
theory Worker
  imports Workflow_Facts Validator_Facts Jobs_Facts
begin

text \<open>
  The worker of \<open>src/app/worker\<close>: one job with its retries and its output (\<open>runner.py\<close>,
  \<open>types.py\<close>), the loop over a queue, and the worker that \<open>build_worker\<close> of \<open>factory.py\<close> wires
  together. The worker's component \<open>wk_timed\<close> runs an operation with a time limit; \<open>run_with_timeout\<close> is
  what the code passes there, where \<open>overtaken\<close> says whether the limit passes before the operation ends.
\<close>

section \<open>Execution of one job\<close>

datatype worker_status = JOB_SUCCEEDED | JOB_FAILED

record worker_execution_context =
  wx_correlation_id :: string
  wx_attempt :: int
  wx_max_attempts :: int
  wx_timeout_seconds :: "rat option"

record worker_execution =
  we_correlation_id :: string
  we_status :: worker_status
  we_attempts :: int
  we_result :: "workflow_result option"
  we_error :: string

text \<open>A poster that has \<open>post_outputs\<close> is a \<open>ReviewOutputPoster\<close>; what a poster returns is dropped.\<close>

datatype 'w output_poster =
    CommentPoster "pr_comment_payload \<Rightarrow> string \<Rightarrow> ('w, unit) act"
  | ReviewPoster
      "pr_comment_payload \<Rightarrow> string \<Rightarrow> ('w, unit) act"
      "pr_comment_payload \<Rightarrow> pr_review_payload option \<Rightarrow> string \<Rightarrow> ('w, unit) act"

definition noop_poster :: "'w output_poster" where
  "noop_poster = CommentPoster (\<lambda>payload cid. retS ())"

record 'w worker =
  wk_orchestrator :: "string event \<Rightarrow> ('w, workflow_result) act"
  wk_output_poster :: "'w output_poster"
  wk_max_attempts :: int
  wk_timeout_seconds :: "rat option"
  wk_timed :: "rat \<Rightarrow> ('w, workflow_result) act \<Rightarrow> ('w, workflow_result) act"

definition worker_init ::
  "(string event \<Rightarrow> ('w, workflow_result) act) \<Rightarrow> 'w output_poster \<Rightarrow> int \<Rightarrow> rat option \<Rightarrow>
   (rat \<Rightarrow> ('w, workflow_result) act \<Rightarrow> ('w, workflow_result) act) \<Rightarrow> 'w worker res" where
  "worker_init orchestrator poster max_attempts timeout_seconds timed =
     (if max_attempts < 1 then Inl (Exn ValueError ''max_attempts must be >= 1'')
      else Inr \<lparr>wk_orchestrator = orchestrator, wk_output_poster = poster, wk_max_attempts = max_attempts,
                wk_timeout_seconds = timeout_seconds, wk_timed = timed\<rparr>)"

definition post_pr_output ::
  "'w output_poster \<Rightarrow> pr_workflow_result \<Rightarrow> string \<Rightarrow> ('w, unit) act" where
  "post_pr_output poster result correlation_id =
     (case wf_comment_payload result of
        None \<Rightarrow> retS ()
      | Some comment \<Rightarrow>
          (case (wf_review_payload result, poster) of
             (Some review, ReviewPoster single both) \<Rightarrow> both comment (Some review) correlation_id
           | (_, ReviewPoster single both) \<Rightarrow> single comment correlation_id
           | (_, CommentPoster single) \<Rightarrow> single comment correlation_id))"

definition post_result :: "'w worker \<Rightarrow> string event_job \<Rightarrow> workflow_result \<Rightarrow> ('w, workflow_result) act" where
  "post_result wk job result =
     (case result of
        PRResult r \<Rightarrow>
          if wf_comment_payload r \<noteq> None
          then bindS (post_pr_output (wk_output_poster wk) r (ej_correlation_id job)) (\<lambda>_. retS result)
          else retS result
      | CIResult _ \<Rightarrow> retS result)"

definition run_once :: "'w worker \<Rightarrow> string event_job \<Rightarrow> worker_execution_context \<Rightarrow> ('w, workflow_result) act" where
  "run_once wk job ctx =
     bindS (case wx_timeout_seconds ctx of
              Some t \<Rightarrow> wk_timed wk t (wk_orchestrator wk (ej_event job))
            | None \<Rightarrow> wk_orchestrator wk (ej_event job)) (\<lambda>result.
     post_result wk job result)"

definition attempt_context :: "'w worker \<Rightarrow> string event_job \<Rightarrow> int \<Rightarrow> worker_execution_context" where
  "attempt_context wk job attempt =
     \<lparr>wx_correlation_id = ej_correlation_id job, wx_attempt = attempt, wx_max_attempts = wk_max_attempts wk,
      wx_timeout_seconds = wk_timeout_seconds wk\<rparr>"

definition failed_execution :: "string event_job \<Rightarrow> int \<Rightarrow> string \<Rightarrow> worker_execution" where
  "failed_execution job attempts error =
     \<lparr>we_correlation_id = ej_correlation_id job, we_status = JOB_FAILED, we_attempts = attempts,
      we_result = None, we_error = error\<rparr>"

text \<open>The loop over the attempts that are left, from \<open>attempt\<close> on.\<close>

fun attempts_from ::
  "'w worker \<Rightarrow> string event_job \<Rightarrow> nat \<Rightarrow> int \<Rightarrow> string \<Rightarrow> 'w \<Rightarrow> worker_execution \<times> 'w" where
  "attempts_from wk job 0 attempt last_error s = (failed_execution job (wk_max_attempts wk) last_error, s)"
| "attempts_from wk job (Suc left) attempt last_error s =
     (case run_once wk job (attempt_context wk job attempt) s of
        (Inl exc, t) \<Rightarrow>
          if attempt = wk_max_attempts wk then (failed_execution job attempt (exn_msg exc), t)
          else attempts_from wk job left (attempt + 1) (exn_msg exc) t
      | (Inr result, t) \<Rightarrow>
          (\<lparr>we_correlation_id = ej_correlation_id job, we_status = JOB_SUCCEEDED, we_attempts = attempt,
            we_result = Some result, we_error = []\<rparr>, t))"

fun process :: "'w worker \<Rightarrow> string queued_job \<Rightarrow> 'w \<Rightarrow> worker_execution \<times> 'w" where
  "process wk (MalformedJob delivery err) s =
     (\<lparr>we_correlation_id = [], we_status = JOB_FAILED, we_attempts = 0, we_result = None,
       we_error = ''malformed queue message '' @ delivery @ '': '' @ err\<rparr>, s)"
| "process wk (Job job) s = attempts_from wk job (nat (wk_max_attempts wk)) 1 [] s"

section \<open>The loop over a queue\<close>

text \<open>
  \<open>run_until_empty\<close>: it returns \<open>None\<close> when it does not stop. A queue that raises ends the loop and
  the executions so far are lost, as the exception leaves the method.
\<close>

partial_function (option) run_until_empty ::
  "'w worker \<Rightarrow> ('q, string queued_job option) act \<Rightarrow> (string queued_job \<Rightarrow> ('q, unit) act) \<Rightarrow>
   worker_execution list \<Rightarrow> 'q \<Rightarrow> 'w \<Rightarrow> (worker_execution list res \<times> 'q \<times> 'w) option" where
  "run_until_empty wk dequeue ack results q s =
     (case dequeue q of
        (Inl e, q1) \<Rightarrow> Some (Inl e, q1, s)
      | (Inr None, q1) \<Rightarrow> Some (Inr results, q1, s)
      | (Inr (Some job), q1) \<Rightarrow>
          (case process wk job s of
             (execution, s1) \<Rightarrow>
               (case ack job q1 of
                  (Inl e, q2) \<Rightarrow> Some (Inl e, q2, s1)
                | (Inr _, q2) \<Rightarrow> run_until_empty wk dequeue ack (results @ [execution]) q2 s1)))"

text \<open>One turn of \<open>run_forever\<close>: nothing to do (it sleeps), or one job processed and acknowledged.\<close>

definition forever_turn ::
  "'w worker \<Rightarrow> ('q, string queued_job option) act \<Rightarrow> (string queued_job \<Rightarrow> ('q, unit) act) \<Rightarrow>
   'q \<Rightarrow> 'w \<Rightarrow> worker_execution option res \<times> 'q \<times> 'w" where
  "forever_turn wk dequeue ack q s =
     (case dequeue q of
        (Inl e, q1) \<Rightarrow> (Inl e, q1, s)
      | (Inr None, q1) \<Rightarrow> (Inr None, q1, s)
      | (Inr (Some job), q1) \<Rightarrow>
          (case process wk job s of
             (execution, s1) \<Rightarrow>
               (case ack job q1 of
                  (Inl e, q2) \<Rightarrow> (Inl e, q2, s1)
                | (Inr _, q2) \<Rightarrow> (Inr (Some execution), q2, s1))))"

text \<open>The first \<open>n\<close> turns of \<open>run_forever\<close>, which only an exception ends, with the executions they made.\<close>

fun forever_turns ::
  "'w worker \<Rightarrow> ('q, string queued_job option) act \<Rightarrow> (string queued_job \<Rightarrow> ('q, unit) act) \<Rightarrow>
   nat \<Rightarrow> 'q \<Rightarrow> 'w \<Rightarrow> worker_execution list res \<times> 'q \<times> 'w" where
  "forever_turns wk dequeue ack 0 q s = (Inr [], q, s)"
| "forever_turns wk dequeue ack (Suc n) q s =
     (case forever_turn wk dequeue ack q s of
        (Inl e, q1, s1) \<Rightarrow> (Inl e, q1, s1)
      | (Inr execution, q1, s1) \<Rightarrow>
          (case forever_turns wk dequeue ack n q1 s1 of
             (Inl e, q2, s2) \<Rightarrow> (Inl e, q2, s2)
           | (Inr rest, q2, s2) \<Rightarrow>
               (Inr (case execution of None \<Rightarrow> rest | Some ex \<Rightarrow> ex # rest), q2, s2)))"

text \<open>\<open>_log_failed_execution\<close>: the \<open>extra\<close> fields of the record that is logged for a failed execution.\<close>

definition job_type_name :: "string queued_job \<Rightarrow> string" where
  "job_type_name job =
     (case job of
        Job j \<Rightarrow> event_type_value (em_event_type (event_meta_of (ej_event j)))
      | MalformedJob _ _ \<Rightarrow> ''MalformedEventJob'')"

definition failed_job_log :: "string queued_job \<Rightarrow> worker_execution \<Rightarrow> json dict" where
  "failed_job_log job execution =
     [(''correlation_id'', JStr
         (case job of
            Job j \<Rightarrow> if we_correlation_id execution = [] then ej_correlation_id j else we_correlation_id execution
          | MalformedJob _ _ \<Rightarrow> we_correlation_id execution)),
      (''delivery_id'', JStr (delivery_id job)),
      (''attempts'', JInt (we_attempts execution)),
      (''error'', JStr (we_error execution)),
      (''job_type'', JStr (job_type_name job))]"

section \<open>The time limit of an attempt\<close>

text \<open>\<open>format(x, "g")\<close> of a float: six significant digits, and the exponent when it is small or large.\<close>

definition round_half_even :: "rat \<Rightarrow> int" where
  "round_half_even x =
     (let n = \<lfloor>x\<rfloor>; r = x - of_int n
      in if r < 1 / 2 then n else if 1 / 2 < r then n + 1 else if even n then n else n + 1)"

fun shift_up :: "nat \<Rightarrow> rat \<Rightarrow> int \<Rightarrow> int" where
  "shift_up 0 x k = k"
| "shift_up (Suc n) x k = (if 1 \<le> x then k else shift_up n (10 * x) (k - 1))"

fun shift_down :: "nat \<Rightarrow> rat \<Rightarrow> int \<Rightarrow> int" where
  "shift_down 0 x k = k"
| "shift_down (Suc n) x k = (if x < 10 then k else shift_down n (x / 10) (k + 1))"

text \<open>The decimal exponent of a positive float; none has more than 330 places.\<close>

definition exponent10 :: "rat \<Rightarrow> int" where
  "exponent10 x = (if 1 \<le> x then shift_down 330 x 0 else shift_up 330 x 0)"

definition power10 :: "int \<Rightarrow> rat" where
  "power10 k = (if 0 \<le> k then 10 ^ nat k else 1 / 10 ^ nat (- k))"

text \<open>The six digits, and the exponent after rounding.\<close>

definition six_digits :: "rat \<Rightarrow> string \<times> int" where
  "six_digits x =
     (let k = exponent10 x; m = round_half_even (x * power10 (5 - k))
      in if m = 1000000 then (''100000'', k + 1) else (show_int m, k))"

definition strip_fraction :: "string \<Rightarrow> string \<Rightarrow> string" where
  "strip_fraction whole fraction =
     (let f = rev (dropWhile (\<lambda>c. c = CHR ''0'') (rev fraction)) in if f = [] then whole else whole @ ''.'' @ f)"

definition format_g :: "rat \<Rightarrow> string" where
  "format_g x =
     (if x = 0 then ''0''
      else (if x < 0 then ''-'' else []) @
        (case six_digits (abs x) of
           (ds, k) \<Rightarrow>
             if k < -4 \<or> 6 \<le> k then
               strip_fraction (take 1 ds) (drop 1 ds) @ (if k < 0 then ''e-'' else ''e+'') @ pad (if 100 \<le> abs k then 3 else 2) (nat (abs k))
             else if 0 \<le> k then strip_fraction (take (nat k + 1) ds) (drop (nat k + 1) ds)
             else strip_fraction ''0'' (replicate (nat (- k) - 1) (CHR ''0'') @ ds)))"

text \<open>
  \<open>_run_with_timeout\<close>: when the limit passes first (\<open>overtaken\<close>, which gives the state then) the attempt
  is abandoned; a \<open>TimeoutError\<close> of the operation itself is the class that is caught, too.
\<close>

definition run_with_timeout ::
  "(rat \<Rightarrow> 'w \<Rightarrow> 'w option) \<Rightarrow> rat \<Rightarrow> ('w, 'a) act \<Rightarrow> ('w, 'a) act" where
  "run_with_timeout overtaken limit operation s =
     (let timed_out = Exn TimeoutError (''worker attempt timed out after '' @ format_g limit @ ''s'')
      in case overtaken limit s of
           Some t \<Rightarrow> (Inl timed_out, t)
         | None \<Rightarrow>
             (case operation s of
                (Inl e, t) \<Rightarrow> (Inl (if exn_class e = TimeoutError then timed_out else e), t)
              | (Inr x, t) \<Rightarrow> (Inr x, t)))"

section \<open>The durable worker\<close>

text \<open>
  The state of a durable worker: the aggregate store, the audit log of the tool runtime, the session
  manager of the validator and the world they share. An operation on a part runs on the whole.
\<close>

record 'w durable_state =
  ds_store :: aggregate_store
  ds_audit_log :: "tool_audit_entry list"
  ds_records :: "agent_session_record dict"
  ds_next_id :: nat
  ds_world :: 'w

definition on_world :: "('w, 'a) act \<Rightarrow> ('w durable_state, 'a) act" where
  "on_world m s = (case m (ds_world s) of (x, w) \<Rightarrow> (x, s\<lparr>ds_world := w\<rparr>))"

definition on_tools :: "('w runtime_state, 'a) act \<Rightarrow> ('w durable_state, 'a) act" where
  "on_tools m s =
     (case m \<lparr>rs_audit_log = ds_audit_log s, rs_world = ds_world s\<rparr> of
        (x, t) \<Rightarrow> (x, s\<lparr>ds_audit_log := rs_audit_log t, ds_world := rs_world t\<rparr>))"

definition on_sessions :: "('w manager_state, 'a) act \<Rightarrow> ('w durable_state, 'a) act" where
  "on_sessions m s =
     (case m \<lparr>ms_records = ds_records s, ms_next_id = ds_next_id s, ms_world = ds_world s\<rparr> of
        (x, t) \<Rightarrow> (x, s\<lparr>ds_records := ms_records t, ds_next_id := ms_next_id t, ds_world := ms_world t\<rparr>))"

definition on_store_and_tools :: "(aggregate_store \<times> 'w runtime_state, 'a) act \<Rightarrow> ('w durable_state, 'a) act" where
  "on_store_and_tools m s =
     (case m (ds_store s, \<lparr>rs_audit_log = ds_audit_log s, rs_world = ds_world s\<rparr>) of
        (x, store, t) \<Rightarrow> (x, s\<lparr>ds_store := store, ds_audit_log := rs_audit_log t, ds_world := rs_world t\<rparr>))"

definition durable_pr_components ::
  "'w github_client \<Rightarrow> 'w agent_runner \<Rightarrow> triage_settings \<Rightarrow> 'w validator_settings \<Rightarrow>
   (knowledge_query \<Rightarrow> knowledge_entry list) \<Rightarrow> 'w durable_state pr_components" where
  "durable_pr_components client runner triage_cfg validator_cfg find_entries =
     (let run = execute (build_github_tool_runtime client) in
      (default_components find_entries)
        \<lparr>pw_context := (\<lambda>event. on_tools (load_pr_context run event)),
         pw_triage := (\<lambda>ctx. on_world (agent_classify runner triage_cfg ctx)),
         pw_validator := ForEvent (\<lambda>event strategy. on_sessions (validate_for_event validator_cfg event strategy)),
         pw_ci_feedback := Some (\<lambda>event.
           bindS (on_store_and_tools (load_ci_feedback_for_pr_event (load_checks run) event)) (\<lambda>fb. retS (Some fb)))\<rparr>)"

definition durable_ci_components :: "'w github_client \<Rightarrow> 'w durable_state ci_components" where
  "durable_ci_components client =
     (let run = execute (build_github_tool_runtime client) in
      \<lparr>cc_context = Some (\<lambda>event. on_tools (load_ci_context run event)),
       cc_record = Some (\<lambda>event. on_store_and_tools (store_recorder event))\<rparr>)"

definition durable_poster :: "'w github_client \<Rightarrow> 'w durable_state output_poster" where
  "durable_poster client =
     (let run = execute (build_github_tool_runtime client) in
      ReviewPoster
        (\<lambda>payload cid. on_tools (bindS (post_comment run payload cid) (\<lambda>_. retS ())))
        (\<lambda>payload review cid. on_tools (bindS (post_outputs run payload review cid) (\<lambda>_. retS ()))))"

text \<open>\<open>build_worker\<close> for a queue that is not in memory: three attempts, no time limit.\<close>

definition durable_worker ::
  "'w github_client \<Rightarrow> 'w agent_runner \<Rightarrow> triage_settings \<Rightarrow> 'w validator_settings \<Rightarrow>
   (knowledge_query \<Rightarrow> knowledge_entry list) \<Rightarrow>
   (rat \<Rightarrow> ('w durable_state, workflow_result) act \<Rightarrow> ('w durable_state, workflow_result) act) \<Rightarrow>
   'w durable_state worker res" where
  "durable_worker client runner triage_cfg validator_cfg find_entries timed =
     worker_init
       (dispatch (durable_pr_components client runner triage_cfg validator_cfg find_entries)
          (durable_ci_components client))
       (durable_poster client) 3 None timed"

text \<open>\<open>build_worker\<close> for the in-memory queue: nothing is posted.\<close>

definition local_worker ::
  "(knowledge_query \<Rightarrow> knowledge_entry list) \<Rightarrow>
   (rat \<Rightarrow> ('w, workflow_result) act \<Rightarrow> ('w, workflow_result) act) \<Rightarrow> 'w worker res" where
  "local_worker find_entries timed =
     worker_init
       (dispatch (default_components find_entries) \<lparr>cc_context = None, cc_record = None\<rparr>) noop_poster 3 None timed"

end
