(* ===== verification/Worker_Facts.thy ===== *)
theory Worker_Facts
  imports Worker
begin

text \<open>
  What the worker guarantees: a job gets a bounded number of attempts and its execution reports what
  they did; the loop over a queue that keeps the contract \<open>job_queue\<close> stops, having processed every
  waiting job once and in order.
\<close>

section \<open>Attempts\<close>

text \<open>The state after \<open>k\<close> attempts, and the outcome of the attempt after \<open>k\<close> others.\<close>

primrec after_attempts :: "'w worker \<Rightarrow> string event_job \<Rightarrow> nat \<Rightarrow> 'w \<Rightarrow> 'w" where
  "after_attempts wk job 0 s = s"
| "after_attempts wk job (Suc k) s =
     snd (run_once wk job (attempt_context wk job (int k + 1)) (after_attempts wk job k s))"

definition attempt_outcome :: "'w worker \<Rightarrow> string event_job \<Rightarrow> nat \<Rightarrow> 'w \<Rightarrow> workflow_result res" where
  "attempt_outcome wk job k s =
     fst (run_once wk job (attempt_context wk job (int k + 1)) (after_attempts wk job k s))"

definition execution_of :: "'w worker \<Rightarrow> string event_job \<Rightarrow> 'w \<Rightarrow> nat \<Rightarrow> worker_execution \<Rightarrow> bool" where
  "execution_of wk job s k ex \<longleftrightarrow>
     we_correlation_id ex = ej_correlation_id job \<and> we_attempts ex = int k \<and>
     {i. i + 1 < k \<and> \<not> isl (attempt_outcome wk job i s)} = {} \<and>
     (case attempt_outcome wk job (k - 1) s of
        Inr result \<Rightarrow> we_status ex = JOB_SUCCEEDED \<and> we_result ex = Some result \<and> we_error ex = []
      | Inl e \<Rightarrow> we_status ex = JOB_FAILED \<and> int k = wk_max_attempts wk \<and> we_error ex = exn_msg e \<and>
          we_result ex = None)"

lemma attempts_from_execution:
  assumes "int (i + n) = wk_max_attempts wk" and "n > 0"
    and "\<forall>j < i. isl (attempt_outcome wk job j s)"
  shows "case attempts_from wk job n (int i + 1) err0 (after_attempts wk job i s) of
    (ex, t) \<Rightarrow> \<exists>k. i < k \<and> k \<le> i + n \<and> t = after_attempts wk job k s \<and> execution_of wk job s k ex"
  using assms
proof (induction n arbitrary: i err0)
  case (Suc n)
  obtain x t where r: "run_once wk job (attempt_context wk job (int i + 1)) (after_attempts wk job i s) = (x, t)"
    by fastforce
  then have t: "after_attempts wk job (Suc i) s = t" and x: "attempt_outcome wk job i s = x"
    by (simp_all add: attempt_outcome_def)
  have before: "{j. j + 1 < Suc i \<and> \<not> isl (attempt_outcome wk job j s)} = {}" using Suc.prems(3) by auto
  show ?case
  proof (cases x)
    case (Inr result)
    with r before x t show ?thesis
      by (auto simp: execution_of_def simp del: after_attempts.simps intro!: exI [of _ "Suc i"])
  next
    case (Inl e)
    show ?thesis
    proof (cases "n = 0")
      case True
      with Suc.prems(1) have "int i + 1 = wk_max_attempts wk" by simp
      with Inl r before x t show ?thesis
        by (auto simp: execution_of_def failed_execution_def simp del: after_attempts.simps
            intro!: exI [of _ "Suc i"])
    next
      case False
      have more: "\<forall>j < Suc i. isl (attempt_outcome wk job j s)"
        using Suc.prems(3) x Inl by (auto simp: less_Suc_eq)
      have "int (Suc i + n) = wk_max_attempts wk" "int i + 1 \<noteq> wk_max_attempts wk"
        using Suc.prems(1) False by auto
      with Suc.IH [of "Suc i" "exn_msg e", OF _ _ more] False t obtain ex k where
        "attempts_from wk job n (int i + 2) (exn_msg e) t = (ex, after_attempts wk job k s)"
        "i < k" "k \<le> i + Suc n" "execution_of wk job s k ex"
        by (auto simp: add.commute simp del: after_attempts.simps split: prod.splits)
      with \<open>int i + 1 \<noteq> wk_max_attempts wk\<close> Inl r show ?thesis
        by (auto simp: add.commute simp del: after_attempts.simps)
    qed
  qed
qed simp

text \<open>C14. Attempts are bounded and reported: a worker cannot be built with a bound below one, and one
  that was built runs a job at least once and at most as often as its bound, stops at the first
  attempt that returns, reports that result, or the error of the last attempt once the bound is
  used up, with the number of attempts it made; a malformed job is not run at all.\<close>

theorem attempts_bounded:
  "(case worker_init orchestrator poster n timeout_seconds timed of
      Inl e \<Rightarrow> n < 1 \<and> exn_class e = ValueError
    | Inr wk \<Rightarrow>
        (case process wk (Job job) s of (ex, t) \<Rightarrow>
           \<exists>k \<ge> 1. int k \<le> n \<and> t = after_attempts wk job k s \<and> execution_of wk job s k ex) \<and>
        (case process wk (MalformedJob d err) s of (ex, t) \<Rightarrow>
           t = s \<and> we_status ex = JOB_FAILED \<and> we_attempts ex = 0))"
proof (cases "n < 1")
  case False
  define wk where "wk = \<lparr>wk_orchestrator = orchestrator, wk_output_poster = poster, wk_max_attempts = n,
    wk_timeout_seconds = timeout_seconds, wk_timed = timed\<rparr>"
  with False have "worker_init orchestrator poster n timeout_seconds timed = Inr wk" "wk_max_attempts wk = n"
    by (simp_all add: worker_init_def)
  with False attempts_from_execution [of 0 "nat n" wk job s "[]"] show ?thesis
    by (auto simp: Suc_le_eq split: prod.splits)
qed (simp add: worker_init_def)

section \<open>The loop\<close>

fun process_all :: "'w worker \<Rightarrow> string queued_job list \<Rightarrow> 'w \<Rightarrow> worker_execution list \<times> 'w" where
  "process_all wk [] s = ([], s)"
| "process_all wk (job # jobs) s =
     (case process wk job s of
        (ex, t) \<Rightarrow> (case process_all wk jobs t of (exs, u) \<Rightarrow> (ex # exs, u)))"

locale worker_queue = job_queue waiting enqueue dequeue ack as_queued
  for waiting :: "'q \<Rightarrow> string queued_job list"
    and enqueue :: "'e \<Rightarrow> ('q, unit) act"
    and dequeue :: "('q, string queued_job option) act"
    and ack :: "string queued_job \<Rightarrow> ('q, unit) act"
    and as_queued :: "'e \<Rightarrow> string queued_job"
begin

lemma drain:
  "\<exists>q'. run_until_empty wk dequeue ack results q s =
      Some (Inr (results @ fst (process_all wk (waiting q) s)), q', snd (process_all wk (waiting q) s)) \<and>
    waiting q' = []"
proof (induction "waiting q" arbitrary: q results s)
  case Nil
  then obtain q' where "dequeue q = (Inr None, q')" "waiting q' = []" using dequeue_empty [of q] by metis
  with Nil [symmetric] show ?case by (simp add: run_until_empty.simps)
next
  case (Cons job jobs)
  obtain q1 where q1: "dequeue q = (Inr (Some job), q1)" "waiting q1 = jobs"
    using dequeue_next [of q job jobs] Cons(2) by metis
  obtain q2 where q2: "ack job q1 = (Inr (), q2)" "waiting q2 = jobs" using ack_keeps [of job q1] q1(2) by metis
  obtain ex t where ex: "process wk job s = (ex, t)" by fastforce
  from Cons(1) [of q2 "results @ [ex]" t] q2(2) obtain q' where
    "run_until_empty wk dequeue ack (results @ [ex]) q2 t =
       Some (Inr ((results @ [ex]) @ fst (process_all wk jobs t)), q', snd (process_all wk jobs t))" "waiting q' = []"
    by auto
  with q1 q2 ex show ?case
    by (simp add: run_until_empty.simps [of _ _ _ _ q] Cons(2) [symmetric] split: prod.split)
qed

lemma turn_is_first_step:
  assumes "waiting q = job # jobs"
  shows "\<exists>q'. forever_turn wk dequeue ack q s =
     (Inr (Some (fst (process wk job s))), q', snd (process wk job s)) \<and> waiting q' = jobs"
proof -
  obtain q1 where q1: "dequeue q = (Inr (Some job), q1)" "waiting q1 = jobs"
    using dequeue_next [OF assms] by blast
  obtain q2 where "ack job q1 = (Inr (), q2)" "waiting q2 = jobs" using ack_keeps [of job q1] q1(2) by metis
  with q1 show ?thesis by (simp add: forever_turn_def split: prod.split)
qed

end

interpretation worker_memory: worker_queue "map Job" memory_enqueue memory_dequeue memory_ack Job
  by unfold_locales

text \<open>C15. The worker drains its queue and stops: over the in-memory queue \<open>run_until_empty\<close> returns,
  whatever the orchestrator does, with the queue empty and one execution per job that was waiting,
  in the order of the queue, each job processed in the state its predecessor left.\<close>

theorem drains_the_queue:
  "run_until_empty wk memory_dequeue memory_ack [] jobs s =
     Some (Inr (fst (process_all wk (map Job jobs) s)), [], snd (process_all wk (map Job jobs) s))"
  using worker_memory.drain [of wk "[]" jobs s] by auto

end
