(* ===== verification/Redis_Facts.thy ===== *)
theory Redis_Facts
  imports Worker_Facts "HOL-Library.Multiset"
begin

text \<open>
  The worker on a queue in a Redis stream. The server is not code of the repository: it is seen
  through what redis-py documents of the five commands the queue uses, collected in \<open>stream_server\<close>;
  the last section has a server that keeps it. From it follow that no job is lost when workers die, and
  that a worker that keeps running processes and acknowledges every job that is waiting or was
  left behind.
\<close>

section \<open>What the server promises\<close>

type_synonym pending_list = "(redis_message \<times> int) list"

text \<open>
  A stream as its consumer group sees it: the messages that were not delivered yet, and those that
  were delivered and not acknowledged, each with the milliseconds since its last delivery.
\<close>

record stream_view =
  sv_waiting :: "redis_message list"
  sv_pending :: pending_list

definition message_id :: "redis_message \<Rightarrow> string res" where
  "message_id m = to_str (fst m)"

definition outstanding :: "stream_view \<Rightarrow> redis_message list" where
  "outstanding v = map fst (sv_pending v) @ sv_waiting v"

text \<open>Every message has an id of its own, which reads as a text.\<close>

definition good_view :: "stream_view \<Rightarrow> bool" where
  "good_view v \<longleftrightarrow> distinct (map message_id (outstanding v)) \<and>
     (\<forall>m \<in> set (outstanding v). \<exists>s. message_id m = Inr s \<and> s \<noteq> [])"

text \<open>While a command runs, time passes for the pending messages.\<close>

definition aged :: "pending_list \<Rightarrow> pending_list \<Rightarrow> bool" where
  "aged p p' \<longleftrightarrow> map fst p' = map fst p \<and> list_all2 (\<lambda>x y. snd x \<le> snd y) p p'"

definition redelivered :: "redis_message \<Rightarrow> pending_list \<Rightarrow> pending_list" where
  "redelivered m p = map (\<lambda>(x, t). (x, if x = m then 0 else t)) p"

text \<open>\<open>XADD\<close> appends a message with a new id; the client writes its text in UTF-8, which it must allow.\<close>

definition server_adds :: "'w redis_client \<Rightarrow> redis_settings \<Rightarrow> ('w \<Rightarrow> stream_view) \<Rightarrow> bool" where
  "server_adds client cfg view \<longleftrightarrow>
     (\<forall>w job. good_view (view w) \<and> utf8_ok (map of_char job) \<longrightarrow>
        (\<exists>w' key. rc_xadd client (rq_stream cfg) [(''job'', job)] w = (Inr (), w') \<and> good_view (view w') \<and>
           sv_waiting (view w') = sv_waiting (view w) @ [(key, [(RBytes ''job'', RBytes job)])] \<and>
           aged (sv_pending (view w)) (sv_pending (view w'))))"

text \<open>\<open>XREADGROUP\<close> with \<open>>\<close> delivers the first message nobody has been given, if there is one.\<close>

definition server_reads :: "'w redis_client \<Rightarrow> redis_settings \<Rightarrow> ('w \<Rightarrow> stream_view) \<Rightarrow> bool" where
  "server_reads client cfg view \<longleftrightarrow>
     (\<forall>w. good_view (view w) \<longrightarrow>
        (\<exists>w' key. rc_xreadgroup client (rq_group cfg) (rq_consumer cfg) [(rq_stream cfg, ''>'')] 1 (rq_read_block_ms cfg) w =
             (Inr (case sv_waiting (view w) of [] \<Rightarrow> [] | m # _ \<Rightarrow> [(key, [m])]), w') \<and>
           sv_waiting (view w') = tl (sv_waiting (view w)) \<and>
           aged (sv_pending (view w) @ (case sv_waiting (view w) of [] \<Rightarrow> [] | m # _ \<Rightarrow> [(m, 0)])) (sv_pending (view w'))))"

text \<open>
  \<open>XAUTOCLAIM\<close> looks from a start id on for a pending message that has been idle for long enough
  (it may stop looking early, but not before the first); the id it returns is where to go on, and
  \<open>0-0\<close> when it came to the end. \<open>from_id\<close> says which pending messages have at least that id.
\<close>

definition claimed :: "int \<Rightarrow> pending_list \<Rightarrow> redis_message list \<Rightarrow> bool" where
  "claimed idle candidates messages \<longleftrightarrow>
     (case messages of
        [] \<Rightarrow> candidates = [] \<or> snd (hd candidates) < idle
      | m # ms \<Rightarrow> ms = [] \<and> (\<exists>t. (m, t) \<in> set candidates \<and> idle \<le> t))"

definition server_claims ::
  "'w redis_client \<Rightarrow> redis_settings \<Rightarrow> ('w \<Rightarrow> stream_view) \<Rightarrow> (string \<Rightarrow> pending_list \<Rightarrow> pending_list) \<Rightarrow> bool" where
  "server_claims client cfg view from_id \<longleftrightarrow>
     (\<forall>p. from_id ''0-0'' p = p) \<and> (\<forall>p start. set (from_id start p) \<subseteq> set p) \<and>
     (\<forall>w start. good_view (view w) \<longrightarrow>
        (\<exists>w' key next_id messages.
           rc_xautoclaim client (rq_stream cfg) (rq_group cfg) (rq_consumer cfg) (rq_claim_idle_ms cfg) start 1 w =
             (Inr (key, messages), w') \<and> to_str key = Inr next_id \<and>
           claimed (rq_claim_idle_ms cfg) (from_id start (sv_pending (view w))) messages \<and>
           (from_id start (sv_pending (view w)) = [] \<longrightarrow> next_id = ''0-0'') \<and>
           sv_waiting (view w') = sv_waiting (view w) \<and>
           aged (case messages of [] \<Rightarrow> sv_pending (view w) | m # _ \<Rightarrow> redelivered m (sv_pending (view w)))
             (sv_pending (view w'))))"

text \<open>\<open>XACK\<close> takes the message with the id off the pending ones.\<close>

definition server_acks :: "'w redis_client \<Rightarrow> redis_settings \<Rightarrow> ('w \<Rightarrow> stream_view) \<Rightarrow> bool" where
  "server_acks client cfg view \<longleftrightarrow>
     (\<forall>w i. good_view (view w) \<longrightarrow>
        (\<exists>w'. rc_xack client (rq_stream cfg) (rq_group cfg) i w = (Inr (), w') \<and>
           sv_waiting (view w') = sv_waiting (view w) \<and>
           aged (filter (\<lambda>(m, t). message_id m \<noteq> Inr i) (sv_pending (view w))) (sv_pending (view w'))))"

definition stream_server ::
  "'w redis_client \<Rightarrow> redis_settings \<Rightarrow> ('w \<Rightarrow> stream_view) \<Rightarrow> (string \<Rightarrow> pending_list \<Rightarrow> pending_list) \<Rightarrow> bool" where
  "stream_server client cfg view from_id \<longleftrightarrow>
     server_adds client cfg view \<and> server_reads client cfg view \<and> server_claims client cfg view from_id \<and>
     server_acks client cfg view"

section \<open>Jobs and messages\<close>

definition job_of :: "redis_message \<Rightarrow> string queued_job" where
  "job_of m = (case job_from_message m of Inr job \<Rightarrow> job | Inl e \<Rightarrow> MalformedJob [] [])"

lemma deserialize_job_delivery: "deserialize_job payload delivery = Inr job \<Longrightarrow> ej_delivery_id job = delivery"
  by (auto simp: deserialize_job_def Let_def split: if_splits)

lemma job_of_message:
  assumes "message_id m = Inr i"
  shows "job_from_message m = Inr (job_of m) \<and> delivery_id (job_of m) = i"
proof -
  obtain j where j: "job_from_message m = Inr j" and "delivery_id j = i"
    using assms
    by (cases m; cases "bindR (field_value (snd m) ''job'') (\<lambda>payload. deserialize_job payload i)")
      (auto simp: job_from_message_def message_id_def bindR_eq_Inl split: sum.split,
        meson deserialize_job_delivery)
  then show ?thesis by (simp add: job_of_def)
qed

section \<open>Views\<close>

definition keep :: "(redis_message \<Rightarrow> bool) \<Rightarrow> pending_list \<Rightarrow> pending_list" where
  "keep P p = filter (\<lambda>(m, t). P m) p"

definition all_idle :: "int \<Rightarrow> pending_list \<Rightarrow> bool" where
  "all_idle idle p \<longleftrightarrow> (\<forall>(m, t) \<in> set p. idle \<le> t)"

lemma aged_Nil [simp]: "aged [] p = (p = [])" "aged p [] = (p = [])"
  by (auto simp: aged_def)

lemma aged_Cons [simp]: "aged (x # p) (y # q) = (fst y = fst x \<and> snd x \<le> snd y \<and> aged p q)"
  by (auto simp: aged_def)

lemma aged_messages: "aged p q \<Longrightarrow> map fst q = map fst p"
  by (simp add: aged_def)

lemma aged_trans: "aged p q \<Longrightarrow> aged q r \<Longrightarrow> aged p r"
proof (induction p arbitrary: q r)
  case (Cons x p)
  then show ?case by (cases q; cases r) auto
qed simp

lemma aged_keep: "aged p q \<Longrightarrow> aged (keep P p) (keep P q)"
proof (induction p arbitrary: q)
  case (Cons x p)
  then show ?case by (cases q; cases x; cases "hd q") (auto simp: keep_def)
qed (simp add: keep_def)

lemma aged_idle: "aged p q \<Longrightarrow> all_idle idle p \<Longrightarrow> all_idle idle q"
proof (induction p arbitrary: q)
  case (Cons x p)
  then show ?case by (cases q; cases x; cases "hd q") (auto simp: all_idle_def)
qed (simp add: all_idle_def)

lemma redelivered_messages [simp]: "map fst (redelivered m p) = map fst p"
  by (simp add: redelivered_def case_prod_beta)

lemma keep_messages: "map fst (keep P p) = filter P (map fst p)"
  by (induction p) (auto simp: keep_def)

lemma keep_redelivered: "\<not> P m \<Longrightarrow> keep P (redelivered m p) = keep P p"
  by (induction p) (auto simp: keep_def redelivered_def)

lemma keep_idle: "all_idle idle p \<Longrightarrow> all_idle idle (keep P p)"
  by (auto simp: all_idle_def keep_def)

lemma distinct_part: "mset xs \<subseteq># mset ys \<Longrightarrow> distinct ys \<Longrightarrow> distinct xs"
proof -
  assume "mset xs \<subseteq># mset ys" and distinct: "distinct ys"
  then obtain zs where "mset ys = mset (xs @ zs)"
    by (metis ex_mset mset_append mset_subset_eq_exists_conv)
  with distinct have "distinct (xs @ zs)" by (metis mset_eq_imp_distinct_iff)
  then show "distinct xs" by simp
qed

lemma good_view_part:
  assumes "good_view v" "mset (outstanding v') \<subseteq># mset (outstanding v)"
  shows "good_view v'"
proof -
  have "mset (map message_id (outstanding v')) \<subseteq># mset (map message_id (outstanding v))"
    using assms(2) by (simp add: image_mset_subseteq_mono)
  moreover have "set (outstanding v') \<subseteq> set (outstanding v)"
    using assms(2) by (metis set_mset_mono set_mset_mset)
  ultimately show ?thesis
    using assms(1) distinct_part unfolding good_view_def by blast
qed

lemma good_view_id: "good_view v \<Longrightarrow> m \<in> set (outstanding v) \<Longrightarrow> \<exists>i. message_id m = Inr i \<and> i \<noteq> []"
  by (simp add: good_view_def)

lemma same_id: "good_view v \<Longrightarrow> m \<in> set (outstanding v) \<Longrightarrow> x \<in> set (outstanding v) \<Longrightarrow>
    message_id x = message_id m \<longleftrightarrow> x = m"
  unfolding good_view_def distinct_map by (meson inj_on_eq_iff)

section \<open>Taking a job\<close>

text \<open>What a claim by the queue does to the stream.\<close>

definition claim_effect ::
  "int \<Rightarrow> pending_list \<Rightarrow> redis_message option \<Rightarrow> stream_view \<Rightarrow> stream_view \<Rightarrow> bool" where
  "claim_effect idle candidates taken v v' \<longleftrightarrow>
     claimed idle candidates (case taken of None \<Rightarrow> [] | Some m \<Rightarrow> [m]) \<and> sv_waiting v' = sv_waiting v \<and>
     aged (case taken of None \<Rightarrow> sv_pending v | Some m \<Rightarrow> redelivered m (sv_pending v)) (sv_pending v')"

lemma claim_outcome:
  assumes server: "stream_server client cfg view from_id" and good: "good_view (view (rs_redis q))"
  shows "\<exists>q' taken. claim_pending client cfg q = (Inr (map_option job_of taken), q') \<and>
    claim_effect (rq_claim_idle_ms cfg) (from_id (rs_claim_start_id q) (sv_pending (view (rs_redis q)))) taken
      (view (rs_redis q)) (view (rs_redis q')) \<and>
    (from_id (rs_claim_start_id q) (sv_pending (view (rs_redis q))) = [] \<longrightarrow> rs_claim_start_id q' = ''0-0'')"
proof -
  let ?v = "view (rs_redis q)" and ?start = "rs_claim_start_id q"
  from server have part: "set (from_id ?start (sv_pending ?v)) \<subseteq> set (sv_pending ?v)"
    by (simp add: stream_server_def server_claims_def)
  from server good obtain w' key next_id messages where
    claim: "rc_xautoclaim client (rq_stream cfg) (rq_group cfg) (rq_consumer cfg) (rq_claim_idle_ms cfg) ?start 1
      (rs_redis q) = (Inr (key, messages), w')" and key: "to_str key = Inr next_id"
    and taken: "claimed (rq_claim_idle_ms cfg) (from_id ?start (sv_pending ?v)) messages"
    and finished: "from_id ?start (sv_pending ?v) = [] \<longrightarrow> next_id = ''0-0''"
    and after: "sv_waiting (view w') = sv_waiting ?v"
      "aged (case messages of [] \<Rightarrow> sv_pending ?v | m # _ \<Rightarrow> redelivered m (sv_pending ?v)) (sv_pending (view w'))"
    unfolding stream_server_def server_claims_def by blast
  let ?q' = "\<lparr>rs_claim_start_id = next_id, rs_redis = w'\<rparr>"
  show ?thesis
  proof (cases messages)
    case Nil
    then have "claim_pending client cfg q = (Inr None, ?q')"
      using claim key by (simp add: claim_pending_def on_redis_def act_simps)
    with Nil taken finished after show ?thesis
      by (intro exI [of _ ?q'] exI [of _ None]) (simp add: claim_effect_def)
  next
    case (Cons m ms)
    with taken part have "m \<in> set (outstanding ?v)" and ms: "ms = []"
      by (auto simp: claimed_def outstanding_def image_iff intro!: bexI)
    with good obtain i where "message_id m = Inr i" using good_view_id by blast
    then have "job_from_message m = Inr (job_of m)" using job_of_message by blast
    then have "claim_pending client cfg q = (Inr (Some (job_of m)), ?q')"
      using claim key Cons by (simp add: claim_pending_def on_redis_def act_simps)
    with Cons ms taken finished after show ?thesis
      by (intro exI [of _ ?q'] exI [of _ "Some m"]) (simp add: claim_effect_def)
  qed
qed

text \<open>
  What a dequeue does: it takes a message that was outstanding and leaves it pending, or there is
  nothing waiting and nothing to claim from the start id on.
\<close>

definition dequeue_effect ::
  "int \<Rightarrow> pending_list \<Rightarrow> redis_message option \<Rightarrow> stream_view \<Rightarrow> stream_view \<Rightarrow> bool" where
  "dequeue_effect idle candidates taken v v' \<longleftrightarrow>
     mset (outstanding v') = mset (outstanding v) \<and>
     (case taken of
        None \<Rightarrow> sv_waiting v = [] \<and> sv_waiting v' = [] \<and> claimed idle candidates [] \<and> aged (sv_pending v) (sv_pending v')
      | Some m \<Rightarrow> m \<in> fst ` set (sv_pending v') \<and>
          aged (keep (\<lambda>x. x \<noteq> m) (sv_pending v)) (keep (\<lambda>x. x \<noteq> m) (sv_pending v')))"

lemma claim_effect_taken:
  assumes "claim_effect idle candidates (Some m) v v'" "set candidates \<subseteq> set (sv_pending v)"
  shows "dequeue_effect idle candidates (Some m) v v'"
proof -
  from assms have aged: "aged (redelivered m (sv_pending v)) (sv_pending v')"
    and same: "sv_waiting v' = sv_waiting v" and m: "m \<in> fst ` set (sv_pending v)"
    by (auto simp: claim_effect_def claimed_def image_iff intro!: bexI)
  from aged have "map fst (sv_pending v') = map fst (sv_pending v)" using aged_messages by fastforce
  moreover from this m have "m \<in> fst ` set (sv_pending v')" by (metis list.set_map)
  moreover have "aged (keep (\<lambda>x. x \<noteq> m) (sv_pending v)) (keep (\<lambda>x. x \<noteq> m) (sv_pending v'))"
    using aged_keep [OF aged, of "\<lambda>x. x \<noteq> m"] by (simp add: keep_redelivered)
  ultimately show ?thesis using same by (simp add: dequeue_effect_def outstanding_def)
qed

lemma dequeue_outcome:
  assumes server: "stream_server client cfg view from_id" and good: "good_view (view (rs_redis q))"
  shows "\<exists>q' taken. redis_dequeue client cfg q = (Inr (map_option job_of taken), q') \<and>
    dequeue_effect (rq_claim_idle_ms cfg) (from_id (rs_claim_start_id q) (sv_pending (view (rs_redis q)))) taken
      (view (rs_redis q)) (view (rs_redis q')) \<and>
    (from_id (rs_claim_start_id q) (sv_pending (view (rs_redis q))) = [] \<longrightarrow> rs_claim_start_id q' = ''0-0'')"
    (is "\<exists>q' taken. ?goal q' taken")
proof -
  let ?v = "view (rs_redis q)"
  obtain q1 taken where claim: "claim_pending client cfg q = (Inr (map_option job_of taken), q1)"
    and effect: "claim_effect (rq_claim_idle_ms cfg) (from_id (rs_claim_start_id q) (sv_pending ?v)) taken ?v (view (rs_redis q1))"
    and start: "from_id (rs_claim_start_id q) (sv_pending ?v) = [] \<longrightarrow> rs_claim_start_id q1 = ''0-0''"
    using claim_outcome [OF server good] by blast
  from server have part: "set (from_id (rs_claim_start_id q) (sv_pending ?v)) \<subseteq> set (sv_pending ?v)"
    by (simp add: stream_server_def server_claims_def)
  show ?thesis
  proof (cases taken)
    case (Some m)
    with claim have "redis_dequeue client cfg q = (Inr (Some (job_of m)), q1)"
      by (simp add: redis_dequeue_def act_simps)
    moreover have "dequeue_effect (rq_claim_idle_ms cfg) (from_id (rs_claim_start_id q) (sv_pending ?v)) (Some m) ?v
        (view (rs_redis q1))"
      using effect part unfolding Some by (rule claim_effect_taken)
    ultimately show ?thesis using start by (intro exI [of _ q1] exI [of _ "Some m"]) simp
  next
    case None
    let ?v1 = "view (rs_redis q1)"
    from effect None have v1: "sv_waiting ?v1 = sv_waiting ?v" "aged (sv_pending ?v) (sv_pending ?v1)"
      and none_idle: "claimed (rq_claim_idle_ms cfg) (from_id (rs_claim_start_id q) (sv_pending ?v)) []"
      by (simp_all add: claim_effect_def)
    then have same: "outstanding ?v1 = outstanding ?v" using aged_messages by (simp add: outstanding_def)
    with good have "good_view ?v1" using good_view_part by simp
    then obtain w' key where
      read: "rc_xreadgroup client (rq_group cfg) (rq_consumer cfg) [(rq_stream cfg, ''>'')] 1 (rq_read_block_ms cfg) (rs_redis q1) =
        (Inr (case sv_waiting ?v1 of [] \<Rightarrow> [] | m # _ \<Rightarrow> [(key, [m])]), w')"
      and v2: "sv_waiting (view w') = tl (sv_waiting ?v1)"
        "aged (sv_pending ?v1 @ (case sv_waiting ?v1 of [] \<Rightarrow> [] | m # _ \<Rightarrow> [(m, 0)])) (sv_pending (view w'))"
      using server unfolding stream_server_def server_reads_def by blast
    let ?q' = "q1\<lparr>rs_redis := w'\<rparr>"
    from v2(2) have messages: "map fst (sv_pending (view w')) =
        map fst (sv_pending ?v1) @ (case sv_waiting ?v1 of [] \<Rightarrow> [] | m # _ \<Rightarrow> [m])"
      using aged_messages by (fastforce split: list.splits)
    show ?thesis
    proof (cases "sv_waiting ?v1")
      case Nil
      with claim None read have "redis_dequeue client cfg q = (Inr None, ?q')"
        by (simp add: redis_dequeue_def act_simps on_redis_def job_from_streams_def)
      moreover have "aged (sv_pending ?v) (sv_pending (view w'))" using v1(2) v2(2) Nil aged_trans by fastforce
      ultimately have "?goal ?q' None"
        using v1 v2 Nil start messages same by (simp add: dequeue_effect_def outstanding_def none_idle)
      then show ?thesis by blast
    next
      case (Cons m rest)
      then have "m \<in> set (outstanding ?v1)" by (simp add: outstanding_def)
      with \<open>good_view ?v1\<close> have "job_from_message m = Inr (job_of m)" using good_view_id job_of_message by blast
      with claim None read Cons have "redis_dequeue client cfg q = (Inr (Some (job_of m)), ?q')"
        by (simp add: redis_dequeue_def act_simps on_redis_def job_from_streams_def)
      moreover have "aged (keep (\<lambda>x. x \<noteq> m) (sv_pending ?v)) (keep (\<lambda>x. x \<noteq> m) (sv_pending (view w')))"
        using aged_trans [OF aged_keep [OF v1(2)]] aged_keep [OF v2(2), of "\<lambda>x. x \<noteq> m"] Cons by (simp add: keep_def)
      moreover have "m \<in> set (map fst (sv_pending (view w')))" unfolding messages using Cons by simp
      moreover have "mset (outstanding (view w')) = mset (outstanding ?v)"
        unfolding same [symmetric] using messages Cons v2(1) by (simp add: outstanding_def)
      ultimately have "?goal ?q' (Some m)" using start by (simp add: dequeue_effect_def image_iff)
      then show ?thesis by blast
    qed
  qed
qed

section \<open>One turn\<close>

lemma keep_by_id:
  assumes "good_view v" "m \<in> set (outstanding v)"
  shows "filter (\<lambda>(x, t). message_id x \<noteq> message_id m) (sv_pending v) = keep (\<lambda>x. x \<noteq> m) (sv_pending v)"
  unfolding keep_def
proof (rule filter_cong)
  fix y assume y: "y \<in> set (sv_pending v)"
  then have "fst y \<in> set (outstanding v)" by (simp add: outstanding_def)
  with same_id [OF assms] y show "(case y of (x, t) \<Rightarrow> message_id x \<noteq> message_id m) = (case y of (x, t) \<Rightarrow> x \<noteq> m)"
    by (simp add: case_prod_beta)
qed simp

lemma good_view_distinct: "good_view v \<Longrightarrow> distinct (outstanding v)"
  by (simp add: good_view_def distinct_map)

lemma remove_pending:
  assumes "distinct (p @ w)" "m \<in> set p"
  shows "mset (filter (\<lambda>x. x \<noteq> m) p @ w) = mset (p @ w) - {#m#}"
proof -
  have "filter (\<lambda>x. x \<noteq> m) p = remove1 m p"
    using assms(1) by (simp add: distinct_remove1_removeAll removeAll_filter_not_eq eq_commute)
  with assms(2) show ?thesis by (simp add: remove1_append mset_remove1 [symmetric] del: mset_append mset_remove1)
qed

text \<open>An acknowledged message is gone, the others are as they were.\<close>

lemma ack_outcome:
  assumes server: "stream_server client cfg view from_id" and good: "good_view (view (rs_redis q))"
    and m: "m \<in> fst ` set (sv_pending (view (rs_redis q)))"
  shows "\<exists>q'. redis_ack client cfg (job_of m) q = (Inr (), q') \<and> rs_claim_start_id q' = rs_claim_start_id q \<and>
    sv_waiting (view (rs_redis q')) = sv_waiting (view (rs_redis q)) \<and>
    aged (keep (\<lambda>x. x \<noteq> m) (sv_pending (view (rs_redis q)))) (sv_pending (view (rs_redis q'))) \<and>
    mset (outstanding (view (rs_redis q'))) = mset (outstanding (view (rs_redis q))) - {#m#}"
proof -
  let ?v = "view (rs_redis q)"
  have out: "m \<in> set (outstanding ?v)" using m by (auto simp: outstanding_def)
  with good obtain i where i: "message_id m = Inr i" "i \<noteq> []" using good_view_id by blast
  then have delivery: "delivery_id (job_of m) = i" using job_of_message by blast
  from server good obtain w' where ack: "rc_xack client (rq_stream cfg) (rq_group cfg) i (rs_redis q) = (Inr (), w')"
    and same: "sv_waiting (view w') = sv_waiting ?v"
    and aged: "aged (filter (\<lambda>(x, t). message_id x \<noteq> Inr i) (sv_pending ?v)) (sv_pending (view w'))"
    unfolding stream_server_def server_acks_def by blast
  have aged': "aged (keep (\<lambda>x. x \<noteq> m) (sv_pending ?v)) (sv_pending (view w'))"
    using aged keep_by_id [OF good out] i(1) by simp
  then have "outstanding (view w') = filter (\<lambda>x. x \<noteq> m) (map fst (sv_pending ?v)) @ sv_waiting ?v"
    using aged_messages same by (metis keep_messages outstanding_def)
  moreover have "distinct (map fst (sv_pending ?v) @ sv_waiting ?v)"
    using good_view_distinct [OF good] by (simp add: outstanding_def)
  ultimately have "mset (outstanding (view w')) = mset (outstanding ?v) - {#m#}"
    using remove_pending [of "map fst (sv_pending ?v)" "sv_waiting ?v" m] m by (simp add: outstanding_def)
  with ack delivery i(2) same aged' show ?thesis
    by (intro exI [of _ "q\<lparr>rs_redis := w'\<rparr>"]) (simp add: redis_ack_def on_redis_def)
qed

text \<open>
  A turn of the worker over a stream whose pending messages have been idle for long enough: it
  processes an outstanding message and acknowledges it, or nothing was waiting and nothing pending from
  the start id on, and the next claim starts from the beginning.
\<close>

definition queue_ready :: "'w redis_client \<Rightarrow> redis_settings \<Rightarrow> ('w \<Rightarrow> stream_view) \<Rightarrow> 'w redis_queue \<Rightarrow> bool" where
  "queue_ready client cfg view q \<longleftrightarrow> good_view (view (rs_redis q)) \<and>
     all_idle (rq_claim_idle_ms cfg) (sv_pending (view (rs_redis q)))"

lemma turn_outcome:
  assumes server: "stream_server client cfg view from_id" and ready: "queue_ready client cfg view q"
  shows "\<exists>q' r. queue_ready client cfg view q' \<and>
    (case r of
       None \<Rightarrow> forever_turn wk (redis_dequeue client cfg) (redis_ack client cfg) q s = (Inr None, q', s) \<and>
         from_id (rs_claim_start_id q) (sv_pending (view (rs_redis q))) = [] \<and> sv_waiting (view (rs_redis q)) = [] \<and>
         rs_claim_start_id q' = ''0-0'' \<and> mset (outstanding (view (rs_redis q'))) = mset (outstanding (view (rs_redis q)))
     | Some m \<Rightarrow>
         forever_turn wk (redis_dequeue client cfg) (redis_ack client cfg) q s =
           (Inr (Some (fst (process wk (job_of m) s))), q', snd (process wk (job_of m) s)) \<and>
         m \<in># mset (outstanding (view (rs_redis q))) \<and>
         mset (outstanding (view (rs_redis q'))) = mset (outstanding (view (rs_redis q))) - {#m#})"
proof -
  let ?v = "view (rs_redis q)" and ?idle = "rq_claim_idle_ms cfg"
  let ?from = "from_id (rs_claim_start_id q) (sv_pending ?v)"
  from ready have good: "good_view ?v" and idle: "all_idle ?idle (sv_pending ?v)" by (simp_all add: queue_ready_def)
  from server have part: "set ?from \<subseteq> set (sv_pending ?v)" by (simp add: stream_server_def server_claims_def)
  obtain q1 taken where deq: "redis_dequeue client cfg q = (Inr (map_option job_of taken), q1)"
    and effect: "dequeue_effect ?idle ?from taken ?v (view (rs_redis q1))"
    and start: "?from = [] \<longrightarrow> rs_claim_start_id q1 = ''0-0''"
    using dequeue_outcome [OF server good] by blast
  from effect have same: "mset (outstanding (view (rs_redis q1))) = mset (outstanding ?v)"
    by (simp add: dequeue_effect_def)
  with good have good1: "good_view (view (rs_redis q1))" by (metis good_view_part subset_mset.order_refl)
  show ?thesis
  proof (cases taken)
    case None
    with effect have "aged (sv_pending ?v) (sv_pending (view (rs_redis q1)))" "claimed ?idle ?from []"
      and wait: "sv_waiting ?v = []" by (simp_all add: dequeue_effect_def)
    then have ready1: "queue_ready client cfg view q1" and "?from = [] \<or> snd (hd ?from) < ?idle"
      using aged_idle [OF _ idle] good1 by (simp_all add: queue_ready_def claimed_def)
    moreover have "\<not> snd (hd ?from) < ?idle" if "?from \<noteq> []"
      using idle part hd_in_set [OF that] by (fastforce simp: all_idle_def)
    ultimately have "?from = []" by blast
    with None deq start same ready1 wait show ?thesis
      by (intro exI [of _ q1] exI [of _ None]) (simp add: forever_turn_def)
  next
    case (Some m)
    with effect have m: "m \<in> fst ` set (sv_pending (view (rs_redis q1)))"
      and kept: "aged (keep (\<lambda>x. x \<noteq> m) (sv_pending ?v)) (keep (\<lambda>x. x \<noteq> m) (sv_pending (view (rs_redis q1))))"
      by (simp_all add: dequeue_effect_def)
    obtain q2 where ack: "redis_ack client cfg (job_of m) q1 = (Inr (), q2)"
      and aged2: "aged (keep (\<lambda>x. x \<noteq> m) (sv_pending (view (rs_redis q1)))) (sv_pending (view (rs_redis q2)))"
      and out2: "mset (outstanding (view (rs_redis q2))) = mset (outstanding (view (rs_redis q1))) - {#m#}"
      using ack_outcome [OF server good1 m] by blast
    have "good_view (view (rs_redis q2))" using good1 by (rule good_view_part) (simp add: out2)
    moreover have "all_idle ?idle (sv_pending (view (rs_redis q2)))"
      using aged_idle [OF aged_trans [OF kept aged2] keep_idle [OF idle]] .
    moreover have "m \<in># mset (outstanding ?v)" unfolding same [symmetric] using m by (auto simp: outstanding_def)
    ultimately show ?thesis
      using Some deq ack out2 same
      by (intro exI [of _ q2] exI [of _ "Some m"]) (simp add: forever_turn_def queue_ready_def split: prod.split)
  qed
qed

section \<open>A worker that keeps running\<close>

definition turns_needed :: "('w \<Rightarrow> stream_view) \<Rightarrow> 'w redis_queue \<Rightarrow> nat" where
  "turns_needed view q =
     2 * size (mset (outstanding (view (rs_redis q)))) + (if rs_claim_start_id q = ''0-0'' then 0 else 1)"

lemma turns_empty_stream:
  assumes server: "stream_server client cfg view from_id"
  shows "queue_ready client cfg view q \<Longrightarrow> turns_needed view q \<le> n \<Longrightarrow>
    \<exists>ms q'. forever_turns wk (redis_dequeue client cfg) (redis_ack client cfg) n q s =
        (Inr (fst (process_all wk (map job_of ms) s)), q', snd (process_all wk (map job_of ms) s)) \<and>
      mset ms = mset (outstanding (view (rs_redis q))) \<and> outstanding (view (rs_redis q')) = []"
proof (induction n arbitrary: q s)
  case 0
  then show ?case by (auto simp: turns_needed_def)
next
  case (Suc n)
  let ?out = "mset (outstanding (view (rs_redis q)))"
  from server have zero: "from_id ''0-0'' p = p" for p by (simp add: stream_server_def server_claims_def)
  obtain q1 r where ready1: "queue_ready client cfg view q1" and turn: "case r of
       None \<Rightarrow> forever_turn wk (redis_dequeue client cfg) (redis_ack client cfg) q s = (Inr None, q1, s) \<and>
         from_id (rs_claim_start_id q) (sv_pending (view (rs_redis q))) = [] \<and> sv_waiting (view (rs_redis q)) = [] \<and>
         rs_claim_start_id q1 = ''0-0'' \<and> mset (outstanding (view (rs_redis q1))) = ?out
     | Some m \<Rightarrow>
         forever_turn wk (redis_dequeue client cfg) (redis_ack client cfg) q s =
           (Inr (Some (fst (process wk (job_of m) s))), q1, snd (process wk (job_of m) s)) \<and>
         m \<in># ?out \<and> mset (outstanding (view (rs_redis q1))) = ?out - {#m#}"
    using turn_outcome [OF server Suc.prems(1), of wk s] by blast
  show ?case
  proof (cases r)
    case None
    with turn have empty: "?out = {#}" if "rs_claim_start_id q = ''0-0''"
      using that zero by (simp add: outstanding_def)
    with turn None Suc.prems(2) have "turns_needed view q1 \<le> n"
      by (cases "?out = {#}") (auto simp: turns_needed_def split: if_splits)
    from Suc.IH [OF ready1 this, of s] turn None show ?thesis by auto
  next
    case (Some m)
    with turn have less: "Suc (size (mset (outstanding (view (rs_redis q1))))) = size ?out"
      by (simp add: size_Suc_Diff1)
    with Suc.prems(2) have "turns_needed view q1 \<le> n"
      by (auto simp: turns_needed_def split: if_splits)
    from Suc.IH [OF ready1 this, of "snd (process wk (job_of m) s)"] obtain ms q' where
      rest: "forever_turns wk (redis_dequeue client cfg) (redis_ack client cfg) n q1 (snd (process wk (job_of m) s)) =
        (Inr (fst (process_all wk (map job_of ms) (snd (process wk (job_of m) s)))), q',
          snd (process_all wk (map job_of ms) (snd (process wk (job_of m) s))))"
      and ms: "mset ms = mset (outstanding (view (rs_redis q1)))" "outstanding (view (rs_redis q')) = []"
      by blast
    from ms(1) turn Some have "mset (m # ms) = ?out" by simp
    with rest turn Some ms(2) show ?thesis
      by (intro exI [of _ "m # ms"] exI [of _ q']) (simp add: case_prod_beta)
  qed
qed

text \<open>C7. Every job of a Redis stream is processed in the end: when the pending messages have been idle for
  long enough, those of dead workers included, a worker that keeps running has, after at most twice as
  many turns as there are messages and one, processed each of them exactly once, whether it decodes
  or not, and acknowledged it; nothing is waiting or pending then, and no turn has raised.\<close>

theorem stream_is_emptied:
  assumes "stream_server client cfg view from_id" and "good_view (view (rs_redis q))"
    and "all_idle (rq_claim_idle_ms cfg) (sv_pending (view (rs_redis q)))"
    and "2 * length (outstanding (view (rs_redis q))) < n"
  shows "\<exists>ms q'. forever_turns wk (redis_dequeue client cfg) (redis_ack client cfg) n q s =
      (Inr (fst (process_all wk (map job_of ms) s)), q', snd (process_all wk (map job_of ms) s)) \<and>
    mset ms = mset (outstanding (view (rs_redis q))) \<and> outstanding (view (rs_redis q')) = []"
  using turns_empty_stream [OF assms(1), of q n wk s] assms(2-)
  by (simp add: queue_ready_def turns_needed_def)

section \<open>Workers that die\<close>

text \<open>
  What happens to a stream: the gateway adds jobs, workers (each with its own settings, start id and
  state) take a turn of their endless loop, or die behind the dequeue, and time passes. The list is a
  log of the turns: the worker's state before, what the turn gave and the worker's state after it;
  the set has the messages that have been in the stream.
\<close>

type_synonym 's turn_log = "('s \<times> worker_execution option res \<times> 's) list"

inductive stream_run ::
  "'w redis_client \<Rightarrow> redis_settings set \<Rightarrow> ('w \<Rightarrow> stream_view) \<Rightarrow> 's worker \<Rightarrow>
   's turn_log \<Rightarrow> redis_message set \<Rightarrow> 'w \<Rightarrow> bool" for client cfgs view wk where
  start: "good_view (view w) \<Longrightarrow> stream_run client cfgs view wk [] (set (outstanding (view w))) w"
| add: "stream_run client cfgs view wk turns seen (rs_redis q) \<Longrightarrow> cfg \<in> cfgs \<Longrightarrow>
    utf8_ok (map of_char (serialize_job enc (job :: json event_job))) \<Longrightarrow>
    redis_enqueue enc client cfg job q = (Inr (), q') \<Longrightarrow>
    stream_run client cfgs view wk turns (seen \<union> set (outstanding (view (rs_redis q')))) (rs_redis q')"
| turn: "stream_run client cfgs view wk turns seen (rs_redis q) \<Longrightarrow> cfg \<in> cfgs \<Longrightarrow>
    forever_turn wk (redis_dequeue client cfg) (redis_ack client cfg) q s = (r, q', s') \<Longrightarrow>
    stream_run client cfgs view wk ((s, r, s') # turns) seen (rs_redis q')"
| death: "stream_run client cfgs view wk turns seen (rs_redis q) \<Longrightarrow> cfg \<in> cfgs \<Longrightarrow>
    redis_dequeue client cfg q = (r, q') \<Longrightarrow> stream_run client cfgs view wk turns seen (rs_redis q')"
| time: "stream_run client cfgs view wk turns seen w \<Longrightarrow> sv_waiting (view w') = sv_waiting (view w) \<Longrightarrow>
    aged (sv_pending (view w)) (sv_pending (view w')) \<Longrightarrow> stream_run client cfgs view wk turns seen w'"

text \<open>A turn in the log gave the execution of this message's job, and left the state of that execution.\<close>

definition handled_in :: "'s worker \<Rightarrow> 's turn_log \<Rightarrow> redis_message \<Rightarrow> bool" where
  "handled_in wk turns m \<longleftrightarrow>
     (\<exists>s ex s'. (s, Inr (Some ex), s') \<in> set turns \<and> process wk (job_of m) s = (ex, s'))"

definition accounted ::
  "('w \<Rightarrow> stream_view) \<Rightarrow> 's worker \<Rightarrow> 's turn_log \<Rightarrow> redis_message set \<Rightarrow> 'w \<Rightarrow> bool" where
  "accounted view wk turns seen w \<longleftrightarrow> good_view (view w) \<and>
     seen \<subseteq> set (outstanding (view w)) \<union> {m. handled_in wk turns m}"

text \<open>What an enqueue does: the message is the last that is waiting, and time passes.\<close>

lemma add_outcome:
  assumes "stream_server client cfg view from_id" and "good_view (view (rs_redis q))"
    and "utf8_ok (map of_char (serialize_job enc job))"
  shows "\<exists>q' key. redis_enqueue enc client cfg job q = (Inr (), q') \<and> good_view (view (rs_redis q')) \<and>
    sv_waiting (view (rs_redis q')) =
      sv_waiting (view (rs_redis q)) @ [(key, [(RBytes ''job'', RBytes (serialize_job enc job))])] \<and>
    aged (sv_pending (view (rs_redis q))) (sv_pending (view (rs_redis q')))"
proof -
  from assms obtain w' key where
    "rc_xadd client (rq_stream cfg) [(''job'', serialize_job enc job)] (rs_redis q) = (Inr (), w')" "good_view (view w')"
    "sv_waiting (view w') = sv_waiting (view (rs_redis q)) @ [(key, [(RBytes ''job'', RBytes (serialize_job enc job))])]"
    "aged (sv_pending (view (rs_redis q))) (sv_pending (view w'))"
    unfolding stream_server_def server_adds_def by blast
  then show ?thesis
    by (intro exI [of _ "q\<lparr>rs_redis := w'\<rparr>"] exI [of _ key]) (simp add: redis_enqueue_def on_redis_def)
qed

lemma accounted_add:
  assumes "stream_server client cfg view from_id" "accounted view wk turns seen (rs_redis q)"
    and "utf8_ok (map of_char (serialize_job enc job))" "redis_enqueue enc client cfg job q = (Inr (), q')"
  shows "accounted view wk turns (seen \<union> set (outstanding (view (rs_redis q')))) (rs_redis q')"
proof -
  from assms(2) have "good_view (view (rs_redis q))" by (simp add: accounted_def)
  from add_outcome [OF assms(1) this assms(3)] assms(4) obtain key where
    "good_view (view (rs_redis q'))"
    "sv_waiting (view (rs_redis q')) =
      sv_waiting (view (rs_redis q)) @ [(key, [(RBytes ''job'', RBytes (serialize_job enc job))])]"
    "aged (sv_pending (view (rs_redis q))) (sv_pending (view (rs_redis q')))"
    by auto
  moreover from this(3) have "map fst (sv_pending (view (rs_redis q'))) = map fst (sv_pending (view (rs_redis q)))"
    by (rule aged_messages)
  ultimately show ?thesis using assms(2) by (auto simp: accounted_def outstanding_def)
qed

lemma accounted_same:
  assumes "accounted view wk turns seen w" "mset (outstanding (view w')) = mset (outstanding (view w))"
  shows "accounted view wk turns seen w'"
proof -
  have "good_view (view w')" using assms by (auto simp: accounted_def intro: good_view_part)
  with assms(1) mset_eq_setD [OF assms(2)] show ?thesis by (simp add: accounted_def)
qed

lemma accounted_turn:
  assumes server: "stream_server client cfg view from_id" and acc: "accounted view wk turns seen (rs_redis q)"
    and turn: "forever_turn wk (redis_dequeue client cfg) (redis_ack client cfg) q s = (r, q', s')"
  shows "accounted view wk ((s, r, s') # turns) seen (rs_redis q')"
proof -
  let ?out = "outstanding (view (rs_redis q))"
  from acc have good: "good_view (view (rs_redis q))" by (simp add: accounted_def)
  from dequeue_outcome [OF server good] obtain q1 taken where
    deq: "redis_dequeue client cfg q = (Inr (map_option job_of taken), q1)"
    and same: "mset (outstanding (view (rs_redis q1))) = mset ?out"
    and m: "\<And>m. taken = Some m \<Longrightarrow> m \<in> fst ` set (sv_pending (view (rs_redis q1)))"
    by (fastforce simp: dequeue_effect_def split: option.splits)
  have good1: "good_view (view (rs_redis q1))" using good by (rule good_view_part) (simp add: same)
  have "handled_in wk ((s, r, s') # turns) x" if "handled_in wk turns x" for x
    using that unfolding handled_in_def by (metis list.set_intros(2))
  then have more: "seen \<subseteq> set ?out \<union> {m. handled_in wk ((s, r, s') # turns) m}"
    using acc by (auto simp: accounted_def)
  show ?thesis
  proof (cases taken)
    case None
    with deq turn have "q' = q1" by (simp add: forever_turn_def)
    with more good1 mset_eq_setD [OF same] show ?thesis by (simp add: accounted_def)
  next
    case (Some m)
    obtain ex s1 where run: "process wk (job_of m) s = (ex, s1)" by fastforce
    from ack_outcome [OF server good1 m [OF Some]] obtain q2 where ack: "redis_ack client cfg (job_of m) q1 = (Inr (), q2)"
      and out2: "mset (outstanding (view (rs_redis q2))) = mset ?out - {#m#}"
      unfolding same [symmetric] by blast
    from deq turn ack run Some have q': "q' = q2" "r = Inr (Some ex)" "s' = s1" by (simp_all add: forever_turn_def)
    with run have handled: "handled_in wk ((s, r, s') # turns) m" by (auto simp: handled_in_def)
    have "x \<in> set (outstanding (view (rs_redis q2)))" if "x \<in> set ?out" "x \<noteq> m" for x
    proof -
      from that have "x \<in># mset ?out - {#m#}" by (simp add: in_diff_count)
      then show ?thesis unfolding out2 [symmetric] by simp
    qed
    then have "set ?out \<subseteq> insert m (set (outstanding (view (rs_redis q2))))" by blast
    moreover have "good_view (view (rs_redis q2))" using good by (rule good_view_part) (simp add: out2)
    ultimately show ?thesis using more handled q'(1) by (auto simp: accounted_def)
  qed
qed


section \<open>A server\<close>

text \<open>
  A server in memory that keeps what \<open>stream_server\<close> asks: one stream and one group, whose state is the
  view itself. A new id is longer than those in use; pending messages are kept in the order of ids.
\<close>

definition id_length :: "redis_message \<Rightarrow> nat" where
  "id_length m = (case message_id m of Inr i \<Rightarrow> length i | Inl e \<Rightarrow> 0)"

definition fresh_id :: "redis_message list \<Rightarrow> string" where
  "fresh_id ms = replicate (Suc (sum_list (map id_length ms))) (CHR ''1'') @ ''-0''"

definition pending_from :: "string \<Rightarrow> pending_list \<Rightarrow> pending_list" where
  "pending_from start p = (if start = ''0-0'' then p else dropWhile (\<lambda>(m, t). message_id m \<noteq> Inr start) p)"

definition serve_claim :: "int \<Rightarrow> string \<Rightarrow> (stream_view, redis_value \<times> redis_message list) act" where
  "serve_claim idle start v =
     (case dropWhile (\<lambda>(m, t). t < idle) (pending_from start (sv_pending v)) of
        [] \<Rightarrow> (Inr (RBytes ''0-0'', []), v)
      | (m, t) # rest \<Rightarrow>
          (Inr (case rest of [] \<Rightarrow> RBytes ''0-0'' | (x, _) # _ \<Rightarrow> fst x, [m]),
           v\<lparr>sv_pending := redelivered m (sv_pending v)\<rparr>))"

definition serve_read :: "(stream_view, (redis_value \<times> redis_message list) list) act" where
  "serve_read v =
     (case sv_waiting v of
        [] \<Rightarrow> (Inr [], v)
      | m # rest \<Rightarrow> (Inr [(RBytes ''qaestro:jobs'', [m])], \<lparr>sv_waiting = rest, sv_pending = sv_pending v @ [(m, 0)]\<rparr>))"

definition memory_server :: "stream_view redis_client" where
  "memory_server =
     \<lparr>rc_xgroup_create = (\<lambda>stream group start mkstream v. (Inr (), v)),
      rc_xadd = (\<lambda>stream entries v. (Inr (), v\<lparr>sv_waiting := sv_waiting v @
        [(RBytes (fresh_id (outstanding v)), map (\<lambda>(k, x). (RBytes k, RBytes x)) entries)]\<rparr>)),
      rc_xreadgroup = (\<lambda>group consumer streams count block. serve_read),
      rc_xautoclaim = (\<lambda>stream group consumer idle start count. serve_claim idle start),
      rc_xack = (\<lambda>stream group i v.
        (Inr (), v\<lparr>sv_pending := filter (\<lambda>(m, t). message_id m \<noteq> Inr i) (sv_pending v)\<rparr>))\<rparr>"

lemma aged_refl [simp]: "aged p p"
  by (induction p) simp_all

lemma to_str_fresh: "to_str (RBytes (fresh_id ms)) = Inr (fresh_id ms)"
proof -
  have "utf8_ok (replicate n 49 @ [45, 48])" for n by (induction n) simp_all
  then show ?thesis by (simp add: fresh_id_def decode_utf8_def)
qed

lemma fresh_id_new:
  assumes "m \<in> set ms"
  shows "message_id m \<noteq> Inr (fresh_id ms)"
proof -
  have "id_length m \<le> sum_list (map id_length ms)" using assms by (simp add: member_le_sum_list)
  then show ?thesis by (auto simp: id_length_def fresh_id_def)
qed

lemma good_view_snoc:
  assumes "good_view v" "message_id m = Inr i" "i \<noteq> []" "\<And>x. x \<in> set (outstanding v) \<Longrightarrow> message_id x \<noteq> Inr i"
  shows "good_view (v\<lparr>sv_waiting := sv_waiting v @ [m]\<rparr>)"
proof -
  have "outstanding (v\<lparr>sv_waiting := sv_waiting v @ [m]\<rparr>) = outstanding v @ [m]" by (simp add: outstanding_def)
  with assms show ?thesis by (auto simp: good_view_def)
qed

lemma memory_server_adds: "server_adds memory_server cfg (\<lambda>v. v)"
  unfolding server_adds_def
proof (intro allI impI)
  fix v job
  assume "good_view v \<and> utf8_ok (map of_char job)"
  then have good: "good_view v" ..
  let ?m = "(RBytes (fresh_id (outstanding v)), [(RBytes ''job'', RBytes job)])"
  have "message_id ?m = Inr (fresh_id (outstanding v))" by (simp add: message_id_def to_str_fresh del: to_str.simps)
  moreover have "fresh_id (outstanding v) \<noteq> []" by (simp add: fresh_id_def)
  ultimately have "good_view (v\<lparr>sv_waiting := sv_waiting v @ [?m]\<rparr>)"
    using fresh_id_new by (intro good_view_snoc [OF good]) auto
  then show "\<exists>v' key. rc_xadd memory_server (rq_stream cfg) [(''job'', job)] v = (Inr (), v') \<and> good_view v' \<and>
      sv_waiting v' = sv_waiting v @ [(key, [(RBytes ''job'', RBytes job)])] \<and> aged (sv_pending v) (sv_pending v')"
    by (intro exI [of _ "v\<lparr>sv_waiting := sv_waiting v @ [?m]\<rparr>"] exI [of _ "RBytes (fresh_id (outstanding v))"])
      (simp add: memory_server_def)
qed

lemma memory_server_reads: "server_reads memory_server cfg (\<lambda>v. v)"
  by (auto simp: server_reads_def memory_server_def serve_read_def split: list.split)

lemma pending_from_part: "set (pending_from start p) \<subseteq> set p"
  by (auto simp: pending_from_def dest: set_dropWhileD)

lemma memory_server_claims: "server_claims memory_server cfg (\<lambda>v. v) pending_from"
  unfolding server_claims_def
proof (intro conjI allI impI)
  fix v :: stream_view and start
  assume good: "good_view v"
  let ?idle = "rq_claim_idle_ms cfg" and ?c = "pending_from start (sv_pending v)"
  have part: "set (dropWhile (\<lambda>(m, t). t < ?idle) ?c) \<subseteq> set ?c" by (auto dest: set_dropWhileD)
  show "\<exists>v' key next_id messages.
      rc_xautoclaim memory_server (rq_stream cfg) (rq_group cfg) (rq_consumer cfg) ?idle start 1 v = (Inr (key, messages), v') \<and>
      to_str key = Inr next_id \<and> claimed ?idle ?c messages \<and> (?c = [] \<longrightarrow> next_id = ''0-0'') \<and>
      sv_waiting v' = sv_waiting v \<and>
      aged (case messages of [] \<Rightarrow> sv_pending v | m # _ \<Rightarrow> redelivered m (sv_pending v)) (sv_pending v')"
  proof (cases "dropWhile (\<lambda>(m, t). t < ?idle) ?c")
    case Nil
    then have "?c = [] \<or> snd (hd ?c) < ?idle" by (cases ?c) (auto split: if_splits)
    moreover have "to_str (RBytes ''0-0'') = Inr ''0-0''" by code_simp
    moreover have "rc_xautoclaim memory_server (rq_stream cfg) (rq_group cfg) (rq_consumer cfg) ?idle start 1 v =
        (Inr (RBytes ''0-0'', []), v)"
      unfolding memory_server_def redis_client.select_convs serve_claim_def Nil by simp
    ultimately show ?thesis
      by (intro exI [of _ v] exI [of _ "RBytes ''0-0''"] exI [of _ "''0-0''"] exI [of _ "[]"]) (simp add: claimed_def)
  next
    case (Cons x rest)
    obtain m t where x: "x = (m, t)" by fastforce
    from Cons x have "\<not> t < ?idle" by (metis case_prod_conv dropWhile_eq_Cons_conv)
    with Cons x part have taken: "claimed ?idle ?c [m]" by (auto simp: claimed_def intro!: exI [of _ t])
    have "\<exists>i. to_str (case rest of [] \<Rightarrow> RBytes ''0-0'' | (y, _) # _ \<Rightarrow> fst y) = Inr i"
    proof (cases rest)
      case (Cons y ys)
      with \<open>dropWhile _ _ = x # rest\<close> part pending_from_part [of start "sv_pending v"]
      have "fst y \<in> set (outstanding v)" by (auto simp: outstanding_def)
      with good have "\<exists>i. message_id (fst y) = Inr i" using good_view_id by blast
      with Cons show ?thesis by (simp add: message_id_def case_prod_beta)
    qed (simp add: decode_utf8_def)
    with Cons x taken show ?thesis
      by (auto simp: memory_server_def serve_claim_def)
  qed
qed (use pending_from_part in \<open>auto simp: pending_from_def\<close>)

lemma memory_server_ok: "stream_server memory_server cfg (\<lambda>v. v) pending_from"
  by (simp add: stream_server_def memory_server_adds memory_server_reads memory_server_claims)
    (simp add: server_acks_def memory_server_def)

text \<open>A message that was left behind by a dead worker, and one nobody has taken.\<close>

definition sample_stream :: stream_view where
  "sample_stream =
     \<lparr>sv_waiting = [(RStr ''2-0'', [])], sv_pending = [((RStr ''1-0'', [(RStr ''job'', RStr ''{}'')]), 400000)]\<rparr>"

definition sample_settings :: redis_settings where
  "sample_settings =
     \<lparr>rq_stream = ''qaestro:jobs'', rq_group = ''qaestro-workers'', rq_consumer = ''w'', rq_read_block_ms = 5000,
      rq_claim_idle_ms = 300000, rq_busy_group_error = (\<lambda>_. False)\<rparr>"

definition sample_worker :: "nat worker" where
  "sample_worker =
     \<lparr>wk_orchestrator = (\<lambda>event n. (Inl (Exn RuntimeError ''down''), Suc n)), wk_output_poster = noop_poster,
      wk_max_attempts = 3, wk_timeout_seconds = None, wk_timed = (\<lambda>t m. m)\<rparr>"

lemma sample_stream_good: "good_view sample_stream"
  by (simp add: good_view_def outstanding_def sample_stream_def message_id_def)

lemma stream_is_emptied_witness:
  "\<exists>ms q'. forever_turns sample_worker (redis_dequeue memory_server sample_settings) (redis_ack memory_server sample_settings) 5
      \<lparr>rs_claim_start_id = ''0-0'', rs_redis = sample_stream\<rparr> 0 =
      (Inr (fst (process_all sample_worker (map job_of ms) 0)), q', snd (process_all sample_worker (map job_of ms) 0)) \<and>
    mset ms = mset (outstanding sample_stream) \<and> outstanding (rs_redis q') = []"
  using stream_is_emptied [OF memory_server_ok, of "\<lparr>rs_claim_start_id = ''0-0'', rs_redis = sample_stream\<rparr>"
      sample_settings 5 sample_worker 0]
  by (simp add: sample_stream_good) (simp add: sample_stream_def all_idle_def outstanding_def sample_settings_def)


end
