(* ===== verification/Transport.thy ===== *)
theory Transport
  imports Jobs
begin

text \<open>
  The HTTP transport of \<open>src/adapters/connectors/github/transport.py\<close>: responses and how their bodies are
  read, the transport on \<open>urllib\<close> over an action \<open>send\<close> (one request put on the wire, and the response
  that came back), and the in-memory transport with programmed responses.
\<close>

section \<open>Responses\<close>

record http_response =
  hs_status :: int
  hs_headers :: "string dict"
  hs_body :: string

text \<open>\<open>b.decode("utf-8", errors="replace")\<close>: each maximal part that is not UTF-8 becomes U+FFFD.\<close>

definition replacement :: "nat list" where
  "replacement = [239, 191, 189]"

definition cont_byte :: "nat \<Rightarrow> bool" where
  "cont_byte b \<longleftrightarrow> 128 \<le> b \<and> b < 192"

text \<open>The bytes that may follow a first byte of a sequence of three or four.\<close>

definition second_byte :: "nat \<Rightarrow> nat \<Rightarrow> bool" where
  "second_byte a b \<longleftrightarrow> cont_byte b \<and> (a = 224 \<longrightarrow> 160 \<le> b) \<and> (a = 237 \<longrightarrow> b < 160) \<and>
     (a = 240 \<longrightarrow> 144 \<le> b) \<and> (a = 244 \<longrightarrow> b < 144)"

text \<open>How many of the next bytes belong to the sequence that starts with \<open>a\<close>, and whether it is complete.\<close>

definition sequence_part :: "nat \<Rightarrow> nat list \<Rightarrow> nat \<times> bool" where
  "sequence_part a s =
     (let n = (if 194 \<le> a \<and> a < 224 then 1 else if 224 \<le> a \<and> a < 240 then 2 else if 240 \<le> a \<and> a < 245 then 3 else 0);
          good = (case s of
                    [] \<Rightarrow> 0
                  | b # r \<Rightarrow> if second_byte a b then Suc (length (takeWhile cont_byte (take (n - 1) r))) else 0)
      in if a < 128 then (0, True) else if n = 0 then (0, False) else (min n good, n \<le> good))"

function decode_replace :: "nat list \<Rightarrow> nat list" where
  "decode_replace [] = []"
| "decode_replace (a # s) =
     (case sequence_part a s of
        (k, whole) \<Rightarrow> (if whole then a # take k s else replacement) @ decode_replace (drop k s))"
  by pat_completeness auto
termination
  by (relation "measure length") (auto simp: le_imp_less_Suc)

definition response_text :: "http_response \<Rightarrow> string" where
  "response_text resp = map char_of (decode_replace (map of_char (hs_body resp)))"

definition response_json :: "http_response \<Rightarrow> json res" where
  "response_json resp =
     (if hs_body resp = [] then Inr JNull else bindR (decode_utf8 (hs_body resp)) loads)"

section \<open>The transport on urllib\<close>

text \<open>\<open>{k.lower(): v for k, v in items}\<close>: of two headers with one name the later stays.\<close>

definition lower_headers :: "string dict \<Rightarrow> string dict" where
  "lower_headers items = foldl (\<lambda>d (k, v). AList.update (lower k) v d) [] items"

definition capitalize :: "string \<Rightarrow> string" where
  "capitalize s = (case s of [] \<Rightarrow> [] | c # r \<Rightarrow> upper [c] @ lower r)"

text \<open>\<open>Request.add_header\<close> capitalizes the name.\<close>

definition add_headers :: "string dict \<Rightarrow> string dict" where
  "add_headers items = foldl (\<lambda>d (k, v). AList.update (capitalize k) v d) [] items"

text \<open>
  What the opener returns for a response: every status but a success is raised as an \<open>HTTPError\<close>, also a
  redirect, as \<open>_NoRedirect\<close> raises where the default handler would send a second request.
\<close>

datatype opened = Opened http_response | HttpError http_response

definition no_redirect_open :: "http_response \<Rightarrow> opened" where
  "no_redirect_open resp = (if 200 \<le> hs_status resp \<and> hs_status resp < 300 then Opened resp else HttpError resp)"

type_synonym 'w sender = "string \<Rightarrow> string \<Rightarrow> string dict \<Rightarrow> string option \<Rightarrow> ('w, http_response) act"

text \<open>\<open>UrllibTransport.request\<close>; an error below HTTP (an \<open>OSError\<close>) is not caught.\<close>

definition urllib_request :: "'w sender \<Rightarrow> 'w sender" where
  "urllib_request send verb url headers body =
     bindS (send (upper verb) url (add_headers headers) body) (\<lambda>raw.
     retS (case no_redirect_open raw of
             Opened resp \<Rightarrow> \<lparr>hs_status = hs_status resp, hs_headers = lower_headers (hs_headers resp), hs_body = hs_body resp\<rparr>
           | HttpError e \<Rightarrow> \<lparr>hs_status = hs_status e, hs_headers = lower_headers (hs_headers e), hs_body = hs_body e\<rparr>))"

section \<open>The in-memory transport\<close>

record fake_response =
  fr_status :: int
  fr_headers :: "string dict"
  fr_body :: string

definition default_fake_response :: fake_response where
  "default_fake_response = \<lparr>fr_status = 200, fr_headers = [], fr_body = []\<rparr>"

record recorded_call =
  rl_verb :: string
  rl_url :: string
  rl_headers :: "string dict"
  rl_body :: "string option"

record fake_transport =
  ft_calls :: "recorded_call list"
  ft_queue :: "fake_response list"
  ft_routes :: "((string \<times> string) \<times> fake_response list) list"

definition fake_transport_init :: fake_transport where
  "fake_transport_init = \<lparr>ft_calls = [], ft_queue = [], ft_routes = []\<rparr>"

definition fake_enqueue :: "fake_response \<Rightarrow> fake_transport \<Rightarrow> fake_transport" where
  "fake_enqueue response t = t\<lparr>ft_queue := ft_queue t @ [response]\<rparr>"

definition routed :: "fake_transport \<Rightarrow> string \<times> string \<Rightarrow> fake_response list" where
  "routed t key = (case map_of (ft_routes t) key of None \<Rightarrow> [] | Some rs \<Rightarrow> rs)"

definition fake_route :: "string \<Rightarrow> string \<Rightarrow> fake_response \<Rightarrow> fake_transport \<Rightarrow> fake_transport" where
  "fake_route verb url response t =
     (let key = (upper verb, url) in t\<lparr>ft_routes := AList.update key (routed t key @ [response]) (ft_routes t)\<rparr>)"

definition fake_answer :: "fake_response \<Rightarrow> http_response" where
  "fake_answer r = \<lparr>hs_status = fr_status r, hs_headers = lower_headers (fr_headers r), hs_body = fr_body r\<rparr>"

definition fake_request :: "fake_transport sender" where
  "fake_request verb url headers body t =
     (let t = t\<lparr>ft_calls := ft_calls t @
                 [\<lparr>rl_verb = upper verb, rl_url = url, rl_headers = headers, rl_body = body\<rparr>]\<rparr>;
          key = (upper verb, url)
      in case routed t key of
           r # rs \<Rightarrow> (Inr (fake_answer r), t\<lparr>ft_routes := AList.update key rs (ft_routes t)\<rparr>)
         | [] \<Rightarrow>
             (case ft_queue t of
                r # rs \<Rightarrow> (Inr (fake_answer r), t\<lparr>ft_queue := rs\<rparr>)
              | [] \<Rightarrow> (Inl (Exn (OtherError ''AssertionError'')
                    (''FakeTransport: no response configured for '' @ upper verb @ '' '' @ url)), t)))"

section \<open>Facts\<close>

lemma map_of_foldl_update:
  "map_of (foldl (\<lambda>d (k, v). AList.update (f k) v d) d items) name =
     (case map_of (rev (map (\<lambda>(k, v). (f k, v)) items)) name of None \<Rightarrow> map_of d name | Some v \<Rightarrow> Some v)"
  by (induction items arbitrary: d)
    (auto simp: update_conv map_add_def fun_upd_def map_of_append split: option.splits)

lemma lower_headers_lookup:
  "map_of (lower_headers items) name = map_of (rev (map (\<lambda>(k, v). (lower k, v)) items)) name"
  by (simp add: lower_headers_def map_of_foldl_update split: option.splits)

lemma distinct_foldl_update:
  "distinct (map fst d) \<Longrightarrow> distinct (map fst (foldl (\<lambda>d (k, v). AList.update (f k) v d) d items))"
  by (induction items arbitrary: d) (auto simp: distinct_update)

lemma distinct_lower_headers: "distinct (map fst (lower_headers items))"
  by (simp add: lower_headers_def distinct_foldl_update)

text \<open>The transport returns a response for every status, redirects and errors included, and puts one
  request on the wire for it, so that a redirect is not followed: status and body are those of the
  wire, a header is found under its name in lower case (the last of several with that name), there is
  no second entry of a name, and only an error below HTTP is raised.\<close>

lemma every_status_returned:
  "(case send (upper verb) url (add_headers headers) body w of
      (Inl e, w') \<Rightarrow> urllib_request send verb url headers body w = (Inl e, w')
    | (Inr raw, w') \<Rightarrow>
        \<exists>resp. urllib_request send verb url headers body w = (Inr resp, w') \<and>
          hs_status resp = hs_status raw \<and> hs_body resp = hs_body raw \<and> distinct (map fst (hs_headers resp)) \<and>
          map_of (hs_headers resp) = map_of (rev (map (\<lambda>(k, v). (lower k, v)) (hs_headers raw))))"
  by (auto simp: urllib_request_def no_redirect_open_def act_simps retS_def lower_headers_lookup fun_eq_iff
      distinct_lower_headers split: prod.splits sum.splits)

text \<open>A response that is programmed for a route is returned by the first request to it that no other is ahead of.\<close>

lemma routed_fifo:
  assumes "routed t (upper verb, url) = r # rs"
  shows "\<exists>t'. fake_request verb url headers body t = (Inr (fake_answer r), t') \<and> routed t' (upper verb, url) = rs \<and>
    ft_queue t' = ft_queue t"
  using assms by (auto simp: fake_request_def routed_def Let_def update_conv split: option.splits)

lemma routed_behind:
  "routed (fake_route verb url r t) (upper verb, url) = routed t (upper verb, url) @ [r]"
  by (simp add: fake_route_def routed_def Let_def update_conv)

end
