(* ===== verification/Auth.thy ===== *)
theory Auth
  imports Transport
begin

text \<open>
  The installation tokens of a GitHub App with their cache (\<open>src/adapters/connectors/github/auth.py\<close>).
  The network is a record of actions: the clock, the transport and the JWT library. Times are rational
  numbers of seconds. Of the errors of \<open>errors.py\<close> the class and the message are kept; no code reads
  their \<open>status\<close> and \<open>reset_at\<close>. A call runs here from start to end without interruption; several
  threads and the lock between them are the subject of \<open>Token_Lock\<close>.
\<close>

section \<open>Errors\<close>

definition header_value :: "http_response \<Rightarrow> string \<Rightarrow> string option" where
  "header_value resp name = map_of (hs_headers resp) (lower name)"

definition is_rate_limited :: "http_response \<Rightarrow> string \<Rightarrow> bool" where
  "is_rate_limited resp detail \<longleftrightarrow>
     header_value resp ''x-ratelimit-remaining'' = Some ''0'' \<or> header_value resp ''retry-after'' \<noteq> None \<or>
     contains ''rate limit'' (lower detail) \<or> contains ''abuse detection'' (lower detail)"

definition error_detail :: "http_response \<Rightarrow> string" where
  "error_detail resp = (if hs_body resp = [] then [] else cp_take 200 (response_text resp))"

section \<open>Tokens\<close>

record 'w network =
  nt_now :: "('w, rat) act"
  nt_request :: "string \<Rightarrow> string \<Rightarrow> string dict \<Rightarrow> string option \<Rightarrow> ('w, http_response) act"
  nt_jwt_encode :: "json \<Rightarrow> string \<Rightarrow> string res"

record app_auth =
  ga_app_id :: int
  ga_private_key :: string
  ga_installation_id :: int
  ga_api_base :: string

record cached_token =
  ct_token :: json
  ct_expires_at :: rat

record 'w auth_state =
  at_cached :: "cached_token option"
  at_world :: 'w

definition on_network :: "('w, 'a) act \<Rightarrow> ('w auth_state, 'a) act" where
  "on_network m s = (case m (at_world s) of (x, w) \<Rightarrow> (x, s\<lparr>at_world := w\<rparr>))"

text \<open>\<open>GitHubAppAuth.__init__\<close>\<close>

definition app_auth_init :: "int \<Rightarrow> string \<Rightarrow> int \<Rightarrow> string \<Rightarrow> app_auth res" where
  "app_auth_init app_id private_key installation_id api_base =
     (if app_id \<le> 0 then Inl (Exn ValueError ''app_id must be a positive integer'')
      else if installation_id \<le> 0 then Inl (Exn ValueError ''installation_id must be a positive integer'')
      else if private_key = [] then Inl (Exn ValueError ''private_key must not be empty'')
      else Inr \<lparr>ga_app_id = app_id, ga_private_key = private_key, ga_installation_id = installation_id,
                ga_api_base = rstrip_by (\<lambda>c. c = CHR ''/'') api_base\<rparr>)"

text \<open>\<open>int(t)\<close> of a time, which drops the fraction\<close>

definition whole_seconds :: "rat \<Rightarrow> int" where
  "whole_seconds t = (if 0 \<le> t then \<lfloor>t\<rfloor> else \<lceil>t\<rceil>)"

definition app_jwt :: "'w network \<Rightarrow> app_auth \<Rightarrow> ('w, string) act" where
  "app_jwt net cfg =
     bindS (nt_now net) (\<lambda>t.
     (let now = whole_seconds t in
      liftS (nt_jwt_encode net
        (JObj [(''iat'', JInt (now - 60)), (''exp'', JInt (now + 9 * 60)), (''iss'', JStr (show_int (ga_app_id cfg)))])
        (ga_private_key cfg))))"

definition status_note :: "http_response \<Rightarrow> string" where
  "status_note resp = '' (status='' @ show_int (hs_status resp) @ ''): '' @ error_detail resp"

definition auth_raise_for_status :: "http_response \<Rightarrow> unit res" where
  "auth_raise_for_status resp =
     (if hs_status resp < 400 then Inr ()
      else if hs_status resp = 429 \<or> is_rate_limited resp (error_detail resp) then
        Inl (Exn RateLimitError (''installation token exchange rate limited'' @ status_note resp))
      else if hs_status resp \<in> {401, 403} then
        Inl (Exn AuthError (''GitHub App auth rejected'' @ status_note resp))
      else Inl (Exn GitHubError (''installation token exchange failed'' @ status_note resp)))"

subsection \<open>Timestamps\<close>

definition days_before_year :: "nat \<Rightarrow> int" where
  "days_before_year y = (let z = int y - 1 in 365 * z + z div 4 - z div 100 + z div 400)"

definition day_number :: "datetime \<Rightarrow> int" where
  "day_number d =
     days_before_year (dt_year d) + int (sum_list (map (days_in_month (dt_year d)) [1..<dt_month d])) + int (dt_day d)"

text \<open>\<open>dt.timestamp()\<close> of an aware \<open>datetime\<close>; the epoch is day 719163.\<close>

definition timestamp :: "datetime \<Rightarrow> int \<Rightarrow> rat" where
  "timestamp d offset =
     of_int ((day_number d - 719163) * 86400 + int (dt_hour d * 3600 + dt_minute d * 60 + dt_second d) - offset) +
     of_nat (dt_micro d) / 1000000"

definition parse_iso8601_z :: "json \<Rightarrow> rat res" where
  "parse_iso8601_z v =
     (case v of
        JStr s \<Rightarrow>
          (case fromisoformat (replace ''Z'' ''+00:00'' s) of
             Inl _ \<Rightarrow> Inl (Exn GitHubError (''invalid expires_at timestamp: '' @ repr_str s))
           | Inr d \<Rightarrow> Inr (timestamp d (case dt_offset d of None \<Rightarrow> 0 | Some z \<Rightarrow> z)))
      | _ \<Rightarrow> Inl (Exn AttributeError (repr_str (type_name v) @ '' object has no attribute '' @ repr_str ''replace'')))"

subsection \<open>Exchange and cache\<close>

definition token_from_response :: "http_response \<Rightarrow> cached_token res" where
  "token_from_response resp =
     bindR (case bindR (decode_utf8 (hs_body resp)) loads of
              Inl e \<Rightarrow> Inl (Exn GitHubError (''installation token response was not valid JSON: '' @ exn_msg e))
            | Inr data \<Rightarrow> Inr data) (\<lambda>data.
     bindR (vget data ''token'' JNull) (\<lambda>token.
     bindR (vget data ''expires_at'' JNull) (\<lambda>expires_at_raw.
     if \<not> truthy token \<or> \<not> truthy expires_at_raw then
       Inl (Exn GitHubError (''installation token response missing '' @ repr_str ''token'' @ '' or '' @ repr_str ''expires_at''))
     else bindR (parse_iso8601_z expires_at_raw) (\<lambda>expires_at.
       Inr \<lparr>ct_token = token, ct_expires_at = expires_at\<rparr>))))"

definition exchange_headers :: "string \<Rightarrow> string dict" where
  "exchange_headers jwt =
     [(''Authorization'', ''Bearer '' @ jwt), (''Accept'', ''application/vnd.github+json''),
      (''X-GitHub-Api-Version'', ''2022-11-28''), (''User-Agent'', ''qaestro'')]"

definition request_token :: "'w network \<Rightarrow> app_auth \<Rightarrow> string \<Rightarrow> ('w, cached_token) act" where
  "request_token net cfg jwt =
     bindS (nt_request net ''POST''
              (ga_api_base cfg @ ''/app/installations/'' @ show_int (ga_installation_id cfg) @ ''/access_tokens'')
              (exchange_headers jwt) (Some [])) (\<lambda>resp.
     bindS (liftS (auth_raise_for_status resp)) (\<lambda>_.
     liftS (token_from_response resp)))"

definition exchange_token :: "'w network \<Rightarrow> app_auth \<Rightarrow> ('w, cached_token) act" where
  "exchange_token net cfg = bindS (app_jwt net cfg) (request_token net cfg)"

text \<open>A cached token that does not expire in the next minute.\<close>

definition fresh_token :: "cached_token option \<Rightarrow> rat \<Rightarrow> cached_token option" where
  "fresh_token cached now =
     (case cached of Some c \<Rightarrow> if ct_expires_at c - 60 > now then Some c else None | None \<Rightarrow> None)"

definition refresh_token :: "'w network \<Rightarrow> app_auth \<Rightarrow> ('w auth_state, json) act" where
  "refresh_token net cfg =
     bindS (on_network (exchange_token net cfg)) (\<lambda>c s. (Inr (ct_token c), s\<lparr>at_cached := Some c\<rparr>))"

definition installation_token :: "'w network \<Rightarrow> app_auth \<Rightarrow> ('w auth_state, json) act" where
  "installation_token net cfg =
     bindS (on_network (nt_now net)) (\<lambda>now s.
     case fresh_token (at_cached s) now of
       Some c \<Rightarrow> (Inr (ct_token c), s)
     | None \<Rightarrow>
         bindS (on_network (nt_now net)) (\<lambda>now s.
         case fresh_token (at_cached s) now of
           Some c \<Rightarrow> (Inr (ct_token c), s)
         | None \<Rightarrow> refresh_token net cfg s) s)"

end
