(* ===== verification/Client.thy ===== *)
theory Client
  imports Auth Github_Tools
begin

text \<open>
  The REST client of \<open>src/adapters/connectors/github/client.py\<close> over the network and the tokens of
  \<open>Auth\<close>. \<open>rest_client\<close> is an implementation of the interface \<open>github_client\<close> the tools use.
\<close>

section \<open>Text on the wire\<close>

text \<open>\<open>json.dumps(v)\<close> with its defaults: a space behind commas and colons, everything outside ASCII escaped.\<close>

fun code_points :: "nat list \<Rightarrow> nat list" where
  "code_points [] = []"
| "code_points (a # s) =
     (if a < 128 then a # code_points s
      else (case s of
          b # s1 \<Rightarrow>
            if a < 224 then (a mod 32 * 64 + b mod 64) # code_points s1
            else (case s1 of
                c # s2 \<Rightarrow>
                  if a < 240 then (a mod 16 * 4096 + b mod 64 * 64 + c mod 64) # code_points s2
                  else (case s2 of
                      d # s3 \<Rightarrow> (a mod 8 * 262144 + b mod 64 * 4096 + c mod 64 * 64 + d mod 64) # code_points s3
                    | [] \<Rightarrow> [])
              | [] \<Rightarrow> [])
        | [] \<Rightarrow> []))"

definition hex_escape :: "nat \<Rightarrow> string" where
  "hex_escape n = CHR 0x5C # CHR ''u'' #
     [hex_digit (n div 4096 mod 16), hex_digit (n div 256 mod 16), hex_digit (n div 16 mod 16), hex_digit (n mod 16)]"

definition escape_point :: "nat \<Rightarrow> string" where
  "escape_point n =
     (if n < 127 then escape_char (char_of n)
      else if n < 65536 then hex_escape n
      else hex_escape (55296 + (n - 65536) div 1024) @ hex_escape (56320 + (n - 65536) mod 1024))"

definition ascii_str :: "string \<Rightarrow> string" where
  "ascii_str s = CHR 0x22 # concat (map escape_point (code_points (map of_char s))) @ [CHR 0x22]"

fun dumps_ascii :: "json \<Rightarrow> string" where
  "dumps_ascii (JStr s) = ascii_str s"
| "dumps_ascii (JList l) = CHR ''['' # join '', '' (map dumps_ascii l) @ '']''"
| "dumps_ascii (JObj d) =
     CHR 0x7B # join '', '' (map (\<lambda>(k, v). ascii_str k @ '': '' @ dumps_ascii v) d) @ [CHR 0x7D]"
| "dumps_ascii v = dumps v"

text \<open>\<open>_segment\<close>: \<open>urllib.parse.quote(value, safe="")\<close>\<close>

definition unreserved :: "char \<Rightarrow> bool" where
  "unreserved c \<longleftrightarrow>
     (let n = (of_char c :: nat)
      in is_digit c \<or> (65 \<le> n \<and> n \<le> 90) \<or> (97 \<le> n \<and> n \<le> 122) \<or> c \<in> set ''_.-~'')"

definition path_segment :: "string \<Rightarrow> string" where
  "path_segment value =
     concat (map (\<lambda>c. if unreserved c then [c]
                      else CHR ''%'' # [upper_char (hex_digit (of_char c div 16)), upper_char (hex_digit (of_char c mod 16))])
       value)"

section \<open>Requests\<close>

record 'w rest_settings =
  rt_network :: "'w network"
  rt_auth :: app_auth
  rt_base_url :: string
  rt_user_agent :: string

definition rest_settings_init :: "'w network \<Rightarrow> app_auth \<Rightarrow> string \<Rightarrow> string \<Rightarrow> 'w rest_settings" where
  "rest_settings_init net auth base_url user_agent =
     \<lparr>rt_network = net, rt_auth = auth, rt_base_url = rstrip_by (\<lambda>c. c = CHR ''/'') base_url,
      rt_user_agent = user_agent\<rparr>"

definition raise_for_status :: "http_response \<Rightarrow> unit res" where
  "raise_for_status resp =
     (let status = hs_status resp; detail = error_detail resp in
      if status < 400 then Inr ()
      else if status = 404 then Inl (Exn NotFoundError (''not found: '' @ detail))
      else if status = 429 then Inl (Exn RateLimitError (''rate limited: '' @ detail))
      else if status = 403 \<and> is_rate_limited resp detail then
        Inl (Exn RateLimitError (''rate limit exhausted: '' @ detail))
      else if status \<in> {401, 403} then Inl (Exn AuthError (''auth failed'' @ status_note resp))
      else Inl (Exn GitHubError (''github error'' @ status_note resp)))"

definition rest_headers :: "'w rest_settings \<Rightarrow> json \<Rightarrow> string dict \<Rightarrow> string dict" where
  "rest_headers cfg token extra_headers =
     foldl (\<lambda>d (k, v). AList.update k v d)
       [(''Authorization'', ''Bearer '' @ py_str token), (''Accept'', ''application/vnd.github+json''),
        (''X-GitHub-Api-Version'', ''2022-11-28''), (''User-Agent'', rt_user_agent cfg)]
       extra_headers"

definition rest_request ::
  "'w rest_settings \<Rightarrow> string \<Rightarrow> string \<Rightarrow> string option \<Rightarrow> string dict \<Rightarrow> ('w auth_state, http_response) act" where
  "rest_request cfg verb path body extra_headers =
     bindS (installation_token (rt_network cfg) (rt_auth cfg)) (\<lambda>token.
     bindS (on_network (nt_request (rt_network cfg) verb (rt_base_url cfg @ path) (rest_headers cfg token extra_headers) body))
       (\<lambda>resp.
     bindS (liftS (raise_for_status resp)) (\<lambda>_. retS resp)))"

definition get_json :: "'w rest_settings \<Rightarrow> string \<Rightarrow> ('w auth_state, json) act" where
  "get_json cfg path = bindS (rest_request cfg ''GET'' path None []) (\<lambda>resp. liftS (response_json resp))"

definition send_json :: "'w rest_settings \<Rightarrow> string \<Rightarrow> string \<Rightarrow> json \<Rightarrow> ('w auth_state, json) act" where
  "send_json cfg verb path payload =
     bindS (rest_request cfg verb path (Some (dumps_ascii payload)) [(''Content-Type'', ''application/json'')]) (\<lambda>resp.
     liftS (response_json resp))"

fun expect_dict :: "string \<Rightarrow> json \<Rightarrow> json dict res" where
  "expect_dict what (JObj d) = Inr d"
| "expect_dict what _ = Inl (Exn GitHubError (''unexpected '' @ what @ '' payload shape''))"

fun expect_items :: "string \<Rightarrow> json \<Rightarrow> json list res" where
  "expect_items what (JList l) = Inr l"
| "expect_items what _ = Inl (Exn GitHubError (''unexpected '' @ what @ '' payload shape''))"

definition repo_path :: "string \<Rightarrow> string \<Rightarrow> string" where
  "repo_path owner repo = ''/repos/'' @ path_segment owner @ ''/'' @ path_segment repo"

section \<open>Payloads\<close>

text \<open>\<open>str(data.get(k, ""))\<close>, \<open>str(data.get(k, "") or "")\<close> and \<open>int(data.get(k, 0))\<close>\<close>

definition str_at :: "json dict \<Rightarrow> string \<Rightarrow> string" where
  "str_at d k = py_str (dget d k (JStr []))"

definition str_or_empty_at :: "json dict \<Rightarrow> string \<Rightarrow> string" where
  "str_or_empty_at d k = py_str (por (dget d k (JStr [])) (JStr []))"

definition int_at :: "json dict \<Rightarrow> string \<Rightarrow> int res" where
  "int_at d k = py_int (dget d k (JInt 0))"

text \<open>\<open>part.get(k, "")\<close> of \<open>data.get(name) or {}\<close>\<close>

definition str_of_part :: "json dict \<Rightarrow> string \<Rightarrow> string \<Rightarrow> string res" where
  "str_of_part d name k = bindR (vget (por (dget d name JNull) (JObj [])) k (JStr [])) (\<lambda>v. Inr (py_str v))"

definition pr_meta_from_payload :: "json dict \<Rightarrow> pr_meta res" where
  "pr_meta_from_payload d =
     bindR (int_at d ''number'') (\<lambda>number.
     bindR (str_of_part d ''head'' ''sha'') (\<lambda>head_sha.
     bindR (str_of_part d ''base'' ''ref'') (\<lambda>base_ref.
     bindR (str_of_part d ''head'' ''ref'') (\<lambda>head_ref.
     bindR (str_of_part d ''user'' ''login'') (\<lambda>author.
     Inr \<lparr>pm_number = number, pm_title = str_at d ''title'', pm_state = str_at d ''state'', pm_head_sha = head_sha,
          pm_base_ref = base_ref, pm_head_ref = head_ref, pm_author = author,
          pm_draft = truthy (dget d ''draft'' (JBool False)), pm_html_url = str_at d ''html_url'',
          pm_body = str_or_empty_at d ''body''\<rparr>)))))"

definition comment_result_from_payload :: "json dict \<Rightarrow> comment_result res" where
  "comment_result_from_payload d =
     bindR (int_at d ''id'') (\<lambda>i.
     Inr \<lparr>cr_id = i, cr_html_url = str_at d ''html_url'', cr_body = str_at d ''body''\<rparr>)"

definition review_result_from_payload :: "json dict \<Rightarrow> review_result res" where
  "review_result_from_payload d =
     bindR (int_at d ''id'') (\<lambda>i.
     Inr \<lparr>rr_id = i, rr_html_url = str_at d ''html_url'', rr_state = str_at d ''state'', rr_body = str_at d ''body'',
          rr_commit_id = str_at d ''commit_id''\<rparr>)"

text \<open>The item of a file page is not checked to be an object: its first \<open>get\<close> raises if it is none.\<close>

definition file_diff_from_payload :: "json \<Rightarrow> file_diff res" where
  "file_diff_from_payload v =
     bindR (vget v ''patch'' JNull) (\<lambda>patch.
     (let d = (case v of JObj d \<Rightarrow> d | _ \<Rightarrow> []) in
      bindR (int_at d ''additions'') (\<lambda>additions.
      bindR (int_at d ''deletions'') (\<lambda>deletions.
      bindR (int_at d ''changes'') (\<lambda>changes.
      Inr \<lparr>gf_filename = str_at d ''filename'', gf_status = str_at d ''status'', gf_additions = additions,
           gf_deletions = deletions, gf_changes = changes,
           gf_patch = (case patch of JStr s \<Rightarrow> Some s | _ \<Rightarrow> None),
           gf_previous_filename = str_or_empty_at d ''previous_filename''\<rparr>)))))"

definition actions_job_from_payload :: "json dict \<Rightarrow> actions_job_result res" where
  "actions_job_from_payload d =
     Inr \<lparr>aj_name = str_at d ''name'', aj_conclusion = str_or_empty_at d ''conclusion'', aj_html_url = str_at d ''html_url''\<rparr>"

definition check_run_from_payload :: "string \<Rightarrow> json dict \<Rightarrow> check_run_result res" where
  "check_run_from_payload default_head_sha d =
     Inr \<lparr>ck_name = str_at d ''name'', ck_status = str_or_empty_at d ''status'',
          ck_conclusion = str_or_empty_at d ''conclusion'', ck_html_url = str_at d ''html_url'',
          ck_head_sha = py_str (por (dget d ''head_sha'' (JStr [])) (JStr default_head_sha))\<rparr>"

definition review_comment_json :: "review_comment_input \<Rightarrow> json res" where
  "review_comment_json c =
     (if strip (rc_path c) = [] then Inl (Exn ValueError ''review comment path must not be empty'')
      else if strip (rc_body c) = [] then Inl (Exn ValueError ''review comment body must not be empty'')
      else (case rc_line c of
          None \<Rightarrow> Inl (Exn ValueError ''review comment line is required'')
        | Some line \<Rightarrow>
            (let side = (if rc_side c = [] then ''RIGHT'' else rc_side c) in
             Inr (JObj
               ([(''path'', JStr (rc_path c)), (''body'', JStr (rc_body c)), (''line'', JInt line), (''side'', JStr side)] @
                (case rc_start_line c of
                   None \<Rightarrow> []
                 | Some start \<Rightarrow>
                     [(''start_line'', JInt start),
                      (''start_side'', JStr (if rc_start_side c = [] then side else rc_start_side c))]))))))"

section \<open>Pages\<close>

definition max_pages :: nat where
  "max_pages = 30"

text \<open>
  The loop over the pages of a listing: \<open>fetch page\<close> returns the converted items of a page; it stops
  behind the first page that is not full, or when the pages that are \<open>left\<close> are used up.
\<close>

fun walk_pages :: "(int \<Rightarrow> ('s, 'a list) act) \<Rightarrow> int \<Rightarrow> nat \<Rightarrow> int \<Rightarrow> 'a list \<Rightarrow> ('s, 'a list) act" where
  "walk_pages fetch per_page 0 page results = retS results"
| "walk_pages fetch per_page (Suc left) page results =
     bindS (fetch page) (\<lambda>items.
       if int (length items) < per_page then retS (results @ items)
       else walk_pages fetch per_page left (page + 1) (results @ items))"

definition check_per_page :: "int \<Rightarrow> unit res" where
  "check_per_page per_page =
     (if 1 \<le> per_page \<and> per_page \<le> 100 then Inr () else Inl (Exn ValueError ''per_page must be between 1 and 100''))"

definition page_query :: "int \<Rightarrow> int \<Rightarrow> string" where
  "page_query per_page page = ''?per_page='' @ show_int per_page @ ''&page='' @ show_int page"

text \<open>A page at \<open>path\<close>: \<open>items_of\<close> finds the items in the payload, \<open>convert\<close> reads one.\<close>

definition fetch_page ::
  "'w rest_settings \<Rightarrow> string \<Rightarrow> (json \<Rightarrow> json list res) \<Rightarrow> (json \<Rightarrow> 'a res) \<Rightarrow> int \<Rightarrow> int \<Rightarrow> ('w auth_state, 'a list) act" where
  "fetch_page cfg path items_of convert per_page page =
     bindS (get_json cfg (path @ page_query per_page page)) (\<lambda>page_data.
     liftS (bindR (items_of page_data) (mapR convert)))"

definition list_all_pages ::
  "'w rest_settings \<Rightarrow> string \<Rightarrow> (json \<Rightarrow> json list res) \<Rightarrow> (json \<Rightarrow> 'a res) \<Rightarrow> int \<Rightarrow> ('w auth_state, 'a list) act" where
  "list_all_pages cfg path items_of convert per_page =
     bindS (liftS (check_per_page per_page)) (\<lambda>_.
     walk_pages (fetch_page cfg path items_of convert per_page) per_page max_pages 1 [])"

text \<open>\<open>page_data.get(key)\<close> of an object, which must be a list\<close>

definition items_under :: "string \<Rightarrow> string \<Rightarrow> json \<Rightarrow> json list res" where
  "items_under what key page_data =
     bindR (expect_dict what page_data) (\<lambda>d. expect_items what (dget d key JNull))"

definition dict_item :: "string \<Rightarrow> (json dict \<Rightarrow> 'a res) \<Rightarrow> json \<Rightarrow> 'a res" where
  "dict_item what convert item = bindR (expect_dict what item) convert"

section \<open>Operations\<close>

definition pulls_path :: "string \<Rightarrow> string \<Rightarrow> int \<Rightarrow> string" where
  "pulls_path owner repo number = repo_path owner repo @ ''/pulls/'' @ show_int number"

definition comments_path :: "string \<Rightarrow> string \<Rightarrow> int \<Rightarrow> string" where
  "comments_path owner repo number = repo_path owner repo @ ''/issues/'' @ show_int number @ ''/comments''"

definition rest_get_pull_request :: "'w rest_settings \<Rightarrow> string \<Rightarrow> string \<Rightarrow> int \<Rightarrow> ('w auth_state, pr_meta) act" where
  "rest_get_pull_request cfg owner repo number =
     bindS (get_json cfg (pulls_path owner repo number)) (\<lambda>data.
     liftS (bindR (expect_dict ''pull request'' data) pr_meta_from_payload))"

definition rest_list_files :: "'w rest_settings \<Rightarrow> string \<Rightarrow> string \<Rightarrow> int \<Rightarrow> int \<Rightarrow> ('w auth_state, file_diff list) act" where
  "rest_list_files cfg owner repo number per_page =
     list_all_pages cfg (pulls_path owner repo number @ ''/files'') (expect_items ''pull request files'')
       file_diff_from_payload per_page"

definition rest_get_diff :: "'w rest_settings \<Rightarrow> string \<Rightarrow> string \<Rightarrow> int \<Rightarrow> ('w auth_state, string) act" where
  "rest_get_diff cfg owner repo number =
     bindS (rest_request cfg ''GET'' (pulls_path owner repo number) None [(''Accept'', ''application/vnd.github.diff'')])
       (\<lambda>resp. retS (response_text resp))"

definition checked_comment_body :: "string \<Rightarrow> unit res" where
  "checked_comment_body body =
     (if strip body = [] then Inl (Exn ValueError ''comment body must not be empty'') else Inr ())"

definition rest_create_comment ::
  "'w rest_settings \<Rightarrow> string \<Rightarrow> string \<Rightarrow> int \<Rightarrow> string \<Rightarrow> ('w auth_state, comment_result) act" where
  "rest_create_comment cfg owner repo number body =
     bindS (liftS (checked_comment_body body)) (\<lambda>_.
     bindS (send_json cfg ''POST'' (comments_path owner repo number) (JObj [(''body'', JStr body)])) (\<lambda>data.
     liftS (bindR (expect_dict ''create-comment'' data) comment_result_from_payload)))"

definition rest_list_comments ::
  "'w rest_settings \<Rightarrow> string \<Rightarrow> string \<Rightarrow> int \<Rightarrow> int \<Rightarrow> ('w auth_state, comment_result list) act" where
  "rest_list_comments cfg owner repo number per_page =
     list_all_pages cfg (comments_path owner repo number) (expect_items ''issue-comments'')
       (dict_item ''issue-comments'' comment_result_from_payload) per_page"

definition rest_update_comment ::
  "'w rest_settings \<Rightarrow> string \<Rightarrow> string \<Rightarrow> int \<Rightarrow> string \<Rightarrow> ('w auth_state, comment_result) act" where
  "rest_update_comment cfg owner repo comment_id body =
     bindS (liftS (checked_comment_body body)) (\<lambda>_.
     bindS (send_json cfg ''PATCH'' (repo_path owner repo @ ''/issues/comments/'' @ show_int comment_id)
              (JObj [(''body'', JStr body)])) (\<lambda>data.
     liftS (bindR (expect_dict ''update-comment'' data) comment_result_from_payload)))"

definition review_json :: "string \<Rightarrow> string \<Rightarrow> string \<Rightarrow> review_comment_input list \<Rightarrow> json res" where
  "review_json body commit_id event comments =
     bindR (mapR review_comment_json comments) (\<lambda>cs.
     Inr (JObj [(''body'', JStr body), (''commit_id'', JStr commit_id), (''event'', JStr event), (''comments'', JList cs)]))"

definition rest_create_review ::
  "'w rest_settings \<Rightarrow> string \<Rightarrow> string \<Rightarrow> int \<Rightarrow> string \<Rightarrow> string \<Rightarrow> string \<Rightarrow> review_comment_input list \<Rightarrow>
   ('w auth_state, review_result) act" where
  "rest_create_review cfg owner repo number raw_body commit_id event comments =
     (let body = strip raw_body in
      if body = [] \<and> comments = [] then raiseS (Exn ValueError ''review body or comments must be provided'')
      else if strip commit_id = [] then raiseS (Exn ValueError ''commit_id must not be empty'')
      else
        bindS (liftS (review_json body commit_id event comments)) (\<lambda>payload.
        bindS (send_json cfg ''POST'' (pulls_path owner repo number @ ''/reviews'') payload) (\<lambda>data.
        liftS (bindR (expect_dict ''create-review'' data) review_result_from_payload))))"

definition rest_list_reviews ::
  "'w rest_settings \<Rightarrow> string \<Rightarrow> string \<Rightarrow> int \<Rightarrow> int \<Rightarrow> ('w auth_state, review_result list) act" where
  "rest_list_reviews cfg owner repo number per_page =
     list_all_pages cfg (pulls_path owner repo number @ ''/reviews'') (expect_items ''pull request reviews'')
       (dict_item ''pull request reviews'' review_result_from_payload) per_page"

definition rest_list_jobs ::
  "'w rest_settings \<Rightarrow> string \<Rightarrow> string \<Rightarrow> int \<Rightarrow> int \<Rightarrow> ('w auth_state, actions_job_result list) act" where
  "rest_list_jobs cfg owner repo run_id per_page =
     (if run_id \<le> 0 then raiseS (Exn ValueError ''run_id must be a positive integer'')
      else list_all_pages cfg (repo_path owner repo @ ''/actions/runs/'' @ show_int run_id @ ''/jobs'')
             (items_under ''workflow-run jobs'' ''jobs'') (dict_item ''workflow-run jobs'' actions_job_from_payload) per_page)"

definition rest_list_check_runs ::
  "'w rest_settings \<Rightarrow> string \<Rightarrow> string \<Rightarrow> string \<Rightarrow> int \<Rightarrow> ('w auth_state, check_run_result list) act" where
  "rest_list_check_runs cfg owner repo ref per_page =
     (if strip ref = [] then raiseS (Exn ValueError ''ref must not be empty'')
      else list_all_pages cfg (repo_path owner repo @ ''/commits/'' @ path_segment ref @ ''/check-runs'')
             (items_under ''check-runs'' ''check_runs'') (dict_item ''check-runs'' (check_run_from_payload ref)) per_page)"

definition rest_client :: "'w rest_settings \<Rightarrow> 'w auth_state github_client" where
  "rest_client cfg =
     \<lparr>gc_get_pull_request = rest_get_pull_request cfg,
      gc_list_pull_request_files = (\<lambda>owner repo n. rest_list_files cfg owner repo n 100),
      gc_get_pull_request_diff = rest_get_diff cfg,
      gc_list_workflow_run_jobs = (\<lambda>owner repo run_id. rest_list_jobs cfg owner repo run_id 100),
      gc_list_check_runs_for_ref = (\<lambda>owner repo ref. rest_list_check_runs cfg owner repo ref 100),
      gc_create_issue_comment = rest_create_comment cfg,
      gc_list_issue_comments = (\<lambda>owner repo n. rest_list_comments cfg owner repo n 100),
      gc_update_issue_comment = rest_update_comment cfg,
      gc_list_pull_request_reviews = (\<lambda>owner repo n. rest_list_reviews cfg owner repo n 100),
      gc_create_pull_request_review = rest_create_review cfg\<rparr>"

end
