(* ===== verification/Client_Facts.thy ===== *)
theory Client_Facts
  imports Client Output_Facts
begin

text \<open>
  What the client guarantees: the token of a request, the outcome of a request by the status of its
  response, and what a listing over pages contains.
\<close>

section \<open>Tokens\<close>

lemma fresh_token_Some: "fresh_token cached now = Some c \<longleftrightarrow> cached = Some c \<and> now + 60 < ct_expires_at c"
  by (auto simp: fresh_token_def split: option.splits if_splits)

lemma fresh_token_None: "fresh_token cached now = None \<longleftrightarrow> {c. cached = Some c \<and> now + 60 < ct_expires_at c} = {}"
  by (auto simp: fresh_token_def split: option.splits if_splits)

lemma on_network_eq: "on_network m s = (fst (m (at_world s)), s\<lparr>at_world := snd (m (at_world s))\<rparr>)"
  by (simp add: on_network_def split: prod.split)

lemma refresh_token_outcome:
  "(case refresh_token net cfg s of
      (Inl e, t) \<Rightarrow> at_cached t = at_cached s
    | (Inr token, t) \<Rightarrow> \<exists>c. at_cached t = Some c \<and> ct_token c = token \<and>
        exchange_token net cfg (at_world s) = (Inr c, at_world t))"
  by (cases "exchange_token net cfg (at_world s)")
    (auto simp: refresh_token_def on_network_eq act_simps split: sum.splits)

lemma looked_fresh:
  "nt_now net w = (Inr now, w1) \<Longrightarrow> now < ct_expires_at c - 60 \<Longrightarrow>
     \<exists>w now w'. nt_now net w = (Inr now, w') \<and> (now + 60 < ct_expires_at c \<and> w1 = w' \<or> Q now w')"
  by (rule exI [of _ w], rule exI [of _ now], rule exI [of _ w1]) simp

text \<open>C31. A token is never used in its last minute and never lost: the installation token a caller gets
  is the one that is cached afterwards; at the last look at the clock either it was already cached
  and had more than a minute left, and nothing else happened, or no such token was cached and it is
  the result of an exchange made then; and a call that fails leaves the cache as it was.\<close>

theorem installation_token_fresh:
  "(case installation_token net cfg s of
      (Inl e, t) \<Rightarrow> at_cached t = at_cached s
    | (Inr token, t) \<Rightarrow>
        \<exists>c w now w'. at_cached t = Some c \<and> ct_token c = token \<and> nt_now net w = (Inr now, w') \<and>
          ((at_cached s = Some c \<and> now + 60 < ct_expires_at c \<and> at_world t = w') \<or>
           ({c. at_cached s = Some c \<and> now + 60 < ct_expires_at c} = {} \<and>
            exchange_token net cfg w' = (Inr c, at_world t))))"
proof -
  obtain x w1 where first: "nt_now net (at_world s) = (x, w1)" by fastforce
  obtain y w2 where second: "nt_now net w1 = (y, w2)" by fastforce
  let ?s2 = "s\<lparr>at_world := w2\<rparr>"
  have again: "installation_token net cfg s = refresh_token net cfg ?s2"
    if "x = Inr n1" "fresh_token (at_cached s) n1 = None" "y = Inr n2" "fresh_token (at_cached s) n2 = None" for n1 n2
    using that first second by (simp add: installation_token_def on_network_eq act_simps)
  show ?thesis
  proof (cases "\<exists>n1 n2. x = Inr n1 \<and> fresh_token (at_cached s) n1 = None \<and> y = Inr n2 \<and> fresh_token (at_cached s) n2 = None")
    case True
    then obtain n1 n2 where n: "x = Inr n1" "fresh_token (at_cached s) n1 = None" "y = Inr n2"
      "fresh_token (at_cached s) n2 = None" by blast
    obtain z t where r: "refresh_token net cfg ?s2 = (z, t)" by fastforce
    from refresh_token_outcome [where s = ?s2 and net = net and cfg = cfg] n(4) second n(3) show ?thesis
      unfolding again [OF n] r by (cases z) (auto simp: fresh_token_None intro!: exI [of _ w1])
  next
    case False
    with first second show ?thesis
      by (cases x; cases y)
        (auto simp: installation_token_def on_network_eq act_simps fresh_token_def split: option.splits if_splits
          intro: looked_fresh)
  qed
qed

section \<open>Requests\<close>

text \<open>The headers of a request: those of the client, each replaced by the last extra one of its name.\<close>

lemma rest_headers_lookup:
  "map_of (rest_headers cfg token extra) name =
     (case map_of (rev extra) name of
        Some v \<Rightarrow> Some v
      | None \<Rightarrow> map_of [(''Authorization'', ''Bearer '' @ py_str token), (''Accept'', ''application/vnd.github+json''),
          (''X-GitHub-Api-Version'', ''2022-11-28''), (''User-Agent'', rt_user_agent cfg)] name)"
proof -
  have "map_of (foldl (\<lambda>d (k, v). AList.update k v d) d extra) name =
      (case map_of (rev extra) name of Some v \<Rightarrow> Some v | None \<Rightarrow> map_of d name)" for d :: "string dict"
    by (induction extra arbitrary: d) (auto simp: update_conv map_add_def map_of_append split: option.splits)
  then show ?thesis unfolding rest_headers_def by this
qed

lemma limit_names: "lower ''x-ratelimit-remaining'' = ''x-ratelimit-remaining''" "lower ''retry-after'' = ''retry-after''"
  by code_simp+

lemma shows_limit:
  "(map_of (hs_headers resp) ''x-ratelimit-remaining'' = Some ''0'' \<or> (\<exists>v. map_of (hs_headers resp) ''retry-after'' = Some v) \<or>
     contains ''rate limit'' (lower (if hs_body resp = [] then [] else cp_take 200 (response_text resp))) \<or>
     contains ''abuse detection'' (lower (if hs_body resp = [] then [] else cp_take 200 (response_text resp)))) =
   is_rate_limited resp (error_detail resp)"
  by (simp only: is_rate_limited_def header_value_def error_detail_def limit_names not_None_eq)

text \<open>C32. What a request does: it is sent only if there is an installation token, with that token as its
  Authorization unless the caller passes an Authorization of its own (no operation of the client
  does); a response below 400 is returned as it is (a redirect included), any other raises: not
  found for 404, the rate limit for 429 and for a 403 with no requests left, with a Retry-After
  header or with rate limit or abuse detection in the first 200 characters of its body, refused
  credentials for 401 and any other 403, and a plain error for the rest.\<close>

theorem request_outcome:
  "(case installation_token (rt_network cfg) (rt_auth cfg) s of
      (Inl e, t) \<Rightarrow> rest_request cfg verb path body extra s = (Inl e, t)
    | (Inr token, t) \<Rightarrow>
        \<exists>headers.
          map_of headers ''Authorization'' =
            (case map_of (rev extra) ''Authorization'' of None \<Rightarrow> Some (''Bearer '' @ py_str token) | Some own \<Rightarrow> Some own) \<and>
          (case nt_request (rt_network cfg) verb (rt_base_url cfg @ path) headers body (at_world t) of
             (Inl e, w) \<Rightarrow> rest_request cfg verb path body extra s = (Inl e, t\<lparr>at_world := w\<rparr>)
           | (Inr resp, w) \<Rightarrow>
               if hs_status resp < 400 then rest_request cfg verb path body extra s = (Inr resp, t\<lparr>at_world := w\<rparr>)
               else
                 (let detail = lower (if hs_body resp = [] then [] else cp_take 200 (response_text resp));
                      limited = map_of (hs_headers resp) ''x-ratelimit-remaining'' = Some ''0'' \<or>
                        (\<exists>v. map_of (hs_headers resp) ''retry-after'' = Some v) \<or>
                        contains ''rate limit'' detail \<or> contains ''abuse detection'' detail;
                      class =
                        (if hs_status resp = 404 then NotFoundError
                         else if hs_status resp = 429 then RateLimitError
                         else if hs_status resp = 403 then (if limited then RateLimitError else AuthError)
                         else if hs_status resp = 401 then AuthError
                         else GitHubError)
                  in \<exists>msg. rest_request cfg verb path body extra s = (Inl (Exn class msg), t\<lparr>at_world := w\<rparr>))))"
proof (cases "installation_token (rt_network cfg) (rt_auth cfg) s")
  case (Pair x t)
  show ?thesis
  proof (cases x)
    case (Inr token)
    let ?h = "rest_headers cfg token extra"
    have auth: "map_of ?h ''Authorization'' =
        (case map_of (rev extra) ''Authorization'' of None \<Rightarrow> Some (''Bearer '' @ py_str token) | Some own \<Rightarrow> Some own)"
      by (simp add: rest_headers_lookup split: option.split)
    obtain y w where sent: "nt_request (rt_network cfg) verb (rt_base_url cfg @ path) ?h body (at_world t) = (y, w)"
      by fastforce
    have run: "rest_request cfg verb path body extra s =
        (case y of Inl e \<Rightarrow> (Inl e, t\<lparr>at_world := w\<rparr>)
         | Inr resp \<Rightarrow> (case raise_for_status resp of Inl e \<Rightarrow> (Inl e, t\<lparr>at_world := w\<rparr>)
                       | Inr _ \<Rightarrow> (Inr resp, t\<lparr>at_world := w\<rparr>)))"
      by (simp add: rest_request_def on_network_eq act_simps Pair Inr sent split: sum.split)
    show ?thesis
      unfolding Pair Inr prod.case sum.case Let_def shows_limit
      by (rule exI [of _ ?h], simp only: sent prod.case auth simp_thms run)
        (auto simp: raise_for_status_def Let_def split: sum.split)
  qed (simp add: Pair rest_request_def act_simps)
qed

text \<open>A redirect is below 400, so that its body is read as the answer.\<close>

lemma redirect_read_as_pr:
  assumes "rest_request cfg ''GET'' (pulls_path owner repo number) None [] s = (Inr resp, t)"
    and "hs_status resp = 301" and "response_json resp = Inr (JObj [(''message'', JStr ''Moved Permanently'')])"
  shows "rest_get_pull_request cfg owner repo number s =
    (Inr \<lparr>pm_number = 0, pm_title = [], pm_state = [], pm_head_sha = [], pm_base_ref = [], pm_head_ref = [],
          pm_author = [], pm_draft = False, pm_html_url = [], pm_body = []\<rparr>, t)"
  using assms
  by (simp add: rest_get_pull_request_def get_json_def act_simps pr_meta_from_payload_def int_at_def str_at_def
      str_or_empty_at_def str_of_part_def por_def dget_def)

section \<open>Pages\<close>

text \<open>The items of a page of a list, the pages being counted from 1.\<close>

definition page_of :: "'a list \<Rightarrow> int \<Rightarrow> int \<Rightarrow> 'a list" where
  "page_of xs per_page page = take (nat per_page) (drop (nat ((page - 1) * per_page)) xs)"

lemma walk_pages_take:
  assumes "1 \<le> per_page"
    and fetched: "\<And>page s. serves s \<Longrightarrow> 1 \<le> page \<Longrightarrow> (page - 1) * per_page \<le> int (length xs) \<Longrightarrow>
      \<exists>t. fetch page s = (Inr (page_of xs per_page page), t) \<and> serves t"
  shows "serves s \<Longrightarrow> 1 \<le> page \<Longrightarrow> (page - 1) * per_page \<le> int (length xs) \<Longrightarrow>
    \<exists>t. walk_pages fetch per_page left page (take (nat ((page - 1) * per_page)) xs) s =
      (Inr (take (nat ((page - 1 + int left) * per_page)) xs), t) \<and> serves t"
proof (induction left arbitrary: page s)
  case (Suc left)
  obtain t where t: "fetch page s = (Inr (page_of xs per_page page), t)" "serves t"
    using fetched [OF Suc.prems] by blast
  have step: "nat ((page + 1 - 1) * per_page) = nat ((page - 1) * per_page) + nat per_page"
    using assms(1) Suc.prems(2) by (simp add: nat_add_distrib [symmetric] algebra_simps)
  have results: "take (nat ((page - 1) * per_page)) xs @ page_of xs per_page page = take (nat ((page + 1 - 1) * per_page)) xs"
    unfolding step page_of_def by (simp add: take_add)
  show ?case
  proof (cases "int (length (page_of xs per_page page)) < per_page")
    case True
    then have "length xs < nat ((page + 1 - 1) * per_page)" unfolding step by (auto simp: page_of_def)
    moreover have "nat ((page + 1 - 1) * per_page) \<le> nat ((page - 1 + int (Suc left)) * per_page)"
      using assms(1) Suc.prems(2) by (intro nat_mono mult_right_mono) auto
    ultimately show ?thesis using t True by (simp add: act_simps results)
  next
    case False
    then have "(page + 1 - 1) * per_page \<le> int (length xs)"
      using assms(1) Suc.prems(2) by (auto simp: page_of_def algebra_simps nat_le_iff split: if_splits)
    from Suc.IH [OF t(2) _ this, folded results] Suc.prems(2) obtain u where
      "walk_pages fetch per_page left (page + 1) (take (nat ((page - 1) * per_page)) xs @ page_of xs per_page page) t =
         (Inr (take (nat ((page + 1 - 1 + int left) * per_page)) xs), u)" "serves u"
      by auto
    moreover have "page + 1 - 1 + int left = page - 1 + int (Suc left)" by simp
    ultimately show ?thesis using t(1) False by (simp only: walk_pages.simps bindS_Inr if_False) auto
  qed
qed (simp add: act_simps)

text \<open>C33. A listing is complete up to thirty pages: if the service answers every page that is asked for
  with that part of a list, a listing returns the list, cut off behind thirty full pages (3000 items
  with the page size the tools use), without an error when it is longer.\<close>

theorem listing_pages:
  assumes "1 \<le> per_page" and "per_page \<le> 100" and "serves s"
    and "\<And>page s. serves s \<Longrightarrow> 1 \<le> page \<Longrightarrow> (page - 1) * per_page \<le> int (length xs) \<Longrightarrow>
      \<exists>t. fetch_page cfg path items_of convert per_page page s = (Inr (page_of xs per_page page), t) \<and> serves t"
  shows "\<exists>t. list_all_pages cfg path items_of convert per_page s = (Inr (take (30 * nat per_page) xs), t) \<and> serves t"
  using walk_pages_take [OF assms(1), where serves = serves and xs = xs and page = 1 and left = max_pages, OF assms(4) assms(3)] assms(1,2)
  by (auto simp: list_all_pages_def check_per_page_def max_pages_def act_simps nat_mult_distrib)

text \<open>A service with one comment, asked with a cached token.\<close>

definition one_comment_network :: "unit network" where
  "one_comment_network =
     \<lparr>nt_now = retS 0,
      nt_request = (\<lambda>verb url headers body. retS
        \<lparr>hs_status = 200, hs_headers = [], hs_body = dumps (JList [JObj [(''id'', JInt 5), (''body'', JStr ''Report'')]])\<rparr>),
      nt_jwt_encode = (\<lambda>payload key. Inr ''jwt'')\<rparr>"

definition one_comment_settings :: "unit rest_settings" where
  "one_comment_settings =
     \<lparr>rt_network = one_comment_network,
      rt_auth = \<lparr>ga_app_id = 1, ga_private_key = ''key'', ga_installation_id = 2, ga_api_base = ''https://api''\<rparr>,
      rt_base_url = ''https://api'', rt_user_agent = ''qaestro''\<rparr>"

definition one_comment :: comment_result where
  "one_comment = \<lparr>cr_id = 5, cr_html_url = [], cr_body = ''Report''\<rparr>"

definition with_token :: "unit auth_state" where
  "with_token = \<lparr>at_cached = Some \<lparr>ct_token = JStr ''t'', ct_expires_at = 100\<rparr>, at_world = ()\<rparr>"

lemma one_comment_json: "get_json one_comment_settings path with_token =
   (Inr (JList [JObj [(''id'', JInt 5), (''body'', JStr ''Report'')]]), with_token)"
proof -
  let ?v = "JList [JObj [(''id'', JInt 5), (''body'', JStr ''Report'')]]"
  have "loads (dumps ?v) = Inr ?v" by (rule loads_dumps) simp
  moreover have "decode_utf8 (dumps ?v) = Inr (dumps ?v)" by code_simp
  moreover have "dumps ?v \<noteq> []" by simp
  ultimately show ?thesis
    by (simp add: get_json_def rest_request_def one_comment_settings_def one_comment_network_def with_token_def
        installation_token_def on_network_eq fresh_token_def response_json_def raise_for_status_def act_simps
        del: dumps.simps)
qed

theorem listing_pages_witness:
  "\<exists>t. rest_list_comments one_comment_settings ''o'' ''r'' 7 100 with_token = (Inr [one_comment], t)"
proof -
  let ?fetch = "fetch_page one_comment_settings (comments_path ''o'' ''r'' 7) (expect_items ''issue-comments'')
      (dict_item ''issue-comments'' comment_result_from_payload) 100"
  have first: "?fetch 1 with_token = (Inr (page_of [one_comment] 100 1), with_token)"
    by (simp add: fetch_page_def one_comment_json act_simps dict_item_def comment_result_from_payload_def int_at_def
        str_at_def dget_def one_comment_def page_of_def)
  have "\<exists>t. ?fetch page s = (Inr (page_of [one_comment] 100 page), t) \<and> t = with_token"
    if "s = with_token" "1 \<le> page" "(page - 1) * 100 \<le> int (length [one_comment])" for page s
  proof -
    from that(2,3) have "page = 1" by simp
    with first that(1) show ?thesis by simp
  qed
  then have "\<exists>t. list_all_pages one_comment_settings (comments_path ''o'' ''r'' 7) (expect_items ''issue-comments'')
      (dict_item ''issue-comments'' comment_result_from_payload) 100 with_token =
      (Inr (take (30 * nat 100) [one_comment]), t) \<and> t = with_token"
    by (intro listing_pages) auto
  then show ?thesis by (auto simp: rest_list_comments_def)
qed

end
