(* ===== verification/Token_Lock.thy ===== *)
theory Token_Lock
  imports Client_Facts
begin

text \<open>
  \<open>GitHubAppAuth.installation_token\<close> (\<open>src/adapters/connectors/github/auth.py\<close>) called by several threads.
  A thread is at one of the points between two accesses to what threads share: the clock and the
  network, the attribute \<open>_cached\<close> and the lock. A schedule names the thread that moves next; between
  two moves the world may change on its own, so that clock and network are not the threads' alone.
\<close>

section \<open>Threads\<close>

datatype token_pc =
    Idle
  | Calling
  | FastPath rat
  | Waiting
  | Locked
  | Rechecked "cached_token option"
  | Compared "cached_token option" rat
  | Exchanging rat
  | Requesting rat string
  | Storing rat cached_token
  | Returning
  | Releasing "json res"
  | Finished "json res"

text \<open>What a call did: it found a cached token in order at a time, or exchanged one at a time.\<close>

datatype token_event =
    Called nat
  | Looked nat rat cached_token
  | Exchanged nat rat cached_token

record 'w lock_state =
  tk_pc :: "nat \<Rightarrow> token_pc"
  tk_lock :: "nat option"
  tk_auth :: "'w auth_state"

definition lock_init :: "'w \<Rightarrow> 'w lock_state" where
  "lock_init w = \<lparr>tk_pc = (\<lambda>_. Idle), tk_lock = None, tk_auth = \<lparr>at_cached = None, at_world = w\<rparr>\<rparr>"

definition go :: "nat \<Rightarrow> token_pc \<Rightarrow> 'w lock_state \<Rightarrow> 'w lock_state" where
  "go i p s = s\<lparr>tk_pc := (tk_pc s)(i := p)\<rparr>"

text \<open>An action on clock or network; an exception leaves the call, and the \<open>with\<close> block when in it.\<close>

definition acting ::
  "('w, 'a) act \<Rightarrow> nat \<Rightarrow> (json res \<Rightarrow> token_pc) \<Rightarrow> ('a \<Rightarrow> token_pc) \<Rightarrow> 'w lock_state \<Rightarrow> 'w lock_state" where
  "acting m i leave k s =
     (case on_network m (tk_auth s) of
        (Inl e, a) \<Rightarrow> go i (leave (Inl e)) (s\<lparr>tk_auth := a\<rparr>)
      | (Inr x, a) \<Rightarrow> go i (k x) (s\<lparr>tk_auth := a\<rparr>))"

definition cached_now :: "'w lock_state \<Rightarrow> cached_token option" where
  "cached_now s = at_cached (tk_auth s)"

definition no_attribute_token :: exn where
  "no_attribute_token =
     Exn AttributeError (repr_str ''NoneType'' @ '' object has no attribute '' @ repr_str ''token'')"

text \<open>One move of thread \<open>i\<close>: the new state, and what the call has done by it.\<close>

definition thread_step ::
  "'w network \<Rightarrow> app_auth \<Rightarrow> nat \<Rightarrow> 'w lock_state \<Rightarrow> token_event list \<times> 'w lock_state" where
  "thread_step net cfg i s =
     (case tk_pc s i of
        Idle \<Rightarrow> ([], s)
      | Calling \<Rightarrow> ([], acting (nt_now net) i Finished FastPath s)
      | FastPath now \<Rightarrow>
          (case fresh_token (cached_now s) now of
             Some c \<Rightarrow> ([Looked i now c], go i (Finished (Inr (ct_token c))) s)
           | None \<Rightarrow> ([], go i Waiting s))
      | Waiting \<Rightarrow> ([], if tk_lock s = None then go i Locked (s\<lparr>tk_lock := Some i\<rparr>) else s)
      | Locked \<Rightarrow> ([], go i (Rechecked (cached_now s)) s)
      | Rechecked cached \<Rightarrow> ([], acting (nt_now net) i Releasing (Compared cached) s)
      | Compared cached now \<Rightarrow>
          (case fresh_token cached now of
             Some c \<Rightarrow> ([Looked i now c], go i (Releasing (Inr (ct_token c))) s)
           | None \<Rightarrow> ([], go i (Exchanging now) s))
      | Exchanging now \<Rightarrow> ([], acting (app_jwt net cfg) i Releasing (Requesting now) s)
      | Requesting now jwt \<Rightarrow> ([], acting (request_token net cfg jwt) i Releasing (Storing now) s)
      | Storing now c \<Rightarrow> ([Exchanged i now c], go i Returning (s\<lparr>tk_auth := (tk_auth s)\<lparr>at_cached := Some c\<rparr>\<rparr>))
      | Returning \<Rightarrow>
          ([], go i (Releasing (case cached_now s of None \<Rightarrow> Inl no_attribute_token | Some c \<Rightarrow> Inr (ct_token c))) s)
      | Releasing r \<Rightarrow> ([], go i (Finished r) (s\<lparr>tk_lock := None\<rparr>))
      | Finished r \<Rightarrow> ([], s))"

fun run_schedule :: "'w network \<Rightarrow> app_auth \<Rightarrow> nat list \<Rightarrow> 'w lock_state \<Rightarrow> 'w lock_state" where
  "run_schedule net cfg [] s = s"
| "run_schedule net cfg (i # is) s = run_schedule net cfg is (snd (thread_step net cfg i s))"

text \<open>
  All runs, with what happened in them, the latest first: threads call, move in any order, and the
  world moves in between.
\<close>

inductive token_run ::
  "'w network \<Rightarrow> app_auth \<Rightarrow> 'w \<Rightarrow> token_event list \<Rightarrow> 'w lock_state \<Rightarrow> bool" for net cfg w where
  start: "token_run net cfg w [] (lock_init w)"
| call: "token_run net cfg w es s \<Longrightarrow> tk_pc s i \<in> insert Idle (range Finished) \<Longrightarrow>
    token_run net cfg w (Called i # es) (go i Calling s)"
| move: "token_run net cfg w es s \<Longrightarrow> thread_step net cfg i s = (new, s') \<Longrightarrow> token_run net cfg w (new @ es) s'"
| world: "token_run net cfg w es s \<Longrightarrow> token_run net cfg w es (s\<lparr>tk_auth := (tk_auth s)\<lparr>at_world := w'\<rparr>\<rparr>)"

section \<open>The lock\<close>

fun critical :: "token_pc \<Rightarrow> bool" where
  "critical Idle = False"
| "critical Calling = False"
| "critical (FastPath _) = False"
| "critical Waiting = False"
| "critical (Finished _) = False"
| "critical _ = True"

text \<open>What a thread in the critical section knows of the cache, which no other thread writes then.\<close>

fun knows :: "cached_token option \<Rightarrow> token_pc \<Rightarrow> bool" where
  "knows cached (Rechecked c) = (c = cached)"
| "knows cached (Compared c _) = (c = cached)"
| "knows cached (Exchanging now) = (fresh_token cached now = None)"
| "knows cached (Requesting now _) = (fresh_token cached now = None)"
| "knows cached (Storing now _) = (fresh_token cached now = None)"
| "knows cached Returning = (cached \<noteq> None)"
| "knows cached _ = True"

definition lock_inv :: "'w lock_state \<Rightarrow> bool" where
  "lock_inv s \<longleftrightarrow> (\<forall>i. critical (tk_pc s i) = (tk_lock s = Some i)) \<and> (\<forall>i. knows (cached_now s) (tk_pc s i))"

lemma cached_now_simps [simp]:
  "cached_now (go i p s) = cached_now s" "cached_now (s\<lparr>tk_lock := l\<rparr>) = cached_now s"
  "cached_now (s\<lparr>tk_auth := a\<rparr>) = at_cached a"
  by (simp_all add: cached_now_def go_def)

lemma go_simps [simp]:
  "tk_pc (go i p s) = (tk_pc s)(i := p)" "tk_lock (go i p s) = tk_lock s" "tk_auth (go i p s) = tk_auth s"
  by (simp_all add: go_def)

lemma knows_outside: "\<not> critical p \<Longrightarrow> knows cached p"
  by (cases p) simp_all

lemma on_network_cached: "at_cached (snd (on_network m a)) = at_cached a"
  by (simp add: on_network_eq)

text \<open>An action of a thread changes only its own point and the world.\<close>

lemma acting_goes:
  "\<exists>a r. at_cached a = cached_now s \<and> acting m i leave k s = go i r (s\<lparr>tk_auth := a\<rparr>) \<and>
     r \<in> range (\<lambda>e. leave (Inl e)) \<union> range k"
proof -
  obtain x a where x: "on_network m (tk_auth s) = (x, a)" by fastforce
  then have "at_cached a = cached_now s"
    using on_network_cached [of m "tk_auth s"] by (simp add: cached_now_def)
  with x show ?thesis
    by (cases x) (auto simp: acting_def intro!: exI [of _ a])
qed

lemma lock_invD:
  assumes "lock_inv s"
  shows "critical (tk_pc s i) = (tk_lock s = Some i)" "knows (cached_now s) (tk_pc s i)"
  using assms by (simp_all add: lock_inv_def)

lemma lock_inv_go:
  assumes "lock_inv s" "at_cached a = cached_now s" "critical p = critical (tk_pc s i)" "knows (cached_now s) p"
  shows "lock_inv (go i p (s\<lparr>tk_auth := a\<rparr>))"
  using assms by (simp add: lock_inv_def)

lemma lock_inv_go_same:
  assumes "lock_inv s" "critical p = critical (tk_pc s i)" "knows (cached_now s) p"
  shows "lock_inv (go i p s)"
  using lock_inv_go [of s "tk_auth s" p i] assms by (simp add: cached_now_def)

lemma lock_inv_acting:
  assumes inv: "lock_inv s"
    and leave: "\<And>e. critical (leave (Inl e)) = critical (tk_pc s i) \<and> knows (cached_now s) (leave (Inl e))"
    and k: "\<And>x. critical (k x) = critical (tk_pc s i) \<and> knows (cached_now s) (k x)"
  shows "lock_inv (acting m i leave k s)"
proof -
  obtain a r where a: "at_cached a = cached_now s" and eq: "acting m i leave k s = go i r (s\<lparr>tk_auth := a\<rparr>)"
    and r: "r \<in> range (\<lambda>e. leave (Inl e)) \<union> range k"
    using acting_goes [of s m i leave k] by blast
  from r leave k have "critical r = critical (tk_pc s i)" "knows (cached_now s) r" by auto
  with lock_inv_go [OF inv a] eq show ?thesis by simp
qed

lemma lock_inv_taken:
  assumes "lock_inv s" "tk_lock s = None" "critical p" "knows (cached_now s) p"
  shows "lock_inv (go i p (s\<lparr>tk_lock := Some i\<rparr>))"
  using assms by (auto simp: lock_inv_def)

lemma lock_inv_released:
  assumes "lock_inv s" "critical (tk_pc s i)" "\<not> critical p"
  shows "lock_inv (go i p (s\<lparr>tk_lock := None\<rparr>))"
  using assms by (auto simp: lock_inv_def knows_outside)

text \<open>The one that stores a token holds the lock, so what the others know of the cache does not change.\<close>

lemma lock_inv_stored:
  assumes "lock_inv s" "tk_pc s i = Storing now c"
  shows "lock_inv (go i Returning (s\<lparr>tk_auth := (tk_auth s)\<lparr>at_cached := Some c\<rparr>\<rparr>))"
proof -
  have "\<not> critical (tk_pc s j)" if "j \<noteq> i" for j
    using lock_invD(1) [OF assms(1), of i] lock_invD(1) [OF assms(1), of j] assms(2) that by simp
  then show ?thesis
    using assms by (auto simp: lock_inv_def knows_outside)
qed

lemma lock_inv_step:
  assumes inv: "lock_inv s"
  shows "lock_inv (snd (thread_step net cfg i s))"
proof (cases "tk_pc s i = Waiting \<or> (\<exists>r. tk_pc s i = Releasing r) \<or> (\<exists>now c. tk_pc s i = Storing now c)")
  case True
  with inv show ?thesis
    by (auto simp: thread_step_def intro!: lock_inv_taken lock_inv_released lock_inv_stored)
next
  case False
  with inv lock_invD(2) [OF inv, of i] show ?thesis
    by (cases "tk_pc s i")
      (auto simp: thread_step_def split: option.splits intro!: lock_inv_acting lock_inv_go_same)
qed

lemma lock_inv_init: "lock_inv (lock_init w)"
  by (simp add: lock_inv_def lock_init_def)

lemma lock_inv_world: "lock_inv s \<Longrightarrow> lock_inv (s\<lparr>tk_auth := (tk_auth s)\<lparr>at_world := w'\<rparr>\<rparr>)"
  by (simp add: lock_inv_def cached_now_def)

lemma token_run_lock_inv: "token_run net cfg w es s \<Longrightarrow> lock_inv s"
proof (induction rule: token_run.induct)
  case (call es s i)
  then show ?case by (auto intro!: lock_inv_go_same)
next
  case (move es s i new s')
  then show ?case using lock_inv_step [of s net cfg i] by simp
qed (simp_all add: lock_inv_init lock_inv_world)

section \<open>The cache as one object\<close>

text \<open>
  The specification: calls take effect one after the other. The list of effects, the latest first,
  says what is cached; a look must find that, with more than a minute left, and an exchange is only
  made when there is none such.
\<close>

fun cache_after :: "token_event list \<Rightarrow> cached_token option" where
  "cache_after [] = None"
| "cache_after (Exchanged i now c # es) = Some c"
| "cache_after (e # es) = cache_after es"

fun valid_effects :: "token_event list \<Rightarrow> bool" where
  "valid_effects [] = True"
| "valid_effects (Called i # es) = valid_effects es"
| "valid_effects (Looked i now c # es) = (fresh_token (cache_after es) now = Some c \<and> valid_effects es)"
| "valid_effects (Exchanged i now c # es) = (fresh_token (cache_after es) now = None \<and> valid_effects es)"

fun by_thread :: "token_event \<Rightarrow> nat" where
  "by_thread (Called i) = i"
| "by_thread (Looked i _ _) = i"
| "by_thread (Exchanged i _ _) = i"

fun event_token :: "token_event \<Rightarrow> json option" where
  "event_token (Called _) = None"
| "event_token (Looked _ _ c) = Some (ct_token c)"
| "event_token (Exchanged _ _ c) = Some (ct_token c)"

definition latest_of :: "nat \<Rightarrow> token_event list \<Rightarrow> token_event option" where
  "latest_of i es = find (\<lambda>e. by_thread e = i) es"

text \<open>What the effects say of a thread at a point: its call had no effect yet, or the one it returns.\<close>

fun in_effect :: "token_event option \<Rightarrow> nat \<Rightarrow> cached_token option \<Rightarrow> token_pc \<Rightarrow> bool" where
  "in_effect e i cached Idle = (e = None)"
| "in_effect e i cached Returning = (\<exists>now c. e = Some (Exchanged i now c) \<and> cached = Some c)"
| "in_effect e i cached (Releasing (Inr t)) = (\<exists>x. e = Some x \<and> event_token x = Some t)"
| "in_effect e i cached (Finished (Inr t)) = (\<exists>x. e = Some x \<and> event_token x = Some t)"
| "in_effect e i cached _ = (e = Some (Called i))"

definition effects_inv :: "token_event list \<Rightarrow> 'w lock_state \<Rightarrow> bool" where
  "effects_inv es s \<longleftrightarrow> valid_effects es \<and> cache_after es = cached_now s \<and>
     (\<forall>i. in_effect (latest_of i es) i (cached_now s) (tk_pc s i))"

lemma latest_of_Nil [simp]: "latest_of i [] = None"
  by (simp add: latest_of_def)

lemma latest_of_Cons [simp]: "latest_of i (e # es) = (if by_thread e = i then Some e else latest_of i es)"
  by (simp add: latest_of_def)

lemma in_effect_other_cache:
  "in_effect e i cached p \<Longrightarrow> p \<noteq> Returning \<Longrightarrow> in_effect e i cached' p"
  by (cases "(e, i, cached, p)" rule: in_effect.cases) auto

lemma effects_inv_go:
  assumes "effects_inv es s" "at_cached a = cached_now s" "in_effect (latest_of i es) i (cached_now s) p"
  shows "effects_inv es (go i p (s\<lparr>tk_auth := a\<rparr>))"
  using assms by (simp add: effects_inv_def)

lemma effects_inv_go_same:
  assumes "effects_inv es s" "in_effect (latest_of i es) i (cached_now s) p"
  shows "effects_inv es (go i p s)"
  using assms by (simp add: effects_inv_def)

lemma effects_inv_lock:
  "effects_inv es (s\<lparr>tk_lock := l\<rparr>) = effects_inv es s"
  "effects_inv es (go i p (s\<lparr>tk_lock := l\<rparr>)) = effects_inv es (go i p s)"
  by (simp_all add: effects_inv_def)

lemma effects_inv_acting:
  assumes inv: "effects_inv es s"
    and leave: "\<And>e. in_effect (latest_of i es) i (cached_now s) (leave (Inl e))"
    and k: "\<And>x. in_effect (latest_of i es) i (cached_now s) (k x)"
  shows "effects_inv es (acting m i leave k s)"
proof -
  obtain a r where a: "at_cached a = cached_now s" and eq: "acting m i leave k s = go i r (s\<lparr>tk_auth := a\<rparr>)"
    and r: "r \<in> range (\<lambda>e. leave (Inl e)) \<union> range k"
    using acting_goes [of s m i leave k] by blast
  from r leave k have "in_effect (latest_of i es) i (cached_now s) r" by auto
  with effects_inv_go [OF inv a] eq show ?thesis by simp
qed

lemma effects_inv_looked:
  assumes "effects_inv es s" "fresh_token (cached_now s) now = Some c" "p \<in> {Finished (Inr (ct_token c)), Releasing (Inr (ct_token c))}"
  shows "effects_inv (Looked i now c # es) (go i p s)"
  using assms by (auto simp: effects_inv_def)

lemma effects_inv_stored:
  assumes lock: "lock_inv s" and inv: "effects_inv es s" and pc: "tk_pc s i = Storing now c"
  shows "effects_inv (Exchanged i now c # es) (go i Returning (s\<lparr>tk_auth := (tk_auth s)\<lparr>at_cached := Some c\<rparr>\<rparr>))"
proof -
  have "tk_pc s j \<noteq> Returning" if "j \<noteq> i" for j
    using lock_invD(1) [OF lock, of i] lock_invD(1) [OF lock, of j] pc that by auto
  then show ?thesis
    using inv lock_invD(2) [OF lock, of i] pc by (auto simp: effects_inv_def intro: in_effect_other_cache)
qed

lemma effects_inv_released:
  assumes "effects_inv es s" "tk_pc s i = Releasing r"
  shows "effects_inv es (go i (Finished r) (s\<lparr>tk_lock := None\<rparr>))"
proof -
  have "in_effect (latest_of i es) i (cached_now s) (Releasing r)"
    using assms by (auto simp: effects_inv_def dest: spec [of _ i])
  then show ?thesis
    using assms(1) by (cases r) (simp_all add: effects_inv_lock effects_inv_go_same)
qed

lemma effects_inv_step:
  assumes lock: "lock_inv s" and inv: "effects_inv es s" and step: "thread_step net cfg i s = (new, s')"
  shows "effects_inv (new @ es) s'"
proof -
  have now: "in_effect (latest_of i es) i (cached_now s) (tk_pc s i)"
    using inv by (simp add: effects_inv_def)
  show ?thesis
  proof (cases "new = [] \<and> (\<nexists>r. tk_pc s i = Releasing r)")
    case True
    with now lock_invD(2) [OF lock, of i] inv step show ?thesis
      by (cases "tk_pc s i")
        (auto simp: thread_step_def effects_inv_lock split: option.splits if_splits
          intro!: effects_inv_acting effects_inv_go_same)
  next
    case False
    with now lock_invD(2) [OF lock, of i] inv lock step show ?thesis
      by (cases "tk_pc s i")
        (auto simp: thread_step_def split: option.splits
          intro: effects_inv_looked effects_inv_stored effects_inv_released)
  qed
qed

lemma effects_inv_call:
  assumes "effects_inv es s"
  shows "effects_inv (Called i # es) (go i Calling s)"
  using assms by (auto simp: effects_inv_def)

lemma token_run_effects_inv: "token_run net cfg w es s \<Longrightarrow> effects_inv es s"
proof (induction rule: token_run.induct)
  case start
  show ?case by (simp add: effects_inv_def lock_init_def cached_now_def)
next
  case (move es s i new s')
  then show ?case by (blast intro: effects_inv_step token_run_lock_inv)
next
  case (world es s w')
  then show ?case by (simp add: effects_inv_def cached_now_def)
qed (rule effects_inv_call)

text \<open>C5. Calls of several threads behave as calls made one after the other: whatever the order in which
  the threads move, and whatever clock and network do, the effects of the calls, in the order in which
  they happened, are those of one cache that is looked at and filled by one caller at a time; a look
  that was answered found the cached token with more than a minute left, an exchange was made only
  when there was none, and a call that has returned a token had exactly that effect, during the
  call, while a call that failed had none.\<close>

theorem concurrent_calls_serialised:
  assumes "token_run net cfg w es s"
  shows "valid_effects es \<and> cached_now s = cache_after es \<and>
    (tk_pc s i = Finished r \<longrightarrow>
       (case r of
          Inl _ \<Rightarrow> latest_of i es = Some (Called i)
        | Inr t \<Rightarrow> \<exists>now c. ct_token c = t \<and> latest_of i es \<in> {Some (Looked i now c), Some (Exchanged i now c)}))"
proof -
  from assms have inv: "effects_inv es s" by (rule token_run_effects_inv)
  then have "in_effect (latest_of i es) i (cached_now s) (tk_pc s i)" by (simp add: effects_inv_def)
  moreover have "by_thread x = i" if "latest_of i es = Some x" for x
    using that by (auto simp: latest_of_def find_Some_iff)
  ultimately have "case r of
          Inl _ \<Rightarrow> latest_of i es = Some (Called i)
        | Inr t \<Rightarrow> \<exists>now c. ct_token c = t \<and> latest_of i es \<in> {Some (Looked i now c), Some (Exchanged i now c)}"
    if "tk_pc s i = Finished r"
    using that by (cases r; cases "the (latest_of i es)") fastforce+
  with inv show ?thesis by (simp add: effects_inv_def)
qed

text \<open>The exchanges of a run, the latest first: when their caller looked at the clock, and the token.\<close>

fun exchanges :: "token_event list \<Rightarrow> (rat \<times> cached_token) list" where
  "exchanges [] = []"
| "exchanges (Exchanged i now c # es) = (now, c) # exchanges es"
| "exchanges (e # es) = exchanges es"

lemma cache_after_exchanges:
  "cache_after es = (case exchanges es of [] \<Rightarrow> None | (now, c) # _ \<Rightarrow> Some c)"
  by (induction es rule: cache_after.induct) auto

lemma valid_effects_apart:
  "valid_effects es \<Longrightarrow> successively (\<lambda>(later, _) (_, c). ct_expires_at c - 60 \<le> later) (exchanges es)"
proof (induction es rule: exchanges.induct)
  case (2 i now c es)
  then show ?case
    by (cases "exchanges es") (auto simp: fresh_token_None cache_after_exchanges)
qed auto

text \<open>C35. Threads do not exchange tokens at the same time, nor one that is not needed: the threads between
  the check under the lock and the end of their call are the one that holds the lock; while a thread
  asks GitHub for a token, the cache holds none that was in order when it looked; and of two
  successive exchanges in a run, the second looked at the clock when the token of the first had at
  most a minute left.\<close>

theorem one_exchange_at_a_time:
  assumes "token_run net cfg w es s"
  shows "{i. critical (tk_pc s i)} = set_option (tk_lock s) \<and>
    {i. \<exists>now jwt. tk_pc s i = Requesting now jwt \<and> fresh_token (cached_now s) now \<noteq> None} = {} \<and>
    successively (\<lambda>(later, _) (_, c). ct_expires_at c - 60 \<le> later) (exchanges es)"
proof -
  have lock: "lock_inv s" using assms by (rule token_run_lock_inv)
  have "fresh_token (cached_now s) now = None" if "tk_pc s i = Requesting now jwt" for i now jwt
    using lock_invD(2) [OF lock, of i] that by simp
  moreover have "{i. critical (tk_pc s i)} = set_option (tk_lock s)"
    by (simp add: lock_invD(1) [OF lock] set_eq_iff)
  moreover have "valid_effects es"
    using token_run_effects_inv [OF assms] by (simp add: effects_inv_def)
  ultimately show ?thesis by (auto simp: valid_effects_apart)
qed

section \<open>A call that nobody disturbs\<close>

lemma run_schedule_append: "run_schedule net cfg (a @ b) s = run_schedule net cfg b (run_schedule net cfg a s)"
  by (induction a arbitrary: s) simp_all

lemma finished_stays:
  "tk_pc s i = Finished r \<Longrightarrow> run_schedule net cfg (replicate n i) s = s"
  by (induction n) (simp_all add: thread_step_def)

lemma go_normal:
  "go i p (go i q s) = go i p s"
  "(go i p s)\<lparr>tk_lock := l\<rparr> = go i p (s\<lparr>tk_lock := l\<rparr>)"
  "(go i p s)\<lparr>tk_auth := a\<rparr> = go i p (s\<lparr>tk_auth := a\<rparr>)"
  by (simp_all add: go_def)

lemma run_step: "run_schedule net cfg (replicate (Suc n) i) s = run_schedule net cfg (replicate n i) (snd (thread_step net cfg i s))"
  by simp

lemma from_releasing:
  "tk_pc s i = Releasing r \<Longrightarrow> run_schedule net cfg (replicate (Suc n) i) s = go i (Finished r) (s\<lparr>tk_lock := None\<rparr>)"
  unfolding run_step by (simp add: thread_step_def finished_stays)

lemma from_storing:
  "tk_pc s i = Storing now c \<Longrightarrow> run_schedule net cfg (replicate (Suc (Suc (Suc n))) i) s =
     go i (Finished (Inr (ct_token c))) (s\<lparr>tk_lock := None, tk_auth := (tk_auth s)\<lparr>at_cached := Some c\<rparr>\<rparr>)"
  unfolding run_step [where n = "Suc (Suc n)"] run_step [where n = "Suc n"]
  by (simp add: thread_step_def from_releasing go_normal del: replicate.simps)

lemma acting_eq:
  "acting m i leave k s =
     (case m (at_world (tk_auth s)) of (x, w) \<Rightarrow>
        go i (case x of Inl e \<Rightarrow> leave (Inl e) | Inr y \<Rightarrow> k y) (s\<lparr>tk_auth := (tk_auth s)\<lparr>at_world := w\<rparr>\<rparr>))"
  by (simp add: acting_def on_network_eq split: prod.split sum.split)

lemma from_requesting:
  "tk_pc s i = Requesting now jwt \<Longrightarrow> run_schedule net cfg (replicate (Suc (Suc (Suc (Suc n)))) i) s =
     (case request_token net cfg jwt (at_world (tk_auth s)) of
        (Inl e, w) \<Rightarrow> go i (Finished (Inl e)) (s\<lparr>tk_lock := None, tk_auth := (tk_auth s)\<lparr>at_world := w\<rparr>\<rparr>)
      | (Inr c, w) \<Rightarrow> go i (Finished (Inr (ct_token c)))
          (s\<lparr>tk_lock := None, tk_auth := (tk_auth s)\<lparr>at_world := w, at_cached := Some c\<rparr>\<rparr>))"
  unfolding run_step [where n = "Suc (Suc (Suc n))"]
  by (simp add: thread_step_def acting_eq from_releasing from_storing go_normal del: replicate.simps
      split: prod.split sum.split)

lemma from_exchanging:
  "tk_pc s i = Exchanging now \<Longrightarrow> run_schedule net cfg (replicate (Suc (Suc (Suc (Suc (Suc n))))) i) s =
     (case refresh_token net cfg (tk_auth s) of (r, a) \<Rightarrow> go i (Finished r) (s\<lparr>tk_lock := None, tk_auth := a\<rparr>))"
  unfolding run_step [where n = "Suc (Suc (Suc (Suc n)))"]
  by (simp add: thread_step_def acting_eq from_releasing from_requesting go_normal refresh_token_def
      exchange_token_def on_network_eq act_simps del: replicate.simps split: prod.split sum.split)

lemma from_compared:
  "tk_pc s i = Compared cached now \<Longrightarrow> run_schedule net cfg (replicate (Suc (Suc (Suc (Suc (Suc (Suc n)))))) i) s =
     (case fresh_token cached now of
        Some c \<Rightarrow> go i (Finished (Inr (ct_token c))) (s\<lparr>tk_lock := None\<rparr>)
      | None \<Rightarrow> (case refresh_token net cfg (tk_auth s) of (r, a) \<Rightarrow> go i (Finished r) (s\<lparr>tk_lock := None, tk_auth := a\<rparr>)))"
  unfolding run_step [where n = "Suc (Suc (Suc (Suc (Suc n))))"]
  by (simp add: thread_step_def from_releasing from_exchanging go_normal del: replicate.simps
      split: option.split prod.split)

lemma from_rechecked:
  "tk_pc s i = Rechecked cached \<Longrightarrow>
     run_schedule net cfg (replicate (Suc (Suc (Suc (Suc (Suc (Suc (Suc n))))))) i) s =
     (case on_network (nt_now net) (tk_auth s) of
        (Inl e, a) \<Rightarrow> go i (Finished (Inl e)) (s\<lparr>tk_lock := None, tk_auth := a\<rparr>)
      | (Inr now, a) \<Rightarrow>
          (case fresh_token cached now of
             Some c \<Rightarrow> go i (Finished (Inr (ct_token c))) (s\<lparr>tk_lock := None, tk_auth := a\<rparr>)
           | None \<Rightarrow> (case refresh_token net cfg a of (r, a) \<Rightarrow> go i (Finished r) (s\<lparr>tk_lock := None, tk_auth := a\<rparr>))))"
  unfolding run_step [where n = "Suc (Suc (Suc (Suc (Suc (Suc n)))))"]
  by (simp add: thread_step_def acting_eq on_network_eq from_releasing from_compared go_normal del: replicate.simps
      split: option.split prod.split sum.split)

lemma from_waiting:
  "tk_pc s i = Waiting \<Longrightarrow> tk_lock s = None \<Longrightarrow>
     run_schedule net cfg (replicate (Suc (Suc (Suc (Suc (Suc (Suc (Suc (Suc (Suc n))))))))) i) s =
     (case on_network (nt_now net) (tk_auth s) of
        (Inl e, a) \<Rightarrow> go i (Finished (Inl e)) (s\<lparr>tk_auth := a\<rparr>)
      | (Inr now, a) \<Rightarrow>
          (case fresh_token (cached_now s) now of
             Some c \<Rightarrow> go i (Finished (Inr (ct_token c))) (s\<lparr>tk_auth := a\<rparr>)
           | None \<Rightarrow> (case refresh_token net cfg a of (r, a) \<Rightarrow> go i (Finished r) (s\<lparr>tk_auth := a\<rparr>))))"
  unfolding run_step [where n = "Suc (Suc (Suc (Suc (Suc (Suc (Suc (Suc n)))))))"]
    run_step [where n = "Suc (Suc (Suc (Suc (Suc (Suc (Suc n))))))"]
  by (simp add: thread_step_def from_rechecked go_normal del: replicate.simps
      split: option.split prod.split sum.split)

text \<open>Run without interruption, a call of one thread is the function the client of GitHub is modelled
  with: after at most eleven moves the thread has finished with the result of \<open>installation_token\<close>,
  and cache, clock and network are as that function leaves them; the lock is free again.\<close>

lemma undisturbed_call:
  assumes "tk_pc s i = Calling" and "tk_lock s = None"
  shows "run_schedule net cfg (replicate 11 i) s =
    (case installation_token net cfg (tk_auth s) of (r, a) \<Rightarrow> go i (Finished r) (s\<lparr>tk_auth := a\<rparr>))"
proof -
  have eleven: "replicate 11 i = replicate (Suc (Suc (Suc (Suc (Suc (Suc (Suc (Suc (Suc (Suc (Suc 0))))))))))) i"
    by (simp add: eval_nat_numeral)
  show ?thesis
    unfolding eleven run_step [where n = "Suc (Suc (Suc (Suc (Suc (Suc (Suc (Suc (Suc (Suc 0)))))))))"]
      run_step [where n = "Suc (Suc (Suc (Suc (Suc (Suc (Suc (Suc (Suc 0))))))))"]
    using assms
    by (cases "nt_now net (at_world (tk_auth s))"; cases "fst (nt_now net (at_world (tk_auth s)))")
      (simp_all add: thread_step_def acting_eq finished_stays from_waiting go_normal installation_token_def
        on_network_eq act_simps cached_now_def del: replicate.simps split: option.split prod.split sum.split)
qed

text \<open>A clock at 1000 and a network that answers with a token valid until the day after the epoch.\<close>

definition sample_network :: "nat network" where
  "sample_network =
     \<lparr>nt_now = (\<lambda>n. (Inr (of_nat (1000 + n)), Suc n)),
      nt_request = (\<lambda>verb url headers body n.
        (Inr \<lparr>hs_status = 201, hs_headers = [],
              hs_body = ''{\"token\":\"t\",\"expires_at\":\"1970-01-02T00:00:00Z\"}''\<rparr>, Suc n)),
      nt_jwt_encode = (\<lambda>payload key. Inr ''jwt'')\<rparr>"

definition sample_app :: app_auth where
  "sample_app = \<lparr>ga_app_id = 1, ga_private_key = ''k'', ga_installation_id = 2, ga_api_base = ''https://api.github.com''\<rparr>"

definition two_callers :: "nat lock_state" where
  "two_callers = go 1 Calling (go 0 Calling (lock_init 0))"

lemma undisturbed_call_witness:
  "run_schedule sample_network sample_app (replicate 11 0) two_callers =
    (case installation_token sample_network sample_app (tk_auth two_callers) of
       (r, a) \<Rightarrow> go 0 (Finished r) (two_callers\<lparr>tk_auth := a\<rparr>))"
  by (rule undisturbed_call) (simp_all add: two_callers_def lock_init_def)

section \<open>Every call returns\<close>

text \<open>How many moves a thread is at most away from the end of its call.\<close>

fun moves_left :: "token_pc \<Rightarrow> nat" where
  "moves_left Calling = 11"
| "moves_left (FastPath _) = 10"
| "moves_left Waiting = 9"
| "moves_left Locked = 8"
| "moves_left (Rechecked _) = 7"
| "moves_left (Compared _ _) = 6"
| "moves_left (Exchanging _) = 5"
| "moves_left (Requesting _ _) = 4"
| "moves_left (Storing _ _) = 3"
| "moves_left Returning = 2"
| "moves_left (Releasing _) = 1"
| "moves_left _ = 0"

definition work_left :: "nat \<Rightarrow> 'w lock_state \<Rightarrow> nat" where
  "work_left n s = (\<Sum>i<n. moves_left (tk_pc s i))"

definition blocked :: "'w lock_state \<Rightarrow> nat \<Rightarrow> bool" where
  "blocked s i \<longleftrightarrow> moves_left (tk_pc s i) = 0 \<or> tk_pc s i = Waiting \<and> tk_lock s \<noteq> None"

lemma blocked_stays: "blocked s i \<Longrightarrow> snd (thread_step net cfg i s) = s"
  by (cases "tk_pc s i") (auto simp: blocked_def thread_step_def)

lemma other_threads_stay: "j \<noteq> i \<Longrightarrow> tk_pc (snd (thread_step net cfg i s)) j = tk_pc s j"
  by (simp add: thread_step_def acting_eq split: token_pc.split prod.split option.split)

lemma free_thread_moves:
  "\<not> blocked s i \<Longrightarrow> moves_left (tk_pc (snd (thread_step net cfg i s)) i) < moves_left (tk_pc s i)"
  by (cases "tk_pc s i") (auto simp: blocked_def thread_step_def acting_eq split: prod.split option.split sum.split)

lemma work_after_step:
  assumes "i < n" "\<not> blocked s i"
  shows "work_left n (snd (thread_step net cfg i s)) < work_left n s"
  unfolding work_left_def
proof (rule sum_strict_mono_ex1)
  show "\<forall>j\<in>{..<n}. moves_left (tk_pc (snd (thread_step net cfg i s)) j) \<le> moves_left (tk_pc s j)"
    using free_thread_moves [OF assms(2), of net cfg] by (metis order.strict_implies_order order_refl other_threads_stay)
  show "\<exists>j\<in>{..<n}. moves_left (tk_pc (snd (thread_step net cfg i s)) j) < moves_left (tk_pc s j)"
    using assms free_thread_moves [OF assms(2), of net cfg] by auto
qed simp

lemma step_or_stay:
  "i < n \<Longrightarrow> snd (thread_step net cfg i s) = s \<or> work_left n (snd (thread_step net cfg i s)) < work_left n s"
  by (cases "blocked s i") (auto intro: work_after_step blocked_stays)

lemma round_or_stay:
  "set is \<subseteq> {..<n} \<Longrightarrow> run_schedule net cfg is s = s \<or> work_left n (run_schedule net cfg is s) < work_left n s"
proof (induction "is" arbitrary: s)
  case (Cons i "is")
  then show ?case
    using step_or_stay [of i n net cfg s] Cons.IH [of "snd (thread_step net cfg i s)"] by fastforce
qed simp

lemma round_moves:
  "set is \<subseteq> {..<n} \<Longrightarrow> i \<in> set is \<Longrightarrow> \<not> blocked s i \<Longrightarrow> work_left n (run_schedule net cfg is s) < work_left n s"
proof (induction "is" arbitrary: s)
  case (Cons j "is")
  let ?t = "snd (thread_step net cfg j s)"
  show ?case
  proof (cases "blocked s j")
    case True
    with Cons show ?thesis by (auto simp: blocked_stays)
  next
    case False
    then have "work_left n ?t < work_left n s" using Cons.prems(1) by (intro work_after_step) auto
    then show ?thesis
      using round_or_stay [of "is" n net cfg ?t] Cons.prems(1) by auto
  qed
qed simp

text \<open>While a call is not over, some thread can move: the one that holds the lock if the others wait.\<close>

lemma somebody_moves:
  assumes inv: "lock_inv s" and idle: "\<forall>i. n \<le> i \<longrightarrow> \<not> critical (tk_pc s i)" and work: "0 < work_left n s"
  shows "\<exists>i<n. \<not> blocked s i"
proof (cases "tk_lock s")
  case None
  from work obtain i where "i < n" "moves_left (tk_pc s i) \<noteq> 0"
    unfolding work_left_def by (metis bot_nat_0.not_eq_extremum lessThan_iff sum.neutral)
  with None show ?thesis by (auto simp: blocked_def)
next
  case (Some i)
  then have "critical (tk_pc s i)" using lock_invD(1) [OF inv] by simp
  moreover from this idle have "i < n" using not_less by blast
  ultimately show ?thesis
    by (cases "tk_pc s i") (auto simp: blocked_def intro!: exI [of _ i])
qed

lemma run_schedule_lock_inv: "lock_inv s \<Longrightarrow> lock_inv (run_schedule net cfg is s)"
  by (induction "is" arbitrary: s) (simp_all add: lock_inv_step)

lemma run_schedule_others: "i \<notin> set is \<Longrightarrow> tk_pc (run_schedule net cfg is s) i = tk_pc s i"
  by (induction "is" arbitrary: s) (auto simp: other_threads_stay)

lemma step_not_idle: "tk_pc s i \<noteq> Idle \<Longrightarrow> tk_pc (snd (thread_step net cfg j s)) i \<noteq> Idle"
  by (cases "i = j"; cases "tk_pc s j")
    (auto simp: other_threads_stay thread_step_def acting_eq split: prod.split option.split sum.split)

lemma run_schedule_not_idle: "tk_pc s i \<noteq> Idle \<Longrightarrow> tk_pc (run_schedule net cfg is s) i \<noteq> Idle"
  by (induction "is" arbitrary: s) (auto simp: step_not_idle)

lemma rounds_use_up_work:
  assumes "lock_inv s" "\<forall>i\<ge>n. tk_pc s i = Idle" "\<forall>r\<in>set rounds. set r = {..<n}"
  shows "work_left n (run_schedule net cfg (concat rounds) s) \<le> work_left n s - length rounds"
  using assms
proof (induction rounds arbitrary: s)
  case (Cons r rounds)
  let ?t = "run_schedule net cfg r s"
  have idle: "\<forall>i\<ge>n. tk_pc ?t i = Idle" using Cons.prems by (auto simp: run_schedule_others)
  have "work_left n (run_schedule net cfg (concat rounds) ?t) \<le> work_left n ?t - length rounds"
    using Cons.prems idle by (intro Cons.IH) (auto simp: run_schedule_lock_inv)
  moreover have "work_left n ?t \<le> work_left n s - 1"
  proof (cases "work_left n s = 0")
    case True
    then show ?thesis using round_or_stay [of r n net cfg s] Cons.prems by auto
  next
    case False
    with somebody_moves [of s n] Cons.prems obtain i where "i < n" "\<not> blocked s i" by auto
    then show ?thesis using round_moves [of r n i s net cfg] Cons.prems by simp
  qed
  ultimately show ?case by (simp add: run_schedule_append)
qed simp

lemma work_at_most: "work_left n s \<le> 11 * n"
proof -
  have "moves_left p \<le> 11" for p by (cases p) simp_all
  then have "work_left n s \<le> (\<Sum>i<n. 11)" unfolding work_left_def by (intro sum_mono)
  then show ?thesis by simp
qed

lemma no_work_finished:
  assumes "work_left n s = 0" "i < n" "tk_pc s i \<noteq> Idle"
  shows "\<exists>r. tk_pc s i = Finished r"
proof -
  from assms(1,2) have "moves_left (tk_pc s i) = 0" by (simp add: work_left_def)
  with assms(3) show ?thesis by (cases "tk_pc s i") simp_all
qed

text \<open>C36. No call waits for ever: from any state that \<open>n\<close> threads can reach, in whatever order they move
  from then on, when each of them has moved at least once in each of \<open>11 * n\<close> rounds, every call has
  returned or raised and the lock is free, also when the exchange of the thread that held it failed.\<close>

theorem every_call_returns:
  assumes "token_run net cfg w es s" and "\<forall>i\<ge>n. tk_pc s i = Idle"
    and "\<forall>r\<in>set rounds. set r = {..<n}" and "11 * n \<le> length rounds"
  shows "(tk_pc s i \<noteq> Idle \<longrightarrow> (\<exists>r. tk_pc (run_schedule net cfg (concat rounds) s) i = Finished r)) \<and>
    tk_lock (run_schedule net cfg (concat rounds) s) = None"
proof -
  let ?t = "run_schedule net cfg (concat rounds) s"
  have inv: "lock_inv s" using assms(1) by (rule token_run_lock_inv)
  have none: "work_left n ?t = 0"
    using rounds_use_up_work [OF inv assms(2,3), of net cfg] work_at_most [of n s] assms(4) by simp
  have idle: "\<forall>i\<ge>n. tk_pc ?t i = Idle" using assms(2,3) by (auto simp: run_schedule_others)
  have over: "\<exists>r. tk_pc ?t i = Finished r" if "tk_pc ?t i \<noteq> Idle" for i
    using no_work_finished [OF none] idle that by (meson not_less)
  then have "\<not> critical (tk_pc ?t i)" for i by (cases "tk_pc ?t i = Idle") (auto dest: over)
  then have "tk_lock ?t = None"
    using lock_invD(1) [OF run_schedule_lock_inv [OF inv]] by (metis option.exhaust)
  with over run_schedule_not_idle show ?thesis by blast
qed

section \<open>Two callers\<close>

lemma two_callers_run: "token_run sample_network sample_app 0 [Called 1, Called 0] two_callers"
  unfolding two_callers_def by (intro token_run.call token_run.start) (simp_all add: lock_init_def)

text \<open>What happens in a run: here the second thread waits for the first and returns its token.\<close>

fun effects_of :: "'w network \<Rightarrow> app_auth \<Rightarrow> nat list \<Rightarrow> 'w lock_state \<Rightarrow> token_event list \<Rightarrow> token_event list" where
  "effects_of net cfg [] s es = es"
| "effects_of net cfg (i # is) s es =
     (case thread_step net cfg i s of (new, s') \<Rightarrow> effects_of net cfg is s' (new @ es))"

lemma token_run_schedule:
  "token_run net cfg w es s \<Longrightarrow> token_run net cfg w (effects_of net cfg is s es) (run_schedule net cfg is s)"
proof (induction "is" arbitrary: s es)
  case (Cons i "is")
  obtain new s' where step: "thread_step net cfg i s = (new, s')" by fastforce
  with Cons.prems have "token_run net cfg w (new @ es) s'" by (rule token_run.move)
  then show ?case using Cons.IH step by simp
qed simp

definition taking_turns :: "nat list" where
  "taking_turns = [0, 1, 0, 1, 0, 1, 0, 1, 0, 1, 0, 1, 0, 1, 0, 1, 0, 1, 0, 1, 0, 1, 1, 1, 1, 1, 1, 1, 1]"

definition both_served :: "nat lock_state" where
  "both_served = run_schedule sample_network sample_app taking_turns two_callers"

definition served_effects :: "token_event list" where
  "served_effects = [Looked 1 1005 \<lparr>ct_token = JStr ''t'', ct_expires_at = 86400\<rparr>,
     Exchanged 0 1002 \<lparr>ct_token = JStr ''t'', ct_expires_at = 86400\<rparr>, Called 1, Called 0]"


definition second_day :: datetime where
  "second_day = \<lparr>dt_year = 1970, dt_month = 1, dt_day = 2, dt_hour = 0, dt_minute = 0, dt_second = 0, dt_micro = 0,
     dt_offset = Some 0\<rparr>"

lemma pad_numeral: "pad (numeral k) n = pad (pred_numeral k) (n div 10) @ [digit_char (n mod 10)]"
  by (simp only: numeral_eq_Suc pad.simps)

lemma digit_chars:
  "digit_char 0 = CHR ''0''" "digit_char (Suc 0) = CHR ''1''" "digit_char 2 = CHR ''2''" "digit_char 7 = CHR ''7''"
  "digit_char 9 = CHR ''9''"
  by code_simp+

lemma second_day_text: "isoformat second_day = ''1970-01-02T00:00:00+00:00''"
  by (simp add: second_day_def isoformat_def offset_str_def pad_numeral digit_chars) 

lemma second_day_parsed: "fromisoformat ''1970-01-02T00:00:00+00:00'' = Inr second_day"
  using fromisoformat_isoformat [of second_day]
  by (simp add: second_day_text) (simp add: second_day_def valid_datetime_def days_in_month_def)

lemma second_day_offset: "dt_offset second_day = Some 0"
  by (simp add: second_day_def)

lemma second_day_timestamp: "timestamp second_day 0 = 86400"
  by (simp add: second_day_def timestamp_def day_number_def days_before_year_def)

lemma sample_answer:
  "bindR (decode_utf8 ''{\"token\":\"t\",\"expires_at\":\"1970-01-02T00:00:00Z\"}'') loads =
     Inr (JObj [(''token'', JStr ''t''), (''expires_at'', JStr ''1970-01-02T00:00:00Z'')])"
  by code_simp

lemma sample_requested:
  "request_token sample_network sample_app jwt n = (Inr \<lparr>ct_token = JStr ''t'', ct_expires_at = 86400\<rparr>, Suc n)"
proof -
  have z: "replace ''Z'' ''+00:00'' ''1970-01-02T00:00:00Z'' = ''1970-01-02T00:00:00+00:00''" by code_simp
  have "parse_iso8601_z (JStr ''1970-01-02T00:00:00Z'') = Inr 86400"
    unfolding parse_iso8601_z_def json.case z second_day_parsed sum.case
    by (simp add: second_day_timestamp second_day_offset)
  then show ?thesis
    by (simp add: request_token_def sample_network_def act_simps auth_raise_for_status_def token_from_response_def
        sample_answer dget_Cons dget_Nil truthy.simps)
qed
lemma sample_clock:
  "nt_now sample_network n = (Inr (of_nat (1000 + n)), Suc n)"
  "app_jwt sample_network sample_app n = (Inr ''jwt'', Suc n)"
  by (simp_all add: sample_network_def app_jwt_def act_simps)

lemma both_served_effects:
  "effects_of sample_network sample_app taking_turns two_callers [Called 1, Called 0] = served_effects"
  by (simp add: taking_turns_def two_callers_def lock_init_def thread_step_def acting_eq sample_clock
      sample_requested fresh_token_def cached_now_def go_def served_effects_def eval_nat_numeral)
lemma both_served_run: "token_run sample_network sample_app 0 served_effects both_served"
  using token_run_schedule [OF two_callers_run, of taking_turns] unfolding both_served_effects both_served_def .

lemma second_served: "tk_pc both_served 1 = Finished (Inr (JStr ''t''))"
  by (simp add: both_served_def taking_turns_def two_callers_def lock_init_def thread_step_def acting_eq sample_clock
      sample_requested fresh_token_def cached_now_def go_def)

lemma concurrent_calls_serialised_witness:
  "valid_effects served_effects \<and> cached_now both_served = cache_after served_effects \<and>
    (\<exists>now c. ct_token c = JStr ''t'' \<and>
      latest_of 1 served_effects \<in> {Some (Looked 1 now c), Some (Exchanged 1 now c)})"
  using concurrent_calls_serialised [OF both_served_run, of 1 "Inr (JStr ''t'')"] by (simp add: second_served [simplified])

lemma one_exchange_at_a_time_witness:
  "{i. critical (tk_pc both_served i)} = set_option (tk_lock both_served) \<and>
    {i. \<exists>now jwt. tk_pc both_served i = Requesting now jwt \<and> fresh_token (cached_now both_served) now \<noteq> None} = {} \<and>
    successively (\<lambda>(later, _) (_, c). ct_expires_at c - 60 \<le> later) (exchanges served_effects)"
  by (rule one_exchange_at_a_time [OF both_served_run])

lemma every_call_returns_witness:
  "(\<exists>r. tk_pc (run_schedule sample_network sample_app (concat (replicate 22 [0, 1])) two_callers) 1 = Finished r) \<and>
    tk_lock (run_schedule sample_network sample_app (concat (replicate 22 [0, 1])) two_callers) = None"
proof -
  have "(tk_pc two_callers 1 \<noteq> Idle \<longrightarrow>
      (\<exists>r. tk_pc (run_schedule sample_network sample_app (concat (replicate 22 [0, 1])) two_callers) 1 = Finished r)) \<and>
    tk_lock (run_schedule sample_network sample_app (concat (replicate 22 [0, 1])) two_callers) = None"
    by (rule every_call_returns [OF two_callers_run, where n = 2])
      (auto simp: two_callers_def lock_init_def lessThan_Suc numeral_2_eq_2 go_def)
  moreover have "tk_pc two_callers 1 \<noteq> Idle" by (simp add: two_callers_def lock_init_def go_def)
  ultimately show ?thesis by blast
qed

end
