(* ===== verification/Wire_Text.thy ===== *)
theory Wire_Text
  imports Token_Lock
begin

text \<open>
  The texts the client of GitHub puts on the wire: \<open>dumps_ascii\<close>, the writer of JSON with escapes for
  everything outside ASCII, is a writer whose texts \<open>loads\<close> reads back (\<open>json_writer\<close>).
\<close>

section \<open>Code points of UTF-8\<close>

text \<open>Leading bytes and continuation bytes without their markers.\<close>

lemma mod_in_block:
  fixes a k m :: nat
  assumes "k * m \<le> a" "a < k * m + m"
  shows "a mod m = a - k * m"
proof -
  from assms have "a = k * m + (a - k * m)" "a - k * m < m" by simp_all
  then show ?thesis by (metis mod_less mod_mult_self3)
qed

lemma lead_bits:
  "194 \<le> a \<Longrightarrow> a < 224 \<Longrightarrow> a mod 32 = a - 192"
  "224 \<le> a \<Longrightarrow> a < 240 \<Longrightarrow> a mod 16 = a - 224"
  "240 \<le> a \<Longrightarrow> a < 245 \<Longrightarrow> a mod 8 = a - 240"
  "128 \<le> b \<Longrightarrow> b < 192 \<Longrightarrow> b mod 64 = b - 128"
  for a b :: nat
  using mod_in_block [of 6 32 a] mod_in_block [of 14 16 a] mod_in_block [of 30 8 a] mod_in_block [of 2 64 b] by simp_all

lemma six_bits: "r < 64 \<Longrightarrow> (q * 64 + r) div 64 = q" "r < 64 \<Longrightarrow> (q * 64 + r) mod 64 = r" for q r :: nat
  by simp_all

lemma utf8_two:
  assumes "194 \<le> a" "a < 224" "128 \<le> b" "b < 192"
  shows "utf8 (a mod 32 * 64 + b mod 64) = [char_of a, char_of b]"
proof -
  define x y where "x = a - 192" and "y = b - 128"
  with assms have eq: "a = 192 + x" "b = 128 + y" and less: "2 \<le> x" "x < 32" "y < 64" by simp_all
  have "a mod 32 = x" "b mod 64 = y" using assms by (simp_all add: lead_bits x_def y_def)
  with less show ?thesis by (simp add: utf8_def eq six_bits)
qed

lemma utf8_three:
  assumes "224 \<le> a" "a < 240" "128 \<le> b" "b < 192" "128 \<le> c" "c < 192" "a = 224 \<longrightarrow> 160 \<le> b"
  shows "utf8 (a mod 16 * 4096 + b mod 64 * 64 + c mod 64) = [char_of a, char_of b, char_of c]"
proof -
  define x y z where "x = a - 224" and "y = b - 128" and "z = c - 128"
  with assms have eq: "a = 224 + x" "b = 128 + y" "c = 128 + z"
    and less: "x < 16" "y < 64" "z < 64" "x = 0 \<longrightarrow> 32 \<le> y" by auto
  let ?n = "(x * 64 + y) * 64 + z"
  have "a mod 16 * 4096 + b mod 64 * 64 + c mod 64 = ?n"
    using assms by (simp add: lead_bits x_def y_def z_def algebra_simps)
  moreover have "?n div 64 = x * 64 + y" "?n mod 64 = z" "?n div 64 mod 64 = y" "?n div 64 div 64 = x"
    using less by (simp_all only: six_bits)
  moreover have "?n div 64 div 64 = ?n div 4096" using div_mult2_eq [of ?n 64 64] by simp
  moreover have "\<not> ?n < 2048" "?n < 65536" using less by (cases "x = 0"; simp)+
  ultimately show ?thesis by (simp only: utf8_def eq if_False if_True) simp
qed

lemma utf8_four:
  assumes "240 \<le> a" "a < 245" "128 \<le> b" "b < 192" "128 \<le> c" "c < 192" "128 \<le> d" "d < 192" "a = 240 \<longrightarrow> 144 \<le> b"
  shows "utf8 (a mod 8 * 262144 + b mod 64 * 4096 + c mod 64 * 64 + d mod 64) = [char_of a, char_of b, char_of c, char_of d]"
proof -
  define x y z u where "x = a - 240" and "y = b - 128" and "z = c - 128" and "u = d - 128"
  with assms have eq: "a = 240 + x" "b = 128 + y" "c = 128 + z" "d = 128 + u"
    and less: "x < 5" "y < 64" "z < 64" "u < 64" "x = 0 \<longrightarrow> 16 \<le> y" by auto
  define n where "n = ((x * 64 + y) * 64 + z) * 64 + u"
  have n: "a mod 8 * 262144 + b mod 64 * 4096 + c mod 64 * 64 + d mod 64 = n"
    using assms by (simp add: lead_bits x_def y_def z_def u_def n_def algebra_simps)
  have parts: "n mod 64 = u" "n div 64 mod 64 = z" "n div 64 div 64 mod 64 = y" "n div 64 div 64 div 64 = x"
    unfolding n_def using less by (simp_all only: six_bits)
  have divs: "n div 64 div 64 = n div 4096" "n div 4096 div 64 = n div 262144"
    using div_mult2_eq [of n 64 64] div_mult2_eq [of n 4096 64] by simp_all
  have "65536 \<le> n" unfolding n_def using less by (cases "x = 0") simp_all
  then show ?thesis using parts unfolding n divs by (simp add: utf8_def eq)
qed

definition scalar_value :: "nat \<Rightarrow> bool" where
  "scalar_value n \<longleftrightarrow> n < 1114112 \<and> \<not> (55296 \<le> n \<and> n < 57344)"

lemma scalar_three:
  assumes "224 \<le> a" "a < 240" "128 \<le> b" "b < 192" "128 \<le> c" "c < 192" "a = 237 \<longrightarrow> b < 160"
  shows "scalar_value (a mod 16 * 4096 + b mod 64 * 64 + c mod 64)"
proof -
  define x y z where "x = a - 224" and "y = b - 128" and "z = c - 128"
  with assms have less: "x < 16" "y < 64" "z < 64" "x = 13 \<longrightarrow> y < 32" by auto
  have "x < 13 \<or> x = 13 \<or> 14 \<le> x" by linarith
  then show ?thesis
    using assms(1-6) less by (auto simp: lead_bits scalar_value_def x_def [symmetric] y_def [symmetric] z_def [symmetric])
qed

lemma scalar_four:
  assumes "240 \<le> a" "a < 245" "128 \<le> b" "b < 192" "128 \<le> c" "c < 192" "128 \<le> d" "d < 192"
    "a = 240 \<longrightarrow> 144 \<le> b" "a = 244 \<longrightarrow> b < 144"
  shows "scalar_value (a mod 8 * 262144 + b mod 64 * 4096 + c mod 64 * 64 + d mod 64)"
proof -
  define x y z u where "x = a - 240" and "y = b - 128" and "z = c - 128" and "u = d - 128"
  with assms have less: "x < 5" "y < 64" "z < 64" "u < 64" "x = 0 \<longrightarrow> 16 \<le> y" "x = 4 \<longrightarrow> y < 16" by auto
  have "x = 0 \<or> x = 4 \<or> 1 \<le> x \<and> x < 4" using less(1) by linarith
  then show ?thesis
    using assms(1-8) less
    by (auto simp: lead_bits scalar_value_def x_def [symmetric] y_def [symmetric] z_def [symmetric] u_def [symmetric])
qed

text \<open>The code points of well-formed UTF-8 are scalar values, and their encoding is the text.\<close>

definition points_of :: "nat list \<Rightarrow> bool" where
  "points_of bs \<longleftrightarrow> list_all scalar_value (code_points bs) \<and> concat (map utf8 (code_points bs)) = map char_of bs"

lemma points_of_Cons:
  assumes "code_points bs = n # code_points rest" "scalar_value n" "map char_of bs = utf8 n @ map char_of rest" "points_of rest"
  shows "points_of bs"
  using assms by (simp add: points_of_def)

lemma lead_byte:
  "utf8_ok (a # s) \<Longrightarrow> a < 128 \<or> 194 \<le> a \<and> a < 224 \<or> 224 \<le> a \<and> a < 240 \<or> 240 \<le> a \<and> a < 245"
  by (rule ccontr) (simp split: if_split_asm)

lemma utf8_rest:
  assumes "utf8_ok (a # s)"
  obtains "a < 128" "utf8_ok s"
  | b s1 where "194 \<le> a" "a < 224" "s = b # s1" "128 \<le> b" "b < 192" "utf8_ok s1"
  | b c s1 where "224 \<le> a" "a < 240" "s = b # c # s1" "128 \<le> b" "b < 192" "128 \<le> c" "c < 192"
      "a = 224 \<longrightarrow> 160 \<le> b" "a = 237 \<longrightarrow> b < 160" "utf8_ok s1"
  | b c d s1 where "240 \<le> a" "a < 245" "s = b # c # d # s1" "128 \<le> b" "b < 192" "128 \<le> c" "c < 192"
      "128 \<le> d" "d < 192" "a = 240 \<longrightarrow> 144 \<le> b" "a = 244 \<longrightarrow> b < 144" "utf8_ok s1"
proof -
  consider "a < 128" | "194 \<le> a" "a < 224" | "224 \<le> a" "a < 240" | "240 \<le> a" "a < 245"
    using lead_byte [OF assms] by blast
  then show ?thesis
  proof cases
    case 1
    with assms that(1) show ?thesis by simp
  next
    case 2
    with assms that(2) show ?thesis by (simp split: list.split_asm)
  next
    case 3
    with assms that(3) show ?thesis by (simp split: list.split_asm)
  next
    case 4
    with assms that(4) show ?thesis by (simp split: list.split_asm)
  qed
qed

lemma utf8_points: "utf8_ok bs \<Longrightarrow> points_of bs"
proof (induction bs rule: length_induct)
  case (1 bs)
  then have IH: "points_of ys" if "length ys < length bs" "utf8_ok ys" for ys using that by blast
  show ?case
  proof (cases bs)
    case Nil
    then show ?thesis by (simp add: points_of_def)
  next
    case (Cons a s)
    with \<open>utf8_ok bs\<close> have ok: "utf8_ok (a # s)" by simp
    show ?thesis
    proof (cases rule: utf8_rest [OF ok])
      case 1
      then have "points_of s" using IH Cons by simp
      with 1 Cons show ?thesis
        by (intro points_of_Cons [of bs a s]) (simp_all add: scalar_value_def utf8_def)
    next
      case (2 b s1)
      then have "points_of s1" using IH Cons by simp
      moreover have "a mod 32 * 64 + b mod 64 < 55296" using 2 by (simp add: lead_bits)
      ultimately show ?thesis using 2 Cons
        by (intro points_of_Cons [of bs "a mod 32 * 64 + b mod 64" s1]) (simp_all add: utf8_two scalar_value_def)
    next
      case (3 b c s1)
      then have "points_of s1" using IH Cons by simp
      with 3 Cons show ?thesis
        by (intro points_of_Cons [of bs "a mod 16 * 4096 + b mod 64 * 64 + c mod 64" s1])
          (simp_all add: utf8_three scalar_three)
    next
      case (4 b c d s1)
      then have "points_of s1" using IH Cons by simp
      with 4 Cons show ?thesis
        by (intro points_of_Cons [of bs "a mod 8 * 262144 + b mod 64 * 4096 + c mod 64 * 64 + d mod 64" s1])
          (simp_all add: utf8_four scalar_four)
    qed
  qed
qed

section \<open>Escapes\<close>

lemma hex4_escape: "n < 65536 \<Longrightarrow> hex4 (drop 2 (hex_escape n) @ s) = Some (n, s)"
proof -
  assume n: "n < 65536"
  have "n div 16 div 16 = n div 256" "n div 256 div 16 = n div 4096"
    using div_mult2_eq [of n 16 16] div_mult2_eq [of n 256 16] by simp_all
  then have "((n div 4096 * 16 + n div 256 mod 16) * 16 + n div 16 mod 16) * 16 + n mod 16 = n"
    by (metis div_mult_mod_eq)
  moreover have "n div 4096 < 16" "n div 4096 mod 16 = n div 4096" using n by simp_all
  ultimately show ?thesis by (simp add: hex_escape_def hex_val_digit)
qed

lemma hex_escape_shape: "hex_escape n = CHR 0x5C # CHR ''u'' # drop 2 (hex_escape n)"
  by (simp add: hex_escape_def)

lemma scan_hex_escape:
  assumes "unicode_escape (drop 2 (hex_escape n) @ s) = Some (k, r)"
  shows "scan_string (hex_escape n @ s) = map_option (\<lambda>(t, q). (utf8 k @ t, q)) (scan_string r)"
  using assms by (subst hex_escape_shape) simp

lemma scan_escape_point:
  assumes "scalar_value n"
  shows "scan_string (escape_point n @ s) = map_option (\<lambda>(t, q). (utf8 n @ t, q)) (scan_string s)"
proof -
  consider "n < 127" | "127 \<le> n" "n < 65536" | "65536 \<le> n" by linarith
  then show ?thesis
  proof cases
    case 1
    then show ?thesis using scan_escape_char [of "char_of n" s] by (simp add: escape_point_def utf8_def)
  next
    case 2
    moreover have "\<not> (55296 \<le> n \<and> n \<le> 56319)" using assms by (auto simp: scalar_value_def)
    ultimately have "unicode_escape (drop 2 (hex_escape n) @ s) = Some (n, s)"
      by (auto simp: unicode_escape_def hex4_escape)
    with 2 show ?thesis by (simp add: escape_point_def scan_hex_escape)
  next
    case 3
    define hi lo where "hi = 55296 + (n - 65536) div 1024" and "lo = 56320 + (n - 65536) mod 1024"
    have "n < 1114112" using assms by (simp add: scalar_value_def)
    then have "(n - 65536) div 1024 < 1024" using 3 by (simp add: less_mult_imp_div_less)
    then have bounds: "55296 \<le> hi" "hi \<le> 56319" "56320 \<le> lo" "lo \<le> 57343" by (simp_all add: hi_def lo_def)
    have sum: "65536 + (hi - 55296) * 1024 + (lo - 56320) = n"
      using 3 div_mult_mod_eq [of "n - 65536" 1024] unfolding hi_def lo_def by simp
    have low: "hex_escape lo @ s = [CHR 0x5C, CHR ''u''] @ drop 2 (hex_escape lo) @ s"
      by (subst hex_escape_shape) simp
    have "hex4 (drop 2 (hex_escape hi) @ hex_escape lo @ s) = Some (hi, hex_escape lo @ s)"
      using bounds by (intro hex4_escape) simp
    moreover have "starts_with [CHR 0x5C, CHR ''u''] (hex_escape lo @ s)"
      by (simp add: starts_with_def hex_escape_def)
    moreover have "hex4 (drop 2 (hex_escape lo @ s)) = Some (lo, s)"
      unfolding low using bounds hex4_escape [of lo s] by simp
    ultimately have "unicode_escape (drop 2 (hex_escape hi) @ hex_escape lo @ s) = Some (n, s)"
      using bounds sum by (simp add: unicode_escape_def)
    then have "scan_string (hex_escape hi @ hex_escape lo @ s) = map_option (\<lambda>(t, q). (utf8 n @ t, q)) (scan_string s)"
      by (rule scan_hex_escape)
    with 3 show ?thesis by (simp add: escape_point_def hi_def lo_def)
  qed
qed

lemma scan_points:
  "list_all scalar_value ns \<Longrightarrow>
     scan_string (concat (map escape_point ns) @ CHR 0x22 # r) = Some (concat (map utf8 ns), r)"
  by (induction ns) (simp_all add: scan_escape_point)

definition utf8_text :: "string \<Rightarrow> bool" where
  "utf8_text s \<longleftrightarrow> utf8_ok (map of_char s)"

interpretation ascii: json_writer ascii_str "'' ''" utf8_text
proof unfold_locales
  fix s
  assume "utf8_text s"
  then have p: "points_of (map of_char s)" unfolding utf8_text_def by (rule utf8_points)
  let ?t = "concat (map escape_point (code_points (map of_char s))) @ [CHR 0x22]"
  have "concat (map utf8 (code_points (map of_char s))) = s" using p by (simp add: points_of_def)
  then have "scan_string (?t @ r) = Some (s, r)" for r
    using p scan_points [of "code_points (map of_char s)" r] by (simp add: points_of_def)
  then show "\<exists>t. ascii_str s = CHR 0x22 # t \<and> (\<forall>r. scan_string (t @ r) = Some (s, r))"
    by (simp add: ascii_str_def)
qed (simp add: json_space_def)

lemma dumps_ascii_eq: "dumps_ascii v = dumps_with ascii_str '' '' v"
proof (induction v)
  case (JList l)
  then have eq: "map dumps_ascii l = map (dumps_with ascii_str '' '') l" by simp
  show ?case unfolding dumps_ascii.simps dumps_with.simps eq ..
next
  case (JObj d)
  then have eq: "map (\<lambda>(k, v). ascii_str k @ '': '' @ dumps_ascii v) d =
      map (\<lambda>(k, v). ascii_str k @ CHR '':'' # '' '' @ dumps_with ascii_str '' '' v) d" by auto
  show ?case unfolding dumps_ascii.simps dumps_with.simps eq ..
qed simp_all

lemma loads_dumps_ascii: "writable utf8_text v \<Longrightarrow> loads (dumps_ascii v) = Inr v"
  unfolding dumps_ascii_eq by (rule ascii.loads_text)

section \<open>What is sent\<close>

definition printable_ascii :: "string \<Rightarrow> bool" where
  "printable_ascii s = list_all (\<lambda>c. 32 \<le> (of_char c :: nat) \<and> (of_char c :: nat) < 127) s"

lemma printable_append [simp]: "printable_ascii (s @ t) = (printable_ascii s \<and> printable_ascii t)"
  by (simp add: printable_ascii_def)

lemma printable_Cons: "printable_ascii (c # s) = (32 \<le> (of_char c :: nat) \<and> (of_char c :: nat) < 127 \<and> printable_ascii s)"
  by (simp add: printable_ascii_def)

lemma printable_Nil [simp]: "printable_ascii []"
  by (simp add: printable_ascii_def)

lemma printable_concat: "printable_ascii (concat l) = list_all printable_ascii l"
  by (induction l) simp_all

lemma printable_join: "printable_ascii sep \<Longrightarrow> list_all printable_ascii l \<Longrightarrow> printable_ascii (join sep l)"
  by (induction l) (auto simp: join_Cons)

lemma hex_digit_printable: "d < 16 \<Longrightarrow> 32 \<le> (of_char (hex_digit d) :: nat) \<and> (of_char (hex_digit d) :: nat) < 127"
  by (simp add: hex_digit_def)

lemma printable_hex: "printable_ascii (hex_escape n)"
  using hex_digit_printable by (simp add: hex_escape_def printable_Cons)

lemma printable_escape_char: "(of_char c :: nat) < 127 \<Longrightarrow> printable_ascii (escape_char c)"
  by (auto simp: escape_char_def Let_def printable_Cons hex_digit_printable)

lemma printable_escape_point: "printable_ascii (escape_point n)"
  by (simp add: escape_point_def printable_hex printable_escape_char)

lemma printable_text: "printable_ascii (ascii_str s)"
  by (simp add: ascii_str_def printable_Cons printable_concat list_all_iff printable_escape_point)

lemma printable_digits: "\<forall>c \<in> set s. is_digit c \<Longrightarrow> printable_ascii s"
  by (induction s) (simp_all add: printable_Cons is_digit_def Let_def)

lemma printable_dumps_with:
  assumes "\<And>s. good s \<Longrightarrow> printable_ascii (lit s)" and "printable_ascii gap"
  shows "writable good v \<Longrightarrow> printable_ascii (dumps_with lit gap v)"
proof (induction v)
  case (JInt i)
  then show ?case by (auto simp: show_int_def printable_Cons intro!: printable_digits show_nat_digits [rule_format])
next
  case (JList l)
  then show ?case using assms(2) by (auto simp: printable_Cons list_all_iff intro!: printable_join)
next
  case (JObj d)
  then show ?case using assms by (fastforce simp: printable_Cons list_all_iff intro!: printable_join)
qed (simp_all add: printable_Cons assms(1))

lemma printable_dumps: "writable good v \<Longrightarrow> printable_ascii (dumps_with ascii_str '' '' v)"
  by (rule printable_dumps_with) (simp_all add: printable_text printable_Cons)

text \<open>C37. What the client sends is what GitHub reads: a JSON value of integers, texts in UTF-8, lists and
  objects without a key twice is sent as printable ASCII, whatever quotes, line breaks or characters
  outside ASCII its texts hold, and that body, parsed, is the value.\<close>

theorem posted_json_arrives:
  assumes "writable utf8_text v"
  shows "\<exists>body. loads body = Inr v \<and> printable_ascii body \<and>
    send_json cfg verb path v =
      bindS (rest_request cfg verb path (Some body) [(''Content-Type'', ''application/json'')]) (\<lambda>resp.
        liftS (response_json resp))"
  using assms by (intro exI [of _ "dumps_ascii v"])
    (simp add: send_json_def loads_dumps_ascii dumps_ascii_eq [symmetric] printable_dumps [unfolded dumps_ascii_eq [symmetric]])

lemma posted_json_arrives_witness:
  "\<exists>body. loads body = Inr (JObj [(''body'', JStr [CHR 0x22, char_of (195 :: nat), char_of (169 :: nat)])]) \<and>
    printable_ascii body \<and>
    send_json (rest_settings.make sample_network sample_app ''https://api.github.com'' ''qaestro'') ''POST'' ''/x''
        (JObj [(''body'', JStr [CHR 0x22, char_of (195 :: nat), char_of (169 :: nat)])]) =
      bindS (rest_request (rest_settings.make sample_network sample_app ''https://api.github.com'' ''qaestro'') ''POST'' ''/x''
        (Some body) [(''Content-Type'', ''application/json'')]) (\<lambda>resp. liftS (response_json resp))"
  by (rule posted_json_arrives) (simp add: utf8_text_def)

end
