(* ===== verification/Delivery.thy ===== *)
theory Delivery
  imports Gateway_Facts Redis_Facts Wire_Text
begin

text \<open>
  The way of a delivery through the whole service: the gateway (\<open>src/app/gateway/github.py\<close>) checks its
  signature and appends its job to the Redis stream, and a worker process, with a queue object of
  its own on the same stream (\<open>src/app/jobs.py\<close>, \<open>src/app/worker/runner.py\<close>), takes it, processes it and
  acknowledges it.
\<close>

section \<open>An authentic delivery is accepted\<close>

lemma hexlify_chars: "c \<in> set (hexlify s) \<Longrightarrow> 48 \<le> (of_char c :: nat) \<and> (of_char c :: nat) < 103"
proof -
  have digit: "48 \<le> (of_char (hex_digit d) :: nat) \<and> (of_char (hex_digit d) :: nat) < 103" if "d < 16" for d
    using that by (simp add: hex_digit_def)
  have "(of_char x :: nat) div 16 < 16" for x using nat_of_char_less_256 [of x] by (intro less_mult_imp_div_less) simp
  then show "c \<in> set (hexlify s) \<Longrightarrow> 48 \<le> (of_char c :: nat) \<and> (of_char c :: nat) < 103"
    using digit by (auto simp: hexlify_def)
qed

lemma digest_chars: "c \<in> set (hmac_hexdigest key m) \<Longrightarrow> 48 \<le> (of_char c :: nat) \<and> (of_char c :: nat) < 103"
  unfolding hmac_hexdigest_def by (rule hexlify_chars)

lemma authentic_verifies:
  assumes "authentic secret headers body"
  shows "verify_signature secret body (map_of (normalise_headers headers) ''x-hub-signature-256'') = Inr True"
proof -
  from assms obtain header where h: "map_of (normalise_headers headers) ''x-hub-signature-256'' = Some header"
    "starts_with signature_prefix header" "strip (drop (length signature_prefix) header) = hmac_hexdigest secret body"
    and "secret \<noteq> []"
    by (auto simp: authentic_def)
  moreover have "compare_digest (hmac_hexdigest secret body) (hmac_hexdigest secret body) = Inr True"
    using digest_chars by (force simp: compare_digest_def)
  ultimately show ?thesis using starts_with_ne by (simp add: verify_signature_def)
qed

lemma delivery_payload:
  assumes "event_of_delivery gw request = Some event"
  obtains d name where "bindR (decode_utf8 (wr_body request)) loads = Inr (JObj d)"
    "name = (case map_of (normalise_headers (wr_headers request)) ''x-github-event'' of Some e \<Rightarrow> e | None \<Rightarrow> [])"
    "parse_event name d (delivery_correlation_id gw request) (gw_new_event_id gw) (gw_now gw) = Inr (Some event)"
  using assms unfolding event_of_delivery_def delivery_correlation_id_def Let_def
  by (auto split: sum.splits json.splits simp del: bindR_eq_Inr)

lemma delivery_enqueued:
  assumes "authentic (gw_secret gw) (wr_headers request) (wr_body request)"
    and "event_of_delivery gw request = Some event"
  shows "handle gw enqueue request q = enqueue_event enqueue event (delivery_correlation_id gw request) q"
  using assms(2)
proof (rule delivery_payload)
  fix d name
  assume "bindR (decode_utf8 (wr_body request)) loads = Inr (JObj d)"
    and "name = (case map_of (normalise_headers (wr_headers request)) ''x-github-event'' of Some e \<Rightarrow> e | None \<Rightarrow> [])"
    and "parse_event name d (delivery_correlation_id gw request) (gw_new_event_id gw) (gw_now gw) = Inr (Some event)"
  then show ?thesis
    using authentic_verifies [OF assms(1)]
    by (simp add: handle_def handle_payload_def delivery_correlation_id_def act_simps Let_def del: bindR_eq_Inr)
qed

section \<open>What the worker reads\<close>

text \<open>The message is read as the event, or as malformed when a text field holds another JSON value.\<close>

definition read_as :: "json event \<Rightarrow> string \<Rightarrow> string \<Rightarrow> string queued_job \<Rightarrow> bool" where
  "read_as event cid i job =
     (if all_text event
      then job = Job \<lparr>ej_event = text_event event, ej_correlation_id = cid, ej_delivery_id = i\<rparr>
      else \<exists>err. job = MalformedJob i err)"

lemma bytes_message:
  "to_str key = Inr i \<Longrightarrow> utf8_ok (map of_char job) \<Longrightarrow>
     job_from_message (key, [(RBytes ''job'', RBytes job)]) = job_from_message (text_message i job)"
  by (simp add: job_from_message_def text_message_def field_value_def decode_utf8_def)

text \<open>C1. An authentic delivery gets through: when the webhook request is signed with the secret and
  describes an event, the gateway answers 202, and a worker that keeps running on the stream has,
  after at most twice as many turns as there were messages and three, processed the job of that
  event, read back with all its texts and the correlation id of the delivery (or as a malformed job, if
  a text field holds another JSON value), together with all the others; nothing is left. It is
  assumed that the payload has no floating-point number, the text of the job is valid UTF-8 (an
  escaped lone surrogate is not), the clock of the gateway gives a valid date, and every message
  pending on the stream, of other workers or of dead ones, has been idle for the time after which the
  worker may claim it; Redis keeps the documented stream commands.\<close>

theorem delivery_processed:
  assumes signed: "authentic (gw_secret gw) (wr_headers request) (wr_body request)"
    and event: "event_of_delivery gw request = Some event"
    and payload: "bindR (decode_utf8 (wr_body request)) loads = Inr v" "plain v"
    and now: "valid_datetime (gw_now gw)"
    and job: "job = \<lparr>ej_event = event, ej_correlation_id = delivery_correlation_id gw request, ej_delivery_id = []\<rparr>"
      "utf8_ok (map of_char (serialize_job id job))"
    and server: "stream_server client gateway_cfg view from_id" "stream_server client cfg view from_id"
    and stream: "good_view (view (rs_redis q))" "all_idle (rq_claim_idle_ms cfg) (sv_pending (view (rs_redis q)))"
    and turns: "2 * length (outstanding (view (rs_redis q))) + 3 \<le> n"
  shows "\<exists>q1. handle gw (redis_enqueue id client gateway_cfg) request q =
      (Inr \<lparr>ws_status = 202, ws_message = ''enqueued'', ws_correlation_id = delivery_correlation_id gw request\<rparr>, q1) \<and>
    (\<exists>m ms i q3. forever_turns wk (redis_dequeue client cfg) (redis_ack client cfg) n
         \<lparr>rs_claim_start_id = start, rs_redis = rs_redis q1\<rparr> s =
        (Inr (fst (process_all wk (map job_of ms) s)), q3, snd (process_all wk (map job_of ms) s)) \<and>
      mset ms = mset (outstanding (view (rs_redis q))) + {#m#} \<and> outstanding (view (rs_redis q3)) = [] \<and>
      read_as event (delivery_correlation_id gw request) i (job_of m))"
proof -
  let ?text = "serialize_job id job" and ?cid = "delivery_correlation_id gw request"
  obtain q1 key where add: "redis_enqueue id client gateway_cfg job q = (Inr (), q1)" "good_view (view (rs_redis q1))"
    "sv_waiting (view (rs_redis q1)) = sv_waiting (view (rs_redis q)) @ [(key, [(RBytes ''job'', RBytes ?text)])]"
    "aged (sv_pending (view (rs_redis q))) (sv_pending (view (rs_redis q1)))"
    using add_outcome [OF server(1) stream(1) job(2)] by blast
  have handled: "handle gw (redis_enqueue id client gateway_cfg) request q =
      (Inr \<lparr>ws_status = 202, ws_message = ''enqueued'', ws_correlation_id = ?cid\<rparr>, q1)"
    using delivery_enqueued [OF signed event, of "redis_enqueue id client gateway_cfg" q] add(1)
    by (simp add: enqueue_event_def bindS_def retS_def job(1))
  let ?m = "(key, [(RBytes ''job'', RBytes ?text)])"
    and ?q = "\<lparr>rs_claim_start_id = start, rs_redis = rs_redis q1\<rparr>"
  have out: "mset (outstanding (view (rs_redis q1))) = mset (outstanding (view (rs_redis q))) + {#?m#}"
    using aged_messages [OF add(4)] by (simp add: outstanding_def add(3))
  have ready: "queue_ready client cfg view ?q"
    using add(2) aged_idle [OF add(4) stream(2)] by (simp add: queue_ready_def)
  have "size (mset (outstanding (view (rs_redis q1)))) = Suc (length (outstanding (view (rs_redis q))))"
    unfolding out by simp
  then have enough: "turns_needed view ?q \<le> n" using turns by (simp add: turns_needed_def)
  obtain ms q3 where run: "forever_turns wk (redis_dequeue client cfg) (redis_ack client cfg) n ?q s =
      (Inr (fst (process_all wk (map job_of ms) s)), q3, snd (process_all wk (map job_of ms) s))"
    "mset ms = mset (outstanding (view (rs_redis q1)))" "outstanding (view (rs_redis q3)) = []"
    using turns_empty_stream [OF server(2) ready enough, of wk s] by auto
  have "?m \<in> set (outstanding (view (rs_redis q1)))" by (simp add: outstanding_def add(3))
  then obtain i where i: "message_id ?m = Inr i" using good_view_id [OF add(2)] by blast
  from event have "read_as event ?cid i (job_of ?m)"
  proof (rule delivery_payload)
    fix d name
    assume "bindR (decode_utf8 (wr_body request)) loads = Inr (JObj d)"
      and parsed: "parse_event name d ?cid (gw_new_event_id gw) (gw_now gw) = Inr (Some event)"
    with payload have "plain (JObj d)" by simp
    from delivered_job [OF parsed this now, of i] show ?thesis
      using bytes_message [OF i [unfolded message_id_def fst_conv] job(2)]
      by (auto simp: job_of_def read_as_def job(1))
  qed
  with handled run out show ?thesis by (intro exI [of _ q1] conjI exI [of _ ?m] exI [of _ ms] exI [of _ i] exI [of _ q3]) simp_all
qed

section \<open>A delivery\<close>

lemma printable_dumps_str: "printable_ascii s \<Longrightarrow> printable_ascii (dumps_str s)"
  by (induction s) (simp_all add: dumps_str_def escape_def printable_Cons printable_escape_char)

lemma printable_utf8: "printable_ascii s \<Longrightarrow> utf8_ok (map of_char s)"
  by (induction s) (auto simp: printable_Cons)

lemma printable_text_utf8: "writable printable_ascii v \<Longrightarrow> utf8_ok (map of_char (dumps v))"
  unfolding dumps_eq by (intro printable_utf8 printable_dumps_with [OF printable_dumps_str]) simp_all

definition failed_payload :: json where
  "failed_payload = JObj
     [(''workflow_run'', JObj [(''conclusion'', JStr ''failure''), (''name'', JStr ''ci''), (''id'', JInt 5)]),
      (''repository'', JObj [(''full_name'', JStr ''o/r'')])]"

definition failed_event :: "json event" where
  "failed_event = CICompleted
     \<lparr>ci_meta = github_meta CI_COMPLETED ''corr'' ''e1'' second_day, ci_repo_full_name = JStr ''o/r'',
      ci_pr_number = None, ci_commit_sha = JStr [], ci_workflow_name = JStr ''ci'', ci_conclusion = JStr ''failure'',
      ci_run_url = JStr [], ci_failed_jobs = [], ci_logs_url = JStr [], ci_run_id = Some 5\<rparr>"

definition sample_gateway :: gateway where
  "sample_gateway =
     \<lparr>gw_secret = ''k'', gw_new_correlation_id = ''corr'', gw_new_event_id = ''e1'', gw_now = second_day\<rparr>"

definition signed_request :: webhook_request where
  "signed_request =
     \<lparr>wr_headers = [(''X-GitHub-Event'', ''workflow_run''),
        (''X-Hub-Signature-256'', ''sha256='' @ hmac_hexdigest ''k'' (dumps failed_payload))],
      wr_body = dumps failed_payload\<rparr>"

lemma sample_headers:
  "normalise_headers (wr_headers signed_request) =
     [(''x-github-event'', ''workflow_run''),
      (''x-hub-signature-256'', ''sha256='' @ hmac_hexdigest ''k'' (dumps failed_payload))]"
proof -
  have "lower ''X-GitHub-Event'' = ''x-github-event''" "lower ''X-Hub-Signature-256'' = ''x-hub-signature-256''"
    by code_simp+
  then show ?thesis by (simp add: normalise_headers_def signed_request_def)
qed

lemma sample_cid: "delivery_correlation_id sample_gateway signed_request = ''corr''"
  by (simp add: delivery_correlation_id_def sample_headers correlation_id_of_def sample_gateway_def)

lemma sample_authentic: "authentic (gw_secret sample_gateway) (wr_headers signed_request) (wr_body signed_request)"
proof -
  let ?d = "hmac_hexdigest ''k'' (dumps failed_payload)"
  have "length ?d = 64" by simp
  then have "?d \<noteq> []" by (metis list.size(3) zero_neq_numeral)
  moreover from this have "\<not> is_space (hd ?d)" "\<not> is_space (last ?d)"
    using digest_chars [OF hd_in_set] digest_chars [OF last_in_set] by (fastforce simp: is_space_def Let_def)+
  ultimately have "strip ?d = ?d" by (intro strip_keep)
  then show ?thesis
    by (simp add: authentic_def sample_headers starts_with_def signature_prefix_def)
      (simp add: sample_gateway_def signed_request_def)
qed

lemma sample_payload: "bindR (decode_utf8 (wr_body signed_request)) loads = Inr failed_payload" "plain failed_payload"
proof -
  show p: "plain failed_payload" by (simp add: failed_payload_def)
  have "utf8_ok (map of_char (dumps failed_payload))"
    by (rule printable_text_utf8) (simp add: failed_payload_def printable_Cons)
  then show "bindR (decode_utf8 (wr_body signed_request)) loads = Inr failed_payload"
    using loads_dumps [OF p] by (simp add: signed_request_def decode_utf8_def)
qed

lemma sample_event: "event_of_delivery sample_gateway signed_request = Some failed_event"
  by (simp add: event_of_delivery_def sample_payload sample_headers Let_def del: bindR_eq_Inr)
    (simp add: failed_payload_def parse_event_def correlation_id_of_def sample_gateway_def failed_event_def
      parse_github_ci_event_def dget_def get_text_def linked_pr_number_def named_jobs_def optional_id_def text_at_def)

lemma sample_text:
  "utf8_ok (map of_char (serialize_job id \<lparr>ej_event = failed_event, ej_correlation_id = ''corr'', ej_delivery_id = []\<rparr>))"
  unfolding serialize_job_def
  by (rule printable_text_utf8)
    (simp add: job_payload_def failed_event_def event_to_payload_def ci_fields_def meta_payload_def github_meta_def
      second_day_text optional_json_def printable_Cons)

lemma delivery_processed_witness:
  "\<exists>q1. handle sample_gateway (redis_enqueue id memory_server sample_settings) signed_request
        \<lparr>rs_claim_start_id = ''0-0'', rs_redis = sample_stream\<rparr> =
      (Inr \<lparr>ws_status = 202, ws_message = ''enqueued'', ws_correlation_id = ''corr''\<rparr>, q1) \<and>
    (\<exists>m ms i q3. forever_turns sample_worker (redis_dequeue memory_server sample_settings)
         (redis_ack memory_server sample_settings) 7 \<lparr>rs_claim_start_id = ''0-0'', rs_redis = rs_redis q1\<rparr> 0 =
        (Inr (fst (process_all sample_worker (map job_of ms) 0)), q3, snd (process_all sample_worker (map job_of ms) 0)) \<and>
      mset ms = mset (outstanding sample_stream) + {#m#} \<and> outstanding (rs_redis q3) = [] \<and>
      read_as failed_event ''corr'' i (job_of m))"
proof -
  let ?q = "\<lparr>rs_claim_start_id = ''0-0'', rs_redis = sample_stream\<rparr>"
  have "valid_datetime (gw_now sample_gateway)"
    by (simp add: sample_gateway_def second_day_def valid_datetime_def days_in_month_def)
  moreover have "all_idle (rq_claim_idle_ms sample_settings) (sv_pending (rs_redis ?q))"
    by (simp add: all_idle_def sample_stream_def sample_settings_def)
  moreover have "2 * length (outstanding (rs_redis ?q)) + 3 \<le> 7" by (simp add: outstanding_def sample_stream_def)
  ultimately show ?thesis
    using delivery_processed [OF sample_authentic sample_event sample_payload _ refl,
        of memory_server sample_settings "\<lambda>v. v" pending_from sample_settings ?q 7 sample_worker "''0-0''" 0]
      sample_text memory_server_ok sample_stream_good
    unfolding sample_cid by simp
qed

end
