(* ===== verification/Config.thy ===== *)
theory Config
  imports Contracts
begin

text \<open>
  Configuration of \<open>src/shared/config.py\<close>, read from the environment (a dictionary), and the offline
  health check of an agent provider (\<open>src/runtime/agent/health.py\<close>). A float setting is a
  \<open>py_float\<close>: the exact value of its text, or one of the values that are not numbers; rounding to
  double precision is left out, and so are the texts of \<open>__repr__\<close>.
\<close>

section \<open>Conversion of settings\<close>

datatype py_float = Finite rat | Infinite bool | NotANumber

text \<open>Digits in groups separated by single underscores: the digits, and what follows them.\<close>

fun digit_groups :: "string \<Rightarrow> string \<times> string" where
  "digit_groups [] = ([], [])"
| "digit_groups (c # s) =
     (if is_digit c then (case digit_groups s of (ds, r) \<Rightarrow> (c # ds, r))
      else if c = CHR ''_'' \<and> s \<noteq> [] \<and> is_digit (hd s) then digit_groups s
      else ([], c # s))"

definition number_part :: "string \<Rightarrow> string \<times> string" where
  "number_part s = (if s \<noteq> [] \<and> is_digit (hd s) then digit_groups s else ([], s))"

text \<open>The exponent behind the digits: nothing, or \<open>e\<close> with a sign and digits.\<close>

definition exponent_part :: "string \<Rightarrow> int option" where
  "exponent_part s =
     (if s = [] then Some 0
      else if hd s \<noteq> CHR ''e'' then None
      else
        (let t = tl s;
             neg = (t \<noteq> [] \<and> hd t = CHR ''-'');
             u = (if t \<noteq> [] \<and> (hd t = CHR ''-'' \<or> hd t = CHR ''+'') then tl t else t)
         in case number_part u of
              (ds, r) \<Rightarrow> if ds = [] \<or> r \<noteq> [] then None
                         else Some (if neg then - int (digits_val ds) else int (digits_val ds))))"

definition power_ten :: "int \<Rightarrow> rat" where
  "power_ten k = (if 0 \<le> k then 10 ^ nat k else 1 / 10 ^ nat (- k))"

definition unsigned_float :: "string \<Rightarrow> rat option" where
  "unsigned_float s =
     (case number_part s of
        (ip, r) \<Rightarrow>
          (case (if r \<noteq> [] \<and> hd r = CHR ''.'' then number_part (tl r) else ([], r)) of
             (fp, r2) \<Rightarrow>
               if ip = [] \<and> fp = [] then None
               else (case exponent_part r2 of
                       None \<Rightarrow> None
                     | Some e \<Rightarrow> Some (of_nat (digits_val (ip @ fp)) * power_ten (e - int (length fp))))))"

text \<open>\<open>float(s)\<close>\<close>

definition parse_float :: "string \<Rightarrow> py_float option" where
  "parse_float s =
     (let t = lower (strip s);
          neg = (t \<noteq> [] \<and> hd t = CHR ''-'');
          u = (if t \<noteq> [] \<and> (hd t = CHR ''-'' \<or> hd t = CHR ''+'') then tl t else t)
      in if u \<in> {''inf'', ''infinity''} then Some (Infinite neg)
         else if u = ''nan'' then Some NotANumber
         else map_option (\<lambda>r. Finite (if neg then - r else r)) (unsigned_float u))"

definition parse_bool :: "string \<Rightarrow> bool" where
  "parse_bool value = (lower (strip value) \<in> {''1'', ''true'', ''yes'', ''on''})"

datatype agent_runtime_provider = DISABLED | AZURE_OPENAI | GITHUB_COPILOT | OPENAI_COMPATIBLE

fun provider_value :: "agent_runtime_provider \<Rightarrow> string" where
  "provider_value DISABLED = ''disabled''"
| "provider_value AZURE_OPENAI = ''azure-openai''"
| "provider_value GITHUB_COPILOT = ''github-copilot''"
| "provider_value OPENAI_COMPATIBLE = ''openai-compatible''"

abbreviation providers :: "agent_runtime_provider list" where
  "providers \<equiv> [DISABLED, AZURE_OPENAI, GITHUB_COPILOT, OPENAI_COMPATIBLE]"

interpretation provider: str_enum "''AgentRuntimeProvider''" providers provider_value
proof unfold_locales
  fix m m' :: agent_runtime_provider
  show "m \<in> set providers" by (cases m) auto
  show "provider_value m = provider_value m' \<Longrightarrow> m = m'" by (cases m; cases m'; simp)
qed

text \<open>\<open>_convert_env_value\<close>, one function per converter.\<close>

definition invalid_setting :: "string \<Rightarrow> string \<Rightarrow> string \<Rightarrow> string \<Rightarrow> exn" where
  "invalid_setting what env_key raw hint =
     Exn ValueError (''Invalid '' @ what @ '' for '' @ env_key @ '': '' @ repr_str raw @ hint)"

definition convert_str :: "string \<Rightarrow> string \<Rightarrow> string res" where
  "convert_str env_key raw = Inr raw"

definition convert_bool :: "string \<Rightarrow> string \<Rightarrow> bool res" where
  "convert_bool env_key raw = Inr (parse_bool raw)"

definition convert_int :: "string \<Rightarrow> string \<Rightarrow> int res" where
  "convert_int env_key raw =
     (case parse_int raw of Some i \<Rightarrow> Inr i | None \<Rightarrow> Inl (invalid_setting ''integer value'' env_key raw []))"

definition convert_float :: "string \<Rightarrow> string \<Rightarrow> py_float res" where
  "convert_float env_key raw =
     (case parse_float raw of Some f \<Rightarrow> Inr f | None \<Rightarrow> Inl (invalid_setting ''float value'' env_key raw []))"

definition convert_provider :: "string \<Rightarrow> string \<Rightarrow> agent_runtime_provider res" where
  "convert_provider env_key raw =
     (case enum_of_value ''AgentRuntimeProvider'' providers provider_value raw of
        Inr p \<Rightarrow> Inr p
      | Inl _ \<Rightarrow> Inl (invalid_setting ''Agent Runtime provider'' env_key raw
          (''. Expected one of: '' @ join '', '' (map provider_value providers))))"

section \<open>Settings\<close>

record agent_runtime_config =
  rg_provider :: agent_runtime_provider
  rg_model :: string
  rg_deployment :: string
  rg_endpoint :: string
  rg_base_url :: string
  rg_api_version :: string
  rg_credential_env_var :: string
  rg_timeout_seconds :: py_float
  rg_max_turns :: int
  rg_max_tool_calls :: int
  rg_temperature :: py_float
  rg_supports_tool_calling :: bool
  rg_supports_structured_output :: bool
  rg_context_window_tokens :: int

definition default_agent_runtime :: agent_runtime_config where
  "default_agent_runtime =
     \<lparr>rg_provider = DISABLED, rg_model = [], rg_deployment = [], rg_endpoint = [], rg_base_url = [],
      rg_api_version = [], rg_credential_env_var = [], rg_timeout_seconds = Finite 60, rg_max_turns = 8,
      rg_max_tool_calls = 16, rg_temperature = Finite 0, rg_supports_tool_calling = False,
      rg_supports_structured_output = False, rg_context_window_tokens = 0\<rparr>"

record app_config =
  fg_env :: string
  fg_debug :: bool
  fg_log_level :: string
  fg_log_format :: string
  fg_gateway_host :: string
  fg_gateway_port :: int
  fg_github_webhook_secret :: string
  fg_github_app_id :: int
  fg_github_app_installation_id :: int
  fg_github_app_private_key_path :: string
  fg_worker_concurrency :: int
  fg_queue_backend :: string
  fg_redis_url :: string
  fg_redis_stream :: string
  fg_redis_consumer_group :: string
  fg_redis_consumer :: string
  fg_redis_read_block_ms :: int
  fg_redis_claim_idle_ms :: int
  fg_agent_runtime :: agent_runtime_config
  fg_features :: "bool dict"

definition default_app_config :: app_config where
  "default_app_config =
     \<lparr>fg_env = ''development'', fg_debug = False, fg_log_level = ''INFO'', fg_log_format = ''json'',
      fg_gateway_host = ''0.0.0.0'', fg_gateway_port = 8000, fg_github_webhook_secret = [], fg_github_app_id = 0,
      fg_github_app_installation_id = 0, fg_github_app_private_key_path = [], fg_worker_concurrency = 4,
      fg_queue_backend = ''memory'', fg_redis_url = ''redis://localhost:6379/0'', fg_redis_stream = ''qaestro:jobs'',
      fg_redis_consumer_group = ''qaestro-workers'', fg_redis_consumer = [], fg_redis_read_block_ms = 5000,
      fg_redis_claim_idle_ms = 300000, fg_agent_runtime = default_agent_runtime, fg_features = []\<rparr>"

text \<open>
  One entry of a table of settings: when the variable is set, its converted value goes into the
  configuration. The entries are taken in the order of the table, the first that fails raises.
\<close>

definition setting ::
  "string \<Rightarrow> (string \<Rightarrow> string \<Rightarrow> 'a res) \<Rightarrow> ('a \<Rightarrow> 'c \<Rightarrow> 'c) \<Rightarrow> string dict \<Rightarrow> 'c \<Rightarrow> 'c res" where
  "setting suffix convert put environ cfg =
     (let env_key = ''QAESTRO_'' @ suffix in
      case map_of environ env_key of
        None \<Rightarrow> Inr cfg
      | Some raw \<Rightarrow> bindR (convert env_key raw) (\<lambda>v. Inr (put v cfg)))"

fun read_settings :: "(string dict \<Rightarrow> 'c \<Rightarrow> 'c res) list \<Rightarrow> string dict \<Rightarrow> 'c \<Rightarrow> 'c res" where
  "read_settings [] environ cfg = Inr cfg"
| "read_settings (f # fs) environ cfg = bindR (f environ cfg) (read_settings fs environ)"

definition env_map :: "(string dict \<Rightarrow> app_config \<Rightarrow> app_config res) list" where
  "env_map =
     [setting ''ENV'' convert_str (\<lambda>v c. c\<lparr>fg_env := v\<rparr>),
      setting ''DEBUG'' convert_bool (\<lambda>v c. c\<lparr>fg_debug := v\<rparr>),
      setting ''LOG_LEVEL'' convert_str (\<lambda>v c. c\<lparr>fg_log_level := v\<rparr>),
      setting ''LOG_FORMAT'' convert_str (\<lambda>v c. c\<lparr>fg_log_format := v\<rparr>),
      setting ''GATEWAY_HOST'' convert_str (\<lambda>v c. c\<lparr>fg_gateway_host := v\<rparr>),
      setting ''GATEWAY_PORT'' convert_int (\<lambda>v c. c\<lparr>fg_gateway_port := v\<rparr>),
      setting ''GITHUB_WEBHOOK_SECRET'' convert_str (\<lambda>v c. c\<lparr>fg_github_webhook_secret := v\<rparr>),
      setting ''GITHUB_APP_ID'' convert_int (\<lambda>v c. c\<lparr>fg_github_app_id := v\<rparr>),
      setting ''GITHUB_APP_INSTALLATION_ID'' convert_int (\<lambda>v c. c\<lparr>fg_github_app_installation_id := v\<rparr>),
      setting ''GITHUB_APP_PRIVATE_KEY_PATH'' convert_str (\<lambda>v c. c\<lparr>fg_github_app_private_key_path := v\<rparr>),
      setting ''WORKER_CONCURRENCY'' convert_int (\<lambda>v c. c\<lparr>fg_worker_concurrency := v\<rparr>),
      setting ''QUEUE_BACKEND'' convert_str (\<lambda>v c. c\<lparr>fg_queue_backend := v\<rparr>),
      setting ''REDIS_URL'' convert_str (\<lambda>v c. c\<lparr>fg_redis_url := v\<rparr>),
      setting ''REDIS_STREAM'' convert_str (\<lambda>v c. c\<lparr>fg_redis_stream := v\<rparr>),
      setting ''REDIS_CONSUMER_GROUP'' convert_str (\<lambda>v c. c\<lparr>fg_redis_consumer_group := v\<rparr>),
      setting ''REDIS_CONSUMER'' convert_str (\<lambda>v c. c\<lparr>fg_redis_consumer := v\<rparr>),
      setting ''REDIS_READ_BLOCK_MS'' convert_int (\<lambda>v c. c\<lparr>fg_redis_read_block_ms := v\<rparr>),
      setting ''REDIS_CLAIM_IDLE_MS'' convert_int (\<lambda>v c. c\<lparr>fg_redis_claim_idle_ms := v\<rparr>)]"

definition agent_env_map :: "(string dict \<Rightarrow> agent_runtime_config \<Rightarrow> agent_runtime_config res) list" where
  "agent_env_map =
     [setting ''AGENT_PROVIDER'' convert_provider (\<lambda>v c. c\<lparr>rg_provider := v\<rparr>),
      setting ''AGENT_MODEL'' convert_str (\<lambda>v c. c\<lparr>rg_model := v\<rparr>),
      setting ''AGENT_DEPLOYMENT'' convert_str (\<lambda>v c. c\<lparr>rg_deployment := v\<rparr>),
      setting ''AGENT_ENDPOINT'' convert_str (\<lambda>v c. c\<lparr>rg_endpoint := v\<rparr>),
      setting ''AGENT_BASE_URL'' convert_str (\<lambda>v c. c\<lparr>rg_base_url := v\<rparr>),
      setting ''AGENT_API_VERSION'' convert_str (\<lambda>v c. c\<lparr>rg_api_version := v\<rparr>),
      setting ''AGENT_CREDENTIAL_ENV_VAR'' convert_str (\<lambda>v c. c\<lparr>rg_credential_env_var := v\<rparr>),
      setting ''AGENT_TIMEOUT_SECONDS'' convert_float (\<lambda>v c. c\<lparr>rg_timeout_seconds := v\<rparr>),
      setting ''AGENT_MAX_TURNS'' convert_int (\<lambda>v c. c\<lparr>rg_max_turns := v\<rparr>),
      setting ''AGENT_MAX_TOOL_CALLS'' convert_int (\<lambda>v c. c\<lparr>rg_max_tool_calls := v\<rparr>),
      setting ''AGENT_TEMPERATURE'' convert_float (\<lambda>v c. c\<lparr>rg_temperature := v\<rparr>),
      setting ''AGENT_SUPPORTS_TOOL_CALLING'' convert_bool (\<lambda>v c. c\<lparr>rg_supports_tool_calling := v\<rparr>),
      setting ''AGENT_SUPPORTS_STRUCTURED_OUTPUT'' convert_bool (\<lambda>v c. c\<lparr>rg_supports_structured_output := v\<rparr>),
      setting ''AGENT_CONTEXT_WINDOW_TOKENS'' convert_int (\<lambda>v c. c\<lparr>rg_context_window_tokens := v\<rparr>)]"

definition load_agent_runtime_config :: "string dict \<Rightarrow> agent_runtime_config res" where
  "load_agent_runtime_config environ = read_settings agent_env_map environ default_agent_runtime"

definition load_config :: "string dict \<Rightarrow> app_config res" where
  "load_config environ =
     bindR (read_settings env_map environ default_app_config) (\<lambda>cfg.
     bindR (load_agent_runtime_config environ) (\<lambda>agent. Inr (cfg\<lparr>fg_agent_runtime := agent\<rparr>)))"

section \<open>Health of the agent runtime\<close>

definition recommended_context_window_tokens :: int where
  "recommended_context_window_tokens = 32000"

datatype agent_health_status = HEALTH_DISABLED | SUPPORTED | DEGRADED | UNSUPPORTED

datatype live_smoke_status = NOT_REQUESTED | NOT_IMPLEMENTED | SMOKE_SUCCEEDED | SMOKE_FAILED

record agent_health_result =
  hr_provider :: agent_runtime_provider
  hr_status :: agent_health_status
  hr_actionable_errors :: "string list"
  hr_warnings :: "string list"
  hr_live_smoke_probe_status :: live_smoke_status

definition health_ok :: "agent_health_result \<Rightarrow> bool" where
  "health_ok h \<longleftrightarrow> hr_status h \<in> {SUPPORTED, DEGRADED}"

definition required_texts :: "(string \<times> string) list \<Rightarrow> string list" where
  "required_texts checks = map snd (filter (\<lambda>(value, err). value = []) checks)"

definition credential_errors :: "agent_runtime_config \<Rightarrow> string dict \<Rightarrow> string list" where
  "credential_errors cfg env =
     (if rg_credential_env_var cfg = []
      then [''Credential environment variable name is required for QAESTRO_AGENT_CREDENTIAL_ENV_VAR.'']
      else (case map_of env (rg_credential_env_var cfg) of
              Some (_ # _) \<Rightarrow> []
            | _ \<Rightarrow> [''Credential environment variable '' @ rg_credential_env_var cfg @ '' is not set.'']))"

definition provider_config_errors :: "agent_runtime_config \<Rightarrow> string dict \<Rightarrow> string list" where
  "provider_config_errors cfg env =
     (case rg_provider cfg of
        AZURE_OPENAI \<Rightarrow>
          required_texts
            [(rg_endpoint cfg, ''Azure OpenAI endpoint is required for QAESTRO_AGENT_ENDPOINT.''),
             (rg_deployment cfg, ''Azure OpenAI deployment is required for QAESTRO_AGENT_DEPLOYMENT.''),
             (rg_api_version cfg, ''Azure OpenAI API version is required for QAESTRO_AGENT_API_VERSION.'')] @
          credential_errors cfg env
      | OPENAI_COMPATIBLE \<Rightarrow>
          required_texts
            [(rg_base_url cfg, ''OpenAI-compatible base URL is required for QAESTRO_AGENT_BASE_URL.''),
             (rg_model cfg, ''OpenAI-compatible model is required for QAESTRO_AGENT_MODEL.'')] @
          credential_errors cfg env
      | GITHUB_COPILOT \<Rightarrow> [''GitHub Copilot is not supported as a non-interactive Agent Runtime provider yet.'']
      | DISABLED \<Rightarrow> credential_errors cfg env)"

definition capability_errors :: "agent_runtime_config \<Rightarrow> string list" where
  "capability_errors cfg =
     (if rg_supports_tool_calling cfg then [] else [''tool calling is required'']) @
     (if rg_supports_structured_output cfg then []
      else [''structured output or schema-constrained responses are required'']) @
     (if rg_context_window_tokens cfg \<le> 0
      then [''context window token capacity is required for QAESTRO_AGENT_CONTEXT_WINDOW_TOKENS.''] else [])"

definition capability_warnings :: "agent_runtime_config \<Rightarrow> string list" where
  "capability_warnings cfg =
     (if 0 < rg_context_window_tokens cfg \<and> rg_context_window_tokens cfg < recommended_context_window_tokens
      then [''Configured context window '' @ show_int (rg_context_window_tokens cfg) @
            '' tokens is below the recommended '' @ show_int recommended_context_window_tokens @ '' tokens.'']
      else [])"

definition smoke_warning :: "bool \<Rightarrow> string" where
  "smoke_warning opt_in_live_smoke =
     (if opt_in_live_smoke
      then ''Live provider smoke check was requested but no provider adapter implements it yet.''
      else ''Live provider smoke check not executed; set opt_in_live_smoke=True to probe provider connectivity.'')"

definition has_degradation_warning :: "string list \<Rightarrow> bool" where
  "has_degradation_warning warnings = list_ex (contains ''context window'') warnings"

definition unsupported_health :: "agent_runtime_config \<Rightarrow> string list \<Rightarrow> agent_health_result" where
  "unsupported_health cfg errors =
     \<lparr>hr_provider = rg_provider cfg, hr_status = UNSUPPORTED, hr_actionable_errors = errors,
      hr_warnings = capability_warnings cfg, hr_live_smoke_probe_status = NOT_REQUESTED\<rparr>"

definition check_agent_runtime_health :: "agent_runtime_config \<Rightarrow> string dict \<Rightarrow> bool \<Rightarrow> agent_health_result" where
  "check_agent_runtime_health cfg env opt_in_live_smoke =
     (if rg_provider cfg = DISABLED then
        \<lparr>hr_provider = DISABLED, hr_status = HEALTH_DISABLED, hr_actionable_errors = [],
         hr_warnings = [''Agent Runtime is disabled; runtime validation will not call an LLM provider.''],
         hr_live_smoke_probe_status = NOT_REQUESTED\<rparr>
      else if provider_config_errors cfg env \<noteq> [] then unsupported_health cfg (provider_config_errors cfg env)
      else if capability_errors cfg \<noteq> [] then unsupported_health cfg (capability_errors cfg)
      else
        (let warnings = capability_warnings cfg @ [smoke_warning opt_in_live_smoke] in
         \<lparr>hr_provider = rg_provider cfg,
          hr_status = (if has_degradation_warning warnings then DEGRADED else SUPPORTED),
          hr_actionable_errors = [], hr_warnings = warnings,
          hr_live_smoke_probe_status = (if opt_in_live_smoke then NOT_IMPLEMENTED else NOT_REQUESTED)\<rparr>))"

text \<open>\<open>check_worker_agent_runtime_health\<close> of \<open>src/app/worker/factory.py\<close>\<close>

definition check_worker_agent_runtime_health :: "app_config \<Rightarrow> string dict \<Rightarrow> bool \<Rightarrow> agent_health_result res" where
  "check_worker_agent_runtime_health cfg env opt_in_live_smoke =
     (let health = check_agent_runtime_health (fg_agent_runtime cfg) env opt_in_live_smoke in
      if hr_status health = UNSUPPORTED
      then Inl (Exn AgentRuntimeUnavailableError
        (''Agent Runtime configuration is unsupported: '' @ join ''; '' (hr_actionable_errors health)))
      else Inr health)"

end
