(* ===== verification/Providers.thy ===== *)
theory Providers
  imports Config Agent Client
begin

text \<open>
  The runners for agent providers: OpenAI-compatible (\<open>src/runtime/agent/openai_compatible.py\<close>) and
  Azure OpenAI (\<open>azure_openai.py\<close>), which differ in the request and the client behind them; the
  choice of a runner; and the HTTP client for Azure over a POST operation of the network. A client is
  an action that takes a request. Requests are records of the entries of the code's dictionaries.
\<close>

section \<open>Runners\<close>

record chat_response =
  cs_output_text :: string
  cs_error :: string

record chat_request =
  cq_address :: "string dict"
  cq_prompt :: string
  cq_stage :: string
  cq_correlation_id :: string
  cq_timeout_seconds :: py_float
  cq_max_turns :: int
  cq_max_tool_calls :: int
  cq_temperature :: py_float
  cq_tool_names :: "string list"
  cq_credential_present :: bool

definition redact_secret :: "string \<Rightarrow> string \<Rightarrow> string" where
  "redact_secret value secret = (if secret = [] then value else replace secret ''<redacted>'' value)"

definition either_limit :: "'a \<Rightarrow> 'a option \<Rightarrow> 'a" where
  "either_limit configured given = (case given of None \<Rightarrow> configured | Some x \<Rightarrow> x)"

text \<open>What both requests hold, beside the entries that say where it goes.\<close>

definition chat_request_for ::
  "string dict \<Rightarrow> agent_runtime_config \<Rightarrow> string \<Rightarrow> agent_run_input \<Rightarrow> chat_request" where
  "chat_request_for address cfg credential run_input =
     \<lparr>cq_address = address, cq_prompt = ai_prompt run_input, cq_stage = stage_value (ai_stage run_input),
      cq_correlation_id = ai_correlation_id run_input,
      cq_timeout_seconds = either_limit (rg_timeout_seconds cfg) (map_option Finite (ai_timeout_seconds run_input)),
      cq_max_turns = either_limit (rg_max_turns cfg) (ai_max_turns run_input),
      cq_max_tool_calls = either_limit (rg_max_tool_calls cfg) (ai_max_tool_calls run_input),
      cq_temperature = rg_temperature cfg, cq_tool_names = allowed_tool_names_of run_input,
      cq_credential_present = (credential \<noteq> [])\<rparr>"

definition openai_address :: "agent_runtime_config \<Rightarrow> string dict" where
  "openai_address cfg = [(''base_url'', rg_base_url cfg), (''model'', rg_model cfg)]"

definition azure_address :: "agent_runtime_config \<Rightarrow> string dict" where
  "azure_address cfg =
     [(''endpoint'', rg_endpoint cfg), (''deployment'', rg_deployment cfg), (''model'', rg_model cfg),
      (''api_version'', rg_api_version cfg)]"

definition run_result ::
  "agent_session_handle \<Rightarrow> agent_run_input \<Rightarrow> agent_run_status \<Rightarrow> string \<Rightarrow> string \<Rightarrow> agent_run_result" where
  "run_result session run_input status output_text error =
     \<lparr>ar_session = session, ar_stage = ai_stage run_input, ar_status = status, ar_output_text = output_text,
      ar_error = error, ar_allowed_tool_names = allowed_tool_names_of run_input\<rparr>"

definition provider_run ::
  "(chat_request \<Rightarrow> ('w, chat_response) act) \<Rightarrow> string dict \<Rightarrow> agent_runtime_config \<Rightarrow> string \<Rightarrow>
   agent_session_handle \<Rightarrow> agent_run_input \<Rightarrow> ('w, agent_run_result) act" where
  "provider_run ask address cfg credential session run_input w =
     (case ask (chat_request_for address cfg credential run_input) w of
        (Inl exc, u) \<Rightarrow> (Inr (run_result session run_input FAILED [] (redact_secret (exn_msg exc) credential)), u)
      | (Inr response, u) \<Rightarrow>
          if cs_error response \<noteq> []
          then (Inr (run_result session run_input FAILED [] (redact_secret (cs_error response) credential)), u)
          else (Inr (run_result session run_input SUCCEEDED (cs_output_text response) []), u))"

definition chat_runner ::
  "(chat_request \<Rightarrow> ('w, chat_response) act) \<Rightarrow> string dict \<Rightarrow> agent_runtime_config \<Rightarrow> string \<Rightarrow> 'w agent_runner" where
  "chat_runner ask address cfg credential =
     \<lparr>ru_start_session = retS, ru_run = provider_run ask address cfg credential,
      ru_close_session = (\<lambda>handle reason. retS ())\<rparr>"

definition openai_compatible_runner ::
  "agent_runtime_config \<Rightarrow> (chat_request \<Rightarrow> ('w, chat_response) act) \<Rightarrow> string \<Rightarrow> 'w agent_runner" where
  "openai_compatible_runner cfg ask credential = chat_runner ask (openai_address cfg) cfg credential"

definition azure_openai_runner ::
  "agent_runtime_config \<Rightarrow> (chat_request \<Rightarrow> ('w, chat_response) act) \<Rightarrow> string \<Rightarrow> 'w agent_runner" where
  "azure_openai_runner cfg ask credential = chat_runner ask (azure_address cfg) cfg credential"

section \<open>The Azure client\<close>

definition chunk_texts :: "json \<Rightarrow> string list" where
  "chunk_texts item =
     (case item of
        JObj d \<Rightarrow>
          (case dget d ''content'' JNull of
             JList cs \<Rightarrow> concat (map (\<lambda>c. case c of
                 JObj e \<Rightarrow> (case dget e ''text'' JNull of JStr t \<Rightarrow> [t] | _ \<Rightarrow> [])
               | _ \<Rightarrow> []) cs)
           | _ \<Rightarrow> [])
      | _ \<Rightarrow> [])"

definition extract_output_text :: "json \<Rightarrow> string" where
  "extract_output_text payload =
     (case payload of
        JObj d \<Rightarrow>
          (case dget d ''output_text'' JNull of
             JStr t \<Rightarrow> t
           | _ \<Rightarrow> (case dget d ''output'' JNull of JList items \<Rightarrow> concat (concat (map chunk_texts items)) | _ \<Rightarrow> []))
      | _ \<Rightarrow> [])"

text \<open>
  What the network gives the client: \<open>urlopen\<close> of a POST (URL, headers, body, timeout), a status
  outside 200 to 299 standing for \<open>HTTPError\<close>, and the text of a float.
\<close>

record 'w azure_network =
  an_post :: "string \<Rightarrow> string dict \<Rightarrow> string \<Rightarrow> py_float \<Rightarrow> ('w, http_response) act"
  an_show_float :: "py_float \<Rightarrow> string"

text \<open>\<open>URLError\<close> and \<open>TimeoutError\<close> are subclasses of \<open>OSError\<close>.\<close>

definition is_os_error :: "exn \<Rightarrow> bool" where
  "is_os_error e \<longleftrightarrow> exn_class e \<in> {OSError, TimeoutError, OtherError ''URLError''}"

text \<open>\<open>request[k]\<close>\<close>

definition entry_at :: "string dict \<Rightarrow> string \<Rightarrow> string res" where
  "entry_at d k = (case map_of d k of Some v \<Rightarrow> Inr v | None \<Rightarrow> Inl (Exn KeyError (repr_str k)))"

definition azure_body :: "'w azure_network \<Rightarrow> string \<Rightarrow> chat_request \<Rightarrow> json" where
  "azure_body net deployment request = JObj
     [(''model'', JStr deployment), (''input'', JStr (cq_prompt request)),
      (''temperature'', JFloat (an_show_float net (cq_temperature request)))]"

definition azure_answer :: "http_response \<Rightarrow> chat_response res" where
  "azure_answer resp =
     (if 200 \<le> hs_status resp \<and> hs_status resp < 300 then
        bindR (bindR (decode_utf8 (hs_body resp)) loads) (\<lambda>payload.
          Inr \<lparr>cs_output_text = extract_output_text payload, cs_error = []\<rparr>)
      else Inr \<lparr>cs_output_text = [], cs_error =
        ''Azure OpenAI HTTP '' @ show_int (hs_status resp) @ '': '' @ response_text resp\<rparr>)"

definition azure_complete :: "'w azure_network \<Rightarrow> string \<Rightarrow> chat_request \<Rightarrow> ('w, chat_response) act" where
  "azure_complete net credential request =
     bindS (liftS (entry_at (cq_address request) ''endpoint'')) (\<lambda>endpoint.
     bindS (liftS (entry_at (cq_address request) ''deployment'')) (\<lambda>deployment w.
     case an_post net (rstrip_by (\<lambda>c. c = CHR ''/'') endpoint @ ''/responses'')
            [(''Content-Type'', ''application/json''), (''api-key'', credential)]
            (dumps_ascii (azure_body net deployment request)) (cq_timeout_seconds request) w of
       (Inl exc, u) \<Rightarrow>
         if is_os_error exc then (Inr \<lparr>cs_output_text = [], cs_error = exn_msg exc\<rparr>, u) else (Inl exc, u)
     | (Inr resp, u) \<Rightarrow> (azure_answer resp, u)))"

section \<open>The live smoke probe\<close>

record live_smoke_result =
  sm_status :: live_smoke_status
  sm_output_text :: string
  sm_error :: string

text \<open>Without a time limit of its own: the configured one is taken, as the code does.\<close>

definition smoke_run_input :: "agent_runtime_config \<Rightarrow> agent_run_input" where
  "smoke_run_input cfg =
     \<lparr>ai_stage = VALIDATOR, ai_prompt = ''Respond with exactly: qaestro-live-smoke-ok'',
      ai_correlation_id = ''azure-openai-live-smoke'', ai_allowed_tools = [], ai_context = None,
      ai_max_turns = Some 1, ai_max_tool_calls = Some 0, ai_timeout_seconds = None\<rparr>"

definition env_credential :: "agent_runtime_config \<Rightarrow> string dict \<Rightarrow> string" where
  "env_credential cfg env = (case map_of env (rg_credential_env_var cfg) of Some c \<Rightarrow> c | None \<Rightarrow> [])"

definition azure_live_smoke ::
  "agent_runtime_config \<Rightarrow> string dict \<Rightarrow> (chat_request \<Rightarrow> ('w, chat_response) act) \<Rightarrow> bool \<Rightarrow> 'w \<Rightarrow>
   live_smoke_result \<times> 'w" where
  "azure_live_smoke cfg env ask opt_in_live_smoke w =
     (if \<not> opt_in_live_smoke then (\<lparr>sm_status = NOT_REQUESTED, sm_output_text = [], sm_error = []\<rparr>, w)
      else
        (let credential = env_credential cfg env in
         case ask (chat_request_for (azure_address cfg) cfg credential (smoke_run_input cfg)) w of
           (Inl exc, u) \<Rightarrow>
             (\<lparr>sm_status = SMOKE_FAILED, sm_output_text = [], sm_error = redact_secret (exn_msg exc) credential\<rparr>, u)
         | (Inr response, u) \<Rightarrow>
             if cs_error response \<noteq> [] then
               (\<lparr>sm_status = SMOKE_FAILED, sm_output_text = [], sm_error = redact_secret (cs_error response) credential\<rparr>, u)
             else (\<lparr>sm_status = SMOKE_SUCCEEDED, sm_output_text = cs_output_text response, sm_error = []\<rparr>, u)))"

section \<open>Choosing a runner\<close>

text \<open>
  \<open>build_agent_runner\<close>: \<open>disabled\<close> is the fake runner with its fixed answer, \<open>injected\<close> the client for
  an OpenAI-compatible provider, if there is one, and \<open>azure\<close> the client for Azure OpenAI, given the
  credential.
\<close>

definition disabled_response :: string where
  "disabled_response = ''agent runtime disabled; validation probe selection skipped''"

definition build_agent_runner ::
  "(string \<Rightarrow> 'w agent_runner) \<Rightarrow> (chat_request \<Rightarrow> ('w, chat_response) act) option \<Rightarrow>
   (string \<Rightarrow> chat_request \<Rightarrow> ('w, chat_response) act) \<Rightarrow> agent_runtime_config \<Rightarrow> string dict \<Rightarrow> 'w agent_runner res" where
  "build_agent_runner fake injected azure cfg env =
     (if rg_provider cfg = DISABLED then Inr (fake disabled_response)
      else
        (let health = check_agent_runtime_health cfg env False in
         if hr_status health = UNSUPPORTED
         then Inl (Exn UnsupportedAgentRuntimeProviderError (join ''; '' (hr_actionable_errors health)))
         else if rg_provider cfg = OPENAI_COMPATIBLE then
           (case injected of
              None \<Rightarrow> Inl (Exn UnsupportedAgentRuntimeProviderError
                ''OpenAI-compatible runner requires an injected client until a live adapter is configured.'')
            | Some ask \<Rightarrow> Inr (openai_compatible_runner cfg ask (env_credential cfg env)))
         else if rg_provider cfg = AZURE_OPENAI then
           Inr (azure_openai_runner cfg (azure (env_credential cfg env)) (env_credential cfg env))
         else Inl (Exn UnsupportedAgentRuntimeProviderError
           (''Agent Runtime provider '' @ repr_str (provider_value (rg_provider cfg)) @ '' is not implemented yet.''))))"

text \<open>\<open>_build_validation_agent_runner\<close>: the worker injects no client.\<close>

definition build_validation_agent_runner ::
  "(string \<Rightarrow> 'w agent_runner) \<Rightarrow> 'w azure_network \<Rightarrow> app_config \<Rightarrow> string dict \<Rightarrow> 'w agent_runner res" where
  "build_validation_agent_runner fake net cfg env =
     build_agent_runner fake None (azure_complete net) (fg_agent_runtime cfg) env"

end
