(* ===== verification/Provider_Facts.thy ===== *)
theory Provider_Facts
  imports Providers
begin

text \<open>
  What the provider runners guarantee: they never raise and never report the credential; and which
  runner a worker gets for a configuration, compared with what the health check says of it.
\<close>

section \<open>Redaction\<close>

lemma starts_with_Nil [simp]: "starts_with [] s"
  by (simp add: starts_with_def)

lemma starts_with_Cons [simp]: "starts_with (d # t) (c # s) \<longleftrightarrow> d = c \<and> starts_with t s"
  by (auto simp: starts_with_def)

lemma starts_with_empty [simp]: "starts_with t [] \<longleftrightarrow> t = []"
  by (auto simp: starts_with_def)

lemma starts_split_char: "starts_with p (a @ x # b) \<Longrightarrow> x \<notin> set p \<Longrightarrow> starts_with p a"
proof (induction a arbitrary: p)
  case Nil
  then show ?case by (cases p) auto
next
  case (Cons c a)
  then show ?case by (cases p) auto
qed

lemma contains_split_char: "contains p (a @ x # b) \<Longrightarrow> x \<notin> set p \<Longrightarrow> contains p a \<or> contains p b"
proof (induction a)
  case Nil
  then show ?case by (cases p) auto
next
  case (Cons c a)
  then show ?case using starts_split_char [of p "c # a" x b] by auto
qed

text \<open>A prefix of the text after a replacement by something that starts with \<open>x\<close>, without \<open>x\<close>, was there before.\<close>

lemma replace_prefix:
  "starts_with t (replace old (x # new) s) \<Longrightarrow> x \<notin> set t \<Longrightarrow> starts_with t s"
proof (induction old "x # new" s arbitrary: t rule: replace.induct)
  case (2 old c s)
  then show ?case by (cases t) (auto split: if_splits)
qed simp

lemma replace_removes:
  assumes "old \<noteq> []" and "x \<notin> set old" and "y \<notin> set old" and "\<not> contains old mid"
  shows "\<not> contains old (replace old (x # mid @ [y]) s)"
  using assms
proof (induction old "x # mid @ [y]" s rule: replace.induct)
  case (2 old c s)
  show ?case
  proof (cases "starts_with old (c # s)")
    case True
    let ?r = "replace old (x # mid @ [y]) (drop (length old) (c # s))"
    have "\<not> contains old ?r" using 2 True by simp
    then have "\<not> contains old (mid @ y # ?r)" using contains_split_char [of old mid y ?r] 2(5,6) by blast
    then have "\<not> contains old ([] @ x # (mid @ y # ?r))"
      using contains_split_char [of old "[]" x "mid @ y # ?r"] 2(3,4) by auto
    then show ?thesis using True 2(3) by simp
  next
    case False
    then have "\<not> contains old (replace old (x # mid @ [y]) s)" using 2 by simp
    moreover have "\<not> starts_with old (c # replace old (x # mid @ [y]) s)"
    proof
      assume "starts_with old (c # replace old (x # mid @ [y]) s)"
      then obtain t where "old = c # t" "starts_with t (replace old (x # mid @ [y]) s)"
        using 2(3) by (cases old) auto
      with replace_prefix [of t old x "mid @ [y]" s] 2(4) have "starts_with old (c # s)" by auto
      with False show False by simp
    qed
    ultimately show ?thesis using False by simp
  qed
qed simp

lemma redact_secret_removes:
  assumes "credential \<noteq> []" and "CHR ''<'' \<notin> set credential" and "CHR ''>'' \<notin> set credential"
    and "\<not> contains credential ''redacted''"
  shows "\<not> contains credential (redact_secret v credential)"
  using replace_removes [OF assms, of v] assms(1) by (simp add: redact_secret_def)

lemma provider_run_redacted:
  assumes "credential \<noteq> []" and "CHR ''<'' \<notin> set credential" and "CHR ''>'' \<notin> set credential"
    and "\<not> contains credential ''redacted''"
  shows "\<exists>r t. ru_run (chat_runner ask address cfg credential) session run_input w = (Inr r, t) \<and>
    \<not> contains credential (ar_error r) \<and> ar_status r \<in> {SUCCEEDED, FAILED} \<and>
    (if ar_status r = SUCCEEDED then ar_error r = [] else ar_output_text r = [])"
proof -
  have "\<not> contains credential []" using assms(1) by simp
  then show ?thesis
    using redact_secret_removes [OF assms]
    by (auto simp: chat_runner_def provider_run_def run_result_def split: prod.split sum.split)
qed

text \<open>C34. A provider's runner never raises and never reports its credential: whatever the client answers
  or raises, a run of the OpenAI-compatible or the Azure runner returns a result that succeeded
  without an error text or failed without an output, and the credential (one without angle brackets
  that does not occur in the mark put in its place) is nowhere in the error.\<close>

theorem credential_redacted:
  assumes "credential \<noteq> []" and "CHR ''<'' \<notin> set credential" and "CHR ''>'' \<notin> set credential"
    and "\<not> contains credential ''redacted''"
    and "runner = openai_compatible_runner cfg ask credential \<or> runner = azure_openai_runner cfg ask credential"
  shows "\<exists>r t. ru_run runner session run_input w = (Inr r, t) \<and>
    \<not> contains credential (ar_error r) \<and> ar_status r \<in> {SUCCEEDED, FAILED} \<and>
    (if ar_status r = SUCCEEDED then ar_error r = [] else ar_output_text r = [])"
  using assms(5)
proof
  assume "runner = openai_compatible_runner cfg ask credential"
  then show ?thesis
    by (simp only: openai_compatible_runner_def) (rule provider_run_redacted [OF assms(1-4)])
next
  assume "runner = azure_openai_runner cfg ask credential"
  then show ?thesis
    by (simp only: azure_openai_runner_def) (rule provider_run_redacted [OF assms(1-4)])
qed

definition smoke_session :: agent_session_handle where
  "smoke_session =
     \<lparr>ah_session_id = ''azure-openai-live-smoke'', ah_scope = SCOPE_STAGE, ah_repo_full_name = [], ah_pr_number = 0,
      ah_head_sha = [], ah_trigger = ''live-smoke'', ah_correlation_id = ''azure-openai-live-smoke'',
      ah_provider_session_id = []\<rparr>"

definition leaking_client :: "chat_request \<Rightarrow> (unit, chat_response) act" where
  "leaking_client request = retS \<lparr>cs_output_text = [], cs_error = ''invalid key sk-123''\<rparr>"

theorem credential_redacted_witness:
  "\<exists>r t. ru_run (azure_openai_runner default_agent_runtime leaking_client ''sk-123'')
     smoke_session (smoke_run_input default_agent_runtime) () = (Inr r, t) \<and> \<not> contains ''sk-123'' (ar_error r)"
proof -
  have "\<not> contains ''sk-123'' ''redacted''" by simp
  from credential_redacted [OF _ _ _ this, of "azure_openai_runner default_agent_runtime leaking_client ''sk-123''"
      default_agent_runtime leaking_client smoke_session "smoke_run_input default_agent_runtime" "()"]
  show ?thesis by auto
qed

section \<open>Which runner a worker gets\<close>

lemma degraded_or_supported:
  "hr_status (check_agent_runtime_health cfg env False) = UNSUPPORTED \<longleftrightarrow>
     rg_provider cfg \<noteq> DISABLED \<and> (provider_config_errors cfg env \<noteq> [] \<or> capability_errors cfg \<noteq> [])"
  by (simp add: check_agent_runtime_health_def unsupported_health_def Let_def)

lemma no_credential_errors:
  "credential_errors cfg env = [] \<longleftrightarrow> rg_credential_env_var cfg \<noteq> [] \<and> env_credential cfg env \<noteq> []"
  by (auto simp: credential_errors_def env_credential_def split: option.splits list.splits)

text \<open>Healthy is not the same as available: what the health check refuses no runner is built for;
  of what it accepts, a disabled runtime gets the fake runner and Azure OpenAI a runner on an
  endpoint and a deployment that are configured, with a credential that is set; but for an
  OpenAI-compatible provider, which the check accepts, the worker cannot be built.\<close>

lemma healthy_but_unavailable:
  "(case check_worker_agent_runtime_health cfg env False of
      Inl e \<Rightarrow> exn_class e = AgentRuntimeUnavailableError \<and>
        (\<exists>msg. build_validation_agent_runner fake net cfg env = Inl (Exn UnsupportedAgentRuntimeProviderError msg))
    | Inr health \<Rightarrow>
        (let agent = fg_agent_runtime cfg; credential = env_credential agent env in
         if rg_provider agent = DISABLED then build_validation_agent_runner fake net cfg env = Inr (fake disabled_response)
         else if rg_provider agent = AZURE_OPENAI then
           health_ok health \<and> credential \<noteq> [] \<and> rg_endpoint agent \<noteq> [] \<and> rg_deployment agent \<noteq> [] \<and>
           rg_supports_tool_calling agent \<and> rg_supports_structured_output agent \<and>
           build_validation_agent_runner fake net cfg env =
             Inr (azure_openai_runner agent (azure_complete net credential) credential)
         else health_ok health \<and> rg_provider agent = OPENAI_COMPATIBLE \<and>
           (\<exists>msg. build_validation_agent_runner fake net cfg env = Inl (Exn UnsupportedAgentRuntimeProviderError msg))))"
proof -
  let ?a = "fg_agent_runtime cfg"
  show ?thesis
  proof (cases "hr_status (check_agent_runtime_health ?a env False) = UNSUPPORTED")
    case True
    then have "rg_provider ?a \<noteq> DISABLED" by (simp add: degraded_or_supported)
    with True show ?thesis
      by (simp add: check_worker_agent_runtime_health_def build_validation_agent_runner_def build_agent_runner_def Let_def)
  next
    case False
    then have "rg_provider ?a = DISABLED \<or> provider_config_errors ?a env = [] \<and> capability_errors ?a = []"
      by (auto simp: degraded_or_supported)
    moreover have "rg_provider ?a \<noteq> DISABLED \<Longrightarrow> health_ok (check_agent_runtime_health ?a env False)"
      using False
      by (auto simp: check_agent_runtime_health_def unsupported_health_def health_ok_def Let_def split: if_splits)
    ultimately show ?thesis
      using False
      by (cases "rg_provider ?a")
        (auto simp: check_worker_agent_runtime_health_def build_validation_agent_runner_def build_agent_runner_def
          provider_config_errors_def required_texts_def no_credential_errors capability_errors_def Let_def
          split: if_splits)
  qed
qed

end
