(* ===== verification/Tool_Types.thy ===== *)
theory Tool_Types
  imports Wiring
begin

text \<open>
  The types of what the GitHub tools return. The output of a tool call is an untyped object, and
  the code that uses it checks it with \<open>isinstance\<close> (\<open>src/runtime/orchestrator/tool_context.py\<close> and
  \<open>tool_output.py\<close>). Here every tool gets the type that the protocol \<open>GitHubPRToolClient\<close> gives its
  client operation, and each check is the membership in that type.
\<close>

datatype object_type =
    PRMetaType | FileDiffType | TextType | ActionsJobType | CheckRunType | CommentType | ReviewType
  | TupleOf object_type

fun of_type :: "py_object \<Rightarrow> object_type \<Rightarrow> bool" where
  "of_type (ObjPRMeta m) T = (T = PRMetaType)"
| "of_type (ObjFileDiff f) T = (T = FileDiffType)"
| "of_type (ObjText s) T = (T = TextType)"
| "of_type (ObjActionsJob j) T = (T = ActionsJobType)"
| "of_type (ObjCheckRun c) T = (T = CheckRunType)"
| "of_type (ObjComment c) T = (T = CommentType)"
| "of_type (ObjReview r) T = (T = ReviewType)"
| "of_type (ObjTuple xs) T = (case T of TupleOf U \<Rightarrow> list_all (\<lambda>x. of_type x U) xs | _ \<Rightarrow> False)"
| "of_type (ObjDict d) T = False"
| "of_type ObjNone T = False"

definition tool_types :: "(string \<times> object_type) list" where
  "tool_types =
     [(''github.pr.view'', PRMetaType), (''github.pr.files'', TupleOf FileDiffType), (''github.pr.diff'', TextType),
      (''github.actions.run.jobs'', TupleOf ActionsJobType), (''github.checks.runs_for_ref'', TupleOf CheckRunType),
      (''github.pr.comment.create_or_update'', CommentType), (''github.pr.review.list'', TupleOf ReviewType),
      (''github.pr.review.create'', ReviewType)]"

section \<open>Handlers\<close>

text \<open>A handler has a type when every output it returns has it.\<close>

definition returns :: "(tool_call \<Rightarrow> ('w, py_object) act) \<Rightarrow> object_type \<Rightarrow> bool" where
  "returns handler T \<longleftrightarrow> (\<forall>call w. case handler call w of (Inr x, _) \<Rightarrow> of_type x T | _ \<Rightarrow> True)"

lemma returnsI: "(\<And>call w x w'. handler call w = (Inr x, w') \<Longrightarrow> of_type x T) \<Longrightarrow> returns handler T"
  by (auto simp: returns_def split: prod.splits sum.splits)

lemma returnsD: "returns handler T \<Longrightarrow> handler call w = (Inr x, w') \<Longrightarrow> of_type x T"
  unfolding returns_def by (metis (no_types, lifting) old.prod.case old.sum.simps(6))

lemma tuple_typed: "(\<And>x. of_type (f x) T) \<Longrightarrow> of_type (ObjTuple (map f xs)) (TupleOf T)"
  by (simp add: list_all_iff)

lemma retS_Inr_iff: "retS x s = (Inr y, t) \<longleftrightarrow> x = y \<and> s = t"
  by (auto simp: retS_def)

lemmas handler_defs = get_pull_request_def list_pull_request_files_def get_pull_request_diff_def
  list_workflow_run_jobs_def list_check_runs_for_ref_def create_or_update_comment_def
  list_pull_request_reviews_def create_pull_request_review_def

lemma handlers_typed:
  "returns (get_pull_request c) PRMetaType" "returns (list_pull_request_files c) (TupleOf FileDiffType)"
  "returns (get_pull_request_diff c) TextType" "returns (list_workflow_run_jobs c) (TupleOf ActionsJobType)"
  "returns (list_check_runs_for_ref c) (TupleOf CheckRunType)" "returns (create_or_update_comment c) CommentType"
  "returns (list_pull_request_reviews c) (TupleOf ReviewType)" "returns (create_pull_request_review c) ReviewType"
  by (rule returnsI, auto simp: handler_defs bindS_Inr retS_Inr_iff raiseS_def Let_def list_all_iff split: prod.splits if_splits)+

text \<open>The table of tools matches the table of types.\<close>

lemma table_typed:
  "map_of (named_tools c) name = Some td \<Longrightarrow> \<exists>T. map_of tool_types name = Some T \<and> returns (td_handler td) T"
  by (simp only: named_tools_list tool_types_def map_of.simps fst_conv snd_conv fun_upd_apply)
     (auto simp: github_tool_def handlers_typed split: if_splits)

section \<open>Consumers\<close>

lemma accepted_tuples:
  assumes "\<And>x. as x \<noteq> None \<longleftrightarrow> of_type x T"
  shows "{x. expect_tuple_of name as x \<in> range Inr} = {x. of_type x (TupleOf T)}"
proof (intro set_eqI)
  fix x
  show "x \<in> {x. expect_tuple_of name as x \<in> range Inr} \<longleftrightarrow> x \<in> {x. of_type x (TupleOf T)}"
    by (cases x) (auto simp: expect_tuple_of_def list_all_iff simp flip: assms)
qed

lemma accepted:
  "as_pr_meta x \<noteq> None \<longleftrightarrow> of_type x PRMetaType" "as_str x \<noteq> None \<longleftrightarrow> of_type x TextType"
  "as_file_diff x \<noteq> None \<longleftrightarrow> of_type x FileDiffType" "as_actions_job x \<noteq> None \<longleftrightarrow> of_type x ActionsJobType"
  "as_check_run x \<noteq> None \<longleftrightarrow> of_type x CheckRunType"
  by (cases x; simp split: object_type.splits)+

text \<open>A runtime that answers every call with the same object.\<close>

definition answered :: "py_object \<Rightarrow> tool_call \<Rightarrow> ('s, tool_result) act" where
  "answered x call = retS \<lparr>tr_call = call, tr_ok = True, tr_output = x, tr_error = []\<rparr>"

lemma accepted_outputs:
  "{x. fst (post_comment (answered x) payload cid s) \<in> range Inr} = {x. of_type x CommentType}"
  "{x. fst (create_review (answered x) prepared cid s) \<in> range Inr} = {x. of_type x ReviewType}"
proof -
  have "fst (post_comment (answered x) payload cid s) \<in> range Inr \<longleftrightarrow> of_type x CommentType" for x
    by (cases x) (auto simp: post_comment_def answered_def act_simps require_ok_def)
  moreover have "fst (create_review (answered x) prepared cid s) \<in> range Inr \<longleftrightarrow> of_type x ReviewType" for x
    by (cases x) (auto simp: create_review_def answered_def act_simps require_ok_def)
  ultimately show
    "{x. fst (post_comment (answered x) payload cid s) \<in> range Inr} = {x. of_type x CommentType}"
    "{x. fst (create_review (answered x) prepared cid s) \<in> range Inr} = {x. of_type x ReviewType}"
    by blast+
qed

text \<open>The list of reviews is checked up to the first that matches.\<close>

lemma found_typed: "list_all (\<lambda>x. of_type x ReviewType) xs \<Longrightarrow> \<exists>r. find_review p cid xs = Inr r"
proof (induction xs)
  case (Cons x xs)
  then show ?case by (cases x) simp_all
qed simp

lemma accepted_reviews:
  "{x. of_type x (TupleOf ReviewType)} \<subseteq> {x. fst (find_existing_review (answered x) p cid s) \<in> range Inr}"
  "{x. fst (find_existing_review (answered x) p cid s) \<in> range Inr} \<subseteq> range ObjTuple"
proof -
  have run: "fst (find_existing_review (answered x) p cid s) =
      (case x of ObjTuple xs \<Rightarrow> find_review p cid xs | _ \<Rightarrow> Inl (unexpected_output ''github.pr.review.list''))" for x
    by (cases x) (simp_all add: find_existing_review_def answered_def act_simps require_ok_def)
  show "{x. of_type x (TupleOf ReviewType)} \<subseteq> {x. fst (find_existing_review (answered x) p cid s) \<in> range Inr}"
  proof
    fix x
    assume "x \<in> {x. of_type x (TupleOf ReviewType)}"
    then obtain xs where "x = ObjTuple xs" "list_all (\<lambda>x. of_type x ReviewType) xs" by (cases x) auto
    with found_typed [of xs p cid] show "x \<in> {x. fst (find_existing_review (answered x) p cid s) \<in> range Inr}"
      by (auto simp: run)
  qed
  show "{x. fst (find_existing_review (answered x) p cid s) \<in> range Inr} \<subseteq> range ObjTuple"
  proof
    fix x
    assume "x \<in> {x. fst (find_existing_review (answered x) p cid s) \<in> range Inr}"
    then show "x \<in> range ObjTuple" by (cases x) (auto simp: run)
  qed
qed

section \<open>No check fires\<close>

definition no_type_error :: "('s, 'a) act \<Rightarrow> bool" where
  "no_type_error m \<longleftrightarrow> (\<forall>s. case fst (m s) of Inl e \<Rightarrow> exn_class e \<noteq> TypeError | Inr x \<Rightarrow> True)"

lemma nte_unit: "no_type_error (retS x)" "exn_class e \<noteq> TypeError \<Longrightarrow> no_type_error (raiseS e)"
  "(\<And>e. r = Inl e \<Longrightarrow> exn_class e \<noteq> TypeError) \<Longrightarrow> no_type_error (liftS r)"
  by (auto simp: no_type_error_def act_simps split: sum.split)

lemma nte_bind:
  assumes "no_type_error m" and "\<And>s x t. m s = (Inr x, t) \<Longrightarrow> no_type_error (f x)"
  shows "no_type_error (bindS m f)"
  unfolding no_type_error_def
proof (rule allI)
  fix s
  obtain r t where m: "m s = (r, t)" by fastforce
  show "case fst (bindS m f s) of Inl e \<Rightarrow> exn_class e \<noteq> TypeError | Inr x \<Rightarrow> True"
  proof (cases r)
    case (Inl e)
    have "case fst (m s) of Inl e \<Rightarrow> exn_class e \<noteq> TypeError | Inr x \<Rightarrow> True"
      using assms(1) unfolding no_type_error_def by blast
    with Inl m show ?thesis by (simp add: bindS_def)
  next
    case (Inr x)
    from assms(2) [OF m [unfolded Inr]] have "case fst (f x t) of Inl e \<Rightarrow> exn_class e \<noteq> TypeError | Inr x \<Rightarrow> True"
      unfolding no_type_error_def by blast
    with Inr m show ?thesis by (simp add: bindS_def)
  qed
qed

text \<open>A call of a wired tool: its result is typed when it is a success.\<close>

lemma wired_outcome:
  "case execute (build_github_tool_runtime client) call s of
      (Inr r, t) \<Rightarrow>
        if tr_ok r then \<exists>T. map_of tool_types (tc_name call) = Some T \<and> of_type (tr_output r) T
        else tr_output r = ObjNone
    | (Inl e, t) \<Rightarrow> exn_class e = ToolNotFoundError \<or> exn_class e = ToolPolicyError"
  by (auto simp: execute_def wired_named check_policy_def Let_def dest!: table_typed dest: returnsD
      split: option.splits sum.splits prod.splits if_splits)

lemma nte_execute: "no_type_error (execute (build_github_tool_runtime client) call)"
  unfolding no_type_error_def
proof (rule allI)
  fix s
  obtain r t where r: "execute (build_github_tool_runtime client) call s = (r, t)" by fastforce
  from wired_outcome [where client = client and call = call and s = s]
  show "case fst (execute (build_github_tool_runtime client) call s) of Inl e \<Rightarrow> exn_class e \<noteq> TypeError | Inr x \<Rightarrow> True"
    unfolding r by (cases r) auto
qed

lemma nte_call:
  assumes "map_of tool_types (tc_name call) = Some T"
    and "\<And>r. (if tr_ok r then of_type (tr_output r) T else tr_output r = ObjNone) \<Longrightarrow> no_type_error (f r)"
  shows "no_type_error (bindS (execute (build_github_tool_runtime client) call) f)"
proof (rule nte_bind [OF nte_execute])
  fix s r t
  assume "execute (build_github_tool_runtime client) call s = (Inr r, t)"
  with wired_outcome [where client = client and call = call and s = s] assms(1) show "no_type_error (f r)" by (intro assms(2)) auto
qed

lemma nte_required:
  assumes "if tr_ok r then of_type (tr_output r) T else tr_output r = ObjNone"
    and "\<And>x. of_type x T \<Longrightarrow> no_type_error (f x)"
  shows "no_type_error (bindS (liftS (require_ok fallback r)) f)"
  using assms by (intro nte_bind nte_unit(3)) (auto simp: require_ok_def liftS_def split: if_splits)

lemma nte_expected:
  assumes "if tr_ok r then of_type (tr_output r) T else tr_output r = ObjNone"
    and "\<And>x. of_type x T \<Longrightarrow> \<exists>y. as x = Some y \<and> no_type_error (f y)"
  shows "no_type_error (bindS (liftS (expect_output as r)) f)"
proof (rule nte_bind)
  show "no_type_error (liftS (expect_output as r))"
    using assms by (intro nte_unit(3)) (fastforce simp: expect_output_def split: if_splits option.splits)
  fix s x t
  assume "liftS (expect_output as r) s = (Inr x, t)"
  with assms show "no_type_error (f x)" by (fastforce simp: expect_output_def liftS_def split: if_splits option.splits)
qed

lemma typed_tuple:
  assumes "\<And>x. as x \<noteq> None \<longleftrightarrow> of_type x T" and "of_type x (TupleOf T)"
  shows "\<exists>ys. expect_tuple_of name as x = Inr ys"
  using accepted_tuples [of as T name, OF assms(1)] assms(2) by auto

lemma head_typed:
  "of_type x PRMetaType \<Longrightarrow> (\<And>h. no_type_error (f h)) \<Longrightarrow> no_type_error (bindS (liftS (head_sha_from_output x)) f)"
  by (cases x) (auto intro!: nte_bind nte_unit)

lemma posters_typed:
  "no_type_error (post_comment (execute (build_github_tool_runtime client)) payload cid)"
  "no_type_error (create_review (execute (build_github_tool_runtime client)) prepared cid)"
  "no_type_error (ensure_current_head (execute (build_github_tool_runtime client)) prepared cid)"
  "no_type_error (find_existing_review (execute (build_github_tool_runtime client)) prepared cid)"
proof -
  show "no_type_error (post_comment (execute (build_github_tool_runtime client)) payload cid)"
    unfolding post_comment_def
    by (rule nte_call [where T = CommentType], simp add: comment_call_def output_call_def tool_types_def,
        erule nte_required, erule of_type.elims; simp add: nte_unit split: object_type.splits)
  show "no_type_error (create_review (execute (build_github_tool_runtime client)) prepared cid)"
    unfolding create_review_def
    by (rule nte_call [where T = ReviewType], simp add: review_call_def output_call_def tool_types_def,
        erule nte_required, erule of_type.elims; simp add: nte_unit split: object_type.splits)
  show "no_type_error (ensure_current_head (execute (build_github_tool_runtime client)) prepared cid)"
    unfolding ensure_current_head_def
    by (rule nte_call [where T = PRMetaType], simp add: view_call_def output_call_def tool_types_def,
        erule nte_required, erule head_typed) (simp add: nte_unit)
  show "no_type_error (find_existing_review (execute (build_github_tool_runtime client)) prepared cid)"
    unfolding find_existing_review_def
  proof (rule nte_call [where T = "TupleOf ReviewType"])
    show "map_of tool_types (tc_name (output_call ''github.pr.review.list'' (pr_input prepared) cid)) = Some (TupleOf ReviewType)"
      by (simp add: output_call_def tool_types_def)
  next
    fix r :: tool_result
    assume "if tr_ok r then of_type (tr_output r) (TupleOf ReviewType) else tr_output r = ObjNone"
    then show "no_type_error (bindS (liftS (require_ok ''github.pr.review.list failed'' r)) (\<lambda>output.
        case output of ObjTuple xs \<Rightarrow> liftS (find_review prepared cid xs)
        | _ \<Rightarrow> raiseS (unexpected_output ''github.pr.review.list'')))"
    proof (rule nte_required)
      fix x
      assume "of_type x (TupleOf ReviewType)"
      then obtain xs where "x = ObjTuple xs" "list_all (\<lambda>x. of_type x ReviewType) xs" by (cases x) auto
      with found_typed [of xs prepared cid] show "no_type_error (case x of ObjTuple xs \<Rightarrow> liftS (find_review prepared cid xs)
        | _ \<Rightarrow> raiseS (unexpected_output ''github.pr.review.list''))"
        by (auto intro: nte_unit)
    qed
  qed
qed

lemma typed_items: "of_type x (TupleOf T) \<Longrightarrow> \<exists>xs. as_tuple x = Some xs"
  by (cases x) simp_all

lemma nte_tuple:
  assumes "\<And>x. as x \<noteq> None \<longleftrightarrow> of_type x T" and "of_type x (TupleOf T)" and "\<And>ys. no_type_error (f ys)"
  shows "no_type_error (bindS (liftS (expect_tuple_of name as x)) f)"
proof -
  obtain ys where "expect_tuple_of name as x = Inr ys" using typed_tuple [OF assms(1,2)] by blast
  then show ?thesis by (auto intro!: nte_bind nte_unit assms(3))
qed

lemma providers_typed:
  "no_type_error (load_pr_context (execute (build_github_tool_runtime client)) event)"
  "no_type_error (load_checks (execute (build_github_tool_runtime client)) repo sha cid)"
proof -
  let ?run = "execute (build_github_tool_runtime client)"
  have names: "map_of tool_types (tc_name (event_call ''github.pr.view'' event)) = Some PRMetaType"
    "map_of tool_types (tc_name (event_call ''github.pr.files'' event)) = Some (TupleOf FileDiffType)"
    "map_of tool_types (tc_name (event_call ''github.pr.diff'' event)) = Some TextType"
    "map_of tool_types (tc_name (context_call ''github.checks.runs_for_ref'' input cid)) = Some (TupleOf CheckRunType)" for input
    by (simp_all add: event_call_def context_call_def tool_types_def)
  have diff: "no_type_error (bindS (?run (event_call ''github.pr.diff'' event)) (\<lambda>diff.
      bindS (liftS (expect_output as_str diff)) (\<lambda>unified_diff. retS (g unified_diff))))" for g :: "string \<Rightarrow> 'b"
    using accepted(2) by (intro nte_call [OF names(3)], elim nte_expected) (fastforce intro: nte_unit)
  have files: "no_type_error (bindS (?run (event_call ''github.pr.files'' event)) (\<lambda>listed.
      bindS (liftS (expect_output (\<lambda>x. map_option ObjTuple (as_tuple x)) listed)) (\<lambda>items.
      bindS (liftS (expect_file_tuple items)) f)))" if "\<And>fs. no_type_error (f fs)"
    for f :: "file_diff list \<Rightarrow> ('a runtime_state, 'b) act"
  proof (rule nte_call [OF names(2)], elim nte_expected)
    fix x
    assume x: "of_type x (TupleOf FileDiffType)"
    then obtain xs where "x = ObjTuple xs" by (cases x) simp_all
    with x show "\<exists>y. map_option ObjTuple (as_tuple x) = Some y \<and>
        no_type_error (bindS (liftS (expect_file_tuple y)) f)"
      unfolding expect_file_tuple_def using nte_tuple [OF accepted(3) x that] by simp
  qed
  show "no_type_error (load_pr_context ?run event)"
    unfolding load_pr_context_def
    using accepted(1) by (intro nte_call [OF names(1)], elim nte_expected) (fastforce intro: files diff)
  show "no_type_error (load_checks ?run repo sha cid)"
    unfolding load_checks_def expect_check_run_tuple_def
    by (intro nte_call [OF names(4)], elim nte_required) (rule nte_tuple [OF accepted(5)], assumption, rule nte_unit)
qed

text \<open>The CI provider reads the output without a look at the outcome: there a failed call is a type error.\<close>

lemma ci_provider_typed:
  "case load_ci_context (execute (build_github_tool_runtime client)) event s of
     (Inl e, t) \<Rightarrow>
       if exn_class e = TypeError
       then \<exists>n r. ci_run_id event = Some n \<and>
         execute (build_github_tool_runtime client) (jobs_call event n) s = (Inr r, t) \<and> \<not> tr_ok r
       else True
   | (Inr e, t) \<Rightarrow> True"
proof (cases "\<exists>k n. ci_pr_number event = Some k \<and> ci_failed_jobs event = [] \<and> ci_run_id event = Some n")
  case True
  then obtain k n where e: "ci_pr_number event = Some k" "ci_failed_jobs event = []" "ci_run_id event = Some n" by blast
  obtain x t where run: "execute (build_github_tool_runtime client) (jobs_call event n) s = (x, t)" by fastforce
  note out = wired_outcome [where client = client and call = "jobs_call event n" and s = s, unfolded run]
  show ?thesis
  proof (cases x)
    case (Inl exc)
    with out run e show ?thesis by (auto simp: load_ci_context_def act_simps)
  next
    case (Inr r)
    show ?thesis
    proof (cases "tr_ok r")
      case True
      with out Inr have "of_type (tr_output r) (TupleOf ActionsJobType)"
        by (simp add: jobs_call_def context_call_def tool_types_def)
      from typed_tuple [OF accepted(4) this, of "''github.actions.run.jobs''"] obtain ys
        where "expect_actions_job_tuple (tr_output r) = Inr ys" unfolding expect_actions_job_tuple_def by blast
      with Inr run e show ?thesis by (simp add: load_ci_context_def act_simps Let_def)
    next
      case False
      with Inr run e show ?thesis
        by (auto simp: load_ci_context_def act_simps Let_def split: sum.split)
    qed
  qed
next
  case False
  then have "load_ci_context (execute (build_github_tool_runtime client)) event s = (Inr event, s)"
    by (auto simp: load_ci_context_def act_simps split: option.split list.split)
  then show ?thesis by simp
qed

text \<open>C40. The wired tools are well typed. A call that succeeds returns an object of the type of its tool, a
  call that fails returns \<open>None\<close>. The type checks of the code that uses the tools never fire: loading
  the context and the checks of a pull request, posting a comment, creating a review, checking the
  head and looking for an existing review raise no \<open>TypeError\<close>; loading the jobs of a CI run
  raises one only when its call failed. And the checks are no laxer than that: whatever a runtime
  returns, each accepts exactly the objects of its type (the head check also a dictionary), save
  that the list of reviews, which must be a tuple, is checked up to the review looked for.\<close>

theorem tool_outputs_typed:
  "(case execute (build_github_tool_runtime client) call s of
      (Inr r, t) \<Rightarrow>
        if tr_ok r then \<exists>T. map_of tool_types (tc_name call) = Some T \<and> of_type (tr_output r) T
        else tr_output r = ObjNone
    | (Inl e, t) \<Rightarrow> exn_class e = ToolNotFoundError \<or> exn_class e = ToolPolicyError) \<and>
   no_type_error (load_pr_context (execute (build_github_tool_runtime client)) event) \<and>
   no_type_error (load_checks (execute (build_github_tool_runtime client)) repo sha cid) \<and>
   no_type_error (post_comment (execute (build_github_tool_runtime client)) payload cid) \<and>
   no_type_error (create_review (execute (build_github_tool_runtime client)) prepared cid) \<and>
   no_type_error (ensure_current_head (execute (build_github_tool_runtime client)) prepared cid) \<and>
   no_type_error (find_existing_review (execute (build_github_tool_runtime client)) prepared cid) \<and>
   (case load_ci_context (execute (build_github_tool_runtime client)) ci s of
      (Inl e, t) \<Rightarrow>
        if exn_class e = TypeError
        then \<exists>n r. ci_run_id ci = Some n \<and>
          execute (build_github_tool_runtime client) (jobs_call ci n) s = (Inr r, t) \<and> \<not> tr_ok r
        else True
    | (Inr e, t) \<Rightarrow> True) \<and>
   {x. as_pr_meta x \<noteq> None} = {x. of_type x PRMetaType} \<and>
   {x. expect_file_tuple x \<in> range Inr} = {x. of_type x (TupleOf FileDiffType)} \<and>
   {x. as_str x \<noteq> None} = {x. of_type x TextType} \<and>
   {x. expect_actions_job_tuple x \<in> range Inr} = {x. of_type x (TupleOf ActionsJobType)} \<and>
   {x. expect_check_run_tuple x \<in> range Inr} = {x. of_type x (TupleOf CheckRunType)} \<and>
   {x. head_sha_from_output x \<in> range Inr} = {x. of_type x PRMetaType} \<union> range ObjDict \<and>
   {x. fst (post_comment (answered x) payload cid w) \<in> range Inr} = {x. of_type x CommentType} \<and>
   {x. fst (create_review (answered x) prepared cid w) \<in> range Inr} = {x. of_type x ReviewType} \<and>
   {x. of_type x (TupleOf ReviewType)} \<subseteq> {x. fst (find_existing_review (answered x) prepared cid w) \<in> range Inr} \<and>
   {x. fst (find_existing_review (answered x) prepared cid w) \<in> range Inr} \<subseteq> range ObjTuple"
proof (intro conjI)
  show "{x. expect_file_tuple x \<in> range Inr} = {x. of_type x (TupleOf FileDiffType)}"
    "{x. expect_actions_job_tuple x \<in> range Inr} = {x. of_type x (TupleOf ActionsJobType)}"
    "{x. expect_check_run_tuple x \<in> range Inr} = {x. of_type x (TupleOf CheckRunType)}"
    unfolding expect_file_tuple_def expect_actions_job_tuple_def expect_check_run_tuple_def
    by (rule accepted_tuples, rule accepted)+
  show "{x. head_sha_from_output x \<in> range Inr} = {x. of_type x PRMetaType} \<union> range ObjDict"
    by (intro set_eqI, rename_tac x, case_tac x) (auto split: object_type.splits)
qed (rule wired_outcome providers_typed posters_typed ci_provider_typed accepted_outputs accepted_reviews
    | simp only: accepted)+

end
