(* ===== verification/Logging.thy ===== *)
theory Logging
  imports Wire_Text Worker
begin

text \<open>
  The structured log of \<open>src/shared/logging.py\<close> and the correlation id of \<open>src/shared/tracing.py\<close>: the two
  formats of a record, the set-up of the root logger with what it leaves behind when it fails, and
  the fields of a JSON line. A record comes with its time and, if it has one, the text of its
  exception, which the standard library makes.
\<close>

section \<open>Records\<close>

record log_record =
  lg_level :: string
  lg_name :: string
  lg_message :: string
  lg_exception :: "string option"
  lg_extra :: "json dict"

definition get_logger :: "string \<Rightarrow> string" where
  "get_logger name = ''qaestro.'' @ name"

text \<open>The fields of \<open>extra\<close> that reach a JSON line.\<close>

definition extra_keys :: "string list" where
  "extra_keys =
     [''agent_runtime_provider'', ''agent_runtime_status'', ''agent_runtime_warnings'', ''attempts'', ''correlation_id'',
      ''delivery_id'', ''error'', ''event_type'', ''job_type'', ''module_name'']"

definition extra_fields :: "json dict \<Rightarrow> json dict" where
  "extra_fields extra =
     concat (map (\<lambda>key. case map_of extra key of
                    Some v \<Rightarrow> if v = JNull then [] else [(key, v)] | None \<Rightarrow> []) extra_keys)"

definition base_fields :: "string \<Rightarrow> log_record \<Rightarrow> json dict" where
  "base_fields ts r =
     [(''ts'', JStr ts), (''level'', JStr (lg_level r)), (''logger'', JStr (lg_name r)), (''msg'', JStr (lg_message r))] @
     (case lg_exception r of None \<Rightarrow> [] | Some e \<Rightarrow> [(''exception'', JStr e)])"

definition log_payload :: "string \<Rightarrow> log_record \<Rightarrow> json dict" where
  "log_payload ts r = base_fields ts r @ extra_fields (lg_extra r)"

definition json_format :: "string \<Rightarrow> log_record \<Rightarrow> string" where
  "json_format ts r = dumps_ascii (JObj (log_payload ts r))"

text \<open>\<open>%-8s\<close>: padded on the right to a number of characters.\<close>

definition pad_right :: "nat \<Rightarrow> string \<Rightarrow> string" where
  "pad_right n s = s @ replicate (n - cp_length s) (CHR '' '')"

definition text_format :: "string \<Rightarrow> log_record \<Rightarrow> string" where
  "text_format asctime r =
     (let s = asctime @ ''  '' @ pad_right 8 (lg_level r) @ ''  '' @ pad_right 24 (lg_name r) @ ''  '' @ lg_message r
      in case lg_exception r of
           None \<Rightarrow> s
         | Some e \<Rightarrow> if s \<noteq> [] \<and> last s = CHR 0x0A then s @ e else s @ CHR 0x0A # e)"

section \<open>Set-up\<close>

datatype log_formatter = JsonFormatter | TextFormatter

record root_logger =
  rh_handlers :: "log_formatter list"
  rh_level :: int

text \<open>The root logger of a process that has not configured logging.\<close>

definition initial_root :: root_logger where
  "initial_root = \<lparr>rh_handlers = [], rh_level = 30\<rparr>"

text \<open>The integers among the attributes of the module \<open>logging\<close> that are written in capitals.\<close>

definition level_numbers :: "(string \<times> int) list" where
  "level_numbers =
     [(''CRITICAL'', 50), (''FATAL'', 50), (''ERROR'', 40), (''WARNING'', 30), (''WARN'', 30), (''INFO'', 20),
      (''DEBUG'', 10), (''NOTSET'', 0)]"

definition setup_logging :: "string \<Rightarrow> string \<Rightarrow> (root_logger, unit) act" where
  "setup_logging level fmt before =
     (let cleared = before\<lparr>rh_handlers := []\<rparr> in
      if fmt \<notin> {''json'', ''text''} then
        (Inl (Exn ValueError (''Unsupported log format '' @ repr_str fmt @ '', expected one of ('' @ repr_str ''json'' @
           '', '' @ repr_str ''text'' @ '')'')), cleared)
      else
        (let handled = cleared\<lparr>rh_handlers := [if fmt = ''json'' then JsonFormatter else TextFormatter]\<rparr> in
         case map_of level_numbers (upper level) of
           None \<Rightarrow> (Inl (Exn ValueError (''Invalid log level '' @ repr_str level)), handled)
         | Some n \<Rightarrow> (Inr (), handled\<lparr>rh_level := n\<rparr>)))"

text \<open>What a record adds to the output: a line of each handler, when its level is not below the root's.\<close>

definition log_lines :: "root_logger \<Rightarrow> string \<Rightarrow> log_record \<Rightarrow> string list" where
  "log_lines logger ts r =
     (case map_of level_numbers (lg_level r) of
        Some n \<Rightarrow>
          if rh_level logger \<le> n
          then map (\<lambda>f. case f of JsonFormatter \<Rightarrow> json_format ts r | TextFormatter \<Rightarrow> text_format ts r) (rh_handlers logger)
          else []
      | None \<Rightarrow> [])"

section \<open>Correlation\<close>

text \<open>The context variable, and the first 16 digits of a new UUID as its value.\<close>

definition new_correlation_id :: "string \<Rightarrow> (string, string) act" where
  "new_correlation_id uuid_hex cid = (Inr (take 16 uuid_hex), take 16 uuid_hex)"

definition get_correlation_id :: "(string, string) act" where
  "get_correlation_id cid = (Inr cid, cid)"

definition set_correlation_id :: "string \<Rightarrow> (string, unit) act" where
  "set_correlation_id new cid = (Inr (), new)"

section \<open>What a line shows\<close>

definition worker_failure :: "string queued_job \<Rightarrow> worker_execution \<Rightarrow> log_record" where
  "worker_failure job execution =
     \<lparr>lg_level = ''ERROR'', lg_name = get_logger ''src.app.worker.runner'', lg_message = ''worker job failed'',
      lg_exception = None, lg_extra = failed_job_log job execution\<rparr>"

lemma distinct_extra_keys: "distinct extra_keys"
  by (simp add: extra_keys_def)

lemma extra_fields_lookup:
  "map_of (extra_fields extra) key =
     (if key \<in> set extra_keys then (case map_of extra key of Some v \<Rightarrow> if v = JNull then None else Some v | None \<Rightarrow> None)
      else None)"
proof -
  have "map_of (concat (map (\<lambda>k. case map_of extra k of
            Some v \<Rightarrow> if v = JNull then [] else [(k, v)] | None \<Rightarrow> []) ks)) key =
      (if key \<in> set ks then (case map_of extra key of Some v \<Rightarrow> if v = JNull then None else Some v | None \<Rightarrow> None)
       else None)" for ks
    by (induction ks) (auto split: option.splits)
  then show ?thesis by (simp add: extra_fields_def)
qed

lemma extra_fields_keys: "map fst (extra_fields extra) =
    filter (\<lambda>k. case map_of extra k of Some v \<Rightarrow> v \<noteq> JNull | None \<Rightarrow> False) extra_keys"
proof -
  have "map fst (concat (map (\<lambda>k. case map_of extra k of
            Some v \<Rightarrow> if v = JNull then [] else [(k, v)] | None \<Rightarrow> []) ks)) =
      filter (\<lambda>k. case map_of extra k of Some v \<Rightarrow> v \<noteq> JNull | None \<Rightarrow> False) ks" for ks
    by (induction ks) (auto split: option.splits)
  then show ?thesis by (simp add: extra_fields_def)
qed

lemma base_fields_keys: "distinct (map fst (base_fields ts r)) \<and> fst ` set (base_fields ts r) \<inter> set extra_keys = {}"
  by (auto simp: base_fields_def extra_keys_def split: option.split)

lemma payload_keys: "distinct (map fst (log_payload ts r))"
proof -
  have "set (map fst (extra_fields (lg_extra r))) \<subseteq> set extra_keys" "distinct (map fst (extra_fields (lg_extra r)))"
    unfolding extra_fields_keys using distinct_extra_keys by auto
  then show ?thesis using base_fields_keys [of ts r] unfolding log_payload_def map_append distinct_append by auto
qed

lemma ascii_text: "printable_ascii s \<Longrightarrow> utf8_text s"
  by (induction s) (auto simp: utf8_text_def printable_Cons)

definition record_ok :: "string \<Rightarrow> log_record \<Rightarrow> bool" where
  "record_ok ts r \<longleftrightarrow>
     list_all utf8_text ([ts, lg_level r, lg_name r, lg_message r] @ (case lg_exception r of None \<Rightarrow> [] | Some e \<Rightarrow> [e])) \<and>
     list_all (\<lambda>(k, v). writable utf8_text v) (lg_extra r)"

lemma extra_fields_ok:
  assumes "list_all (\<lambda>(k, v). writable utf8_text v) extra"
  shows "list_all (\<lambda>(k, v). utf8_text k \<and> writable utf8_text v) (extra_fields extra)"
proof -
  have names: "list_all utf8_text extra_keys"
    by (simp add: extra_keys_def ascii_text printable_Cons)
  have "writable utf8_text v" if "map_of extra k = Some v" for k v
    using assms map_of_SomeD [OF that] by (auto simp: list_all_iff)
  with names show ?thesis by (fastforce simp: extra_fields_def list_all_iff split: option.splits if_splits)
qed

lemma payload_writable: "record_ok ts r \<Longrightarrow> writable utf8_text (JObj (log_payload ts r))"
  using payload_keys [of ts r] extra_fields_ok [of "lg_extra r"]
  by (auto simp: record_ok_def log_payload_def base_fields_def ascii_text printable_Cons split: option.splits)

text \<open>What the line of a record has under a name.\<close>

definition shown_field :: "string \<Rightarrow> log_record \<Rightarrow> string \<Rightarrow> json option" where
  "shown_field ts r key =
     (if key = ''ts'' then Some (JStr ts)
      else if key = ''level'' then Some (JStr (lg_level r))
      else if key = ''logger'' then Some (JStr (lg_name r))
      else if key = ''msg'' then Some (JStr (lg_message r))
      else if key = ''exception'' then map_option JStr (lg_exception r)
      else if key \<in> {''agent_runtime_provider'', ''agent_runtime_status'', ''agent_runtime_warnings'', ''attempts'',
          ''correlation_id'', ''delivery_id'', ''error'', ''event_type'', ''job_type'', ''module_name''}
      then Option.bind (map_of (lg_extra r) key) (\<lambda>v. if v = JNull then None else Some v)
      else None)"

lemma base_shown: "key \<notin> set extra_keys \<Longrightarrow> map_of (base_fields ts r) key = shown_field ts r key"
  by (cases "lg_exception r") (simp_all add: base_fields_def shown_field_def extra_keys_def)

lemma extra_shown:
  "key \<in> set extra_keys \<Longrightarrow>
     shown_field ts r key = Option.bind (map_of (lg_extra r) key) (\<lambda>v. if v = JNull then None else Some v)"
  by (auto simp: shown_field_def extra_keys_def)

text \<open>C38. A line of the JSON log is one line and reads back as the record: for a record of UTF-8 texts whose
  extra fields are JSON values, it has no line break, whatever message, error or exception holds,
  and parsed it is an object with ts, level, logger and msg, the exception if there is one, and
  those of the extra fields agent_runtime_provider, agent_runtime_status, agent_runtime_warnings,
  attempts, correlation_id, delivery_id, error, event_type, job_type and module_name that are there
  and not \<open>None\<close>; any other extra field is dropped.\<close>

theorem log_line_fields:
  assumes "record_ok ts r"
  shows "printable_ascii (json_format ts r) \<and>
    (\<exists>d. loads (json_format ts r) = Inr (JObj d) \<and> map_of d = shown_field ts r)"
proof -
  have ok: "writable utf8_text (JObj (log_payload ts r))" using assms by (rule payload_writable)
  have base: "map_of (base_fields ts r) key = None" if "key \<in> set extra_keys" for key
    using base_fields_keys [of ts r] that by (auto simp: map_of_eq_None_iff)
  have "map_of (log_payload ts r) key = shown_field ts r key" for key
    using base [of key] base_shown [of key ts r] extra_shown [of key ts r]
    by (cases "key \<in> set extra_keys") (auto simp: log_payload_def map_add_def extra_fields_lookup split: option.split)
  then have "map_of (log_payload ts r) = shown_field ts r" by (rule ext)
  then show ?thesis
    unfolding json_format_def using loads_dumps_ascii [OF ok] printable_dumps [OF ok] by (auto simp: dumps_ascii_eq)
qed

definition sample_failure :: log_record where
  "sample_failure =
     \<lparr>lg_level = ''ERROR'', lg_name = get_logger ''src.app.worker.runner'', lg_message = ''worker job failed'',
      lg_exception = None, lg_extra = [(''attempts'', JInt 3), (''error'', JStr [CHR 0x22, CHR 0x0A]), (''job_count'', JInt 7)]\<rparr>"

lemma log_line_fields_witness:
  "printable_ascii (json_format ''now'' sample_failure) \<and>
    (\<exists>d. loads (json_format ''now'' sample_failure) = Inr (JObj d) \<and> map_of d ''level'' = Some (JStr ''ERROR'') \<and>
       map_of d ''msg'' = Some (JStr ''worker job failed'') \<and> map_of d ''attempts'' = Some (JInt 3) \<and>
       map_of d ''error'' = Some (JStr [CHR 0x22, CHR 0x0A]) \<and> map_of d ''job_count'' = None)"
proof -
  have "record_ok ''now'' sample_failure" by (simp add: record_ok_def sample_failure_def get_logger_def utf8_text_def)
  from log_line_fields [OF this] show ?thesis
    by (fastforce simp: shown_field_def sample_failure_def)
qed

text \<open>All five fields of a failed job reach the line.\<close>

lemma failure_shown:
  "map_of (extra_fields (failed_job_log job execution)) key = map_of (failed_job_log job execution) key"
  by (auto simp: extra_fields_lookup failed_job_log_def extra_keys_def)

end
