(* ===== verification/Startup.thy ===== *)
theory Startup
  imports Logging Providers Redis_Facts Gateway_Facts
begin

text \<open>
  How the processes start: \<open>build_worker\<close> of \<open>src/app/worker/factory.py\<close> with everything it wires, and the two
  entry points \<open>src/app/worker/entrypoint.py\<close> and \<open>src/app/gateway/entrypoint.py\<close> up to the loop they end
  in; and the texts of a configuration (\<open>__repr__\<close> in \<open>src/shared/config.py\<close>).
\<close>

section \<open>Texts of the configuration\<close>

definition repr_bool :: "bool \<Rightarrow> string" where
  "repr_bool b = (if b then ''True'' else ''False'')"

fun provider_name :: "agent_runtime_provider \<Rightarrow> string" where
  "provider_name DISABLED = ''DISABLED''"
| "provider_name AZURE_OPENAI = ''AZURE_OPENAI''"
| "provider_name GITHUB_COPILOT = ''GITHUB_COPILOT''"
| "provider_name OPENAI_COMPATIBLE = ''OPENAI_COMPATIBLE''"

text \<open>A name and its value in the text; the value of a secret is replaced when there is one.\<close>

definition named :: "string \<Rightarrow> string \<Rightarrow> string" where
  "named name value = name @ ''='' @ value"

definition redacted :: "string \<Rightarrow> string" where
  "redacted secret = (if secret = [] then [] else ''<redacted>'')"

text \<open>\<open>AgentRuntimeConfig.__repr__\<close>; \<open>show_float\<close> is \<open>repr\<close> of a float.\<close>

definition agent_config_repr :: "(py_float \<Rightarrow> string) \<Rightarrow> agent_runtime_config \<Rightarrow> string" where
  "agent_config_repr show_float c =
     ''AgentRuntimeConfig('' @ join '', ''
       [named ''provider'' (''<AgentRuntimeProvider.'' @ provider_name (rg_provider c) @ '': '' @
          repr_str (provider_value (rg_provider c)) @ ''>''),
        named ''model'' (repr_str (rg_model c)), named ''deployment'' (repr_str (rg_deployment c)),
        named ''endpoint'' (repr_str (rg_endpoint c)), named ''base_url'' (repr_str (rg_base_url c)),
        named ''api_version'' (repr_str (rg_api_version c)),
        named ''credential_env_var'' (redacted (rg_credential_env_var c)),
        named ''timeout_seconds'' (show_float (rg_timeout_seconds c)), named ''max_turns'' (show_int (rg_max_turns c)),
        named ''max_tool_calls'' (show_int (rg_max_tool_calls c)), named ''temperature'' (show_float (rg_temperature c)),
        named ''supports_tool_calling'' (repr_bool (rg_supports_tool_calling c)),
        named ''supports_structured_output'' (repr_bool (rg_supports_structured_output c)),
        named ''context_window_tokens'' (show_int (rg_context_window_tokens c))] @ '')''"

definition features_repr :: "bool dict \<Rightarrow> string" where
  "features_repr d = CHR 0x7B # join '', '' (map (\<lambda>(k, b). repr_str k @ '': '' @ repr_bool b) d) @ [CHR 0x7D]"

definition app_config_repr :: "(py_float \<Rightarrow> string) \<Rightarrow> app_config \<Rightarrow> string" where
  "app_config_repr show_float c =
     ''AppConfig('' @ join '', ''
       [named ''env'' (repr_str (fg_env c)), named ''debug'' (repr_bool (fg_debug c)),
        named ''log_level'' (repr_str (fg_log_level c)), named ''log_format'' (repr_str (fg_log_format c)),
        named ''gateway_host'' (repr_str (fg_gateway_host c)), named ''gateway_port'' (show_int (fg_gateway_port c)),
        named ''github_webhook_secret'' (redacted (fg_github_webhook_secret c)),
        named ''github_app_id'' (show_int (fg_github_app_id c)),
        named ''github_app_installation_id'' (show_int (fg_github_app_installation_id c)),
        named ''github_app_private_key_path'' (repr_str (fg_github_app_private_key_path c)),
        named ''worker_concurrency'' (show_int (fg_worker_concurrency c)),
        named ''queue_backend'' (repr_str (fg_queue_backend c)), named ''redis_url'' (repr_str (fg_redis_url c)),
        named ''redis_stream'' (repr_str (fg_redis_stream c)),
        named ''redis_consumer_group'' (repr_str (fg_redis_consumer_group c)),
        named ''redis_consumer'' (repr_str (fg_redis_consumer c)),
        named ''redis_read_block_ms'' (show_int (fg_redis_read_block_ms c)),
        named ''redis_claim_idle_ms'' (show_int (fg_redis_claim_idle_ms c)),
        named ''agent_runtime'' (agent_config_repr show_float (fg_agent_runtime c)),
        named ''features'' (features_repr (fg_features c))] @ '')''"

text \<open>The text of a configuration does not depend on what its secrets are: two configurations that
  differ only in the webhook secret, or only in the name of the variable of the provider's
  credential, are written alike. The address of the Redis server is not among the secrets: it is
  written as it is, with the password it may carry.\<close>

lemma config_text_secrets:
  "app_config_repr f (c\<lparr>fg_github_webhook_secret := a # s\<rparr>) = app_config_repr f (c\<lparr>fg_github_webhook_secret := b # t\<rparr>) \<and>
   app_config_repr f (c\<lparr>fg_agent_runtime := (fg_agent_runtime c)\<lparr>rg_credential_env_var := a # s\<rparr>\<rparr>) =
     app_config_repr f (c\<lparr>fg_agent_runtime := (fg_agent_runtime c)\<lparr>rg_credential_env_var := b # t\<rparr>\<rparr>) \<and>
   contains (named ''redis_url'' (repr_str (fg_redis_url c))) (app_config_repr f c)"
proof (intro conjI)
  show "contains (named ''redis_url'' (repr_str (fg_redis_url c))) (app_config_repr f c)"
    unfolding app_config_repr_def by (intro contains_appendI1 contains_appendI2 contains_join) simp
qed (simp_all add: app_config_repr_def agent_config_repr_def redacted_def)

section \<open>The worker of a configuration\<close>

text \<open>
  What \<open>build_worker\<close> takes from outside: the network of the client with its clock and JWT library, the
  key file, the network of Azure OpenAI, the texts of the prompts, the clock of the validator and
  the guard of a time limit, which a worker built here does not use. The runner of a disabled
  provider keeps its lists beside that world: the state of the wired worker holds both.
\<close>

type_synonym 'n wired_state = "('n \<times> fake_state) auth_state"

record 'n outside =
  ox_network :: "'n network"
  ox_read_text :: "string \<Rightarrow> string res"
  ox_azure :: "'n azure_network"
  ox_prompt_dir :: string
  ox_prompt_text :: "string \<Rightarrow> string option"
  ox_clock :: "'n \<Rightarrow> rat"
  ox_timed :: "rat \<Rightarrow> ('n wired_state durable_state, workflow_result) act \<Rightarrow> ('n wired_state durable_state, workflow_result) act"

definition on_outside :: "('n, 'a) act \<Rightarrow> ('n \<times> 'f, 'a) act" where
  "on_outside m s = (case m (fst s) of (x, n) \<Rightarrow> (x, (n, snd s)))"

definition on_fake :: "(fake_state, 'a) act \<Rightarrow> ('n wired_state, 'a) act" where
  "on_fake m = on_network (\<lambda>s. case m (snd s) of (x, f) \<Rightarrow> (x, (fst s, f)))"

definition wired_network :: "'n network \<Rightarrow> ('n \<times> 'f) network" where
  "wired_network net =
     \<lparr>nt_now = on_outside (nt_now net), nt_request = (\<lambda>verb url headers body. on_outside (nt_request net verb url headers body)),
      nt_jwt_encode = nt_jwt_encode net\<rparr>"

definition wired_azure :: "'n azure_network \<Rightarrow> 'n wired_state azure_network" where
  "wired_azure net =
     \<lparr>an_post = (\<lambda>url headers body limit. on_network (on_outside (an_post net url headers body limit))),
      an_show_float = an_show_float net\<rparr>"

definition wired_fake :: "string \<Rightarrow> 'n wired_state agent_runner" where
  "wired_fake response =
     \<lparr>ru_start_session = (\<lambda>handle. on_fake (ru_start_session (fake_runner response) handle)),
      ru_run = (\<lambda>session run_input. on_fake (ru_run (fake_runner response) session run_input)),
      ru_close_session = (\<lambda>handle reason. on_fake (ru_close_session (fake_runner response) handle reason))\<rparr>"

definition github_settings :: "app_config \<Rightarrow> github_app_settings" where
  "github_settings cfg =
     \<lparr>gs_app_id = fg_github_app_id cfg, gs_installation_id = fg_github_app_installation_id cfg,
      gs_private_key_path = fg_github_app_private_key_path cfg\<rparr>"

definition github_api :: string where
  "github_api = ''https://api.github.com''"

definition configured_client :: "'n outside \<Rightarrow> app_config \<Rightarrow> 'n wired_state github_client res" where
  "configured_client ext cfg =
     bindR (build_github_client (ox_read_text ext)
              (\<lambda>app_id installation_id private_key. app_auth_init app_id private_key installation_id github_api)
              (github_settings cfg)) (\<lambda>auth.
     bindR auth (\<lambda>auth. Inr (rest_client (rest_settings_init (wired_network (ox_network ext)) auth github_api ''qaestro''))))"

definition configured_triage :: "'n outside \<Rightarrow> triage_settings" where
  "configured_triage ext =
     \<lparr>tt_max_turns = 1, tt_timeout_seconds = 30,
      tt_prompt = load_prompt (ox_prompt_dir ext) (ox_prompt_text ext) PR_WORKFLOW_TRIAGE\<rparr>"

definition configured_validator :: "'n outside \<Rightarrow> 'n wired_state agent_runner \<Rightarrow> 'n wired_state validator_settings" where
  "configured_validator ext runner =
     default_validator runner None (validation_prompt (ox_prompt_dir ext) (ox_prompt_text ext))
       (\<lambda>s. ox_clock ext (fst (at_world s)))"

definition build_worker :: "'n outside \<Rightarrow> app_config \<Rightarrow> string dict \<Rightarrow> 'n wired_state durable_state worker res" where
  "build_worker ext cfg environ =
     (if fg_queue_backend cfg = ''memory'' then local_worker (search []) (ox_timed ext)
      else
        bindR (configured_client ext cfg) (\<lambda>client.
        bindR (build_validation_agent_runner wired_fake (wired_azure (ox_azure ext)) cfg environ) (\<lambda>runner.
        durable_worker client runner (configured_triage ext) (configured_validator ext runner) (search [])
          (ox_timed ext))))"

section \<open>The entry points\<close>

record 'q main_state =
  mn_logger :: root_logger
  mn_log :: "log_record list"
  mn_redis :: 'q

definition on_root_logger :: "(root_logger, 'a) act \<Rightarrow> ('q main_state, 'a) act" where
  "on_root_logger m s = (case m (mn_logger s) of (x, r) \<Rightarrow> (x, s\<lparr>mn_logger := r\<rparr>))"

definition on_server :: "('q, 'a) act \<Rightarrow> ('q main_state, 'a) act" where
  "on_server m s = (case m (mn_redis s) of (x, w) \<Rightarrow> (x, s\<lparr>mn_redis := w\<rparr>))"

text \<open>\<open>logger.info(message, extra=extra)\<close>\<close>

definition log_info :: "string \<Rightarrow> string \<Rightarrow> json dict \<Rightarrow> ('q main_state, unit) act" where
  "log_info name message extra s =
     (Inr (), if rh_level (mn_logger s) \<le> 20
              then s\<lparr>mn_log := mn_log s @ [\<lparr>lg_level = ''INFO'', lg_name = get_logger name, lg_message = message,
                     lg_exception = None, lg_extra = extra\<rparr>]\<rparr>
              else s)"

definition default_redis_consumer_name :: "string \<Rightarrow> int \<Rightarrow> string" where
  "default_redis_consumer_name hostname pid = hostname @ ''-'' @ show_int pid"

text \<open>The settings a queue is built with; \<open>from_url\<close> passes redis-py's \<open>ResponseError\<close>.\<close>

definition queue_settings_of :: "app_config \<Rightarrow> queue_settings" where
  "queue_settings_of cfg =
     \<lparr>qs_backend = fg_queue_backend cfg, qs_redis_url = fg_redis_url cfg,
      qs_redis = \<lparr>rq_stream = fg_redis_stream cfg, rq_group = fg_redis_consumer_group cfg,
        rq_consumer = fg_redis_consumer cfg, rq_read_block_ms = fg_redis_read_block_ms cfg,
        rq_claim_idle_ms = fg_redis_claim_idle_ms cfg,
        rq_busy_group_error = (\<lambda>e. exn_class e = OtherError ''ResponseError'')\<rparr>,
      qs_redis_consumer = fg_redis_consumer cfg\<rparr>"

text \<open>A queue that was built: the start id and the world of the client make up its state.\<close>

datatype 'q built_queue = InMemoryQueue | StreamsQueue "'q redis_client" redis_settings string

definition open_queue :: "(string \<Rightarrow> 'q redis_client) \<Rightarrow> queue_choice \<Rightarrow> ('q, 'q built_queue) act" where
  "open_queue connect choice =
     (case choice of
        MemoryQueue \<Rightarrow> retS InMemoryQueue
      | RedisQueue url cfg \<Rightarrow>
          bindS (redis_init (connect url) cfg) (\<lambda>q.
          retS (StreamsQueue (connect url) cfg (rs_claim_start_id q))))"

definition health_status_value :: "agent_health_status \<Rightarrow> string" where
  "health_status_value st =
     (case st of HEALTH_DISABLED \<Rightarrow> ''disabled'' | SUPPORTED \<Rightarrow> ''supported'' | DEGRADED \<Rightarrow> ''degraded''
      | UNSUPPORTED \<Rightarrow> ''unsupported'')"

definition health_extra :: "agent_health_result \<Rightarrow> json dict" where
  "health_extra health =
     [(''agent_runtime_provider'', JStr (provider_value (hr_provider health))),
      (''agent_runtime_status'', JStr (health_status_value (hr_status health))),
      (''agent_runtime_warnings'', JList (map JStr (hr_warnings health)))]"

text \<open>What the worker process does once it is started: drain its own queue and end, or consume for ever.\<close>

datatype ('q, 'w) worker_start =
    Drain "'w worker"
  | Consume "'q redis_client" redis_settings string "'w worker"

definition worker_module :: string where
  "worker_module = ''src.app.worker.entrypoint''"

definition worker_main ::
  "'n outside \<Rightarrow> (string \<Rightarrow> 'q redis_client) \<Rightarrow> string \<Rightarrow> int \<Rightarrow> string dict \<Rightarrow>
   ('q main_state, ('q, 'n wired_state durable_state) worker_start) act" where
  "worker_main ext connect hostname pid environ =
     bindS (liftS (load_config environ)) (\<lambda>cfg.
     bindS (on_root_logger (setup_logging (fg_log_level cfg) (fg_log_format cfg))) (\<lambda>_.
     bindS (log_info worker_module ''qaestro-worker starting'' []) (\<lambda>_.
     bindS (liftS (check_worker_agent_runtime_health cfg environ False)) (\<lambda>health.
     bindS (log_info worker_module ''agent runtime health checked'' (health_extra health)) (\<lambda>_.
     bindS (liftS (build_job_queue (queue_settings_of cfg) (Some
              (if fg_redis_consumer cfg = [] then default_redis_consumer_name hostname pid
               else fg_redis_consumer cfg)))) (\<lambda>choice.
     bindS (on_server (open_queue connect choice)) (\<lambda>queue.
     bindS (liftS (build_worker ext cfg environ)) (\<lambda>wk.
     case queue of
       InMemoryQueue \<Rightarrow> retS (Drain wk)
     | StreamsQueue client settings start \<Rightarrow>
         bindS (log_info worker_module ''qaestro-worker consuming queue''
                  [(''queue_backend'', JStr (fg_queue_backend cfg))]) (\<lambda>_.
         retS (Consume client settings start wk))))))))))"

text \<open>The end of a worker on its own queue: what it reports of the executions.\<close>

definition drained_log :: "worker_execution list \<Rightarrow> ('q main_state, unit) act" where
  "drained_log executions =
     log_info worker_module ''qaestro-worker drained in-memory queue''
       [(''job_count'', JInt (int (length executions)))]"

text \<open>The gateway process, up to the server that listens with the secret, on the host and port.\<close>

record 'q gateway_start =
  gt_secret :: string
  gt_queue :: "'q built_queue"
  gt_host :: string
  gt_port :: int

definition gateway_main ::
  "(string \<Rightarrow> 'q redis_client) \<Rightarrow> string dict \<Rightarrow> ('q main_state, 'q gateway_start) act" where
  "gateway_main connect environ =
     bindS (liftS (load_config environ)) (\<lambda>cfg.
     bindS (on_root_logger (setup_logging (fg_log_level cfg) (fg_log_format cfg))) (\<lambda>_.
     bindS (log_info ''src.app.gateway.entrypoint'' ''qaestro-gateway starting'' []) (\<lambda>_.
     bindS (liftS (build_job_queue (queue_settings_of cfg) None)) (\<lambda>choice.
     bindS (on_server (open_queue connect choice)) (\<lambda>queue.
     bindS (log_info ''src.app.gateway.entrypoint'' ''qaestro-gateway serving GitHub webhook endpoint'' []) (\<lambda>_.
     retS \<lparr>gt_secret = fg_github_webhook_secret cfg, gt_queue = queue, gt_host = fg_gateway_host cfg,
           gt_port = fg_gateway_port cfg\<rparr>))))))"

section \<open>What a started worker is built on\<close>

lemma started_on_root_logger: "on_root_logger m s = (x, t) \<Longrightarrow> mn_redis t = mn_redis s"
  by (auto simp: on_root_logger_def split: prod.splits)

lemma started_log_info: "log_info n m e s = (x, t) \<Longrightarrow> mn_redis t = mn_redis s"
  by (auto simp: log_info_def split: if_splits)

lemma started_on_server: "on_server m s = (x, t) \<Longrightarrow> m (mn_redis s) = (x, mn_redis t)"
  by (auto simp: on_server_def split: prod.splits)

lemma liftS_eq_Inr: "liftS r s = (Inr x, t) \<longleftrightarrow> r = Inr x \<and> t = s"
  by (auto simp: liftS_def split: sum.splits)

lemma retS_eq_Inr: "retS x s = (Inr y, t) \<longleftrightarrow> y = x \<and> t = s"
  by (auto simp: retS_def)

lemma opened_memory: "open_queue connect choice w = (Inr InMemoryQueue, w') \<Longrightarrow> choice = MemoryQueue \<and> w' = w"
  by (auto simp: open_queue_def bindS_Inr retS_eq_Inr split: queue_choice.splits)

lemma opened_streams:
  "open_queue connect choice w = (Inr (StreamsQueue client settings start), w') \<Longrightarrow>
   \<exists>url. choice = RedisQueue url settings \<and> client = connect url \<and> start = ''0-0''"
  by (auto simp: open_queue_def redis_init_def bindS_Inr retS_eq_Inr liftS_eq_Inr split: queue_choice.splits)

lemma chosen_memory: "build_job_queue cfg consumer = Inr MemoryQueue \<Longrightarrow> qs_backend cfg = ''memory''"
  by (simp add: build_job_queue_def split: if_splits)

lemma chosen_streams:
  "build_job_queue cfg (Some consumer) = Inr (RedisQueue url settings) \<Longrightarrow>
   qs_backend cfg = ''redis-streams'' \<and> url = qs_redis_url cfg \<and>
   settings = (qs_redis cfg)\<lparr>rq_consumer := if consumer = [] then qs_redis_consumer cfg else consumer\<rparr>"
  by (simp add: build_job_queue_def split: if_splits)

lemma health_accepted:
  "check_worker_agent_runtime_health cfg environ smoke = Inr health \<Longrightarrow> hr_status health \<noteq> UNSUPPORTED"
  by (auto simp: check_worker_agent_runtime_health_def Let_def split: if_splits)

lemma client_configured:
  "configured_client ext cfg = Inr c \<Longrightarrow>
   0 < fg_github_app_id cfg \<and> 0 < fg_github_app_installation_id cfg \<and>
   (\<exists>key. ox_read_text ext (fg_github_app_private_key_path cfg) = Inr key \<and> key \<noteq> [])"
  by (auto simp: configured_client_def build_github_client_def app_auth_init_def github_settings_def split: if_splits)

text \<open>The way through \<open>worker_main\<close> when it does not fail.\<close>

lemma main_runs:
  assumes "worker_main ext connect hostname pid environ s = (Inr start, t)"
  obtains cfg health choice queue wk where
    "load_config environ = Inr cfg" "check_worker_agent_runtime_health cfg environ False = Inr health"
    "build_job_queue (queue_settings_of cfg) (Some (if fg_redis_consumer cfg = []
       then default_redis_consumer_name hostname pid else fg_redis_consumer cfg)) = Inr choice"
    "open_queue connect choice (mn_redis s) = (Inr queue, mn_redis t)" "build_worker ext cfg environ = Inr wk"
    "start = (case queue of InMemoryQueue \<Rightarrow> Drain wk
       | StreamsQueue client settings id0 \<Rightarrow> Consume client settings id0 wk)"
proof -
  obtain cfg health choice queue wk s1 s2 s3 u where steps:
    "on_root_logger (setup_logging (fg_log_level cfg) (fg_log_format cfg)) s = (Inr (), s1)"
    "log_info worker_module ''qaestro-worker starting'' [] s1 = (Inr (), s2)"
    "log_info worker_module ''agent runtime health checked'' (health_extra health) s2 = (Inr (), s3)"
    "on_server (open_queue connect choice) s3 = (Inr queue, u)"
    and run: "load_config environ = Inr cfg" "check_worker_agent_runtime_health cfg environ False = Inr health"
    "build_job_queue (queue_settings_of cfg) (Some (if fg_redis_consumer cfg = []
       then default_redis_consumer_name hostname pid else fg_redis_consumer cfg)) = Inr choice"
    "build_worker ext cfg environ = Inr wk"
    and rest: "(case queue of InMemoryQueue \<Rightarrow> retS (Drain wk)
       | StreamsQueue client settings id0 \<Rightarrow>
           bindS (log_info worker_module ''qaestro-worker consuming queue''
             [(''queue_backend'', JStr (fg_queue_backend cfg))]) (\<lambda>_. retS (Consume client settings id0 wk))) u =
       (Inr start, t)"
    using assms unfolding worker_main_def bindS_Inr liftS_eq_Inr by auto
  have "mn_redis s3 = mn_redis s"
    using steps(1-3) by (simp only: started_on_root_logger started_log_info)
  then have opened: "open_queue connect choice (mn_redis s) = (Inr queue, mn_redis u)"
    using started_on_server [OF steps(4)] by simp
  have "mn_redis t = mn_redis u \<and> start = (case queue of InMemoryQueue \<Rightarrow> Drain wk
     | StreamsQueue client settings id0 \<Rightarrow> Consume client settings id0 wk)"
    using rest by (cases queue) (auto simp: bindS_Inr retS_eq_Inr dest: started_log_info)
  then show ?thesis using that run opened by simp
qed

lemma drained_worker:
  assumes "worker_main ext connect hostname pid environ s = (Inr (Drain wk), t)"
  shows "mn_redis t = mn_redis s \<and> wk_output_poster wk = noop_poster \<and>
    (\<exists>cfg. load_config environ = Inr cfg \<and> fg_queue_backend cfg = ''memory'')"
  using assms
proof (rule main_runs)
  fix cfg health choice queue wk'
  assume cfg: "load_config environ = Inr cfg"
    and choice: "build_job_queue (queue_settings_of cfg) (Some (if fg_redis_consumer cfg = []
       then default_redis_consumer_name hostname pid else fg_redis_consumer cfg)) = Inr choice"
    and queue: "open_queue connect choice (mn_redis s) = (Inr queue, mn_redis t)"
    and wk: "build_worker ext cfg environ = Inr wk'"
    and start: "Drain wk = (case queue of InMemoryQueue \<Rightarrow> Drain wk'
       | StreamsQueue client settings id0 \<Rightarrow> Consume client settings id0 wk')"
  have q: "queue = InMemoryQueue" "wk' = wk" using start by (auto split: built_queue.splits)
  with queue have m: "choice = MemoryQueue" "mn_redis t = mn_redis s" by (auto dest: opened_memory)
  with choice have "qs_backend (queue_settings_of cfg) = ''memory''" by (auto dest: chosen_memory)
  then have b: "fg_queue_backend cfg = ''memory''" by (simp add: queue_settings_of_def)
  have "wk_output_poster wk = noop_poster"
    using wk q(2) by (auto simp: build_worker_def b local_worker_def worker_init_def)
  then show ?thesis using m(2) cfg b by auto
qed

lemma consuming_worker:
  assumes "worker_main ext connect hostname pid environ s = (Inr (Consume client settings start wk), t)"
  shows "\<exists>cfg api key. load_config environ = Inr cfg \<and> fg_queue_backend cfg = ''redis-streams'' \<and>
    hr_status (check_agent_runtime_health (fg_agent_runtime cfg) environ False) \<noteq> UNSUPPORTED \<and>
    0 < fg_github_app_id cfg \<and> 0 < fg_github_app_installation_id cfg \<and>
    ox_read_text ext (fg_github_app_private_key_path cfg) = Inr key \<and> key \<noteq> [] \<and>
    configured_client ext cfg = Inr api \<and> wk_output_poster wk = durable_poster api \<and>
    client = connect (fg_redis_url cfg) \<and> start = ''0-0'' \<and>
    rq_consumer settings = (if fg_redis_consumer cfg = [] then hostname @ ''-'' @ show_int pid else fg_redis_consumer cfg)"
  using assms
proof (rule main_runs)
  fix cfg health choice queue wk'
  assume cfg: "load_config environ = Inr cfg"
    and health: "check_worker_agent_runtime_health cfg environ False = Inr health"
    and choice: "build_job_queue (queue_settings_of cfg) (Some (if fg_redis_consumer cfg = []
       then default_redis_consumer_name hostname pid else fg_redis_consumer cfg)) = Inr choice"
    and queue: "open_queue connect choice (mn_redis s) = (Inr queue, mn_redis t)"
    and wk: "build_worker ext cfg environ = Inr wk'"
    and begun: "Consume client settings start wk = (case queue of InMemoryQueue \<Rightarrow> Drain wk'
       | StreamsQueue client settings id0 \<Rightarrow> Consume client settings id0 wk')"
  have q: "queue = StreamsQueue client settings start" "wk' = wk" using begun by (auto split: built_queue.splits)
  with queue obtain url where url: "choice = RedisQueue url settings" "client = connect url" "start = ''0-0''"
    by (auto dest: opened_streams)
  have chosen: "fg_queue_backend cfg = ''redis-streams''" "url = fg_redis_url cfg"
    "rq_consumer settings = (if fg_redis_consumer cfg = [] then hostname @ ''-'' @ show_int pid else fg_redis_consumer cfg)"
    using chosen_streams [OF choice [unfolded url(1)]]
    by (auto simp: queue_settings_of_def default_redis_consumer_name_def)
  have sound: "hr_status (check_agent_runtime_health (fg_agent_runtime cfg) environ False) \<noteq> UNSUPPORTED"
    using health by (auto simp: check_worker_agent_runtime_health_def Let_def split: if_splits)
  obtain api where api: "configured_client ext cfg = Inr api" "wk_output_poster wk = durable_poster api"
    using wk by (auto simp: q build_worker_def chosen(1) durable_worker_def worker_init_def)
  with client_configured [OF api(1)] show ?thesis using cfg sound chosen url by auto
qed

lemma started_cases:
  obtains (Failed) e t where "r = (Inl e, t)"
  | (Draining) wk t where "r = (Inr (Drain wk), t)"
  | (Consuming) client settings start wk t where "r = (Inr (Consume client settings start wk), t)"
  by (metis worker_start.exhaust sum.exhaust surj_pair)

text \<open>C39. A worker process takes jobs off the durable queue only in a configuration it can publish
  from: the agent runtime is not unsupported, the ids of the GitHub App are positive, its key was
  read and is not empty, and its output goes to GitHub under that configuration; it reads under the
  configured consumer name or, when there is none, under the name made of its host and process id.
  A process that drains its own memory queue posts nothing and leaves the Redis server alone.\<close>

theorem durable_start_guarded:
  "case worker_main ext connect hostname pid environ s of
     (Inr (Consume client settings start wk), t) \<Rightarrow>
       \<exists>cfg api key. load_config environ = Inr cfg \<and> fg_queue_backend cfg = ''redis-streams'' \<and>
         hr_status (check_agent_runtime_health (fg_agent_runtime cfg) environ False) \<noteq> UNSUPPORTED \<and>
         0 < fg_github_app_id cfg \<and> 0 < fg_github_app_installation_id cfg \<and>
         ox_read_text ext (fg_github_app_private_key_path cfg) = Inr key \<and> key \<noteq> [] \<and>
         configured_client ext cfg = Inr api \<and> wk_output_poster wk = durable_poster api \<and>
         client = connect (fg_redis_url cfg) \<and> start = ''0-0'' \<and>
         rq_consumer settings = (if fg_redis_consumer cfg = [] then hostname @ ''-'' @ show_int pid else fg_redis_consumer cfg)
   | (Inr (Drain wk), t) \<Rightarrow>
       mn_redis t = mn_redis s \<and> wk_output_poster wk = noop_poster \<and>
       (\<exists>cfg. load_config environ = Inr cfg \<and> fg_queue_backend cfg = ''memory'')
   | (Inl e, t) \<Rightarrow> True"
proof (cases "worker_main ext connect hostname pid environ s" rule: started_cases)
  case (Failed e t)
  then show ?thesis by simp
next
  case (Draining wk t)
  show ?thesis unfolding Draining by (simp only: prod.case sum.case worker_start.case) (rule drained_worker [OF Draining])
next
  case (Consuming client settings start wk t)
  show ?thesis unfolding Consuming
    by (simp only: prod.case sum.case worker_start.case) (rule consuming_worker [OF Consuming])
qed

text \<open>What the two starts add to their last record does not reach a line of the JSON format.\<close>

lemma start_extras_lost: "extra_fields [(''queue_backend'', v)] = []" "extra_fields [(''job_count'', v)] = []"
  by (simp_all add: extra_fields_def extra_keys_def)

section \<open>A start\<close>

definition sample_environ :: "string dict" where
  "sample_environ =
     [(''QAESTRO_QUEUE_BACKEND'', ''redis-streams''), (''QAESTRO_GITHUB_APP_ID'', ''1''),
      (''QAESTRO_GITHUB_APP_INSTALLATION_ID'', ''2''), (''QAESTRO_GITHUB_APP_PRIVATE_KEY_PATH'', ''key.pem'')]"

definition sample_outside :: "nat outside" where
  "sample_outside =
     \<lparr>ox_network = sample_network, ox_read_text = (\<lambda>path. Inr ''key''),
      ox_azure = \<lparr>an_post = (\<lambda>url headers body limit s. (Inr \<lparr>hs_status = 200, hs_headers = [], hs_body = []\<rparr>, s)),
                  an_show_float = (\<lambda>x. ''30.0'')\<rparr>,
      ox_prompt_dir = [], ox_prompt_text = (\<lambda>p. None), ox_clock = (\<lambda>s. 0), ox_timed = (\<lambda>limit run. run)\<rparr>"

lemma sample_config:
  "load_config sample_environ = Inr (default_app_config\<lparr>fg_queue_backend := ''redis-streams'', fg_github_app_id := 1,
     fg_github_app_installation_id := 2, fg_github_app_private_key_path := ''key.pem''\<rparr>)"
  by code_simp

lemma sample_words: "upper ''INFO'' = ''INFO''" "default_redis_consumer_name ''host'' 7 = ''host-7''"
  by code_simp+

text \<open>With the default levels three records come out, and the process reads under its own name.\<close>

lemma sample_start:
  "case worker_main sample_outside (\<lambda>url. memory_server) ''host'' 7 sample_environ
     \<lparr>mn_logger = initial_root, mn_log = [], mn_redis = sample_stream\<rparr> of
     (Inr (Consume client settings start wk), t) \<Rightarrow>
       map lg_message (mn_log t) = [''qaestro-worker starting'', ''agent runtime health checked'', ''qaestro-worker consuming queue''] \<and>
       rq_consumer settings = ''host-7'' \<and> wk_max_attempts wk = 3
   | _ \<Rightarrow> False"
  by (simp add: worker_main_def sample_config act_simps on_root_logger_def setup_logging_def level_numbers_def sample_words
      initial_root_def log_info_def check_worker_agent_runtime_health_def check_agent_runtime_health_def
      default_app_config_def default_agent_runtime_def build_job_queue_def queue_settings_of_def validate_redis_timing_def
      on_server_def open_queue_def redis_init_def ensure_group_def memory_server_def build_worker_def configured_client_def
      build_github_client_def github_settings_def sample_outside_def app_auth_init_def build_validation_agent_runner_def
      build_agent_runner_def durable_worker_def worker_init_def)

end
