(* ===== verification/Effects.thy ===== *)
theory Effects
  imports Prelude
begin

text \<open>
  What an action adds to a log. \<open>quiet log m\<close> says that \<open>m\<close> adds nothing to the log that can be read off the
  state, whatever it returns or raises; \<open>adds log P n Q m\<close> that it adds at most \<open>n\<close> entries, which all
  satisfy \<open>P\<close>, and that what it returns satisfies \<open>Q\<close>. The rules follow the sequencing of \<open>Prelude\<close>.
\<close>

section \<open>Nothing is added\<close>

definition quiet :: "('s \<Rightarrow> 'x) \<Rightarrow> ('s, 'a) act \<Rightarrow> bool" where
  "quiet log m \<longleftrightarrow> (\<forall>s. log (snd (m s)) = log s)"

named_theorems quiet_intros \<open>actions that add nothing\<close>

lemma quietI: "(\<And>s. log (snd (m s)) = log s) \<Longrightarrow> quiet log m"
  by (simp add: quiet_def)

lemma quietD: "quiet log m \<Longrightarrow> m s = (x, t) \<Longrightarrow> log t = log s"
  by (metis quiet_def snd_conv)

lemma quiet_unit [quiet_intros]: "quiet log (retS x)" "quiet log (raiseS e)" "quiet log (liftS r)"
  by (simp_all add: quiet_def act_simps)

lemma quiet_bind [quiet_intros]: "quiet log m \<Longrightarrow> (\<And>x. quiet log (f x)) \<Longrightarrow> quiet log (bindS m f)"
  by (auto simp: quiet_def bindS_def split: prod.split sum.split) (metis snd_conv)+

lemma quiet_try [quiet_intros]: "quiet log m \<Longrightarrow> (\<And>e. quiet log (h e)) \<Longrightarrow> quiet log (tryS m h)"
  by (auto simp: quiet_def tryS_def split: prod.split sum.split) (metis snd_conv)+

lemma quiet_map [quiet_intros]: "(\<And>x. quiet log (f x)) \<Longrightarrow> quiet log (mapS f xs)"
  by (induction xs) (auto intro!: quiet_intros)

lemma quiet_if [quiet_intros]: "(b \<Longrightarrow> quiet log m) \<Longrightarrow> (\<not> b \<Longrightarrow> quiet log n) \<Longrightarrow> quiet log (if b then m else n)"
  by simp

lemma quiet_option [quiet_intros]:
  "quiet log m \<Longrightarrow> (\<And>x. quiet log (f x)) \<Longrightarrow> quiet log (case v of None \<Rightarrow> m | Some x \<Rightarrow> f x)"
  by (simp split: option.split)

lemma quiet_sum [quiet_intros]:
  "(\<And>x. quiet log (f x)) \<Longrightarrow> (\<And>y. quiet log (g y)) \<Longrightarrow> quiet log (case v of Inl x \<Rightarrow> f x | Inr y \<Rightarrow> g y)"
  by (simp split: sum.split)

lemma quiet_prod [quiet_intros]: "(\<And>x y. quiet log (f x y)) \<Longrightarrow> quiet log (case v of (x, y) \<Rightarrow> f x y)"
  by (simp split: prod.split)

section \<open>What is added\<close>

definition adds :: "('s \<Rightarrow> 'x list) \<Rightarrow> ('x \<Rightarrow> bool) \<Rightarrow> nat \<Rightarrow> ('a \<Rightarrow> bool) \<Rightarrow> ('s, 'a) act \<Rightarrow> bool" where
  "adds log P n Q m \<longleftrightarrow>
     (\<forall>s. (\<exists>ws. log (snd (m s)) = log s @ ws \<and> list_all P ws \<and> length ws \<le> n) \<and>
          (case fst (m s) of Inl e \<Rightarrow> True | Inr x \<Rightarrow> Q x))"

lemma addsD:
  "adds log P n Q m \<Longrightarrow> m s = (x, t) \<Longrightarrow>
     (\<exists>ws. log t = log s @ ws \<and> list_all P ws \<and> length ws \<le> n) \<and> (case x of Inl e \<Rightarrow> True | Inr y \<Rightarrow> Q y)"
  unfolding adds_def by (metis fst_conv snd_conv)

lemma quiet_adds: "quiet log m \<Longrightarrow> adds log P n (\<lambda>_. True) m"
  by (auto simp: adds_def quiet_def intro!: exI [of _ "[]"] split: sum.split)

lemma adds_ret: "Q x \<Longrightarrow> adds log P n Q (retS x)"
  by (auto simp: adds_def act_simps)

lemma adds_raise: "adds log P n Q (raiseS e)"
  by (auto simp: adds_def act_simps)

lemma adds_lift: "(\<And>x. r = Inr x \<Longrightarrow> Q x) \<Longrightarrow> adds log P n Q (liftS r)"
  by (auto simp: adds_def act_simps split: sum.split)

lemma adds_weaken: "adds log P k R m \<Longrightarrow> k \<le> n \<Longrightarrow> (\<And>x. R x \<Longrightarrow> Q x) \<Longrightarrow> adds log P n Q m"
  by (fastforce simp: adds_def split: sum.splits intro: le_trans)

lemma adds_entries: "adds log P n Q m \<Longrightarrow> (\<And>x. P x \<Longrightarrow> P' x) \<Longrightarrow> adds log P' n Q m"
  unfolding adds_def by (metis (no_types, lifting) list.pred_mono_strong)

lemma adds_bind:
  assumes "adds log P k R m" and "\<And>x. R x \<Longrightarrow> adds log P l Q (f x)"
  shows "adds log P (k + l) Q (bindS m f)"
  unfolding adds_def
proof (rule allI)
  fix s
  obtain r t where m: "m s = (r, t)" by fastforce
  from addsD [OF assms(1) m] obtain ws where ws: "log t = log s @ ws" "list_all P ws" "length ws \<le> k"
    and r: "case r of Inl e \<Rightarrow> True | Inr x \<Rightarrow> R x" by blast
  show "(\<exists>ws. log (snd (bindS m f s)) = log s @ ws \<and> list_all P ws \<and> length ws \<le> k + l) \<and>
      (case fst (bindS m f s) of Inl e \<Rightarrow> True | Inr x \<Rightarrow> Q x)"
  proof (cases r)
    case (Inl e)
    with m ws show ?thesis by (auto simp: bindS_def intro!: exI [of _ ws])
  next
    case (Inr x)
    obtain r' u where f: "f x t = (r', u)" by fastforce
    from Inr r have "R x" by simp
    from addsD [OF assms(2) [OF this] f] obtain vs where "log u = log t @ vs" "list_all P vs" "length vs \<le> l"
      and "case r' of Inl e \<Rightarrow> True | Inr x \<Rightarrow> Q x" by blast
    with Inr m f ws show ?thesis by (auto simp: bindS_def intro!: exI [of _ "ws @ vs"])
  qed
qed

lemma adds_after: "quiet log m \<Longrightarrow> (\<And>x. adds log P n Q (f x)) \<Longrightarrow> adds log P n Q (bindS m f)"
  using adds_bind [OF quiet_adds [where n = 0], of log m P n Q f] by simp

lemma adds_before: "adds log P n R m \<Longrightarrow> (\<And>x. R x \<Longrightarrow> adds log P 0 Q (f x)) \<Longrightarrow> adds log P n Q (bindS m f)"
  using adds_bind [of log P n R m 0 Q f] by simp

lemma adds_0_quiet: "adds log P 0 Q m \<Longrightarrow> quiet log m"
  by (fastforce simp: adds_def quiet_def)

lemma adds_returned: "quiet log m \<Longrightarrow> (\<And>s x t. m s = (Inr x, t) \<Longrightarrow> Q x) \<Longrightarrow> adds log P n Q m"
  by (auto simp: adds_def quiet_def split: sum.split intro!: exI [of _ "[]"]) (metis prod.collapse)

lemma lifted_Inr: "bindS (liftS (Inr x)) f = f x"
  by (rule ext) (simp add: act_simps)

lemma lifted_Inl: "bindS (liftS (Inl e)) f = raiseS e"
  by (rule ext) (simp add: act_simps)

lemma adds_option:
  "adds log P n Q m \<Longrightarrow> (\<And>x. adds log P n Q (f x)) \<Longrightarrow> adds log P n Q (case v of None \<Rightarrow> m | Some x \<Rightarrow> f x)"
  by (simp split: option.split)

section \<open>A part of the state\<close>

text \<open>An action on a part of a state, whose log is the log of the part, adds what it adds there.\<close>

lemma quiet_part:
  assumes "quiet log m" and "\<And>s. big (snd (m' s)) = log (snd (m (part s))) \<and> big s = log (part s)"
  shows "quiet big m'"
proof (rule quietI)
  fix s
  show "big (snd (m' s)) = big s"
    using assms(2) [of s] assms(1) [unfolded quiet_def, rule_format, of "part s"] by metis
qed

lemma adds_part:
  assumes "adds log P n Q m"
    and "\<And>s. fst (m' s) = fst (m (part s)) \<and> big (snd (m' s)) = log (snd (m (part s))) \<and> big s = log (part s)"
  shows "adds big P n Q m'"
  unfolding adds_def
proof (rule allI)
  fix s
  show "(\<exists>ws. big (snd (m' s)) = big s @ ws \<and> list_all P ws \<and> length ws \<le> n) \<and>
      (case fst (m' s) of Inl e \<Rightarrow> True | Inr x \<Rightarrow> Q x)"
    using assms(2) [of s] assms(1) [unfolded adds_def, rule_format, of "part s"] by metis
qed

end
