(* ===== verification/Quiet_Stages.thy ===== *)
theory Quiet_Stages
  imports Worker Effects
begin

text \<open>
  The stages of the workflows leave a log of the world alone when the operations they are built on do:
  the sessions and the validator over a quiet runner and executor, the triage, the context
  providers over a quiet tool runtime, and the workflows over quiet components. An operation on a part of
  the durable worker's state adds to the log of the whole what it adds to the log of the part.
\<close>

section \<open>Parts of the durable state\<close>

definition tool_log :: "('w \<Rightarrow> 'l) \<Rightarrow> 'w runtime_state \<Rightarrow> 'l" where
  "tool_log posts t = posts (rs_world t)"

definition session_log :: "('w \<Rightarrow> 'l) \<Rightarrow> 'w manager_state \<Rightarrow> 'l" where
  "session_log posts t = posts (ms_world t)"

definition world_log :: "('w \<Rightarrow> 'l) \<Rightarrow> 'w durable_state \<Rightarrow> 'l" where
  "world_log posts s = posts (ds_world s)"

lemmas part_defs = tool_log_def session_log_def world_log_def

lemma world_quiet: "quiet posts m \<Longrightarrow> quiet (world_log posts) (on_world m)"
  by (erule quiet_part [where part = ds_world]) (simp add: on_world_def part_defs split: prod.split)

lemma tools_quiet: "quiet (tool_log posts) m \<Longrightarrow> quiet (world_log posts) (on_tools m)"
  by (erule quiet_part [where part = "\<lambda>s. \<lparr>rs_audit_log = ds_audit_log s, rs_world = ds_world s\<rparr>"])
    (simp add: on_tools_def part_defs split: prod.split)

lemma tools_adds: "adds (tool_log posts) P n Q m \<Longrightarrow> adds (world_log posts) P n Q (on_tools m)"
  by (erule adds_part [where part = "\<lambda>s. \<lparr>rs_audit_log = ds_audit_log s, rs_world = ds_world s\<rparr>"])
    (simp add: on_tools_def part_defs split: prod.split)

lemma sessions_quiet: "quiet (session_log posts) m \<Longrightarrow> quiet (world_log posts) (on_sessions m)"
  by (erule quiet_part [where part = "\<lambda>s. \<lparr>ms_records = ds_records s, ms_next_id = ds_next_id s, ms_world = ds_world s\<rparr>"])
    (simp add: on_sessions_def part_defs split: prod.split)

lemma store_and_tools_quiet: "quiet (\<lambda>t. tool_log posts (snd t)) m \<Longrightarrow> quiet (world_log posts) (on_store_and_tools m)"
  by (erule quiet_part [where part = "\<lambda>s. (ds_store s, \<lparr>rs_audit_log = ds_audit_log s, rs_world = ds_world s\<rparr>)"])
    (simp add: on_store_and_tools_def part_defs split: prod.split)

section \<open>Agents\<close>

definition quiet_runner :: "('w \<Rightarrow> 'l) \<Rightarrow> 'w agent_runner \<Rightarrow> bool" where
  "quiet_runner posts runner \<longleftrightarrow>
     (\<forall>handle. quiet posts (ru_start_session runner handle)) \<and>
     (\<forall>session input. quiet posts (ru_run runner session input)) \<and>
     (\<forall>handle reason. quiet posts (ru_close_session runner handle reason))"

lemma classify_quiet:
  assumes "quiet_runner posts runner"
  shows "quiet posts (agent_classify runner cfg ctx)"
proof (rule quietI)
  fix w
  have attempt: "posts (snd (triage_attempt runner cfg ctx w)) = posts w"
    using assms unfolding quiet_runner_def
    by (auto simp: triage_attempt_def Let_def split: prod.split sum.split) (metis quietD)+
  have close: "posts (snd (ru_close_session runner h r u)) = posts u" for h r u
    using assms by (simp add: quiet_runner_def quiet_def)
  show "posts (snd (agent_classify runner cfg ctx w)) = posts w"
    using attempt close by (auto simp: agent_classify_def Let_def case_prod_beta split: sum.split)
qed

lemma runner_quiet: "quiet posts m \<Longrightarrow> quiet (session_log posts) (on_runner m)"
  by (erule quiet_part [where part = ms_world]) (simp add: on_runner_def part_defs split: prod.split)

lemma records_quiet:
  "quiet (session_log posts) (new_session_id repo pr sha)" "quiet (session_log posts) (put_record i r)"
  "quiet (session_log posts) (get_session i)"
  by (auto simp: quiet_def new_session_id_def put_record_def get_session_def part_defs split: option.split)

lemma start_quiet:
  "quiet_runner posts runner \<Longrightarrow> quiet (session_log posts) (start_workflow_session runner repo pr sha trigger cid)"
  unfolding start_workflow_session_def Let_def
  by (intro quiet_intros records_quiet runner_quiet) (simp add: quiet_runner_def)

lemma run_stage_quiet: "quiet_runner posts runner \<Longrightarrow> quiet (session_log posts) (run_stage runner handle input)"
  unfolding run_stage_def Let_def
  by (intro quiet_intros records_quiet runner_quiet) (simp add: quiet_runner_def)

lemma close_records_quiet:
  "quiet_runner posts runner \<Longrightarrow> quiet (session_log posts) (close_records runner repo pr reason pred terminal rs)"
  by (induction rs) (auto simp: Let_def quiet_runner_def intro!: quiet_intros records_quiet runner_quiet)

lemma close_quiet:
  "quiet_runner posts runner \<Longrightarrow> quiet (session_log posts) (close_pr_sessions runner repo pr reason)"
  using close_records_quiet [of posts runner] by (auto simp: close_pr_sessions_def close_matching_def quiet_def)

section \<open>The validator\<close>

definition quiet_validator :: "('w \<Rightarrow> 'l) \<Rightarrow> 'w validator_settings \<Rightarrow> bool" where
  "quiet_validator posts cfg \<longleftrightarrow>
     quiet_runner posts (vd_runner cfg) \<and> (\<forall>request. quiet posts (vd_executor cfg request))"

lemma finally_quiet: "quiet l m \<Longrightarrow> quiet l f \<Longrightarrow> quiet l (finallyS m f)"
  by (auto simp: quiet_def finallyS_def split: prod.split sum.split) (metis snd_conv)+

lemma selection_quiet:
  "quiet_validator posts cfg \<Longrightarrow> quiet (session_log posts) (run_agent_selection cfg event action session)"
  unfolding run_agent_selection_def quiet_validator_def by (intro quiet_intros run_stage_quiet) simp

lemma probe_quiet:
  assumes "quiet_validator posts cfg"
  shows "quiet (session_log posts) (run_api_contract_probe cfg action request)"
proof (rule quietI)
  fix s
  have "quiet (session_log posts) (on_runner (vd_executor cfg request))"
    using assms by (intro runner_quiet) (simp add: quiet_validator_def)
  then show "session_log posts (snd (run_api_contract_probe cfg action request s)) = session_log posts s"
    by (auto simp: run_api_contract_probe_def Let_def quiet_def split: prod.split sum.split) (metis snd_conv)+
qed

lemma action_quiet: "quiet_validator posts cfg \<Longrightarrow> quiet (session_log posts) (run_action cfg event session action)"
  unfolding run_action_def by (intro quiet_intros selection_quiet probe_quiet)

lemma validator_quiet: "quiet_validator posts cfg \<Longrightarrow> quiet (session_log posts) (validate_for_event cfg event strategy)"
  unfolding validate_for_event_def
  by (intro quiet_intros finally_quiet start_quiet close_quiet action_quiet) (simp_all add: quiet_validator_def)

section \<open>Context providers\<close>

lemma context_quiet:
  assumes "\<And>name. name \<in> set context_tools \<Longrightarrow> quiet l (run (event_call name event))"
  shows "quiet l (load_pr_context run event)"
  unfolding load_pr_context_def by (intro quiet_intros assms) (simp_all add: context_tools_def)

lemma checks_quiet:
  assumes "\<And>input. quiet l (run (context_call ''github.checks.runs_for_ref'' input cid))"
  shows "quiet l (load_checks run repo sha cid)"
  unfolding load_checks_def by (intro quiet_intros assms)

lemma ci_context_quiet:
  assumes "\<And>run_id. quiet l (run (jobs_call event run_id))"
  shows "quiet l (load_ci_context run event)"
  unfolding load_ci_context_def Let_def by (auto intro!: quiet_intros assms split: option.split list.split)

lemma feedback_quiet:
  assumes "\<And>repo sha cid. quiet l (load repo sha cid)"
  shows "quiet (\<lambda>t. l (snd t)) (load_ci_feedback_for_pr_event load event)"
proof (rule quietI)
  fix t :: "aggregate_store \<times> 'a"
  show "l (snd (snd (load_ci_feedback_for_pr_event load event t))) = l (snd t)"
    using assms by (cases t) (auto simp: load_ci_feedback_for_pr_event_def split: prod.split sum.split dest: quietD)
qed

section \<open>Workflows\<close>

definition quiet_components :: "('w \<Rightarrow> 'l) \<Rightarrow> 'w pr_components \<Rightarrow> bool" where
  "quiet_components l pw \<longleftrightarrow>
     (\<forall>event. quiet l (pw_context pw event)) \<and> (\<forall>ctx. quiet l (pw_triage pw ctx)) \<and> (\<forall>ctx. quiet l (pw_analyzer pw ctx)) \<and>
     (\<forall>repo n title impact feedback. quiet l (pw_strategy pw repo n title impact feedback)) \<and>
     (\<forall>event strategy. quiet l (run_validator (pw_validator pw) event strategy)) \<and>
     (\<forall>draft. quiet l (pw_renderer pw draft)) \<and>
     (\<forall>event impact strategy. quiet l (pw_should_validate pw event impact strategy)) \<and>
     (\<forall>f event. pw_ci_feedback pw = Some f \<longrightarrow> quiet l (f event))"

lemma pr_run_quiet:
  assumes "quiet_components l pw"
  shows "quiet l (pr_run pw event)"
proof -
  have parts: "quiet l (pw_context pw event)" "\<And>ctx. quiet l (pw_triage pw ctx)" "\<And>ctx. quiet l (pw_analyzer pw ctx)"
    "\<And>repo n title impact feedback. quiet l (pw_strategy pw repo n title impact feedback)"
    "\<And>strategy. quiet l (run_validator (pw_validator pw) event strategy)" "\<And>draft. quiet l (pw_renderer pw draft)"
    "\<And>impact strategy. quiet l (pw_should_validate pw event impact strategy)"
    using assms by (simp_all add: quiet_components_def)
  have feedback: "quiet l (case pw_ci_feedback pw of None \<Rightarrow> retS None | Some f \<Rightarrow> f event)"
    using assms by (auto simp: quiet_components_def quiet_unit split: option.split)
  show ?thesis
    unfolding pr_run_def run_strategy_def run_validation_def Let_def by (intro quiet_intros parts feedback)
qed

lemma ci_run_quiet:
  assumes "\<And>load e. cc_context cc = Some load \<Longrightarrow> quiet l (load e)" and "\<And>rec e. cc_record cc = Some rec \<Longrightarrow> quiet l (rec e)"
  shows "quiet l (ci_run cc event)"
proof -
  have "quiet l (case cc_context cc of None \<Rightarrow> retS event | Some load \<Rightarrow> load event)"
    "\<And>e. quiet l (case cc_record cc of None \<Rightarrow> retS () | Some rec \<Rightarrow> rec e)"
    using assms by (auto simp: quiet_unit split: option.split)
  then show ?thesis unfolding ci_run_def by (intro quiet_if quiet_bind quiet_unit)
qed

section \<open>What a workflow wants posted\<close>

text \<open>The payloads of a result are for the pull request of its event.\<close>

definition names_pull_request :: "string \<Rightarrow> int \<Rightarrow> pr_workflow_result \<Rightarrow> bool" where
  "names_pull_request full_name n r \<longleftrightarrow>
     (\<forall>c. wf_comment_payload r = Some c \<longrightarrow> cp_repo_full_name c = full_name \<and> cp_pr_number c = n) \<and>
     (\<forall>p. wf_review_payload r = Some p \<longrightarrow> rp_repo_full_name p = full_name \<and> rp_pr_number p = n)"

lemma context_names:
  "load_pr_context run event s = (Inr ctx, t) \<Longrightarrow>
     ax_repo_full_name ctx = pe_repo_full_name event \<and> ax_pr_number ctx = pe_pr_number event"
  by (auto simp: load_pr_context_def bindS_Inr analysis_context_def)

lemma render_names:
  "default_render d = Inr c \<Longrightarrow>
     cp_repo_full_name c = qr_repo_full_name (dr_report d) \<and> Some (cp_pr_number c) = qr_pr_number (dr_report d)"
  by (auto simp: default_render_def render_def Let_def split: option.splits)

lemma review_names:
  "review_payload_for_draft d = Some p \<Longrightarrow> qr_pr_number (dr_report d) = Some (pe_pr_number (dr_event d)) \<Longrightarrow>
     rp_repo_full_name p = qr_repo_full_name (dr_report d) \<and> rp_pr_number p = pe_pr_number (dr_event d)"
  by (auto simp: review_payload_for_draft_def Let_def split: if_splits)

lemma pr_run_names:
  assumes "pr_run pw event s = (Inr r, t)"
    and names: "\<And>s ctx t. pw_context pw event s = (Inr ctx, t) \<Longrightarrow>
      ax_repo_full_name ctx = pe_repo_full_name event \<and> ax_pr_number ctx = pe_pr_number event"
    and renderer: "pw_renderer pw = (\<lambda>draft. liftS (default_render draft))"
  shows "names_pull_request (pe_repo_full_name event) (pe_pr_number event) r"
proof -
  from assms(1) obtain ctx s1 triage s2 where ctx: "pw_context pw event s = (Inr ctx, s1)"
    and "pw_triage pw ctx s1 = (Inr triage, s2)"
    and run: "pr_run (pw\<lparr>pw_context := (\<lambda>_. retS ctx), pw_triage := (\<lambda>_. retS triage)\<rparr>) event s2 = (Inr r, t)"
    unfolding pr_run_split [of pw event s] by (auto simp: bindS_Inr split: prod.splits sum.splits)
  have lift: "liftS a u = (Inr x, v) \<longleftrightarrow> a = Inr x \<and> v = u" for a :: "'b res" and x and u v :: "'a"
    by (auto simp: liftS_def)
  note named = names [OF ctx]
  consider (noop) "\<not> renders_output triage" | (light) "renders_output triage" "\<not> runs_analysis triage"
    | (full) "renders_output triage" "runs_analysis triage" by blast
  then show ?thesis
  proof cases
    case noop
    with run show ?thesis by (auto simp: names_pull_request_def pr_run_def bindS_ret)
  next
    case light
    with run named show ?thesis
      by (auto simp: names_pull_request_def pr_run_def bindS_ret bindS_Inr Let_def renderer lift triage_only_report_def
          dest!: render_names)
  next
    case full
    with run named show ?thesis
      by (auto simp: names_pull_request_def pr_run_def bindS_ret bindS_Inr Let_def renderer lift
          dest!: render_names review_names split: if_splits)
  qed
qed

text \<open>The pull request of an event that a workflow may post to.\<close>

fun event_pull_request :: "string event \<Rightarrow> (string \<times> int) option" where
  "event_pull_request (PROpened e) = Some (pe_repo_full_name e, pe_pr_number e)"
| "event_pull_request (PRUpdated e) = Some (pe_repo_full_name e, pe_pr_number e)"
| "event_pull_request _ = None"

definition result_names :: "string event \<Rightarrow> workflow_result \<Rightarrow> bool" where
  "result_names event result \<longleftrightarrow>
     (case result of
        PRResult r \<Rightarrow> (case event_pull_request event of None \<Rightarrow> False | Some (full_name, n) \<Rightarrow> names_pull_request full_name n r)
      | CIResult _ \<Rightarrow> True)"

lemma dispatch_adds:
  assumes "quiet_components l pw" and "\<And>e. quiet l (ci_run cc e)"
    and names: "\<And>e s ctx t. pw_context pw e s = (Inr ctx, t) \<Longrightarrow>
      ax_repo_full_name ctx = pe_repo_full_name e \<and> ax_pr_number ctx = pe_pr_number e"
    and renderer: "pw_renderer pw = (\<lambda>draft. liftS (default_render draft))"
  shows "adds l P 0 (result_names event) (dispatch pw cc event)"
proof -
  have pr: "adds l P 0 (names_pull_request (pe_repo_full_name e) (pe_pr_number e)) (pr_run pw e)" for e
    using pr_run_quiet [OF assms(1)] by (rule adds_returned) (rule pr_run_names [OF _ names renderer])
  have posted: "adds l P 0 (result_names event) (bindS (pr_run pw e) (\<lambda>r. retS (PRResult r)))"
    if "event_pull_request event = Some (pe_repo_full_name e, pe_pr_number e)" for e
    using pr by (rule adds_before) (rule adds_ret, simp add: result_names_def that)
  have ci: "adds l P 0 (result_names event) (bindS (ci_run cc e) (\<lambda>r. retS (CIResult r)))" for e
    using assms(2) by (rule adds_after) (rule adds_ret, simp add: result_names_def)
  show ?thesis
    using posted ci by (cases event) (simp_all add: adds_raise comment_run_def review_run_stub_def chat_run_def)
qed

section \<open>Attempts\<close>

lemma attempts_add:
  assumes "\<And>a. adds l P k (\<lambda>_. True) (run_once wk job (attempt_context wk job a))"
  shows "\<exists>ws. l (snd (attempts_from wk job left a e s)) = l s @ ws \<and> list_all P ws \<and> length ws \<le> k * left"
proof (induction left arbitrary: a e s)
  case (Suc left)
  obtain r t where run: "run_once wk job (attempt_context wk job a) s = (r, t)" by fastforce
  from addsD [OF assms run] obtain ws where ws: "l t = l s @ ws" "list_all P ws" "length ws \<le> k" by blast
  show ?case
  proof (cases r)
    case (Inl exc)
    from Suc.IH [of "a + 1" "exn_msg exc" t] obtain vs
      where "l (snd (attempts_from wk job left (a + 1) (exn_msg exc) t)) = l t @ vs" "list_all P vs" "length vs \<le> k * left"
      by blast
    moreover have "attempts_from wk job (Suc left) a e s =
        (if a = wk_max_attempts wk then (failed_execution job a (exn_msg exc), t)
         else attempts_from wk job left (a + 1) (exn_msg exc) t)"
      by (simp add: run Inl)
    ultimately show ?thesis
      using ws by (cases "a = wk_max_attempts wk") (auto intro: exI [of _ ws] exI [of _ "ws @ vs"])
  next
    case (Inr result)
    with ws show ?thesis by (auto simp: run intro: exI [of _ ws])
  qed
qed simp

lemma process_adds:
  assumes "\<And>a. adds l P k (\<lambda>_. True) (run_once wk job (attempt_context wk job a))" and "nat (wk_max_attempts wk) = n"
  shows "\<exists>ws. l (snd (process wk (Job job) s)) = l s @ ws \<and> list_all P ws \<and> length ws \<le> k * n"
  unfolding process.simps assms(2) by (rule attempts_add [OF assms(1)])

end
