(* ===== verification/Posts.thy ===== *)
theory Posts
  imports Client_Facts Quiet_Stages
begin

text \<open>
  What the processing of a job posts to GitHub. The locale \<open>posting_client\<close> is the contract between the
  pull request tools and their client: reading adds nothing to a log of posts, a posting operation at
  most one entry, which belongs to the pull request or the repository it was called with. Everything
  from the tools up to the worker is proved over it; the REST client keeps it over a network whose
  requests are recorded, of which the transport for tests is an instance.
\<close>

section \<open>The contract of a client\<close>

text \<open>\<open>about owner repo n x\<close>: the entry \<open>x\<close> of the log is a post to that pull request.\<close>

definition own_post :: "(string \<Rightarrow> string \<Rightarrow> int \<Rightarrow> 'x \<Rightarrow> bool) \<Rightarrow> string \<Rightarrow> int \<Rightarrow> 'x \<Rightarrow> bool" where
  "own_post about full_name n x \<longleftrightarrow> (\<exists>owner repo. full_name = owner @ ''/'' @ repo \<and> about owner repo n x)"

text \<open>The entry is a post to the pull request of the event, or of the event of the job.\<close>

definition event_post :: "(string \<Rightarrow> string \<Rightarrow> int \<Rightarrow> 'x \<Rightarrow> bool) \<Rightarrow> string event \<Rightarrow> 'x \<Rightarrow> bool" where
  "event_post about event x \<longleftrightarrow>
     (case event_pull_request event of None \<Rightarrow> False | Some (full_name, n) \<Rightarrow> own_post about full_name n x)"

definition job_post :: "(string \<Rightarrow> string \<Rightarrow> int \<Rightarrow> 'x \<Rightarrow> bool) \<Rightarrow> string queued_job \<Rightarrow> 'x \<Rightarrow> bool" where
  "job_post about job x \<longleftrightarrow> (case job of Job j \<Rightarrow> event_post about (ej_event j) x | MalformedJob delivery err \<Rightarrow> False)"

locale posting_client =
  fixes client :: "'w github_client"
    and posts :: "'w \<Rightarrow> 'x list"
    and about :: "string \<Rightarrow> string \<Rightarrow> int \<Rightarrow> 'x \<Rightarrow> bool"
  assumes reads:
      "quiet posts (gc_get_pull_request client owner repo n)" "quiet posts (gc_list_pull_request_files client owner repo n)"
      "quiet posts (gc_get_pull_request_diff client owner repo n)" "quiet posts (gc_list_workflow_run_jobs client owner repo n)"
      "quiet posts (gc_list_check_runs_for_ref client owner repo ref)" "quiet posts (gc_list_issue_comments client owner repo n)"
      "quiet posts (gc_list_pull_request_reviews client owner repo n)"
    and creates: "adds posts (about owner repo n) 1 (\<lambda>_. True) (gc_create_issue_comment client owner repo n body)"
    and updates: "adds posts (about owner repo n) 1 (\<lambda>_. True) (gc_update_issue_comment client owner repo i body)"
    and reviews:
      "adds posts (about owner repo n) 1 (\<lambda>_. True) (gc_create_pull_request_review client owner repo n body sha event comments)"
begin

text \<open>The tools that read.\<close>

lemma read_handlers:
  "quiet posts (get_pull_request client call)" "quiet posts (list_pull_request_files client call)"
  "quiet posts (get_pull_request_diff client call)" "quiet posts (list_workflow_run_jobs client call)"
  "quiet posts (list_check_runs_for_ref client call)" "quiet posts (list_pull_request_reviews client call)"
  unfolding get_pull_request_def list_pull_request_files_def get_pull_request_diff_def list_workflow_run_jobs_def
    list_check_runs_for_ref_def list_pull_request_reviews_def Let_def
  by (intro quiet_intros reads)+

text \<open>The tools that post.\<close>

lemma comment_handler:
  assumes "\<And>owner repo k. repo_pr_input call = Inr (owner, repo, k) \<Longrightarrow> full_name = owner @ ''/'' @ repo \<and> k = n"
  shows "adds posts (own_post about full_name n) 1 (\<lambda>_. True) (create_or_update_comment client call)"
proof (cases "repo_pr_input call")
  case (Inl e)
  then show ?thesis unfolding create_or_update_comment_def by (simp add: lifted_Inl adds_raise)
next
  case (Inr v)
  then obtain owner repo where v: "repo_pr_input call = Inr (owner, repo, n)" "full_name = owner @ ''/'' @ repo"
    using assms by (cases v) auto
  have new: "adds posts (own_post about full_name n) 1 (\<lambda>_. True) (gc_create_issue_comment client owner repo n b)" for b
    using creates by (rule adds_entries) (use v(2) in \<open>auto simp: own_post_def\<close>)
  have old: "adds posts (own_post about full_name n) 1 (\<lambda>_. True) (gc_update_issue_comment client owner repo i b)" for i b
    using updates by (rule adds_entries) (use v(2) in \<open>auto simp: own_post_def\<close>)
  show ?thesis
    unfolding create_or_update_comment_def v(1) Let_def lifted_Inr prod.case
    by (intro adds_after [OF reads(6)] adds_before [where R = "\<lambda>_. True"] adds_option adds_ret new old) simp_all
qed

lemma review_handler:
  assumes "\<And>owner repo k. repo_pr_input call = Inr (owner, repo, k) \<Longrightarrow> full_name = owner @ ''/'' @ repo \<and> k = n"
  shows "adds posts (own_post about full_name n) 1 (\<lambda>_. True) (create_pull_request_review client call)"
proof (cases "repo_pr_input call")
  case (Inl e)
  then show ?thesis unfolding create_pull_request_review_def by (simp add: lifted_Inl adds_raise)
next
  case (Inr v)
  then obtain owner repo where v: "repo_pr_input call = Inr (owner, repo, n)" "full_name = owner @ ''/'' @ repo"
    using assms by (cases v) auto
  have new: "adds posts (own_post about full_name n) 1 (\<lambda>_. True) (gc_create_pull_request_review client owner repo n b h e cs)"
    for b h e cs
    using reviews by (rule adds_entries) (use v(2) in \<open>auto simp: own_post_def\<close>)
  show ?thesis
    unfolding create_pull_request_review_def v(1) lifted_Inr prod.case
    by (intro adds_after [OF quiet_unit(3)] adds_before [where R = "\<lambda>_. True"] adds_ret new) simp_all
qed

section \<open>Through the tool runtime\<close>

lemma execute_adds:
  assumes "\<And>td. map_of (named_tools client) (tc_name call) = Some td \<Longrightarrow> adds posts P n (\<lambda>_. True) (td_handler td call)"
  shows "adds (tool_log posts) P n (\<lambda>_. True) (execute (build_github_tool_runtime client) call)"
  unfolding adds_def
proof (rule allI)
  fix s :: "'w runtime_state"
  have none: "\<exists>ws. posts (rs_world s) = posts (rs_world s) @ ws \<and> list_all P ws \<and> length ws \<le> n" by (intro exI [of _ "[]"]) simp
  have run: "\<exists>ws. posts w = posts (rs_world s) @ ws \<and> list_all P ws \<and> length ws \<le> n"
    if "map_of (named_tools client) (tc_name call) = Some td" "td_handler td call (rs_world s) = (x, w)" for td x w
    using addsD [OF assms [OF that(1)] that(2)] by blast
  show "(\<exists>ws. tool_log posts (snd (execute (build_github_tool_runtime client) call s)) = tool_log posts s @ ws \<and>
        list_all P ws \<and> length ws \<le> n) \<and>
      (case fst (execute (build_github_tool_runtime client) call s) of Inl e \<Rightarrow> True | Inr r \<Rightarrow> True)"
    using none run
    by (auto simp: tool_log_def execute_def wired_named split: option.split sum.split prod.split)
qed

lemma execute_reads:
  assumes "tc_name call \<noteq> ''github.pr.comment.create_or_update''" and "tc_name call \<noteq> ''github.pr.review.create''"
  shows "quiet (tool_log posts) (execute (build_github_tool_runtime client) call)"
proof (rule adds_0_quiet, rule execute_adds)
  fix td
  assume "map_of (named_tools client) (tc_name call) = Some td"
  then show "adds posts (\<lambda>_. True) 0 (\<lambda>_. True) (td_handler td call)"
    using assms read_handlers [of call, THEN quiet_adds]
    by (auto simp: named_tools_list github_tool_def split: if_splits)
qed

text \<open>A call that names its pull request as the posters do.\<close>

lemma input_pull_request:
  assumes "repo_pr_input call = Inr (owner, repo, k)"
    and "dget (tc_input call) ''repo_full_name'' (JStr []) = JStr full_name" "dget (tc_input call) ''pr_number'' JNull = JInt n"
  shows "full_name = owner @ ''/'' @ repo \<and> k = n"
  using assms by (auto simp: repo_pr_input_def repo_input_def positive_int_def split: if_splits dest: split_repo_Inr)

lemma comment_call_adds:
  "adds (tool_log posts) (own_post about (cp_repo_full_name p) (cp_pr_number p)) 1 (\<lambda>_. True)
     (execute (build_github_tool_runtime client) (comment_call p cid))"
proof (rule execute_adds)
  fix td
  assume "map_of (named_tools client) (tc_name (comment_call p cid)) = Some td"
  then have "td_handler td = create_or_update_comment client"
    by (auto simp: comment_call_def output_call_def named_tools_list github_tool_def)
  moreover have "adds posts (own_post about (cp_repo_full_name p) (cp_pr_number p)) 1 (\<lambda>_. True)
      (create_or_update_comment client (comment_call p cid))"
    by (rule comment_handler) (erule input_pull_request, simp_all add: comment_call_def output_call_def dget_Cons)
  ultimately show "adds posts (own_post about (cp_repo_full_name p) (cp_pr_number p)) 1 (\<lambda>_. True)
      (td_handler td (comment_call p cid))" by simp
qed

lemma review_call_adds:
  "adds (tool_log posts) (own_post about (rp_repo_full_name p) (rp_pr_number p)) 1 (\<lambda>_. True)
     (execute (build_github_tool_runtime client) (review_call p cid))"
proof (rule execute_adds)
  fix td
  assume "map_of (named_tools client) (tc_name (review_call p cid)) = Some td"
  then have "td_handler td = create_pull_request_review client"
    by (auto simp: review_call_def output_call_def named_tools_list github_tool_def)
  moreover have "adds posts (own_post about (rp_repo_full_name p) (rp_pr_number p)) 1 (\<lambda>_. True)
      (create_pull_request_review client (review_call p cid))"
    by (rule review_handler) (erule input_pull_request, simp_all add: review_call_def output_call_def dget_Cons)
  ultimately show "adds posts (own_post about (rp_repo_full_name p) (rp_pr_number p)) 1 (\<lambda>_. True)
      (td_handler td (review_call p cid))" by simp
qed

section \<open>The posters\<close>

lemma post_comment_adds:
  "adds (tool_log posts) (own_post about (cp_repo_full_name p) (cp_pr_number p)) 1 (\<lambda>_. True)
     (post_comment (execute (build_github_tool_runtime client)) p cid)"
  unfolding post_comment_def
proof (rule adds_before [OF comment_call_adds], rule quiet_adds, intro quiet_intros)
  fix result :: py_object
  show "quiet (tool_log posts) (case result of ObjComment c \<Rightarrow> retS c
      | _ \<Rightarrow> raiseS (unexpected_output ''github.pr.comment.create_or_update''))"
    by (cases result) (simp_all add: quiet_unit)
qed

lemma create_review_adds:
  "adds (tool_log posts) (own_post about (rp_repo_full_name p) (rp_pr_number p)) 1 (\<lambda>_. True)
     (create_review (execute (build_github_tool_runtime client)) p cid)"
  unfolding create_review_def
proof (rule adds_before [OF review_call_adds], rule quiet_adds, intro quiet_intros)
  fix result :: py_object
  show "quiet (tool_log posts) (case result of ObjReview r \<Rightarrow> retS r
      | _ \<Rightarrow> raiseS (unexpected_output ''github.pr.review.create''))"
    by (cases result) (simp_all add: quiet_unit)
qed

lemma preflight_quiet: "quiet (tool_log posts) (preflight_review (execute (build_github_tool_runtime client)) p cid)"
proof -
  have listed: "quiet (tool_log posts) (case result of ObjTuple xs \<Rightarrow> liftS (find_review p cid xs)
      | _ \<Rightarrow> raiseS (unexpected_output ''github.pr.review.list''))" for result
    by (cases result) (simp_all add: quiet_unit)
  show ?thesis
    unfolding preflight_review_def ensure_current_head_def find_existing_review_def
    by (intro quiet_intros execute_reads listed) (simp_all add: view_call_def output_call_def)
qed

lemma prepared_same:
  "prepare_review p cid = Inr q \<Longrightarrow> rp_repo_full_name q = rp_repo_full_name p \<and> rp_pr_number q = rp_pr_number p"
  by (auto simp: prepare_review_def prepared_for_submission_def with_correlation_id_def Let_def split: if_splits)

lemma post_outputs_adds:
  assumes comment: "cp_repo_full_name c = full_name" "cp_pr_number c = n"
    and review: "\<And>p. review = Some p \<Longrightarrow> rp_repo_full_name p = full_name \<and> rp_pr_number p = n"
  shows "adds (tool_log posts) (own_post about full_name n) 2 (\<lambda>_. True)
    (post_outputs (execute (build_github_tool_runtime client)) c review cid)"
proof (cases review)
  case None
  have "adds (tool_log posts) (own_post about full_name n) 1 (\<lambda>_. True)
      (post_outputs (execute (build_github_tool_runtime client)) c review cid)"
    unfolding post_outputs_def None option.case
    using post_comment_adds [of c cid, unfolded comment] by (rule adds_before) (rule adds_ret, simp)
  then show ?thesis by (rule adds_weaken) simp_all
next
  case (Some p)
  have one: "adds (tool_log posts) (own_post about full_name n) 1 (\<lambda>_. True)
      (post_comment (execute (build_github_tool_runtime client)) c cid)"
    using post_comment_adds [of c cid] by (simp add: comment)
  have two: "adds (tool_log posts) (own_post about full_name n) 1 (\<lambda>_. True)
      (bindS (case existing of None \<Rightarrow> create_review (execute (build_github_tool_runtime client)) q cid | Some r \<Rightarrow> retS r)
         (\<lambda>r. retS \<lparr>op_comment = Some x, op_review = Some r\<rparr>))"
    if "prepare_review p cid = Inr q" for q existing x
    using prepared_same [OF that] review [OF Some] create_review_adds [of q cid]
    by (intro adds_before [where R = "\<lambda>_. True"] adds_option adds_ret) simp_all
  have "adds (tool_log posts) (own_post about full_name n) (0 + (1 + 1)) (\<lambda>_. True)
      (post_outputs (execute (build_github_tool_runtime client)) c review cid)"
    unfolding post_outputs_def Some option.case
    by (rule adds_bind [where R = "\<lambda>q. prepare_review p cid = Inr q"], rule adds_lift, assumption,
        rule adds_after [OF preflight_quiet], rule adds_bind [OF one two])
  then show ?thesis by (simp add: numeral_2_eq_2)
qed

section \<open>The workflows\<close>

lemma context_tools_read:
  "name \<in> set context_tools \<Longrightarrow>
     quiet (tool_log posts) (execute (build_github_tool_runtime client) (context_call name input cid))"
  by (rule execute_reads) (auto simp: context_tools_def context_call_def)

lemma durable_components_quiet:
  assumes "quiet_runner posts runner" and "quiet_validator posts validator_cfg"
  shows "quiet_components (world_log posts) (durable_pr_components client runner triage_cfg validator_cfg find_entries)"
proof -
  let ?run = "execute (build_github_tool_runtime client)"
  have "quiet (world_log posts) (on_tools (load_pr_context ?run event))" for event
    by (rule tools_quiet, rule context_quiet) (simp add: event_call_def context_tools_read)
  moreover have "quiet (world_log posts) (on_world (agent_classify runner triage_cfg ctx))" for ctx
    using assms(1) by (intro world_quiet classify_quiet)
  moreover have "quiet (world_log posts) (on_sessions (validate_for_event validator_cfg event strategy))" for event strategy
    using assms(2) by (intro sessions_quiet validator_quiet)
  moreover have "quiet (world_log posts) (bindS (on_store_and_tools (load_ci_feedback_for_pr_event (load_checks ?run) event))
      (\<lambda>fb. retS (Some fb)))" for event
    by (intro quiet_intros store_and_tools_quiet feedback_quiet checks_quiet context_tools_read)
      (simp add: context_tools_def)
  ultimately show ?thesis
    by (simp add: quiet_components_def durable_pr_components_def default_components_def Let_def run_validator_def quiet_unit)
qed

lemma durable_ci_quiet: "quiet (world_log posts) (ci_run (durable_ci_components client) event)"
proof -
  let ?run = "execute (build_github_tool_runtime client)"
  have "quiet (world_log posts) (on_tools (load_ci_context ?run event))" for event
    by (rule tools_quiet, rule ci_context_quiet) (simp add: jobs_call_def context_tools_read context_tools_def)
  moreover have "quiet (world_log posts) (on_store_and_tools (store_recorder event))" for event
    by (rule store_and_tools_quiet) (simp add: quiet_def store_recorder_def)
  ultimately show ?thesis
    by (intro ci_run_quiet) (auto simp: durable_ci_components_def Let_def)
qed

section \<open>The worker\<close>

lemma post_result_adds:
  assumes "event_pull_request (ej_event job) = Some (full_name, n)" and "result_names (ej_event job) result"
    and "wk_output_poster wk = durable_poster client"
  shows "adds (world_log posts) (own_post about full_name n) 2 (\<lambda>_. True) (post_result wk job result)"
proof (cases result)
  case (CIResult r)
  then show ?thesis by (simp add: post_result_def adds_ret)
next
  case (PRResult r)
  let ?run = "execute (build_github_tool_runtime client)"
  have own: "names_pull_request full_name n r" using assms(1,2) by (simp add: result_names_def PRResult)
  show ?thesis
  proof (cases "wf_comment_payload r")
    case None
    then show ?thesis by (simp add: post_result_def PRResult adds_ret)
  next
    case (Some c)
    have c: "cp_repo_full_name c = full_name" "cp_pr_number c = n"
      using own Some by (simp_all add: names_pull_request_def)
    have single: "adds (world_log posts) (own_post about full_name n) 2 (\<lambda>_. True)
        (on_tools (bindS (post_comment ?run c cid) (\<lambda>_. retS ())))" for cid
      using post_comment_adds [of c cid, unfolded c]
      by (intro tools_adds adds_before [where R = "\<lambda>_. True"] adds_ret) (auto elim: adds_weaken)
    have both: "adds (world_log posts) (own_post about full_name n) 2 (\<lambda>_. True)
        (on_tools (bindS (post_outputs ?run c (Some p) cid) (\<lambda>_. retS ())))" if "wf_review_payload r = Some p" for p cid
      using own that
      by (intro tools_adds adds_before [where R = "\<lambda>_. True"] adds_ret post_outputs_adds) (auto simp: c names_pull_request_def)
    have "adds (world_log posts) (own_post about full_name n) 2 (\<lambda>_. True)
        (post_pr_output (durable_poster client) r (ej_correlation_id job))"
      using single both by (auto simp: post_pr_output_def Some durable_poster_def Let_def split: option.split)
    then show ?thesis
      unfolding post_result_def PRResult workflow_result.case assms(3) Some
      by (simp, intro adds_before [where R = "\<lambda>_. True"] adds_ret) simp_all
  qed
qed

lemma event_result_adds:
  assumes "result_names (ej_event job) result" and "wk_output_poster wk = durable_poster client"
  shows "adds (world_log posts) (event_post about (ej_event job)) 2 (\<lambda>_. True) (post_result wk job result)"
proof (cases "event_pull_request (ej_event job)")
  case None
  with assms(1) obtain r where "result = CIResult r" by (cases result) (simp_all add: result_names_def)
  then show ?thesis by (simp add: post_result_def adds_ret)
next
  case (Some v)
  then obtain full_name n where v: "event_pull_request (ej_event job) = Some (full_name, n)" by (cases v) auto
  show ?thesis
    using post_result_adds [OF v assms] by (rule adds_entries) (simp add: event_post_def v)
qed

lemma durable_run_adds:
  assumes "quiet_runner posts runner" and "quiet_validator posts validator_cfg"
    and "durable_worker client runner triage_cfg validator_cfg find_entries timed = Inr wk"
  shows "adds (world_log posts) (event_post about (ej_event job)) 2 (\<lambda>_. True) (run_once wk job (attempt_context wk job a))"
proof -
  let ?pw = "durable_pr_components client runner triage_cfg validator_cfg find_entries"
  have wk: "wk_orchestrator wk = dispatch ?pw (durable_ci_components client)"
    "wk_output_poster wk = durable_poster client" "wk_timeout_seconds wk = None"
    using assms(3) by (auto simp: durable_worker_def worker_init_def)
  have load: "pw_context ?pw = (\<lambda>event. on_tools (load_pr_context (execute (build_github_tool_runtime client)) event))"
    and renderer: "pw_renderer ?pw = (\<lambda>draft. liftS (default_render draft))"
    by (simp_all add: durable_pr_components_def default_components_def Let_def)
  have "ax_repo_full_name ctx = pe_repo_full_name e \<and> ax_pr_number ctx = pe_pr_number e"
    if "pw_context ?pw e s = (Inr ctx, t)" for e s ctx t
    using that unfolding load by (auto simp: on_tools_def split: prod.splits dest: context_names)
  then have "adds (world_log posts) (event_post about (ej_event job)) 0 (result_names (ej_event job))
      (dispatch ?pw (durable_ci_components client) (ej_event job))"
    using durable_components_quiet [OF assms(1,2)] durable_ci_quiet by (intro dispatch_adds renderer) blast+
  then have "adds (world_log posts) (event_post about (ej_event job)) (0 + 2) (\<lambda>_. True)
      (bindS (dispatch ?pw (durable_ci_components client) (ej_event job)) (\<lambda>result. post_result wk job result))"
    using event_result_adds [OF _ wk(2)] by (rule adds_bind)
  then show ?thesis by (simp add: run_once_def attempt_context_def wk numeral_2_eq_2)
qed

lemma durable_process_adds:
  assumes "quiet_runner posts runner" and "quiet_validator posts validator_cfg"
    and "durable_worker client runner triage_cfg validator_cfg find_entries timed = Inr wk"
  shows "\<exists>ws. world_log posts (snd (process wk job s)) = world_log posts s @ ws \<and> list_all (job_post about job) ws \<and>
    length ws \<le> 6"
proof (cases job)
  case (Job j)
  have "nat (wk_max_attempts wk) = 3" using assms(3) by (auto simp: durable_worker_def worker_init_def)
  from process_adds [OF durable_run_adds [OF assms] this] show ?thesis
    unfolding Job job_post_def queued_job.case by simp
qed simp

end

end
