(* ===== verification/Own_Posts.thy ===== *)
theory Own_Posts
  imports Startup Posts
begin

text \<open>
  The REST client keeps the contract of \<open>Posts\<close> over a network whose requests are recorded, and so
  the worker that \<open>build_worker\<close> of \<open>src/app/worker/factory.py\<close> makes posts to the pull request of a job
  and to nothing else. The transport for tests is such a network, and \<open>UrllibTransport\<close> makes one of
  every opener that is called once per request.
\<close>

section \<open>Requests on record\<close>

text \<open>A request leaves its verb and its address on the record, answered or not.\<close>

definition records :: "('n \<Rightarrow> (string \<times> string) list) \<Rightarrow> 'n sender \<Rightarrow> bool" where
  "records sent send \<longleftrightarrow> (\<forall>verb url headers body w. sent (snd (send verb url headers body w)) = sent w @ [(upper verb, url)])"

definition token_url :: "string \<Rightarrow> int \<Rightarrow> string" where
  "token_url base installation_id = base @ ''/app/installations/'' @ show_int installation_id @ ''/access_tokens''"

text \<open>Everything but reading and the exchange of a token, at its address, counts as a post.\<close>

definition is_post :: "string \<Rightarrow> string \<times> string \<Rightarrow> bool" where
  "is_post exchange r \<longleftrightarrow> fst r \<noteq> ''GET'' \<and> r \<noteq> (''POST'', exchange)"

definition posts_of :: "string \<Rightarrow> ('n \<Rightarrow> (string \<times> string) list) \<Rightarrow> 'n auth_state \<Rightarrow> (string \<times> string) list" where
  "posts_of exchange sent s = filter (is_post exchange) (sent (at_world s))"

text \<open>The addresses that belong to a pull request: its comments, its reviews, a comment of its repository.\<close>

definition pull_request_post :: "string \<Rightarrow> string \<Rightarrow> string \<Rightarrow> int \<Rightarrow> string \<times> string \<Rightarrow> bool" where
  "pull_request_post base owner repo n r \<longleftrightarrow>
     r = (''POST'', base @ comments_path owner repo n) \<or> r = (''POST'', base @ pulls_path owner repo n @ ''/reviews'') \<or>
     (\<exists>i. r = (''PATCH'', base @ repo_path owner repo @ ''/issues/comments/'' @ show_int i))"

lemma upper_verbs: "upper ''GET'' = ''GET''" "upper ''POST'' = ''POST''" "upper ''PATCH'' = ''PATCH''"
  by code_simp+

lemma urllib_records:
  assumes "\<And>verb url headers body w. sent (snd (send (upper verb) url headers body w)) = sent w @ [(upper verb, url)]"
  shows "records sent (urllib_request send)"
  unfolding records_def
proof (intro allI)
  fix verb url headers body w
  show "sent (snd (urllib_request send verb url headers body w)) = sent w @ [(upper verb, url)]"
    using assms [of verb url "add_headers headers" body w]
    by (auto simp: urllib_request_def bindS_def retS_def split: prod.split sum.split)
qed

lemma fake_records: "records (\<lambda>t. map (\<lambda>c. (rl_verb c, rl_url c)) (ft_calls t)) fake_request"
  by (simp add: records_def fake_request_def Let_def split: list.split)

section \<open>The client on a recorded network\<close>

locale recorded_network =
  fixes cfg :: "'n rest_settings"
    and sent :: "'n \<Rightarrow> (string \<times> string) list"
  assumes clock: "quiet sent (nt_now (rt_network cfg))"
    and requests: "records sent (nt_request (rt_network cfg))"
begin

abbreviation exchange where
  "exchange \<equiv> token_url (ga_api_base (rt_auth cfg)) (ga_installation_id (rt_auth cfg))"

abbreviation posts where
  "posts \<equiv> posts_of exchange sent"

lemma network_quiet: "quiet (\<lambda>w. filter (is_post exchange) (sent w)) m \<Longrightarrow> quiet posts (on_network m)"
  by (erule quiet_part [where part = at_world]) (simp add: posts_of_def on_network_eq)

lemma clock_quiet: "quiet (\<lambda>w. filter (is_post exchange) (sent w)) (nt_now (rt_network cfg))"
  using clock by (simp add: quiet_def)

lemma request_quiet:
  "\<not> is_post exchange (upper verb, url) \<Longrightarrow>
     quiet (\<lambda>w. filter (is_post exchange) (sent w)) (nt_request (rt_network cfg) verb url headers body)"
  using requests by (simp add: quiet_def records_def)

lemma exchange_quiet:
  "quiet (\<lambda>w. filter (is_post exchange) (sent w)) (exchange_token (rt_network cfg) (rt_auth cfg))"
  unfolding exchange_token_def app_jwt_def request_token_def Let_def
  by (intro quiet_intros clock_quiet request_quiet) (simp add: is_post_def token_url_def upper_verbs)

lemma keep_quiet: "quiet posts (\<lambda>s. (Inr (g s), s))" "quiet posts (\<lambda>s. (Inr (g s), s\<lparr>at_cached := c\<rparr>))"
  by (simp_all add: quiet_def posts_of_def)

lemma token_quiet: "quiet posts (installation_token (rt_network cfg) (rt_auth cfg))"
proof -
  have refresh: "quiet posts (refresh_token (rt_network cfg) (rt_auth cfg))"
    unfolding refresh_token_def by (intro quiet_intros network_quiet exchange_quiet keep_quiet)
  have look: "quiet posts (\<lambda>s. case fresh_token (at_cached s) now of Some c \<Rightarrow> (Inr (ct_token c), s) | None \<Rightarrow> m s)"
    if "quiet posts m" for now m
    using that by (auto simp: quiet_def split: option.split)
  show ?thesis
    unfolding installation_token_def by (intro quiet_bind network_quiet clock_quiet look refresh)
qed

lemma get_quiet: "quiet posts (rest_request cfg ''GET'' path body extra)"
  unfolding rest_request_def
  by (intro quiet_intros token_quiet network_quiet request_quiet) (simp add: is_post_def upper_verbs)

lemma pages_quiet:
  assumes "\<And>page. quiet posts (fetch page)"
  shows "quiet posts (walk_pages fetch per_page left page results)"
  by (induction left arbitrary: page results) (auto intro!: quiet_intros assms)

lemma listing_quiet: "quiet posts (list_all_pages cfg path items_of convert per_page)"
  unfolding list_all_pages_def fetch_page_def get_json_def by (intro quiet_intros pages_quiet get_quiet)

lemma send_adds:
  assumes "P (upper verb, rt_base_url cfg @ path)"
  shows "adds posts P 1 (\<lambda>_. True) (send_json cfg verb path payload)"
proof -
  have "adds posts P 1 (\<lambda>_. True) (on_network (nt_request (rt_network cfg) verb (rt_base_url cfg @ path) headers body))"
    for headers body
  proof (rule adds_part [where part = at_world])
    show "adds (\<lambda>w. filter (is_post exchange) (sent w)) P 1 (\<lambda>_. True)
        (nt_request (rt_network cfg) verb (rt_base_url cfg @ path) headers body)"
      using requests assms by (auto simp: adds_def records_def split: sum.split)
  qed (simp add: on_network_eq posts_of_def)
  then have "adds posts P 1 (\<lambda>_. True) (rest_request cfg verb path body extra)" for body extra
    unfolding rest_request_def
    by (rule adds_after [OF token_quiet adds_before]) (rule quiet_adds, intro quiet_intros)
  then show ?thesis
    unfolding send_json_def by (rule adds_before) (rule quiet_adds, rule quiet_unit(3))
qed

end

sublocale recorded_network \<subseteq> posting_client "rest_client cfg"
  "posts_of (token_url (ga_api_base (rt_auth cfg)) (ga_installation_id (rt_auth cfg))) sent" "pull_request_post (rt_base_url cfg)"
proof unfold_locales
  fix owner repo ref body sha event :: string and n i :: int and comments
  note reading = rest_client_def rest_get_pull_request_def rest_list_files_def rest_get_diff_def rest_list_jobs_def
    rest_list_check_runs_def rest_list_comments_def rest_list_reviews_def get_json_def
  show "quiet posts (gc_get_pull_request (rest_client cfg) owner repo n)"
    "quiet posts (gc_list_pull_request_files (rest_client cfg) owner repo n)"
    "quiet posts (gc_get_pull_request_diff (rest_client cfg) owner repo n)"
    "quiet posts (gc_list_workflow_run_jobs (rest_client cfg) owner repo n)"
    "quiet posts (gc_list_check_runs_for_ref (rest_client cfg) owner repo ref)"
    "quiet posts (gc_list_issue_comments (rest_client cfg) owner repo n)"
    "quiet posts (gc_list_pull_request_reviews (rest_client cfg) owner repo n)"
    unfolding reading github_client.simps by (intro quiet_intros listing_quiet get_quiet)+
  note sending = adds_before [where R = "\<lambda>_. True", OF send_adds] adds_after [OF quiet_unit(3)] quiet_adds [OF quiet_unit(3)]
  show "adds posts (pull_request_post (rt_base_url cfg) owner repo n) 1 (\<lambda>_. True)
      (gc_create_issue_comment (rest_client cfg) owner repo n body)"
    unfolding rest_client_def rest_create_comment_def github_client.simps
    by (intro sending) (simp add: pull_request_post_def upper_verbs)
  show "adds posts (pull_request_post (rt_base_url cfg) owner repo n) 1 (\<lambda>_. True)
      (gc_update_issue_comment (rest_client cfg) owner repo i body)"
    unfolding rest_client_def rest_update_comment_def github_client.simps
    by (intro sending) (auto simp: pull_request_post_def upper_verbs)
  show "adds posts (pull_request_post (rt_base_url cfg) owner repo n) 1 (\<lambda>_. True)
      (gc_create_pull_request_review (rest_client cfg) owner repo n body sha event comments)"
  proof -
    have "adds posts (pull_request_post (rt_base_url cfg) owner repo n) 1 (\<lambda>_. True)
      (bindS (send_json cfg ''POST'' (pulls_path owner repo n @ ''/reviews'') payload) (\<lambda>data.
        liftS (bindR (expect_dict ''create-review'' data) review_result_from_payload)))" for payload
      by (intro sending) (simp add: pull_request_post_def upper_verbs)
    then show ?thesis
      unfolding rest_client_def rest_create_review_def github_client.simps Let_def
      by (auto simp: adds_raise intro: adds_after [OF quiet_unit(3)])
  qed
qed

context recorded_network
begin

lemma client_posts: "posting_client (rest_client cfg) posts (pull_request_post (rt_base_url cfg))"
  by (rule posting_client_axioms)

end

text \<open>The transport for tests, with any clock and JWT library, is a recorded network.\<close>

definition test_network :: "(fake_transport \<Rightarrow> rat) \<Rightarrow> (json \<Rightarrow> string \<Rightarrow> string res) \<Rightarrow> fake_transport network" where
  "test_network now jwt = \<lparr>nt_now = (\<lambda>t. (Inr (now t), t)), nt_request = fake_request, nt_jwt_encode = jwt\<rparr>"

definition test_calls :: "fake_transport \<Rightarrow> (string \<times> string) list" where
  "test_calls t = map (\<lambda>c. (rl_verb c, rl_url c)) (ft_calls t)"

lemma test_records: "records test_calls fake_request" "quiet test_calls (nt_now (test_network now jwt))"
  by (simp_all add: records_def test_calls_def fake_request_def Let_def quiet_def test_network_def split: list.split)

interpretation test_posts: recorded_network "rest_settings_init (test_network now jwt) auth base agent" test_calls
  for now jwt auth base agent
  using test_records by unfold_locales (simp_all add: rest_settings_init_def test_network_def)

section \<open>What the built worker posts\<close>

text \<open>The runners: the fake one beside the network, the one on Azure with an HTTP client of its own.\<close>

lemma wired_part: "quiet sent m \<Longrightarrow> quiet (posts_of exchange (\<lambda>s. sent (fst s))) (on_network (on_outside m))"
  by (auto simp: quiet_def posts_of_def on_network_eq on_outside_def split: prod.split) (metis snd_conv)

lemma fake_quiet: "quiet_runner (posts_of exchange (\<lambda>s. sent (fst s))) (wired_fake response)"
  by (simp add: quiet_runner_def quiet_def wired_fake_def on_fake_def on_network_eq posts_of_def split: prod.split)

lemma azure_quiet:
  assumes "\<And>url headers body limit. quiet l (an_post net url headers body limit)"
  shows "quiet_runner l (azure_openai_runner cfg (azure_complete net credential) key)"
proof -
  have ask: "quiet l (azure_complete net credential request)" for request
    unfolding azure_complete_def using assms
    by (intro quiet_intros) (auto simp: quiet_def split: prod.split sum.split, (metis snd_conv)+)
  have "quiet l (provider_run (azure_complete net credential) address cfg key session input)" for address session input
    using ask by (auto simp: quiet_def provider_run_def split: prod.split sum.split) (metis snd_conv)+
  then show ?thesis by (simp add: quiet_runner_def azure_openai_runner_def chat_runner_def quiet_unit)
qed

lemma built_runner_quiet:
  assumes "build_validation_agent_runner wired_fake (wired_azure net) cfg env = Inr runner"
    and "\<And>url headers body limit. quiet sent (an_post net url headers body limit)"
  shows "quiet_runner (posts_of exchange (\<lambda>s. sent (fst s))) runner"
proof -
  have "quiet (posts_of exchange (\<lambda>s. sent (fst s))) (an_post (wired_azure net) url headers body limit)" for url headers body limit
    using assms(2) by (simp add: wired_azure_def wired_part)
  from azure_quiet [OF this] show ?thesis
    using assms(1) fake_quiet
    by (auto simp: build_validation_agent_runner_def build_agent_runner_def Let_def split: if_splits)
qed

lemma built_validator_quiet:
  "quiet_runner l runner \<Longrightarrow> quiet_validator l (configured_validator ext runner)"
  by (simp add: quiet_validator_def configured_validator_def default_validator_def skipping_execute_def quiet_unit)

lemma built_client:
  assumes "configured_client ext cfg = Inr client"
    and "records sent (nt_request (ox_network ext))" and "quiet sent (nt_now (ox_network ext))"
  shows "posting_client client (posts_of (token_url github_api (fg_github_app_installation_id cfg)) (\<lambda>s. sent (fst s)))
    (pull_request_post github_api)"
proof -
  have base: "rstrip_by (\<lambda>c. c = CHR ''/'') github_api = github_api" by code_simp
  from assms(1) obtain auth where
    client: "client = rest_client (rest_settings_init (wired_network (ox_network ext)) auth github_api ''qaestro'')"
    and auth: "ga_api_base auth = github_api" "ga_installation_id auth = fg_github_app_installation_id cfg"
    by (auto simp: configured_client_def build_github_client_def app_auth_init_def github_settings_def base split: if_splits)
  let ?settings = "rest_settings_init (wired_network (ox_network ext)) auth github_api ''qaestro''"
  have "recorded_network ?settings (\<lambda>s. sent (fst s))"
    using assms(2,3)
    by (auto simp: recorded_network_def rest_settings_init_def wired_network_def records_def quiet_def on_outside_def
        split: prod.split) (metis snd_conv)+
  then show ?thesis
    using recorded_network.client_posts by (force simp add: client auth rest_settings_init_def base)
qed

lemma local_process_quiet:
  fixes l :: "'w \<Rightarrow> 'x list"
  assumes "local_worker find_entries timed = Inr wk"
  shows "l (snd (process wk job s)) = l s"
proof (cases job)
  case (Job j)
  let ?pw = "default_components find_entries" and ?cc = "\<lparr>cc_context = None, cc_record = None\<rparr>"
  have wk: "wk_orchestrator wk = dispatch ?pw ?cc" "wk_output_poster wk = noop_poster" "wk_timeout_seconds wk = None"
    using assms by (auto simp: local_worker_def worker_init_def)
  have pr: "quiet l (pr_run ?pw e)" for e
    by (rule pr_run_quiet) (simp add: quiet_components_def default_components_def run_validator_def quiet_unit)
  have ci: "quiet l (ci_run ?cc e)" for e
    by (rule ci_run_quiet) simp_all
  have "quiet l (dispatch ?pw ?cc e)" for e
    using pr ci by (cases e) (auto intro!: quiet_intros simp: comment_run_def review_run_stub_def chat_run_def)
  moreover have "quiet l (post_result wk j result)" for result
    by (cases result) (auto simp: post_result_def post_pr_output_def wk noop_poster_def intro!: quiet_intros split: option.split)
  ultimately have "quiet l (run_once wk j (attempt_context wk j a))" for a
    by (simp add: run_once_def attempt_context_def wk quiet_bind)
  then have "adds l (\<lambda>_. True) 0 (\<lambda>_. True) (run_once wk j (attempt_context wk j a))" for a
    by (rule quiet_adds)
  from process_adds [OF this refl] show ?thesis by (simp add: Job)
qed simp

definition worker_posts ::
  "app_config \<Rightarrow> ('n \<Rightarrow> (string \<times> string) list) \<Rightarrow> 'n wired_state durable_state \<Rightarrow> (string \<times> string) list" where
  "worker_posts cfg sent s =
     filter (is_post (token_url github_api (fg_github_app_installation_id cfg))) (sent (fst (at_world (ds_world s))))"

text \<open>C2. A worker posts to nothing but the pull request of its job: for any network that keeps a record
  of its requests, and a provider's client that does not use it, processing a job adds to the record
  at most six requests that are neither reading nor the exchange of a token (two for each of its
  attempts, and none for the worker of the in-memory queue), and each of them creates a comment or a
  review of the pull request of the job's event or changes a comment of its repository; an event of
  another kind and a malformed message add none.\<close>

theorem own_posts_only:
  assumes worker: "build_worker ext cfg environ = Inr wk"
    and network: "records sent (nt_request (ox_network ext))" "quiet sent (nt_now (ox_network ext))"
    and provider: "\<And>url headers body limit. quiet sent (an_post (ox_azure ext) url headers body limit)"
  shows "\<exists>ws. worker_posts cfg sent (snd (process wk job s)) = worker_posts cfg sent s @ ws \<and>
    length ws \<le> (if fg_queue_backend cfg = ''memory'' then 0 else 6) \<and>
    list_all (job_post (pull_request_post github_api) job) ws"
proof (cases "fg_queue_backend cfg = ''memory''")
  case True
  with worker have "local_worker (search []) (ox_timed ext) = Inr wk" by (simp add: build_worker_def)
  from local_process_quiet [OF this] True show ?thesis by simp
next
  case False
  let ?posts = "posts_of (token_url github_api (fg_github_app_installation_id cfg)) (\<lambda>s. sent (fst s))"
  from worker False obtain client runner where built: "configured_client ext cfg = Inr client"
    "build_validation_agent_runner wired_fake (wired_azure (ox_azure ext)) cfg environ = Inr runner"
    "durable_worker client runner (configured_triage ext) (configured_validator ext runner) (search []) (ox_timed ext) = Inr wk"
    by (auto simp: build_worker_def)
  note quiet = built_runner_quiet [OF built(2) provider]
  have posts: "worker_posts cfg sent t = world_log ?posts t" for t
    by (simp add: worker_posts_def world_log_def posts_of_def)
  from posting_client.durable_process_adds [OF built_client [OF built(1) network] quiet built_validator_quiet [OF quiet] built(3)]
  show ?thesis unfolding posts using False by auto
qed

section \<open>A worker on the transport for tests\<close>

definition test_outside :: "fake_transport outside" where
  "test_outside =
     \<lparr>ox_network = test_network (\<lambda>t. 0) (\<lambda>payload key. Inr ''jwt''), ox_read_text = (\<lambda>path. Inr ''key''),
      ox_azure = \<lparr>an_post = (\<lambda>url headers body limit s. (Inr \<lparr>hs_status = 200, hs_headers = [], hs_body = []\<rparr>, s)),
                  an_show_float = (\<lambda>x. ''30.0'')\<rparr>,
      ox_prompt_dir = [], ox_prompt_text = (\<lambda>p. None), ox_clock = (\<lambda>s. 0), ox_timed = (\<lambda>limit run. run)\<rparr>"

definition test_config :: app_config where
  "test_config = default_app_config\<lparr>fg_queue_backend := ''redis-streams'', fg_github_app_id := 1,
     fg_github_app_installation_id := 2, fg_github_app_private_key_path := ''key.pem''\<rparr>"

definition test_state :: "fake_transport wired_state durable_state" where
  "test_state =
     \<lparr>ds_store = [], ds_audit_log = [], ds_records = [], ds_next_id = 1,
      ds_world = \<lparr>at_cached = Some \<lparr>ct_token = JStr ''t'', ct_expires_at = 3600\<rparr>,
        at_world = (fake_enqueue \<lparr>fr_status = 201, fr_headers = [], fr_body = ''{\"id\": 9}''\<rparr> fake_transport_init, idle_fake)\<rparr>\<rparr>"

definition test_job :: "string queued_job" where
  "test_job = Job \<lparr>ej_event = PROpened (sample_pr ''e1'' ''aaa''), ej_correlation_id = ''corr'', ej_delivery_id = ''1-0''\<rparr>"

lemma own_posts_only_witness:
  "\<exists>wk. build_worker test_outside test_config [] = Inr wk \<and>
    (\<exists>ws. worker_posts test_config test_calls (snd (process wk test_job test_state)) =
        worker_posts test_config test_calls test_state @ ws \<and> length ws \<le> 6 \<and>
      list_all (job_post (pull_request_post github_api) test_job) ws)"
proof -
  obtain wk where wk: "build_worker test_outside test_config [] = Inr wk"
    by (simp add: build_worker_def test_config_def default_app_config_def configured_client_def build_github_client_def
        github_settings_def test_outside_def app_auth_init_def build_validation_agent_runner_def build_agent_runner_def
        default_agent_runtime_def durable_worker_def worker_init_def)
  have "records test_calls (nt_request (ox_network test_outside))" "quiet test_calls (nt_now (ox_network test_outside))"
    using test_records by (simp_all add: test_outside_def test_network_def)
  moreover have "quiet test_calls (an_post (ox_azure test_outside) url headers body limit)" for url headers body limit
    by (simp add: test_outside_def quiet_def)
  moreover have "fg_queue_backend test_config \<noteq> ''memory''" by (simp add: test_config_def)
  ultimately show ?thesis using own_posts_only [OF wk, of test_calls test_job test_state] wk by auto
qed

text \<open>The client of that worker does post: a comment is created with one request, to its pull request.\<close>

lemma test_comment:
  "case configured_client test_outside test_config of
     Inr client \<Rightarrow>
       (case gc_create_issue_comment client ''o'' ''r'' 7 ''hi'' (ds_world test_state) of
          (Inr c, t) \<Rightarrow> cr_id c = 9 \<and> test_calls (fst (at_world t)) =
            [(''POST'', ''https://api.github.com/repos/o/r/issues/7/comments'')]
        | _ \<Rightarrow> False)
   | _ \<Rightarrow> False"
  by code_simp

end
