(* ===== verification/Spec2Isabelle.thy ===== *)
theory Spec2Isabelle
  imports Delivery Provider_Facts Strategy Tool_Types Own_Posts
begin

text \<open>
  Verification library for \<open>qaestro\<close>, a service that reviews the pull requests of a GitHub
  repository. A webhook gateway (\<open>src/app/gateway\<close>) checks the signature of a delivery, parses it
  into an event and enqueues a job; a worker (\<open>src/app/worker\<close>) takes jobs from the queue, runs the
  workflow for the event (\<open>src/runtime/orchestrator\<close>) and posts what it produced. A pull request
  workflow loads its context, triages it with an agent, analyses it, plans actions, validates
  them, renders a report and decides on an official review; every access to GitHub and every agent
  run goes through a tool runtime with a policy per stage (\<open>src/runtime/tools\<close>). CI events are
  recorded in an aggregate per pull request, whose readiness decides what a review may say.

  \<^bold>\<open>Conventions.\<close> A class is a record, an enumeration a datatype with its values, an operation a function
  of the same name. What may raise returns \<open>exn + 'a\<close>; an operation on mutable state, or on the
  outside world behind a client, a runner or a queue, has the type \<open>('s, 'a) act\<close>, a function from
  a state to a result and a state, and keeps the state changes it made before it raised. Python's
  integers are \<open>int\<close>, its strings are \<open>string\<close> in UTF-8, its dictionaries association lists in
  insertion order.

  \<^bold>\<open>Theories.\<close>
  \<^item> \<open>Prelude\<close>, \<open>Pyvalues\<close>, \<open>Json\<close>, \<open>Hmac\<close>: exceptions and actions, strings, JSON values and dates,
    the JSON parser and printer with their round trip, HMAC-SHA256.
  \<^item> \<open>Contracts\<close>: \<open>core/contracts/events.py\<close>, \<open>domain.py\<close>, \<open>runtime/stages.py\<close> and the connector's
    types. \<open>Parsers\<close>, \<open>Gateway\<close>, \<open>Gateway_Facts\<close>: \<open>contracts/parsers.py\<close>, \<open>connectors/github/webhook.py\<close>,
    \<open>app/gateway\<close>; what is admitted to the queue and how it is read on the other side. \<open>Delivery\<close>: the
    way of a delivery from the gateway through the stream to the worker.
  \<^item> \<open>Jobs\<close>, \<open>Jobs_Facts\<close>: \<open>app/jobs.py\<close>, \<open>app/queue_factory.py\<close>; the round trip of a job and the queue
    contract \<open>job_queue\<close>, with the in-memory queue as an instance. \<open>Redis_Facts\<close>: the worker on the queue
    in a Redis stream, with workers that die and messages that are taken over from them.
  \<^item> \<open>Aggregate\<close>, \<open>Aggregate_Facts\<close>, \<open>Samples\<close>: \<open>orchestrator/pr_aggregate.py\<close>; the invariant of the
    reachable aggregates, their refinement of the log of events, readiness and CI feedback.
  \<^item> \<open>Analyzer\<close>, \<open>Knowledge\<close>, \<open>Strategy\<close>: \<open>core/analyzer\<close>, \<open>core/knowledge\<close>, \<open>core/strategy\<close>.
  \<^item> \<open>Tools\<close>, \<open>Agent\<close>, \<open>Triage\<close>, \<open>Validator\<close>, \<open>Validator_Facts\<close>: \<open>runtime/tools\<close> (policy, audit log),
    \<open>runtime/agent\<close> (runners' interface, sessions), \<open>orchestrator/pr_triage.py\<close>, \<open>runtime/validator\<close>,
    \<open>runtime/prompts\<close>.
  \<^item> \<open>Renderer\<close>, \<open>Renderer_Facts\<close>: \<open>adapters/renderers/pr_comment.py\<close>. \<open>Github_Tools\<close>, \<open>Output_Facts\<close>:
    \<open>runtime/tools/github.py\<close>, \<open>orchestrator/tool_output.py\<close>; what is posted, to which head, how often.
  \<^item> \<open>Context_Tools\<close>, \<open>Wiring\<close>: \<open>orchestrator/tool_context.py\<close>, \<open>pr_context.py\<close> and the tool runtime
    \<open>worker/factory.py\<close> builds; reading through the runtime refines reading from the client.
    \<open>Tool_Types\<close>: the types of what the tools return.
  \<^item> \<open>Transport\<close>, \<open>Auth\<close>, \<open>Client\<close>, \<open>Client_Facts\<close>: \<open>connectors/github/transport.py\<close>, \<open>auth.py\<close>, \<open>client.py\<close>:
    responses and the two transports, tokens and their cache, requests and their errors, listings over
    pages; \<open>rest_client\<close> implements the interface \<open>github_client\<close> the tools are built on. \<open>Token_Lock\<close>:
    \<open>installation_token\<close> called by several threads, each a program counter of type \<open>token_pc\<close>, one move
    per clock reading, cache access, lock operation and request; \<open>Wire_Text\<close>: the ASCII JSON of a request.
  \<^item> \<open>Config\<close>, \<open>Providers\<close>, \<open>Provider_Facts\<close>: \<open>shared/config.py\<close>, \<open>runtime/agent/health.py\<close>,
    \<open>openai_compatible.py\<close>, \<open>azure_openai.py\<close>: settings, the health check, the runners and their choice.
  \<^item> \<open>Workflow\<close>, \<open>Workflow_Facts\<close>: the workflows and the dispatcher; \<open>Worker\<close>, \<open>Worker_Facts\<close>:
    \<open>app/worker\<close>; attempts and the loop over a queue that keeps \<open>job_queue\<close>.
  \<^item> \<open>Logging\<close>: \<open>shared/logging.py\<close>, \<open>shared/tracing.py\<close>. \<open>Startup\<close>: the texts of a configuration,
    \<open>build_worker\<close> of \<open>worker/factory.py\<close> and the entry points \<open>worker/entrypoint.py\<close>, \<open>gateway/entrypoint.py\<close>.
  \<^item> \<open>Effects\<close>, \<open>Quiet_Stages\<close>, \<open>Posts\<close>, \<open>Own_Posts\<close>: what the processing of a job posts. \<open>quiet\<close> and \<open>adds\<close> say
    what an action adds to a log of the state, with a rule per construct; the stages of the workflows are
    quiet over quiet operations, the posters add at most two entries for the pull request of the
    payload, and the payloads are for the pull request of the event; the REST client keeps the
    contract, and so the theorem holds for the worker of \<open>build_worker\<close>.

  \<^bold>\<open>Interfaces.\<close> Enumerations are instances of \<open>str_enum\<close>; a worker's loop is proved over any
  \<open>job_queue\<close> (locale \<open>worker_queue\<close>) and used for the in-memory queue; the two JSON printers are
  instances of \<open>json_writer\<close>, which has the round trip through the parser. \<open>posting_client\<close> is what the tools rely on of a client
  (reading posts nothing, a posting operation at most one request, for its pull request);
  \<open>recorded_network\<close>, a network that keeps a record of its requests, gives it for \<open>rest_client\<close>
  (\<open>sublocale\<close>), and the transport for tests is an instance. Clients, runners, transports and probe
  executors are records of actions, arguments of what uses them.

  \<^bold>\<open>The Redis server\<close> is not code of the repository: \<open>stream_server\<close> collects what its documentation says
  of \<open>XADD\<close>, \<open>XREADGROUP\<close>, \<open>XAUTOCLAIM\<close> and \<open>XACK\<close> over a view of the stream (waiting and pending messages
  with their idle times), and \<open>memory_server\<close> is a server that keeps it.

  \<^bold>\<open>Threads.\<close> A run of threads that ask for a token is a list of moves (\<open>run_schedule\<close>) or a derivation of
  \<open>token_run\<close>, in which the world moves as well. Every run refines the one in which a call does all it
  does at the moment it looked the token up or stored it; only one exchange is under way.

  \<^bold>\<open>Bounds.\<close> The JSON parser runs on fuel of twice the length of its text plus one, which is enough for
  every text (\<open>parse_fuel\<close>); retries of a job are bounded by the worker's own bound; a
  listing ends after thirty pages (\<open>max_pages\<close>, the constant of the code); the loop over a
  queue is a \<open>partial_function\<close> and is proved to return; the calls of \<open>n\<close> threads for a token return in
  \<open>11 n\<close> rounds in which each thread moves; a stream of \<open>n\<close> messages is empty after
  \<open>2 n + 1\<close> turns of the endless loop.

  \<^bold>\<open>Not modelled.\<close> Case folding, white space and the word boundaries of patterns outside ASCII; the interpreter's limits (recursion depth,
  digits of an integer); the thread of a timed-out job, which runs on behind the worker's back (the
  rest of it is an argument of \<open>run_with_timeout\<close>); the rounding of floats and their texts; what
  \<open>urllib\<close> and \<open>http.server\<close> do on a socket; opening connections, signals; the attributes \<open>status\<close> and
  \<open>reset_at\<close> of GitHub errors, which nothing reads; \<open>str.format\<close> beyond plain field names. Package
  files that only export names have nothing to model.
\<close>

end
